(* ===== verification/Prelude.thy ===== *)
theory Prelude
  imports Main "HOL-Library.Word" "HOL-Library.Monad_Syntax"
begin

text \<open>
  Shared vocabulary of the memkind development: the C integer and pointer types the sources use,
  the return codes of \<^verbatim>\<open>include/memkind.h\<close>, and the lemmas on words, alignments, lists and
  results that several components need.

  Conventions. A \<open>size_t\<close>, \<open>uintptr_t\<close> or object pointer is a 64-bit word (LP64), \<open>unsigned\<close> is a
  32-bit word, an \<open>int\<close> return code is an unbounded \<open>int\<close> (the codes are small constants), and
  \<open>NULL\<close> is the word 0. \<open>None\<close> as the result of a step is a call of \<open>abort()\<close>.
\<close>

unbundle bit_operations_syntax

section \<open>C types and constants\<close>

type_synonym u64 = "64 word"
type_synonym u32 = "32 word"
type_synonym ptr = "64 word"

abbreviation (input) NULL :: ptr where "NULL \<equiv> 0"
abbreviation (input) MAP_FAILED :: ptr where "MAP_FAILED \<equiv> - 1"
abbreviation (input) SIZE_MAX :: u64 where "SIZE_MAX \<equiv> - 1"
abbreviation (input) UINT_MAX :: u32 where "UINT_MAX \<equiv> - 1"
abbreviation (input) INT_MAX :: int where "INT_MAX \<equiv> 2147483647"

text \<open>The anonymous error enum of \<^verbatim>\<open>memkind.h\<close> and the errno values the library returns.\<close>

abbreviation (input) MEMKIND_SUCCESS :: int where "MEMKIND_SUCCESS \<equiv> 0"
abbreviation (input) MEMKIND_ERROR_UNAVAILABLE :: int where "MEMKIND_ERROR_UNAVAILABLE \<equiv> - 1"
abbreviation (input) MEMKIND_ERROR_MBIND :: int where "MEMKIND_ERROR_MBIND \<equiv> - 2"
abbreviation (input) MEMKIND_ERROR_MMAP :: int where "MEMKIND_ERROR_MMAP \<equiv> - 3"
abbreviation (input) MEMKIND_ERROR_MALLOC :: int where "MEMKIND_ERROR_MALLOC \<equiv> - 6"
abbreviation (input) MEMKIND_ERROR_ENVIRON :: int where "MEMKIND_ERROR_ENVIRON \<equiv> - 12"
abbreviation (input) MEMKIND_ERROR_INVALID :: int where "MEMKIND_ERROR_INVALID \<equiv> - 13"
abbreviation (input) MEMKIND_ERROR_TOOMANY :: int where "MEMKIND_ERROR_TOOMANY \<equiv> - 15"
abbreviation (input) MEMKIND_ERROR_BADOPS :: int where "MEMKIND_ERROR_BADOPS \<equiv> - 17"
abbreviation (input) MEMKIND_ERROR_HUGETLB :: int where "MEMKIND_ERROR_HUGETLB \<equiv> - 18"
abbreviation (input) MEMKIND_ERROR_MEMTYPE_NOT_AVAILABLE :: int
  where "MEMKIND_ERROR_MEMTYPE_NOT_AVAILABLE \<equiv> - 20"
abbreviation (input) MEMKIND_ERROR_OPERATION_FAILED :: int
  where "MEMKIND_ERROR_OPERATION_FAILED \<equiv> - 21"
abbreviation (input) MEMKIND_ERROR_ARENAS_CREATE :: int where "MEMKIND_ERROR_ARENAS_CREATE \<equiv> - 22"
abbreviation (input) MEMKIND_ERROR_RUNTIME :: int where "MEMKIND_ERROR_RUNTIME \<equiv> - 255"

abbreviation (input) EPERM :: int where "EPERM \<equiv> 1"
abbreviation (input) ENOMEM :: int where "ENOMEM \<equiv> 12"
abbreviation (input) EFAULT :: int where "EFAULT \<equiv> 14"
abbreviation (input) ENODEV :: int where "ENODEV \<equiv> 19"
abbreviation (input) EINVAL :: int where "EINVAL \<equiv> 22"
abbreviation (input) EFBIG :: int where "EFBIG \<equiv> 27"
abbreviation (input) ERANGE :: int where "ERANGE \<equiv> 34"
abbreviation (input) EOPNOTSUPP :: int where "EOPNOTSUPP \<equiv> 95"

section \<open>Collections of rewrite rules\<close>

named_theorems mk_simps \<open>defining equations that component proofs unfold\<close>
named_theorems no_wrap \<open>readings of word arithmetic when it does not wrap around\<close>

section \<open>Word arithmetic that does not wrap\<close>

lemma unat_lt_2p64 [simp]: "unat (x :: u64) < 18446744073709551616"
  using unsigned_less [of x] by simp

lemma unat_lt_2p32 [simp]: "unat (x :: u32) < 4294967296"
  using unsigned_less [of x] by simp

lemma unat_add_no_wrap [no_wrap]:
  "unat a + unat b < 2 ^ LENGTH('a) \<Longrightarrow> unat (a + b :: 'a :: len word) = unat a + unat b"
  by (simp add: unat_word_ariths)

lemma unat_mult_no_wrap [no_wrap]:
  "unat a * unat b < 2 ^ LENGTH('a) \<Longrightarrow> unat (a * b :: 'a :: len word) = unat a * unat b"
  by (simp add: unat_word_ariths)

lemma unat_sub_no_wrap [no_wrap]:
  "b \<le> a \<Longrightarrow> unat (a - b :: 'a :: len word) = unat a - unat b"
  by (rule unat_sub)

lemma unat_of_nat_no_wrap [no_wrap]:
  "n < 2 ^ LENGTH('a) \<Longrightarrow> unat (of_nat n :: 'a :: len word) = n"
  by (simp add: take_bit_nat_eq_self unsigned_of_nat)

lemma ucast_u64_u32_of_nat [simp]: "ucast (of_nat n :: u64) = (of_nat n :: u32)"
  by (rule bit_word_eqI) (simp add: bit_simps)

lemma word_add_sub_eq: "(a :: 'a :: len word) + b - a = b"
  by simp

end
