(* ===== verification/Vec.thy ===== *)
theory Vec
  imports Prelude
begin

text \<open>
  The growable vector of \<^verbatim>\<open>include/memkind/internal/vec.h\<close>: the buffer with its capacity and the
  number of elements in use, the doubling \<^verbatim>\<open>VEC_PUSH_BACK\<close> and the failure of \<^verbatim>\<open>realloc\<close>.

  A cell that was never written is \<open>None\<close>. Sizes are natural numbers: the macros are used for CPU
  and NUMA node numbers only, whose count stays far below the point where doubling a \<open>size_t\<close>
  wraps. Whether a call of \<^verbatim>\<open>realloc\<close> succeeds is decided by a parameter acting on an abstract
  world. The lemmas show that the vector implements a list: pushing appends, or leaves the vector
  as it was when the buffer cannot grow.
\<close>

section \<open>The vector\<close>

record 'a vec =
  v_buffer :: "'a option list"
  v_size :: nat
  v_capacity :: nat

abbreviation (input) VEC_INIT_SIZE :: nat where "VEC_INIT_SIZE \<equiv> 8"

definition VEC_INITIALIZER :: "'a vec" where
  "VEC_INITIALIZER = \<lparr>v_buffer = [], v_size = 0, v_capacity = 0\<rparr>"

text \<open>\<^verbatim>\<open>realloc\<close> keeps the common prefix of the old and the new block.\<close>

definition resize_buffer :: "nat \<Rightarrow> 'a option list \<Rightarrow> 'a option list" where
  "resize_buffer n xs = take n xs @ replicate (n - length xs) None"

text \<open>
  \<open>ralloc n w\<close> decides whether \<^verbatim>\<open>realloc\<close> returns a block of \<open>n\<close> bytes, \<open>s\<close> is the element size.
\<close>

definition vec_reserve ::
  "(nat \<Rightarrow> 'w \<Rightarrow> bool \<times> 'w) \<Rightarrow> 'a vec \<Rightarrow> nat \<Rightarrow> nat \<Rightarrow> 'w \<Rightarrow> int \<times> 'a vec \<times> 'w" where
  "vec_reserve ralloc v ncapacity s w =
    (let ncap = (if ncapacity = 0 then VEC_INIT_SIZE else ncapacity);
         (ok, w) = ralloc (s * ncap) w
     in if \<not> ok then (- 1, v, w)
        else (0, v\<lparr>v_buffer := resize_buffer ncap (v_buffer v), v_capacity := ncap\<rparr>, w))"

definition VEC_RESERVE ::
  "(nat \<Rightarrow> 'w \<Rightarrow> bool \<times> 'w) \<Rightarrow> nat \<Rightarrow> 'a vec \<Rightarrow> nat \<Rightarrow> 'w \<Rightarrow> int \<times> 'a vec \<times> 'w" where
  "VEC_RESERVE ralloc s v ncapacity w =
    (if v_size v = 0 \<or> ncapacity > v_size v then vec_reserve ralloc v ncapacity s w
     else (0, v, w))"

definition VEC_INSERT :: "'a vec \<Rightarrow> 'a \<Rightarrow> 'a vec" where
  "VEC_INSERT v x = v\<lparr>v_buffer := (v_buffer v)[v_size v - 1 := Some x]\<rparr>"

definition VEC_INC_SIZE :: "'a vec \<Rightarrow> 'a vec" where
  "VEC_INC_SIZE v = v\<lparr>v_size := v_size v + 1\<rparr>"

definition VEC_INC_BACK ::
  "(nat \<Rightarrow> 'w \<Rightarrow> bool \<times> 'w) \<Rightarrow> nat \<Rightarrow> 'a vec \<Rightarrow> 'w \<Rightarrow> int \<times> 'a vec \<times> 'w" where
  "VEC_INC_BACK ralloc s v w =
    (if v_capacity v = v_size v then
       (let (r, v, w) = VEC_RESERVE ralloc s v (v_capacity v * 2) w
        in if r = 0 then (0, VEC_INC_SIZE v, w) else (- 1, v, w))
     else (0, VEC_INC_SIZE v, w))"

definition VEC_PUSH_BACK ::
  "(nat \<Rightarrow> 'w \<Rightarrow> bool \<times> 'w) \<Rightarrow> nat \<Rightarrow> 'a vec \<Rightarrow> 'a \<Rightarrow> 'w \<Rightarrow> int \<times> 'a vec \<times> 'w" where
  "VEC_PUSH_BACK ralloc s v x w =
    (let (r, v, w) = VEC_INC_BACK ralloc s v w
     in if r = 0 then (0, VEC_INSERT v x, w) else (- 1, v, w))"

text \<open>
  The elements \<^verbatim>\<open>VEC_FOREACH\<close> visits, in order. The invariant below keeps every visited cell
  written.
\<close>

definition VEC_FOREACH :: "'a vec \<Rightarrow> 'a list" where
  "VEC_FOREACH v = map the (take (v_size v) (v_buffer v))"

definition VEC_CLEAR :: "'a vec \<Rightarrow> 'a vec" where
  "VEC_CLEAR v = v\<lparr>v_size := 0\<rparr>"

definition VEC_DELETE :: "'a vec \<Rightarrow> 'a vec" where
  "VEC_DELETE v = v\<lparr>v_buffer := [], v_size := 0, v_capacity := 0\<rparr>"

section \<open>Invariant and abstraction\<close>

definition vec_inv :: "'a vec \<Rightarrow> bool" where
  "vec_inv v \<longleftrightarrow>
    v_size v \<le> v_capacity v \<and> length (v_buffer v) = v_capacity v \<and>
    None \<notin> set (take (v_size v) (v_buffer v))"

lemma foreach_length: "vec_inv v \<Longrightarrow> length (VEC_FOREACH v) = v_size v"
  by (simp add: vec_inv_def VEC_FOREACH_def)

lemma initializer_inv [simp]: "vec_inv VEC_INITIALIZER" "VEC_FOREACH VEC_INITIALIZER = []"
  by (simp_all add: vec_inv_def VEC_FOREACH_def VEC_INITIALIZER_def)

lemma clear_inv [simp]: "vec_inv v \<Longrightarrow> vec_inv (VEC_CLEAR v)" "VEC_FOREACH (VEC_CLEAR v) = []"
  by (simp_all add: vec_inv_def VEC_FOREACH_def VEC_CLEAR_def)

lemma delete_inv [simp]: "vec_inv (VEC_DELETE v)" "VEC_FOREACH (VEC_DELETE v) = []"
  by (simp_all add: vec_inv_def VEC_FOREACH_def VEC_DELETE_def)

text \<open>Pushing into a free cell behind the elements in use.\<close>

lemma insert_after_inc:
  assumes "vec_inv v" "v_size v < v_capacity v"
  shows "vec_inv (VEC_INSERT (VEC_INC_SIZE v) x)"
    and "VEC_FOREACH (VEC_INSERT (VEC_INC_SIZE v) x) = VEC_FOREACH v @ [x]"
  using assms
  by (auto simp: vec_inv_def VEC_FOREACH_def VEC_INSERT_def VEC_INC_SIZE_def take_Suc_conv_app_nth
      dest: in_set_takeD)

lemma resize_buffer_length [simp]: "length (resize_buffer n xs) = n"
  by (simp add: resize_buffer_def min_def)

lemma resize_buffer_take: "k \<le> n \<Longrightarrow> k \<le> length xs \<Longrightarrow> take k (resize_buffer n xs) = take k xs"
  by (simp add: resize_buffer_def min_def)

text \<open>The vector after the buffer has doubled (or got its first eight cells).\<close>

definition vec_grown :: "'a vec \<Rightarrow> 'a vec" where
  "vec_grown v =
    (let ncap = (if v_size v = 0 then VEC_INIT_SIZE else v_size v * 2)
     in v\<lparr>v_buffer := resize_buffer ncap (v_buffer v), v_capacity := ncap\<rparr>)"

lemma grown_inv:
  assumes "vec_inv v" "v_capacity v = v_size v"
  shows "vec_inv (vec_grown v)" "VEC_FOREACH (vec_grown v) = VEC_FOREACH v"
    "v_size (vec_grown v) < v_capacity (vec_grown v)"
  using assms
  by (auto simp: vec_inv_def VEC_FOREACH_def vec_grown_def Let_def resize_buffer_take)

lemma reserve_grows:
  assumes "v_capacity v = v_size v"
  shows "VEC_RESERVE ralloc s v (v_capacity v * 2) w =
    (let (ok, w') = ralloc (s * v_capacity (vec_grown v)) w
     in if ok then (0, vec_grown v, w') else (- 1, v, w'))"
  using assms by (auto simp: VEC_RESERVE_def vec_reserve_def vec_grown_def Let_def split: prod.splits)

lemma push_back_spec:
  assumes inv: "vec_inv v" and push: "VEC_PUSH_BACK ralloc s v x w = (r, v', w')"
  shows "vec_inv v' \<and> VEC_FOREACH v' = (if r = 0 then VEC_FOREACH v @ [x] else VEC_FOREACH v)"
proof (cases "v_capacity v = v_size v")
  case True
  show ?thesis
    using push grown_inv [OF inv True] insert_after_inc [of "vec_grown v" x] inv
    by (auto simp: VEC_PUSH_BACK_def VEC_INC_BACK_def reserve_grows [OF True] True Let_def
        simp flip: True split: prod.splits if_splits)
next
  case False
  then have "v_size v < v_capacity v"
    using inv by (simp add: vec_inv_def)
  then show ?thesis
    using push insert_after_inc [OF inv] False
    by (auto simp: VEC_PUSH_BACK_def VEC_INC_BACK_def)
qed

lemma push_back_ok:
  assumes "\<And>n w. fst (ralloc n w)"
  shows "fst (VEC_PUSH_BACK ralloc s v x w) = 0"
  using assms
  by (auto simp: VEC_PUSH_BACK_def VEC_INC_BACK_def VEC_RESERVE_def vec_reserve_def Let_def
      split: prod.splits) (metis fst_conv)+

section \<open>Pushing several elements\<close>

text \<open>
  What the loops that fill a vector rely on: a sink whose \<open>put\<close> appends one element and keeps the
  invariant. Pushing every element of a list, or those a test selects, then appends them in order.
\<close>

locale list_sink =
  fixes sink_ok :: "'s \<Rightarrow> bool" and elems :: "'s \<Rightarrow> 'a list" and put :: "'a \<Rightarrow> 's \<Rightarrow> 's"
  assumes put_ok: "sink_ok s \<Longrightarrow> sink_ok (put x s)"
    and put_elems: "sink_ok s \<Longrightarrow> elems (put x s) = elems s @ [x]"
begin

lemma fold_put:
  "sink_ok s \<Longrightarrow> sink_ok (fold put xs s) \<and> elems (fold put xs s) = elems s @ xs"
  by (induction xs arbitrary: s) (simp_all add: put_ok put_elems)

lemma fold_put_if:
  "sink_ok s \<Longrightarrow>
    sink_ok (fold (\<lambda>x. if P x then put x else id) xs s) \<and>
    elems (fold (\<lambda>x. if P x then put x else id) xs s) = elems s @ filter P xs"
  by (induction xs arbitrary: s) (simp_all add: put_ok put_elems)

end

text \<open>
  \<^verbatim>\<open>VEC_PUSH_BACK\<close> as the sources use it, with its result ignored: the vector and the world
  afterwards. An allocator that always succeeds makes it such a sink.
\<close>

definition push_ignoring ::
  "(nat \<Rightarrow> 'w \<Rightarrow> bool \<times> 'w) \<Rightarrow> nat \<Rightarrow> 'a \<Rightarrow> 'a vec \<times> 'w \<Rightarrow> 'a vec \<times> 'w" where
  "push_ignoring ralloc s x = (\<lambda>(v, w). snd (VEC_PUSH_BACK ralloc s v x w))"

lemma push_ignoring_spec:
  assumes "vec_inv (fst vw)"
  shows "vec_inv (fst (push_ignoring ralloc s x vw)) \<and>
    (VEC_FOREACH (fst (push_ignoring ralloc s x vw)) = VEC_FOREACH (fst vw) @ [x] \<or>
     VEC_FOREACH (fst (push_ignoring ralloc s x vw)) = VEC_FOREACH (fst vw))"
proof -
  obtain r v' w' where "VEC_PUSH_BACK ralloc s (fst vw) x (snd vw) = (r, v', w')"
    by (metis prod_cases3)
  from push_back_spec [OF assms this] this show ?thesis
    by (auto simp: push_ignoring_def split_def split: if_splits)
qed

lemma push_ignoring_ok:
  assumes "vec_inv (fst vw)" "\<And>n w. fst (ralloc n w)"
  shows "VEC_FOREACH (fst (push_ignoring ralloc s x vw)) = VEC_FOREACH (fst vw) @ [x]"
proof -
  obtain r v' w' where push: "VEC_PUSH_BACK ralloc s (fst vw) x (snd vw) = (r, v', w')"
    by (metis prod_cases3)
  then have "r = 0"
    using push_back_ok [of ralloc s "fst vw" x "snd vw", OF assms(2)] by simp
  with push_back_spec [OF assms(1) push] push show ?thesis
    by (simp add: push_ignoring_def split_def)
qed

interpretation vec_sink: list_sink
    "\<lambda>vw. vec_inv (fst vw) \<and> (\<forall>n w. fst (ralloc n w))" "\<lambda>vw. VEC_FOREACH (fst vw)"
    "push_ignoring ralloc s" for ralloc s
  by unfold_locales (simp_all add: push_ignoring_spec push_ignoring_ok)

end
