(* ===== verification/Numa.thy ===== *)
theory Numa
  imports Vec
begin

text \<open>
  The host the library asks about NUMA nodes (libnuma, the environment, the heap) and
  \<^verbatim>\<open>src/memkind_bitmask.c\<close>: finding, for every CPU, the nodes of a given set that are closest to
  it, and writing the nodes of the current CPU into a node mask.

  The topology libnuma reports is a record of functions, fixed for a run of the process; what may
  change between two calls (whether an allocation succeeds, the CPU the thread runs on) is read
  from an abstract world. A \<^verbatim>\<open>struct bitmask\<close> is the list of its bits. A result \<open>None\<close> means that
  the code has no defined behaviour there (a read outside an array).
\<close>

section \<open>The host\<close>

text \<open>
  A NUMA node object of hwloc: its number, the CPUs it contains in increasing order and the size of
  its memory; and the two attributes the library reads.
\<close>

record hwloc_node =
  os_index :: nat
  hw_cpuset :: "nat list"
  local_memory :: u64

datatype hwloc_memattr = HWLOC_MEMATTR_ID_BANDWIDTH | HWLOC_MEMATTR_ID_LATENCY

text \<open>
  The fields keep the names of the functions they stand for. \<open>daxctl_kmem\<close> and \<open>have_hwloc\<close> say
  whether the library was built with libdaxctl and hwloc; \<open>daxctl_devices\<close> lists, for the devices
  of all regions in order, whether a device is in system-ram mode and its target node;
  \<open>hugepages_dir\<close> lists the entries of \<^verbatim>\<open>/sys/kernel/mm/hugepages\<close> with the test for a directory;
  \<open>sysfs_value\<close> is the number a sysfs file holds, 0 when it cannot be read; \<open>stack_nodemask\<close> is what an
  uninitialised \<^verbatim>\<open>nodemask_t\<close> on the stack holds.
\<close>

record 'w host =
  getenv :: "string \<Rightarrow> string option"
  numa_available :: int
  numa_max_node :: nat
  numa_num_possible_nodes :: nat
  numa_num_configured_cpus :: nat
  numa_num_configured_nodes :: nat
  numa_node_to_cpus :: "nat \<Rightarrow> int \<times> bool list"
  numa_distance :: "nat \<Rightarrow> nat \<Rightarrow> int"
  numa_node_size64 :: "nat \<Rightarrow> int"
  numa_all_nodes_ptr :: "bool list"
  numa_parse_nodestring :: "string \<Rightarrow> bool list option"
  numa_allocate_cpumask :: "'w \<Rightarrow> bool \<times> 'w"
  numa_bitmask_alloc :: "nat \<Rightarrow> 'w \<Rightarrow> bool \<times> 'w"
  heap_alloc :: "nat \<Rightarrow> 'w \<Rightarrow> bool \<times> 'w"
  sched_getcpu :: "'w \<Rightarrow> nat"
  cpuid_eax1 :: u32
  daxctl_kmem :: bool
  daxctl_new :: int
  daxctl_devices :: "(bool \<times> nat) list"
  have_hwloc :: bool
  hwloc_topology_init :: int
  hwloc_topology_load :: int
  hwloc_numanodes :: "hwloc_node list"
  hwloc_local_numanodes :: "nat list \<Rightarrow> hwloc_node list option"
  hwloc_memattr_get_value :: "hwloc_memattr \<Rightarrow> nat \<Rightarrow> nat list \<Rightarrow> u64 option"
  hwloc_bitmap_alloc :: "'w \<Rightarrow> bool \<times> 'w"
  hwloc_nodeset_bitmask_alloc :: "'w \<Rightarrow> bool \<times> 'w"
  hugepages_dir :: "(bool \<times> string) list option"
  sysfs_value :: "string \<Rightarrow> u64"
  stack_nodemask :: "'w \<Rightarrow> bool list"

section \<open>Bit masks\<close>

type_synonym bitmask = "bool list"

definition numa_bitmask_isbitset :: "bitmask \<Rightarrow> nat \<Rightarrow> bool" where
  "numa_bitmask_isbitset m i = (i < length m \<and> m ! i)"

definition numa_bitmask_setbit :: "nat \<Rightarrow> bitmask \<Rightarrow> bitmask" where
  "numa_bitmask_setbit i m = m[i := True]"

definition numa_bitmask_clearall :: "bitmask \<Rightarrow> bitmask" where
  "numa_bitmask_clearall m = replicate (length m) False"

definition numa_bitmask_weight :: "bitmask \<Rightarrow> nat" where
  "numa_bitmask_weight m = length (filter id m)"

definition copy_bitmask_to_bitmask :: "bitmask \<Rightarrow> bitmask \<Rightarrow> bitmask" where
  "copy_bitmask_to_bitmask src dst =
    take (length dst) src @ replicate (length dst - length src) False"

lemma isbitset_setbit [simp]:
  "numa_bitmask_isbitset (numa_bitmask_setbit i m) j \<longleftrightarrow>
    numa_bitmask_isbitset m j \<or> (j = i \<and> i < length m)"
  by (cases "i = j") (auto simp: numa_bitmask_isbitset_def numa_bitmask_setbit_def)

lemma isbitset_clearall [simp]: "\<not> numa_bitmask_isbitset (numa_bitmask_clearall m) j"
  by (auto simp: numa_bitmask_isbitset_def numa_bitmask_clearall_def)

lemma length_bitmask_ops [simp]:
  "length (numa_bitmask_setbit i m) = length m"
  "length (numa_bitmask_clearall m) = length m"
  "length (copy_bitmask_to_bitmask m n) = length n"
  by (simp_all add: numa_bitmask_setbit_def numa_bitmask_clearall_def copy_bitmask_to_bitmask_def
      min_def)

lemma isbitset_copy [simp]:
  "numa_bitmask_isbitset (copy_bitmask_to_bitmask m n) j \<longleftrightarrow>
    j < length n \<and> numa_bitmask_isbitset m j"
  by (auto simp: numa_bitmask_isbitset_def copy_bitmask_to_bitmask_def nth_append min_def)

lemma isbitset_fold_setbit [simp]:
  "numa_bitmask_isbitset (fold numa_bitmask_setbit is m) j \<longleftrightarrow>
    numa_bitmask_isbitset m j \<or> (j \<in> set is \<and> j < length m)"
  by (induction "is" arbitrary: m) auto

lemma length_fold_setbit [simp]: "length (fold numa_bitmask_setbit is m) = length m"
  by (induction "is" arbitrary: m) auto

lemma weight_zero: "numa_bitmask_weight m = 0 \<longleftrightarrow> (\<forall>j. \<not> numa_bitmask_isbitset m j)"
  by (auto simp: numa_bitmask_weight_def numa_bitmask_isbitset_def filter_empty_conv in_set_conv_nth)

text \<open>The nodes of a mask, in increasing order, and the weight as their number.\<close>

definition mask_nodes :: "bitmask \<Rightarrow> nat list" where
  "mask_nodes m = filter (numa_bitmask_isbitset m) [0..<length m]"

lemma weight_mask_nodes: "numa_bitmask_weight m = length (mask_nodes m)"
proof -
  have "filter (numa_bitmask_isbitset m) [0..<length m] = filter (\<lambda>i. m ! i) [0..<length m]"
    by (rule filter_cong) (auto simp: numa_bitmask_isbitset_def)
  moreover have "length (filter id m) = length (filter (\<lambda>i. m ! i) [0..<length m])"
  proof -
    have "filter id (map (\<lambda>i. m ! i) [0..<length m]) =
        map (\<lambda>i. m ! i) (filter (id \<circ> (\<lambda>i. m ! i)) [0..<length m])"
      by (rule filter_map)
    then show ?thesis
      by (simp add: map_nth comp_def)
  qed
  ultimately show ?thesis
    by (simp add: numa_bitmask_weight_def mask_nodes_def)
qed

section \<open>Scans that keep the best candidates\<close>

text \<open>
  The searches for the closest node, the node of highest capacity and the node with the best
  memory attribute have one shape: the best key so far and the candidates that reach it; a strictly
  better key restarts the list, an equal one extends it. \<open>better\<close> is the strict order of the keys.
\<close>

definition best_step ::
  "('k \<Rightarrow> 'k \<Rightarrow> bool) \<Rightarrow> ('a \<Rightarrow> 'k) \<Rightarrow> 'a \<Rightarrow> 'k \<times> 'a list \<Rightarrow> 'k \<times> 'a list" where
  "best_step better key x = (\<lambda>(best, xs).
    if better (key x) best then (key x, [x])
    else if key x = best then (best, xs @ [x]) else (best, xs))"

definition first_step ::
  "('k \<Rightarrow> 'k \<Rightarrow> bool) \<Rightarrow> ('a \<Rightarrow> 'k) \<Rightarrow> 'a \<Rightarrow> 'k \<times> 'a option \<Rightarrow> 'k \<times> 'a option" where
  "first_step better key x = (\<lambda>(best, sel). if better (key x) best then (key x, Some x) else (best, sel))"

locale best_scan =
  fixes better :: "'k \<Rightarrow> 'k \<Rightarrow> bool"
  assumes better_trans: "better a b \<Longrightarrow> better b c \<Longrightarrow> better a c"
    and better_irrefl: "\<not> better a a"
    and better_total: "a \<noteq> b \<Longrightarrow> better a b \<or> better b a"
begin

lemma scan_best:
  assumes "fold (best_step better key) ys (b, xs) = (b', xs')"
  shows "(b' = b \<or> better b' b) \<and> (\<forall>y \<in> set ys. key y = b' \<or> better b' (key y)) \<and>
    (b' = b \<or> b' \<in> key ` set ys) \<and>
    xs' = (if b' = b then xs else []) @ filter (\<lambda>y. key y = b') ys"
  using assms
proof (induction ys arbitrary: b xs)
  case (Cons y ys)
  consider "better (key y) b" | "key y = b" | "\<not> better (key y) b" "key y \<noteq> b"
    by blast
  then show ?case
  proof cases
    case 1
    with Cons.prems have "fold (best_step better key) ys (key y, [y]) = (b', xs')"
      by (simp add: best_step_def [of _ _ y])
    note ih = Cons.IH [OF this]
    then have "better b' b"
      using 1 better_trans by blast
    moreover from this have "b' \<noteq> b"
      using better_irrefl by blast
    ultimately show ?thesis
      using ih by auto
  next
    case 2
    with Cons.prems have "fold (best_step better key) ys (b, xs @ [y]) = (b', xs')"
      by (simp add: best_step_def [of _ _ y] better_irrefl)
    from Cons.IH [OF this] 2 show ?thesis
      by auto
  next
    case 3
    with Cons.prems have "fold (best_step better key) ys (b, xs) = (b', xs')"
      by (simp add: best_step_def [of _ _ y])
    note ih = Cons.IH [OF this]
    have "better b (key y)"
      using 3 better_total by blast
    then have "better b' (key y)" "key y \<noteq> b'"
      using ih better_trans better_irrefl by blast+
    then show ?thesis
      using ih by auto
  qed
qed simp

text \<open>The parts of this lemma for a scan that starts without candidates.\<close>

lemma scan_min:
  assumes "fold (best_step better key) ys (b, []) = (b', xs')" "y \<in> set ys"
  shows "key y = b' \<or> better b' (key y)"
  using scan_best [OF assms(1)] assms(2) by blast

lemma scan_reached:
  assumes "fold (best_step better key) ys (b, []) = (b', xs')" "b' \<noteq> b"
  obtains y where "y \<in> set ys" "b' = key y"
  using scan_best [OF assms(1)] assms(2) by blast

lemma scan_list:
  assumes "fold (best_step better key) ys (b, []) = (b', xs')"
  shows "xs' = filter (\<lambda>y. key y = b') ys"
  using scan_best [OF assms] by simp

text \<open>
  The variant that keeps one candidate: the first one whose key beats every key seen before it.
\<close>

lemma scan_first:
  assumes "fold (first_step better key) ys (b, sel) = (b', sel')"
  shows "(\<forall>y \<in> set ys. \<not> better (key y) b') \<and> (b' = b \<or> better b' b) \<and>
    (if b' = b then sel' = sel
     else \<exists>y \<in> set ys. sel' = Some y \<and> key y = b')"
  using assms
proof (induction ys arbitrary: b sel)
  case (Cons y ys)
  show ?case
  proof (cases "better (key y) b")
    case True
    with Cons.prems have "fold (first_step better key) ys (key y, Some y) = (b', sel')"
      by (simp add: first_step_def [of _ _ y])
    note ih = Cons.IH [OF this]
    then have "better b' b"
      using True better_trans by blast
    moreover from this have "b' \<noteq> b"
      using better_irrefl by blast
    moreover have "\<not> better (key y) b'"
      using ih better_trans better_irrefl by blast
    ultimately show ?thesis
      using ih by (auto split: if_splits)
  next
    case False
    with Cons.prems have "fold (first_step better key) ys (b, sel) = (b', sel')"
      by (simp add: first_step_def [of _ _ y])
    note ih = Cons.IH [OF this]
    then have "\<not> better (key y) b'"
      using False better_trans by blast
    then show ?thesis
      using ih by auto
  qed
qed simp

end

section \<open>A sample host\<close>

text \<open>
  A machine with two nodes of two CPUs each and two memory-only nodes, one near each of them; the
  heap never fails. The concrete instances of the theorems run on it.
\<close>

definition sample_cpus :: "nat \<Rightarrow> bitmask" where
  "sample_cpus n = (if n = 0 then [True, True, False, False]
     else if n = 1 then [False, False, True, True] else [False, False, False, False])"

definition sample_distance :: "nat \<Rightarrow> nat \<Rightarrow> int" where
  "sample_distance i j = (if i = j then 10 else if i + 2 = j \<or> j + 2 = i then 31 else 41)"

definition sample_node :: "nat \<Rightarrow> hwloc_node" where
  "sample_node n = \<lparr>os_index = n, hw_cpuset = (if n = 0 then [0, 1] else if n = 1 then [2, 3] else []),
     local_memory = (if n < 2 then 1000 else 160)\<rparr>"

definition sample_host :: "nat host" where
  "sample_host =
    \<lparr>getenv = (\<lambda>_. None), numa_available = 0, numa_max_node = 3, numa_num_possible_nodes = 8,
     numa_num_configured_cpus = 4, numa_num_configured_nodes = 4,
     numa_node_to_cpus = (\<lambda>n. (0, sample_cpus n)), numa_distance = sample_distance,
     numa_node_size64 = (\<lambda>n. if n < 2 then 1000 else if n < 4 then 160 else - 1),
     numa_all_nodes_ptr = [True, True, True, True],
     numa_parse_nodestring = (\<lambda>_. None), numa_allocate_cpumask = (\<lambda>w. (True, w)),
     numa_bitmask_alloc = (\<lambda>n w. (True, w)), heap_alloc = (\<lambda>n w. (True, w)),
     sched_getcpu = (\<lambda>w. w), cpuid_eax1 = 0x50671, daxctl_kmem = True, daxctl_new = 0,
     daxctl_devices = [(True, 2), (False, 3)], have_hwloc = True, hwloc_topology_init = 0,
     hwloc_topology_load = 0, hwloc_numanodes = map sample_node [0, 1, 2, 3],
     hwloc_local_numanodes = (\<lambda>cs. Some (if 0 \<in> set cs then map sample_node [0, 2]
       else map sample_node [1, 3])),
     hwloc_memattr_get_value = (\<lambda>a n cs. Some (if n < 2 then 90000 else 300000)),
     hwloc_bitmap_alloc = (\<lambda>w. (True, w)), hwloc_nodeset_bitmask_alloc = (\<lambda>w. (True, w)),
     hugepages_dir = Some [(True, ''hugepages-2048kB''), (True, ''hugepages-1048576kB'')],
     sysfs_value = (\<lambda>_. 16), stack_nodemask = (\<lambda>_. replicate 128 False)\<rparr>"

lemma sample_host_sel [simp]:
  "getenv sample_host s = None" "numa_available sample_host = 0" "numa_max_node sample_host = 3"
  "numa_num_possible_nodes sample_host = 8"
  "numa_num_configured_cpus sample_host = 4" "numa_num_configured_nodes sample_host = 4"
  "numa_node_to_cpus sample_host n = (0, sample_cpus n)"
  "numa_distance sample_host i j = sample_distance i j"
  "numa_node_size64 sample_host n = (if n < 2 then 1000 else if n < 4 then 160 else - 1)"
  "numa_all_nodes_ptr sample_host = [True, True, True, True]"
  "numa_parse_nodestring sample_host s = None" "numa_allocate_cpumask sample_host w = (True, w)"
  "numa_bitmask_alloc sample_host k w = (True, w)" "heap_alloc sample_host k w = (True, w)"
  "sched_getcpu sample_host w = w" "cpuid_eax1 sample_host = 0x50671" "daxctl_kmem sample_host"
  "daxctl_new sample_host = 0" "daxctl_devices sample_host = [(True, 2), (False, 3)]"
  "have_hwloc sample_host" "hwloc_topology_init sample_host = 0" "hwloc_topology_load sample_host = 0"
  "hwloc_numanodes sample_host = map sample_node [0, 1, 2, 3]"
  "hwloc_local_numanodes sample_host cs =
    Some (if 0 \<in> set cs then map sample_node [0, 2] else map sample_node [1, 3])"
  "hwloc_memattr_get_value sample_host a n cs = Some (if n < 2 then 90000 else 300000)"
  "hwloc_bitmap_alloc sample_host w = (True, w)"
  "hwloc_nodeset_bitmask_alloc sample_host w = (True, w)"
  "hugepages_dir sample_host =
    Some [(True, ''hugepages-2048kB''), (True, ''hugepages-1048576kB'')]"
  "sysfs_value sample_host s = 16" "stack_nodemask sample_host w = replicate 128 False"
  by (simp_all add: sample_host_def)

end
