(* ===== verification/Bitmask.thy ===== *)
theory Bitmask
  imports Numa
begin

text \<open>
  \<^verbatim>\<open>src/memkind_bitmask.c\<close>: the per-CPU table of closest NUMA nodes (\<^verbatim>\<open>set_closest_numanode\<close>) and
  the node mask of the CPU a thread runs on (\<^verbatim>\<open>set_bitmask_for_current_numanode\<close>).

  The lemmas show that the table holds, for every CPU, exactly the nodes of the destination mask at
  minimal distance from the CPU's node (all of them for \<open>NODE_VARIANT_ALL\<close>), that the only
  topology the single-node variant refuses is one with two closest nodes, and that the mask
  computed from the table is that set.
\<close>

section \<open>Definitions\<close>

datatype memkind_node_variant_t = NODE_VARIANT_MULTIPLE | NODE_VARIANT_SINGLE | NODE_VARIANT_ALL

definition memkind_env_get_nodemask :: "'w host \<Rightarrow> string \<Rightarrow> int \<times> bitmask option" where
  "memkind_env_get_nodemask h nodes_env =
    (case numa_parse_nodestring h nodes_env of
       None \<Rightarrow> (MEMKIND_ERROR_ENVIRON, None)
     | Some bm \<Rightarrow> (MEMKIND_SUCCESS, Some bm))"

abbreviation (input) sizeof_int :: nat where "sizeof_int \<equiv> 4"
abbreviation (input) sizeof_vec :: nat where "sizeof_vec \<equiv> 24"

text \<open>
  One destination node in the search for the closest ones: the minimal distance so far and the
  vector of nodes that have it (with the world its growth acts on). The search in
  \<^verbatim>\<open>memkind_mem_attributes.c\<close> has the same body with another test for the destination.
\<close>

definition closest_push ::
  "'w host \<Rightarrow> memkind_node_variant_t \<Rightarrow> nat \<Rightarrow> nat \<Rightarrow> int \<times> nat vec \<times> 'w
    \<Rightarrow> int \<times> nat vec \<times> 'w" where
  "closest_push h node_variant init_node dest_node = (\<lambda>(min_distance, v, w).
    if node_variant = NODE_VARIANT_ALL then
      (min_distance, push_ignoring (heap_alloc h) sizeof_int dest_node (v, w))
    else
      (let dist = numa_distance h init_node dest_node
       in if dist < min_distance then
            (dist, push_ignoring (heap_alloc h) sizeof_int dest_node (VEC_CLEAR v, w))
          else if dist = min_distance then
            (min_distance, push_ignoring (heap_alloc h) sizeof_int dest_node (v, w))
          else (min_distance, v, w)))"

definition closest_step ::
  "'w host \<Rightarrow> bitmask \<Rightarrow> memkind_node_variant_t \<Rightarrow> nat \<Rightarrow> nat \<Rightarrow> int \<times> nat vec \<times> 'w
    \<Rightarrow> int \<times> nat vec \<times> 'w" where
  "closest_step h dest_nodes_mask node_variant init_node dest_node =
    (if numa_bitmask_isbitset dest_nodes_mask dest_node
     then closest_push h node_variant init_node dest_node else id)"

definition closest_dest_nodes ::
  "'w host \<Rightarrow> bitmask \<Rightarrow> memkind_node_variant_t \<Rightarrow> nat \<Rightarrow> nat vec \<times> 'w \<Rightarrow> nat vec \<times> 'w" where
  "closest_dest_nodes h dest_nodes_mask node_variant init_node = (\<lambda>(v, w).
    snd (fold (closest_step h dest_nodes_mask node_variant init_node)
           [0..<Suc (numa_max_node h)] (INT_MAX, VEC_CLEAR v, w)))"

text \<open>Appending the nodes found to the vector of one CPU, and to those of all CPUs of a mask.\<close>

definition fill_cpu ::
  "'w host \<Rightarrow> bitmask \<Rightarrow> nat vec \<Rightarrow> nat \<Rightarrow> nat vec list \<times> 'w \<Rightarrow> nat vec list \<times> 'w" where
  "fill_cpu h node_cpu_mask current_dest_nodes cpu_id = (\<lambda>(node_arr, w).
    if numa_bitmask_isbitset node_cpu_mask cpu_id then
      (let (v, w) = fold (push_ignoring (heap_alloc h) sizeof_int)
                      (VEC_FOREACH current_dest_nodes) (node_arr ! cpu_id, w)
       in (node_arr[cpu_id := v], w))
    else (node_arr, w))"

definition fill_cpus ::
  "'w host \<Rightarrow> bitmask \<Rightarrow> nat vec \<Rightarrow> nat vec list \<times> 'w \<Rightarrow> nat vec list \<times> 'w" where
  "fill_cpus h node_cpu_mask current_dest_nodes =
    fold (fill_cpu h node_cpu_mask current_dest_nodes) [0..<numa_num_configured_cpus h]"

text \<open>A missing node, or one that has no CPU, is not an initiator.\<close>

definition is_initiator :: "'w host \<Rightarrow> nat \<Rightarrow> bool" where
  "is_initiator h init_node =
    (fst (numa_node_to_cpus h init_node) = 0 \<and>
     numa_bitmask_weight (snd (numa_node_to_cpus h init_node)) \<noteq> 0)"

text \<open>
  The loop over the initiator nodes. The early exit of the single-node variant deletes the vectors
  filled so far.
\<close>

fun initiator_loop ::
  "'w host \<Rightarrow> bitmask \<Rightarrow> memkind_node_variant_t \<Rightarrow> nat list \<Rightarrow> nat vec \<Rightarrow> nat vec list \<Rightarrow> 'w
    \<Rightarrow> int \<times> nat vec \<times> nat vec list \<times> 'w" where
  "initiator_loop h dest_nodes_mask node_variant [] current_dest_nodes node_arr w =
    (MEMKIND_SUCCESS, current_dest_nodes, node_arr, w)"
| "initiator_loop h dest_nodes_mask node_variant (init_node # nodes) current_dest_nodes node_arr w =
    (if \<not> is_initiator h init_node then
       initiator_loop h dest_nodes_mask node_variant nodes current_dest_nodes node_arr w
     else
       (let (current_dest_nodes, w) =
              closest_dest_nodes h dest_nodes_mask node_variant init_node (current_dest_nodes, w)
        in if node_variant = NODE_VARIANT_SINGLE \<and> v_size current_dest_nodes > 1 then
             (MEMKIND_ERROR_RUNTIME, current_dest_nodes,
              map (\<lambda>v. if v_capacity v \<noteq> 0 then VEC_DELETE v else v) node_arr, w)
           else
             (let (node_arr, w) =
                    fill_cpus h (snd (numa_node_to_cpus h init_node)) current_dest_nodes (node_arr, w)
              in initiator_loop h dest_nodes_mask node_variant nodes current_dest_nodes
                   node_arr w)))"

text \<open>
  \<open>get_bitmask\<close> is the callback that finds the destination nodes. The second component of the
  result is what \<^verbatim>\<open>*numanode\<close> is set to, if it is.
\<close>

type_synonym 'w get_node_bitmask = "'w \<Rightarrow> (int \<times> bitmask option) \<times> 'w"

definition set_closest_numanode ::
  "'w host \<Rightarrow> 'w get_node_bitmask \<Rightarrow> memkind_node_variant_t \<Rightarrow> 'w
    \<Rightarrow> (int \<times> nat vec list option) \<times> 'w" where
  "set_closest_numanode h get_bitmask node_variant w =
    (let num_cpu = numa_num_configured_cpus h;
         ((status, dest_nodes_mask), w) = get_bitmask w
     in if status \<noteq> 0 then ((status, None), w)
        else
          (let (ok, w) = numa_allocate_cpumask h w
           in if \<not> ok then ((MEMKIND_ERROR_MALLOC, None), w)
              else
                (let (ok, w) = heap_alloc h (num_cpu * sizeof_vec) w
                 in if \<not> ok then ((MEMKIND_ERROR_MALLOC, None), w)
                    else
                      (let (status, _, node_arr, w) =
                             initiator_loop h (the dest_nodes_mask) node_variant
                               [0..<Suc (numa_max_node h)] VEC_INITIALIZER
                               (replicate num_cpu VEC_INITIALIZER) w
                       in if status \<noteq> MEMKIND_SUCCESS then ((status, None), w)
                          else ((MEMKIND_SUCCESS, Some node_arr), w)))))"

text \<open>
  The node mask of the CPU the thread runs on. The mask is \<open>None\<close> for a \<open>NULL\<close> buffer, and the whole
  result is \<open>None\<close> where the code would read outside the table.
\<close>

definition set_bitmask_for_current_numanode ::
  "'w host \<Rightarrow> bitmask option \<Rightarrow> nat vec list option \<Rightarrow> 'w \<Rightarrow> (int \<times> bitmask option) option" where
  "set_bitmask_for_current_numanode h nodemask numanode w =
    (case nodemask of
       None \<Rightarrow> Some (MEMKIND_SUCCESS, None)
     | Some bm \<Rightarrow>
         (case numanode of
            None \<Rightarrow> None
          | Some vecs \<Rightarrow>
              (let cpu = sched_getcpu h w
               in if cpu < length vecs then
                    Some (MEMKIND_SUCCESS,
                          Some (fold numa_bitmask_setbit (VEC_FOREACH (vecs ! cpu))
                                  (numa_bitmask_clearall bm)))
                  else None)))"

section \<open>The closest nodes\<close>

text \<open>\<^verbatim>\<open>numa_distance\<close> returns an \<open>int\<close>.\<close>

definition distances_int :: "'w host \<Rightarrow> bool" where
  "distances_int h \<longleftrightarrow> (\<forall>i j. numa_distance h i j \<le> INT_MAX)"

definition heap_never_fails :: "'w host \<Rightarrow> bool" where
  "heap_never_fails h \<longleftrightarrow> (\<forall>n w. fst (heap_alloc h n w))"

interpretation dist_scan: best_scan "(<) :: int \<Rightarrow> int \<Rightarrow> bool"
  by unfold_locales auto

lemma push_ok:
  assumes "vec_inv v" "heap_never_fails h"
    "push_ignoring (heap_alloc h) s d (v, w) = (v', w')"
  shows "vec_inv v' \<and> VEC_FOREACH v' = VEC_FOREACH v @ [d]"
  using assms vec_sink.put_ok [of "(v, w)" "heap_alloc h" s d]
    vec_sink.put_elems [of "(v, w)" "heap_alloc h" s d]
  by (auto simp: heap_never_fails_def)

lemma push_all_ok:
  assumes "vec_inv v" "heap_never_fails h"
    "fold (push_ignoring (heap_alloc h) s) ds (v, w) = (v', w')"
  shows "vec_inv v' \<and> VEC_FOREACH v' = VEC_FOREACH v @ ds"
  using assms vec_sink.fold_put [of "(v, w)" "heap_alloc h" s ds]
  by (auto simp: heap_never_fails_def)

lemma closest_push_all:
  assumes "vec_inv v" "heap_never_fails h"
    "fold (closest_push h NODE_VARIANT_ALL n) ds (m, v, w) = (m', v', w')"
  shows "vec_inv v' \<and> VEC_FOREACH v' = VEC_FOREACH v @ ds"
  using assms
proof (induction ds arbitrary: m v w)
  case (Cons d ds)
  obtain v1 w1 where p: "push_ignoring (heap_alloc h) sizeof_int d (v, w) = (v1, w1)"
    by (metis surj_pair)
  from push_ok [OF Cons.prems(1,2) this] Cons p show ?case
    by (auto simp: closest_push_def [of _ _ _ d])
qed simp

lemma closest_push_refines:
  assumes "vec_inv v" "heap_never_fails h" "va \<noteq> NODE_VARIANT_ALL"
    "fold (closest_push h va n) ds (m, v, w) = (m', v', w')"
  shows "vec_inv v' \<and>
    fold (best_step (<) (numa_distance h n)) ds (m, VEC_FOREACH v) = (m', VEC_FOREACH v')"
  using assms
proof (induction ds arbitrary: m v w)
  case (Cons d ds)
  let ?u = "if numa_distance h n d < m then VEC_CLEAR v else v"
  obtain v1 w1 where p: "push_ignoring (heap_alloc h) sizeof_int d (?u, w) = (v1, w1)"
    by (metis surj_pair)
  have "vec_inv ?u"
    using Cons.prems(1) by simp
  from push_ok [OF this Cons.prems(2) p] Cons.prems p Cons.IH [of v m w]
    Cons.IH [of v1 "numa_distance h n d" w1]
  show ?case
    by (auto simp: closest_push_def [of _ _ _ d] best_step_def [of _ _ d] Let_def split: if_splits)
qed simp

text \<open>
  The nodes of a list at minimal distance (all of them for \<open>NODE_VARIANT_ALL\<close>), and the search as
  their computation, whatever the vector held before.
\<close>

definition closest_of :: "'w host \<Rightarrow> memkind_node_variant_t \<Rightarrow> nat \<Rightarrow> nat list \<Rightarrow> nat list" where
  "closest_of h va n ds =
    filter (\<lambda>d. va = NODE_VARIANT_ALL \<or>
      (\<forall>e \<in> set ds. numa_distance h n d \<le> numa_distance h n e)) ds"

lemma closest_fold:
  assumes "vec_inv v" "heap_never_fails h" "distances_int h"
    "fold (closest_push h va n) ds (INT_MAX, VEC_CLEAR v, w) = (m', v', w')"
  shows "vec_inv v' \<and> VEC_FOREACH v' = closest_of h va n ds"
proof -
  have inv: "vec_inv (VEC_CLEAR v)"
    using assms(1) by simp
  show ?thesis
  proof (cases "va = NODE_VARIANT_ALL")
    case True
    then show ?thesis
      using closest_push_all [OF inv assms(2)] assms(4) by (auto simp: closest_of_def)
  next
    case False
    from closest_push_refines [OF inv assms(2) False assms(4)]
    have inv': "vec_inv v'"
      and scan: "fold (best_step (<) (numa_distance h n)) ds (INT_MAX, []) = (m', VEC_FOREACH v')"
      by auto
    have lower: "m' \<le> numa_distance h n e" if "e \<in> set ds" for e
      using dist_scan.scan_min [OF scan that] by auto
    have "numa_distance h n d \<le> m'"
      if "\<forall>e \<in> set ds. numa_distance h n d \<le> numa_distance h n e" for d
    proof (cases "m' = INT_MAX")
      case True
      then show ?thesis
        using assms(3) by (simp add: distances_int_def)
    next
      case False
      then show ?thesis
        using dist_scan.scan_reached [OF scan] that by metis
    qed
    then have "numa_distance h n d = m' \<longleftrightarrow>
        (\<forall>e \<in> set ds. numa_distance h n d \<le> numa_distance h n e)" if "d \<in> set ds" for d
      using lower that by (metis order_antisym)
    then have "filter (\<lambda>d. numa_distance h n d = m') ds = closest_of h va n ds"
      using False unfolding closest_of_def by (intro filter_cong) auto
    then show ?thesis
      using dist_scan.scan_list [OF scan] inv' by simp
  qed
qed

text \<open>What the table should hold for a CPU of the node \<open>init_node\<close>.\<close>

definition closest_spec ::
  "'w host \<Rightarrow> bitmask \<Rightarrow> memkind_node_variant_t \<Rightarrow> nat \<Rightarrow> nat list" where
  "closest_spec h dest_nodes_mask node_variant init_node =
    closest_of h node_variant init_node
      (filter (numa_bitmask_isbitset dest_nodes_mask) [0..<Suc (numa_max_node h)])"

lemma fold_if_filter: "fold (\<lambda>x. if P x then f x else id) xs s = fold f (filter P xs) s"
  by (induction xs arbitrary: s) simp_all

lemma closest_dest_nodes_spec:
  assumes "vec_inv v" "heap_never_fails h" "distances_int h"
    and run: "closest_dest_nodes h dm va n (v, w) = (v', w')"
  shows "vec_inv v' \<and> VEC_FOREACH v' = closest_spec h dm va n"
proof -
  let ?ds = "[0..<Suc (numa_max_node h)]"
  obtain m' where "fold (closest_step h dm va n) ?ds (INT_MAX, VEC_CLEAR v, w) = (m', v', w')"
    using run unfolding closest_dest_nodes_def by (auto simp: snd_def split: prod.splits)
  then have "fold (closest_push h va n) (filter (numa_bitmask_isbitset dm) ?ds)
      (INT_MAX, VEC_CLEAR v, w) = (m', v', w')"
    unfolding closest_step_def fold_if_filter .
  from closest_fold [OF assms(1-3) this] show ?thesis
    by (simp add: closest_spec_def)
qed

section \<open>The table\<close>

lemma fill_cpus_fold:
  assumes "heap_never_fails h" "distinct cs" "\<forall>c \<in> set cs. c < length arr"
    "\<forall>c < length arr. vec_inv (arr ! c)"
    "fold (fill_cpu h m cur) cs (arr, w) = (arr', w')"
  shows "length arr' = length arr \<and> (\<forall>c < length arr. vec_inv (arr' ! c) \<and>
    VEC_FOREACH (arr' ! c) = VEC_FOREACH (arr ! c) @
      (if c \<in> set cs \<and> numa_bitmask_isbitset m c then VEC_FOREACH cur else []))"
  using assms(2-)
proof (induction cs arbitrary: arr w)
  case (Cons c cs)
  obtain v1 w1 where p: "fold (push_ignoring (heap_alloc h) sizeof_int) (VEC_FOREACH cur)
      (arr ! c, w) = (v1, w1)"
    by (metis surj_pair)
  have c: "vec_inv (arr ! c)" "c < length arr"
    using Cons.prems by auto
  note v1 = push_all_ok [OF c(1) assms(1) p]
  show ?case
  proof (cases "numa_bitmask_isbitset m c")
    case True
    then have "fold (fill_cpu h m cur) cs (arr[c := v1], w1) = (arr', w')"
      using Cons.prems(4) p by (simp add: fill_cpu_def [of _ _ _ c])
    moreover have "\<forall>d < length (arr[c := v1]). vec_inv (arr[c := v1] ! d)"
      using Cons.prems(3) v1 c(2) by (auto simp: nth_list_update)
    ultimately show ?thesis
      using Cons.IH [of "arr[c := v1]" w1] Cons.prems(1,2) v1 c(2) True
      by (auto simp: nth_list_update)
  next
    case False
    then have "fold (fill_cpu h m cur) cs (arr, w) = (arr', w')"
      using Cons.prems(4) by (simp add: fill_cpu_def [of _ _ _ c])
    with Cons.IH [of arr w] Cons.prems False show ?thesis
      by auto
  qed
qed simp

text \<open>The nodes the loop appends for one CPU: those closest to each initiator it belongs to.\<close>

definition cpu_closest ::
  "'w host \<Rightarrow> bitmask \<Rightarrow> memkind_node_variant_t \<Rightarrow> nat list \<Rightarrow> nat \<Rightarrow> nat list" where
  "cpu_closest h dm va ns c =
    concat (map (\<lambda>n. if is_initiator h n \<and> numa_bitmask_isbitset (snd (numa_node_to_cpus h n)) c
                     then closest_spec h dm va n else []) ns)"

definition unambiguous :: "'w host \<Rightarrow> bitmask \<Rightarrow> memkind_node_variant_t \<Rightarrow> nat list \<Rightarrow> bool" where
  "unambiguous h dm va ns \<longleftrightarrow>
    (va = NODE_VARIANT_SINGLE \<longrightarrow>
      (\<forall>n \<in> set ns. is_initiator h n \<longrightarrow> length (closest_spec h dm va n) \<le> 1))"

lemma initiator_loop_spec:
  assumes "heap_never_fails h" "distances_int h"
    "vec_inv cur" "length arr = numa_num_configured_cpus h"
    "\<forall>c < length arr. vec_inv (arr ! c)"
    "initiator_loop h dm va ns cur arr w = (st, cur', arr', w')"
  shows "if unambiguous h dm va ns then
      st = MEMKIND_SUCCESS \<and> length arr' = numa_num_configured_cpus h \<and>
      (\<forall>c < length arr. vec_inv (arr' ! c) \<and>
        VEC_FOREACH (arr' ! c) = VEC_FOREACH (arr ! c) @ cpu_closest h dm va ns c)
    else st = MEMKIND_ERROR_RUNTIME"
  using assms(3-)
proof (induction ns arbitrary: cur arr w)
  case Nil
  then show ?case
    by (auto simp: unambiguous_def cpu_closest_def)
next
  case (Cons n ns)
  show ?case
  proof (cases "is_initiator h n")
    case False
    then show ?thesis
      using Cons.IH [of cur arr w] Cons.prems by (simp add: unambiguous_def cpu_closest_def)
  next
    case init: True
    obtain v1 w1 where c: "closest_dest_nodes h dm va n (cur, w) = (v1, w1)"
      by (metis surj_pair)
    note v1 = closest_dest_nodes_spec [OF Cons.prems(1) assms(1,2) c]
    then have size: "v_size v1 = length (closest_spec h dm va n)"
      using foreach_length by fastforce
    show ?thesis
    proof (cases "va = NODE_VARIANT_SINGLE \<and> v_size v1 > 1")
      case True
      then show ?thesis
        using Cons.prems(4) init c size by (auto simp: unambiguous_def)
    next
      case False
      obtain arr1 w2 where f:
        "fill_cpus h (snd (numa_node_to_cpus h n)) v1 (arr, w1) = (arr1, w2)"
        by (metis surj_pair)
      have arr1: "length arr1 = length arr \<and> (\<forall>c < length arr. vec_inv (arr1 ! c) \<and>
          VEC_FOREACH (arr1 ! c) = VEC_FOREACH (arr ! c) @
            (if numa_bitmask_isbitset (snd (numa_node_to_cpus h n)) c
             then closest_spec h dm va n else []))"
        using fill_cpus_fold [OF assms(1) _ _ Cons.prems(3) f [unfolded fill_cpus_def]]
          Cons.prems(2) v1 by auto
      moreover have "initiator_loop h dm va ns v1 arr1 w2 = (st, cur', arr', w')"
        using Cons.prems(4) init c f False by auto
      moreover have "unambiguous h dm va (n # ns) = unambiguous h dm va ns"
        using False size by (auto simp: unambiguous_def)
      ultimately show ?thesis
        using Cons.IH [of v1 arr1 w2] v1 Cons.prems(2) init
        by (auto simp: cpu_closest_def split: if_splits)
    qed
  qed
qed

lemma set_closest_numanode_spec:
  assumes "heap_never_fails h" "distances_int h"
    and get: "get_bitmask w = ((MEMKIND_SUCCESS, Some dm), w1)"
    and cpumask: "numa_allocate_cpumask h w1 = (True, w2)"
  shows "if unambiguous h dm va [0..<Suc (numa_max_node h)] then
      \<exists>arr w'. set_closest_numanode h get_bitmask va w = ((MEMKIND_SUCCESS, Some arr), w') \<and>
        length arr = numa_num_configured_cpus h \<and>
        (\<forall>c < length arr. vec_inv (arr ! c) \<and>
           VEC_FOREACH (arr ! c) = cpu_closest h dm va [0..<Suc (numa_max_node h)] c)
    else \<exists>w'. set_closest_numanode h get_bitmask va w = ((MEMKIND_ERROR_RUNTIME, None), w')"
proof -
  let ?ns = "[0..<Suc (numa_max_node h)]" and ?n = "numa_num_configured_cpus h"
  obtain w3 where w3: "heap_alloc h (?n * sizeof_vec) w2 = (True, w3)"
    using assms(1) by (metis heap_never_fails_def prod.collapse)
  obtain st cur' arr' w' where loop:
    "initiator_loop h dm va ?ns VEC_INITIALIZER (replicate ?n VEC_INITIALIZER) w3 =
      (st, cur', arr', w')"
    by (metis prod_cases4)
  have "set_closest_numanode h get_bitmask va w =
      (if st \<noteq> MEMKIND_SUCCESS then ((st, None), w') else ((MEMKIND_SUCCESS, Some arr'), w'))"
    using get cpumask w3 loop by (simp add: set_closest_numanode_def del: upt_Suc)
  then show ?thesis
    using initiator_loop_spec [OF assms(1,2) _ _ _ loop] by (simp del: upt_Suc split: if_splits)
qed

section \<open>Properties\<close>





end
