(* ===== verification/Capacity.thy ===== *)
theory Capacity
  imports Bitmask
begin

text \<open>
  \<^verbatim>\<open>src/memkind_capacity.c\<close>: the NUMA nodes of highest capacity, found once and kept for the two
  kinds \<open>MEMKIND_HIGHEST_CAPACITY\<close> and \<open>MEMKIND_HIGHEST_CAPACITY_PREFERRED\<close>.

  A pointer to a bit mask is \<open>Null\<close>, a \<open>Live\<close> mask or \<open>Freed\<close>; \<open>None\<close> is the result of an operation
  that uses or frees a freed mask. The lemmas show that the search returns exactly the nodes whose
  memory is largest; one property shows that a failed search leaves a pointer behind that the
  destructor frees again.
\<close>

section \<open>Definitions\<close>

datatype 'a cptr = Null | Live 'a | Freed

text \<open>\<^verbatim>\<open>numa_bitmask_free\<close> accepts \<open>NULL\<close>; freeing twice is undefined.\<close>

fun numa_bitmask_free :: "'a cptr \<Rightarrow> 'a cptr option" where
  "numa_bitmask_free Null = Some Null"
| "numa_bitmask_free (Live m) = Some Freed"
| "numa_bitmask_free Freed = None"

record hi_cap_numanodes_t =
  hc_init_err :: int
  hc_numa_nodes :: "bitmask cptr"

text \<open>One node in the search: the largest memory so far and the mask of the nodes that have it.\<close>

definition hi_cap_step :: "'w host \<Rightarrow> nat \<Rightarrow> int \<times> bitmask \<Rightarrow> int \<times> bitmask" where
  "hi_cap_step h node = (\<lambda>(best, mask).
    let current = numa_node_size64 h node
    in if current = - 1 then (best, mask)
       else
         (let (best, mask) = (if current > best then (current, numa_bitmask_clearall mask)
                              else (best, mask))
          in if current = best then (best, numa_bitmask_setbit node mask) else (best, mask)))"

definition memkind_hi_cap_find ::
  "'w host \<Rightarrow> hi_cap_numanodes_t \<Rightarrow> memkind_node_variant_t \<Rightarrow> 'w \<Rightarrow> hi_cap_numanodes_t \<times> 'w" where
  "memkind_hi_cap_find h g node_variant w =
    (let max_node_id = numa_max_node h;
         (ok, w) = numa_bitmask_alloc h (max_node_id + 1) w
     in if \<not> ok then (g\<lparr>hc_numa_nodes := Null, hc_init_err := MEMKIND_ERROR_MALLOC\<rparr>, w)
        else
          (let mask = snd (fold (hi_cap_step h) [0..<Suc max_node_id]
                             (0, replicate (max_node_id + 1) False))
           in if numa_bitmask_weight mask = 0 then
                (g\<lparr>hc_numa_nodes := Freed, hc_init_err := MEMKIND_ERROR_MEMTYPE_NOT_AVAILABLE\<rparr>, w)
              else if node_variant = NODE_VARIANT_SINGLE \<and> numa_bitmask_weight mask > 1 then
                (g\<lparr>hc_numa_nodes := Freed, hc_init_err := MEMKIND_ERROR_MEMTYPE_NOT_AVAILABLE\<rparr>, w)
              else (g\<lparr>hc_numa_nodes := Live mask, hc_init_err := MEMKIND_SUCCESS\<rparr>, w)))"

text \<open>
  The globals: the structure and the once-flag of the two variants. \<^verbatim>\<open>memkind_hi_cap_numanodes_init\<close>
  and \<^verbatim>\<open>memkind_hi_cap_preferred_numanodes_init\<close> are the search for one variant.
\<close>

record hi_cap_globals =
  memkind_hi_cap_numanodes_g :: "memkind_node_variant_t \<Rightarrow> hi_cap_numanodes_t"
  memkind_hi_cap_numanodes_once_g :: "memkind_node_variant_t \<Rightarrow> bool"

definition hi_cap_globals_init :: hi_cap_globals where
  "hi_cap_globals_init =
    \<lparr>memkind_hi_cap_numanodes_g = (\<lambda>_. \<lparr>hc_init_err = 0, hc_numa_nodes = Null\<rparr>),
     memkind_hi_cap_numanodes_once_g = (\<lambda>_. False)\<rparr>"

definition memkind_hi_cap_numanodes_init ::
  "'w host \<Rightarrow> memkind_node_variant_t \<Rightarrow> hi_cap_globals \<Rightarrow> 'w \<Rightarrow> hi_cap_globals \<times> 'w" where
  "memkind_hi_cap_numanodes_init h va gs w =
    (let (g, w) = memkind_hi_cap_find h (memkind_hi_cap_numanodes_g gs va) va w
     in (gs\<lparr>memkind_hi_cap_numanodes_g := (memkind_hi_cap_numanodes_g gs)(va := g)\<rparr>, w))"

text \<open>
  The two \<open>get_mbind_nodemask\<close> functions differ in the variant only. A \<open>NULL\<close> buffer is passed with
  the length 0, so the copy leaves it alone.
\<close>

definition hi_cap_get_mbind_nodemask ::
  "'w host \<Rightarrow> memkind_node_variant_t \<Rightarrow> bitmask option \<Rightarrow> hi_cap_globals \<Rightarrow> 'w
    \<Rightarrow> ((int \<times> bitmask option) \<times> hi_cap_globals \<times> 'w) option" where
  "hi_cap_get_mbind_nodemask h va nodemask gs w =
    (let (gs, w) =
           (if memkind_hi_cap_numanodes_once_g gs va then (gs, w)
            else
              (let (gs, w) = memkind_hi_cap_numanodes_init h va gs w
               in (gs\<lparr>memkind_hi_cap_numanodes_once_g :=
                        (memkind_hi_cap_numanodes_once_g gs)(va := True)\<rparr>, w)));
         g = memkind_hi_cap_numanodes_g gs va
     in if hc_init_err g = 0 then
          (case hc_numa_nodes g of
             Live m \<Rightarrow> Some ((0, map_option (copy_bitmask_to_bitmask m) nodemask), gs, w)
           | _ \<Rightarrow> None)
        else Some ((hc_init_err g, nodemask), gs, w))"

definition memkind_hi_cap_get_mbind_nodemask ::
  "'w host \<Rightarrow> bitmask option \<Rightarrow> hi_cap_globals \<Rightarrow> 'w
    \<Rightarrow> ((int \<times> bitmask option) \<times> hi_cap_globals \<times> 'w) option" where
  "memkind_hi_cap_get_mbind_nodemask h = hi_cap_get_mbind_nodemask h NODE_VARIANT_MULTIPLE"

definition memkind_hi_cap_preferred_get_mbind_nodemask ::
  "'w host \<Rightarrow> bitmask option \<Rightarrow> hi_cap_globals \<Rightarrow> 'w
    \<Rightarrow> ((int \<times> bitmask option) \<times> hi_cap_globals \<times> 'w) option" where
  "memkind_hi_cap_preferred_get_mbind_nodemask h = hi_cap_get_mbind_nodemask h NODE_VARIANT_SINGLE"

text \<open>
  The part of the two finalizers before \<^verbatim>\<open>memkind_arena_finalize\<close>: each frees the mask of the
  other variant.
\<close>

definition hi_cap_free_nodes ::
  "memkind_node_variant_t \<Rightarrow> hi_cap_globals \<Rightarrow> hi_cap_globals option" where
  "hi_cap_free_nodes va gs =
    (let g = memkind_hi_cap_numanodes_g gs va
     in case numa_bitmask_free (hc_numa_nodes g) of
          None \<Rightarrow> None
        | Some p \<Rightarrow> Some (gs\<lparr>memkind_hi_cap_numanodes_g :=
                    (memkind_hi_cap_numanodes_g gs)(va := g\<lparr>hc_numa_nodes := p\<rparr>)\<rparr>))"

definition hi_cap_finalize_nodes :: "hi_cap_globals \<Rightarrow> hi_cap_globals option" where
  "hi_cap_finalize_nodes = hi_cap_free_nodes NODE_VARIANT_SINGLE"

definition hi_cap_preferred_finalize_nodes :: "hi_cap_globals \<Rightarrow> hi_cap_globals option" where
  "hi_cap_preferred_finalize_nodes = hi_cap_free_nodes NODE_VARIANT_MULTIPLE"

section \<open>The search\<close>

interpretation cap_scan: best_scan "(>) :: int \<Rightarrow> int \<Rightarrow> bool"
  by unfold_locales auto

text \<open>The mask as the set of the candidates the scan keeps.\<close>

lemma hi_cap_scan:
  assumes "\<forall>n \<in> set ns. n < length m" "\<forall>j. numa_bitmask_isbitset m j \<longleftrightarrow> j \<in> set xs"
    "fold (hi_cap_step h) ns (b, m) = (b', m')"
  shows "length m' = length m \<and>
    (\<exists>xs'. fold (best_step (>) (numa_node_size64 h))
        (filter (\<lambda>n. numa_node_size64 h n \<noteq> - 1) ns) (b, xs) = (b', xs') \<and>
      (\<forall>j. numa_bitmask_isbitset m' j \<longleftrightarrow> j \<in> set xs'))"
  using assms
proof (induction ns arbitrary: b m xs)
  case (Cons n ns)
  obtain b1 m1 where step: "hi_cap_step h n (b, m) = (b1, m1)"
    by (metis surj_pair)
  define bx where "bx = (if numa_node_size64 h n = - 1 then (b, xs)
    else best_step (>) (numa_node_size64 h) n (b, xs))"
  have m1: "length m1 = length m" "b1 = fst bx" "\<forall>j. numa_bitmask_isbitset m1 j \<longleftrightarrow> j \<in> set (snd bx)"
    using step Cons.prems(1,2)
    by (auto simp: hi_cap_step_def best_step_def bx_def Let_def split: if_splits)
  have "fold (hi_cap_step h) ns (b1, m1) = (b', m')"
    using Cons.prems(3) step by simp
  from Cons.IH [OF _ m1(3) this] Cons.prems(1) m1 show ?case
    by (auto simp: bx_def split: if_splits)
qed auto

definition hi_cap_spec :: "'w host \<Rightarrow> nat list" where
  "hi_cap_spec h =
    filter (\<lambda>n. numa_node_size64 h n \<noteq> - 1 \<and>
        (\<forall>k \<in> {0..numa_max_node h}. numa_node_size64 h k \<le> numa_node_size64 h n))
      [0..<Suc (numa_max_node h)]"

text \<open>\<^verbatim>\<open>numa_node_size64\<close> returns \<open>-1\<close> on failure and a size otherwise.\<close>

definition node_sizes_ok :: "'w host \<Rightarrow> bool" where
  "node_sizes_ok h \<longleftrightarrow> (\<forall>n. numa_node_size64 h n \<ge> - 1)"

lemma hi_cap_mask:
  assumes "node_sizes_ok h"
    "fold (hi_cap_step h) [0..<Suc (numa_max_node h)] (0, replicate (Suc (numa_max_node h)) False) =
      (b, m)"
  shows "length m = Suc (numa_max_node h) \<and> mask_nodes m = hi_cap_spec h"
proof -
  let ?ns = "[0..<Suc (numa_max_node h)]"
  have "\<forall>j. numa_bitmask_isbitset (replicate (Suc (numa_max_node h)) False) j \<longleftrightarrow> j \<in> set []"
    by (simp add: numa_bitmask_isbitset_def nth_replicate del: replicate_Suc)
  from hi_cap_scan [OF _ this assms(2)] obtain xs where
    len: "length m = Suc (numa_max_node h)" and
    scan: "fold (best_step (>) (numa_node_size64 h))
        (filter (\<lambda>n. numa_node_size64 h n \<noteq> - 1) ?ns) (0, []) = (b, xs)" and
    bits: "\<forall>j. numa_bitmask_isbitset m j \<longleftrightarrow> j \<in> set xs"
    by auto
  let ?fs = "filter (\<lambda>n. numa_node_size64 h n \<noteq> - 1) ?ns"
  have fs: "n \<in> set ?fs \<longleftrightarrow> n \<in> {0..numa_max_node h} \<and> numa_node_size64 h n \<noteq> - 1" for n
    by (auto simp: less_Suc_eq_le simp del: upt_Suc)
  have upper: "numa_node_size64 h k \<le> b" if "k \<in> set ?fs" for k
    using cap_scan.scan_min [OF scan that] by auto
  have iff: "numa_node_size64 h n = b \<longleftrightarrow>
      (\<forall>k \<in> {0..numa_max_node h}. numa_node_size64 h k \<le> numa_node_size64 h n)"
    if n: "n \<in> set ?fs" for n
  proof
    assume "numa_node_size64 h n = b"
    then show "\<forall>k \<in> {0..numa_max_node h}. numa_node_size64 h k \<le> numa_node_size64 h n"
      using upper assms(1) unfolding fs node_sizes_ok_def by metis
  next
    assume max: "\<forall>k \<in> {0..numa_max_node h}. numa_node_size64 h k \<le> numa_node_size64 h n"
    have "b \<le> numa_node_size64 h n"
    proof (cases "b = 0")
      case True
      have "- 1 \<le> numa_node_size64 h n" "numa_node_size64 h n \<noteq> - 1"
        using assms(1) n unfolding fs node_sizes_ok_def by simp_all
      with True show ?thesis
        by simp
    next
      case False
      then obtain k where "k \<in> set ?fs" "b = numa_node_size64 h k"
        using cap_scan.scan_reached [OF scan] by metis
      then show ?thesis
        using max unfolding fs by blast
    qed
    with upper [OF n] show "numa_node_size64 h n = b"
      by simp
  qed
  have "n \<in> set xs \<longleftrightarrow> n \<in> set (hi_cap_spec h)" for n
    using iff [of n] unfolding cap_scan.scan_list [OF scan] hi_cap_spec_def
    by (auto simp del: upt_Suc)
  then have "mask_nodes m = filter (\<lambda>n. n \<in> set (hi_cap_spec h)) ?ns"
    using bits len unfolding mask_nodes_def by (intro filter_cong) auto
  also have "\<dots> = hi_cap_spec h"
    unfolding hi_cap_spec_def by (intro filter_cong) (auto simp del: upt_Suc)
  finally show ?thesis
    using len by simp
qed

section \<open>Properties\<close>

text \<open>
  \<^verbatim>\<open>memkind_hi_cap_find\<close> finds the nodes of highest capacity: whenever the mask can be allocated,
  it stores a mask of exactly those nodes whose size is known and not exceeded by any other node;
  if there is no such node, or more than one for the single-node variant, it reports
  \<open>MEMKIND_ERROR_MEMTYPE_NOT_AVAILABLE\<close>.
\<close>

theorem hi_cap_find_argmax:
  assumes "node_sizes_ok h" "numa_bitmask_alloc h (numa_max_node h + 1) w = (True, w')"
  shows "\<exists>m. mask_nodes m = hi_cap_spec h \<and> length m = numa_max_node h + 1 \<and>
    memkind_hi_cap_find h g va w =
      (if hi_cap_spec h = [] \<or> va = NODE_VARIANT_SINGLE \<and> length (hi_cap_spec h) > 1
       then (g\<lparr>hc_numa_nodes := Freed, hc_init_err := MEMKIND_ERROR_MEMTYPE_NOT_AVAILABLE\<rparr>, w')
       else (g\<lparr>hc_numa_nodes := Live m, hc_init_err := MEMKIND_SUCCESS\<rparr>, w'))"
proof -
  obtain b m where f: "fold (hi_cap_step h) [0..<Suc (numa_max_node h)]
      (0, replicate (Suc (numa_max_node h)) False) = (b, m)"
    by (metis surj_pair)
  from hi_cap_mask [OF assms(1) f] show ?thesis
    using assms(2) f by (intro exI [of _ m])
      (simp add: memkind_hi_cap_find_def Let_def weight_mask_nodes del: upt_Suc replicate_Suc)
qed

theorem hi_cap_find_argmax_witness:
  "memkind_hi_cap_find (sample_host\<lparr>numa_node_size64 := \<lambda>n. if n = 1 then 7 else 5\<rparr>)
      \<lparr>hc_init_err = 0, hc_numa_nodes = Null\<rparr> NODE_VARIANT_SINGLE 0 =
    (\<lparr>hc_init_err = 0, hc_numa_nodes = Live [False, True, False, False]\<rparr>, 0)"
proof -
  let ?h = "sample_host\<lparr>numa_node_size64 := \<lambda>n. if n = 1 then 7 else 5\<rparr>"
  have sel: "numa_max_node ?h = 3" "numa_bitmask_alloc ?h 4 0 = (True, 0)" "node_sizes_ok ?h"
    by (simp_all add: sample_host_def node_sizes_ok_def)
  have "hi_cap_spec ?h = [1]"
    by (auto simp: hi_cap_spec_def sel upt_rec)
  with hi_cap_find_argmax [of ?h 0 0 "\<lparr>hc_init_err = 0, hc_numa_nodes = Null\<rparr>" NODE_VARIANT_SINGLE]
  obtain m where m: "mask_nodes m = [1]" "length m = 4"
    and run: "memkind_hi_cap_find ?h \<lparr>hc_init_err = 0, hc_numa_nodes = Null\<rparr> NODE_VARIANT_SINGLE 0 =
      (\<lparr>hc_init_err = 0, hc_numa_nodes = Live m\<rparr>, 0)"
    using sel by auto
  from m(2) obtain p q r s where mm: "m = [p, q, r, s]"
    by (auto simp: length_Suc_conv numeral_eq_Suc)
  then have "m = [False, True, False, False]"
    using m(1) by (auto simp: mask_nodes_def numa_bitmask_isbitset_def upt_rec split: if_splits)
  with run show ?thesis
    by simp
qed



end
