(* ===== verification/Libc.thy ===== *)
theory Libc
  imports Prelude
begin

text \<open>
  The parts of the C library whose result the sources compute with: decimal conversion both ways
  (\<open>strtoul\<close> / \<open>strtoull\<close> in base 10 and the \<open>%u\<close> conversion of \<open>snprintf\<close>) and \<open>isspace\<close>.

  The lemmas show that reading back a printed number gives the number and leaves no rest, so the
  jemalloc command names built from arena indices are distinct for distinct indices.
\<close>

section \<open>Characters\<close>

definition isspace :: "char \<Rightarrow> bool" where
  "isspace c = (of_char c = (32 :: nat) \<or> (9 \<le> (of_char c :: nat) \<and> (of_char c :: nat) \<le> 13))"

definition isdigit :: "char \<Rightarrow> bool" where
  "isdigit c = (48 \<le> (of_char c :: nat) \<and> (of_char c :: nat) \<le> 57)"

definition digit_val :: "char \<Rightarrow> nat" where
  "digit_val c = of_char c - 48"

definition digit_char :: "nat \<Rightarrow> char" where
  "digit_char d = char_of (48 + d)"

section \<open>Printing and reading decimal numbers\<close>

fun show_nat :: "nat \<Rightarrow> string" where
  "show_nat n = (if n < 10 then [digit_char n] else show_nat (n div 10) @ [digit_char (n mod 10)])"

declare show_nat.simps [simp del]

definition digits_val :: "string \<Rightarrow> nat" where
  "digits_val ds = foldl (\<lambda>acc c. 10 * acc + digit_val c) 0 ds"

text \<open>
  \<open>strtoul\<close> in base 10: the value, the rest of the string (what \<^verbatim>\<open>*end\<close> points to) and whether
  \<open>errno\<close> is set to \<open>ERANGE\<close>. Without a digit the value is 0 and the rest is the whole string; a
  minus sign negates the value modulo \<open>2 ^ 64\<close>.
\<close>

definition strip_sign :: "string \<Rightarrow> bool \<times> string" where
  "strip_sign s = (case s of
     [] \<Rightarrow> (False, [])
   | c # cs \<Rightarrow> if c = CHR ''-'' then (True, cs) else if c = CHR ''+'' then (False, cs) else (False, s))"

definition strtoul :: "string \<Rightarrow> u64 \<times> string \<times> bool" where
  "strtoul s =
    (let (neg, body) = strip_sign (dropWhile isspace s);
         ds = takeWhile isdigit body;
         v = digits_val ds
     in if ds = [] then (0, s, False)
        else if v \<ge> 2 ^ 64 then (SIZE_MAX, dropWhile isdigit body, True)
        else (if neg then - of_nat v else of_nat v, dropWhile isdigit body, False))"

section \<open>Round trip\<close>

lemma digit_char_isdigit: "d < 10 \<Longrightarrow> isdigit (digit_char d)"
  by (simp add: isdigit_def digit_char_def)

lemma digit_val_char: "d < 10 \<Longrightarrow> digit_val (digit_char d) = d"
  by (simp add: digit_val_def digit_char_def)

lemma isdigit_not_space: "isdigit c \<Longrightarrow> \<not> isspace c"
  by (auto simp: isdigit_def isspace_def)

lemma isdigit_not_sign: "isdigit c \<Longrightarrow> c \<noteq> CHR ''-'' \<and> c \<noteq> CHR ''+''"
  by (auto simp: isdigit_def)

lemma show_nat_digits: "\<forall>c \<in> set (show_nat n). isdigit c"
proof (induction n rule: show_nat.induct)
  case (1 n)
  then show ?case
    by (subst show_nat.simps) (auto simp: digit_char_isdigit)
qed

lemma show_nat_nonempty: "show_nat n \<noteq> []"
  by (subst show_nat.simps) simp

lemma digits_val_show: "digits_val (show_nat n) = n"
proof (induction n rule: show_nat.induct)
  case (1 n)
  then show ?case
    by (subst show_nat.simps) (auto simp: digits_val_def digit_val_char)
qed

lemma show_nat_inj: "show_nat m = show_nat n \<longleftrightarrow> m = n"
  by (metis digits_val_show)

lemma strtoul_show: "n < 2 ^ 64 \<Longrightarrow> strtoul (show_nat n) = (of_nat n, [], False)"
proof -
  assume n: "n < 2 ^ 64"
  obtain c cs where s: "show_nat n = c # cs"
    using show_nat_nonempty by (cases "show_nat n") auto
  have c: "isdigit c" "\<forall>d \<in> set cs. isdigit d"
    using show_nat_digits [of n] s by auto
  have "dropWhile isspace (show_nat n) = show_nat n" "strip_sign (show_nat n) = (False, show_nat n)"
    using c isdigit_not_space isdigit_not_sign by (auto simp: s strip_sign_def)
  moreover have tw: "takeWhile isdigit (show_nat n) = show_nat n" "dropWhile isdigit (show_nat n) = []"
    using show_nat_digits [of n] by (auto simp: takeWhile_eq_all_conv)
  ultimately show ?thesis
    using n by (simp add: strtoul_def Let_def tw digits_val_show show_nat_nonempty)
qed

end
