(* ===== verification/Mem_Attributes.thy ===== *)
theory Mem_Attributes
  imports Capacity Libc
begin

text \<open>
  \<^verbatim>\<open>src/memkind_mem_attributes.c\<close>: choosing NUMA nodes by the memory attributes hwloc reports. For
  the local kinds, the local node with the largest memory, the highest bandwidth or the lowest
  latency, once per CPU; for the high-bandwidth kinds, the closest of the nodes whose bandwidth
  reaches a threshold.

  The lemmas show that the node chosen for a CPU is best among the local nodes of its initiator in
  the lexicographic order the code compares with (the attribute first, then the tie-break).
\<close>

section \<open>Local nodes\<close>

datatype memory_attribute_t = MEM_ATTR_CAPACITY | MEM_ATTR_BANDWIDTH | MEM_ATTR_LATENCY

text \<open>
  One local node in the three searches. The state is the best attribute so far, the value that
  breaks ties and the node chosen (\<^verbatim>\<open>hwloc_bitmap_only\<close> keeps one bit of the mask).
\<close>

type_synonym attr_state = "u64 \<times> u64 \<times> nat option"

definition capacity_step :: "'w host \<Rightarrow> nat \<Rightarrow> hwloc_node \<Rightarrow> attr_state \<Rightarrow> attr_state" where
  "capacity_step h init_index node = (\<lambda>(best_mem_attr, unpreferred_val, attr_loc_mask).
    let dist = of_int (numa_distance h init_index (os_index node))
    in if local_memory node = 0 then (best_mem_attr, unpreferred_val, attr_loc_mask)
       else if local_memory node > best_mem_attr then
         (local_memory node, dist, Some (os_index node))
       else if local_memory node = best_mem_attr \<and> dist > unpreferred_val then
         (best_mem_attr, dist, Some (os_index node))
       else (best_mem_attr, unpreferred_val, attr_loc_mask))"

definition bandwidth_step :: "'w host \<Rightarrow> nat list \<Rightarrow> hwloc_node \<Rightarrow> attr_state \<Rightarrow> attr_state" where
  "bandwidth_step h initiator node = (\<lambda>(best_mem_attr, unpreferred_val, attr_loc_mask).
    case hwloc_memattr_get_value h HWLOC_MEMATTR_ID_BANDWIDTH (os_index node) initiator of
      None \<Rightarrow> (best_mem_attr, unpreferred_val, attr_loc_mask)
    | Some mem_attr \<Rightarrow>
        if mem_attr > best_mem_attr then (mem_attr, local_memory node, Some (os_index node))
        else if mem_attr = best_mem_attr \<and> local_memory node < unpreferred_val then
          (best_mem_attr, local_memory node, Some (os_index node))
        else (best_mem_attr, unpreferred_val, attr_loc_mask))"

definition latency_step :: "'w host \<Rightarrow> nat list \<Rightarrow> hwloc_node \<Rightarrow> attr_state \<Rightarrow> attr_state" where
  "latency_step h initiator node = (\<lambda>(best_mem_attr, unpreferred_val, attr_loc_mask).
    case hwloc_memattr_get_value h HWLOC_MEMATTR_ID_LATENCY (os_index node) initiator of
      None \<Rightarrow> (best_mem_attr, unpreferred_val, attr_loc_mask)
    | Some mem_attr \<Rightarrow>
        if mem_attr < best_mem_attr then (mem_attr, local_memory node, Some (os_index node))
        else if mem_attr = best_mem_attr \<and> local_memory node < unpreferred_val then
          (best_mem_attr, local_memory node, Some (os_index node))
        else (best_mem_attr, unpreferred_val, attr_loc_mask))"

definition choose_local ::
  "'w host \<Rightarrow> memory_attribute_t \<Rightarrow> hwloc_node \<Rightarrow> hwloc_node list \<Rightarrow> nat option" where
  "choose_local h attr init_node local_nodes =
    (case attr of
       MEM_ATTR_CAPACITY \<Rightarrow>
         snd (snd (fold (capacity_step h (os_index init_node)) local_nodes (0, 0, None)))
     | MEM_ATTR_BANDWIDTH \<Rightarrow>
         snd (snd (fold (bandwidth_step h (hw_cpuset init_node)) local_nodes (0, SIZE_MAX, None)))
     | MEM_ATTR_LATENCY \<Rightarrow>
         snd (snd (fold (latency_step h (hw_cpuset init_node)) local_nodes
           (of_int INT_MAX, SIZE_MAX, None))))"

text \<open>
  Storing the chosen node for every CPU of the initiator. \<open>None\<close> is a write outside the array of
  \<^verbatim>\<open>numa_num_configured_cpus()\<close> entries.
\<close>

type_synonym cpu_masks = "bitmask option list"

definition node_bitmask :: "'w host \<Rightarrow> nat \<Rightarrow> bitmask" where
  "node_bitmask h node = numa_bitmask_setbit node (replicate (numa_num_possible_nodes h) False)"

fun populate_cpus ::
  "'w host \<Rightarrow> nat \<Rightarrow> nat list \<Rightarrow> cpu_masks \<Rightarrow> 'w \<Rightarrow> (int \<times> cpu_masks \<times> 'w) option" where
  "populate_cpus h node [] nodes_mask w = Some (MEMKIND_SUCCESS, nodes_mask, w)"
| "populate_cpus h node (i # cpus) nodes_mask w =
    (if i \<ge> length nodes_mask then None
     else
       (let (ok, w) = hwloc_nodeset_bitmask_alloc h w
        in if \<not> ok then Some (MEMKIND_ERROR_MALLOC, nodes_mask[i := None], w)
           else populate_cpus h node cpus (nodes_mask[i := Some (node_bitmask h node)]) w))"

text \<open>The loop over all NUMA nodes; a node whose CPUs were all seen before is not an initiator.\<close>

fun local_nodes_loop ::
  "'w host \<Rightarrow> memory_attribute_t \<Rightarrow> hwloc_node list \<Rightarrow> nat list \<Rightarrow> cpu_masks \<Rightarrow> 'w
    \<Rightarrow> (int \<times> cpu_masks \<times> 'w) option" where
  "local_nodes_loop h attr [] node_cpus nodes_mask w = Some (MEMKIND_SUCCESS, nodes_mask, w)"
| "local_nodes_loop h attr (init_node # nodes) node_cpus nodes_mask w =
    (if set (hw_cpuset init_node) \<subseteq> set node_cpus then
       local_nodes_loop h attr nodes node_cpus nodes_mask w
     else
       (case hwloc_local_numanodes h (hw_cpuset init_node) of
          None \<Rightarrow> Some (MEMKIND_ERROR_UNAVAILABLE, nodes_mask, w)
        | Some local_nodes \<Rightarrow>
            (case choose_local h attr init_node local_nodes of
               None \<Rightarrow> Some (MEMKIND_ERROR_MEMTYPE_NOT_AVAILABLE, nodes_mask, w)
             | Some node \<Rightarrow>
                 (case populate_cpus h node (hw_cpuset init_node) nodes_mask w of
                    None \<Rightarrow> None
                  | Some (err, nodes_mask, w) \<Rightarrow>
                      if err \<noteq> MEMKIND_SUCCESS then Some (err, nodes_mask, w)
                      else local_nodes_loop h attr nodes (node_cpus @ hw_cpuset init_node)
                             nodes_mask w))))"

text \<open>
  The whole function: the status and what \<^verbatim>\<open>*nodes_mask\<close> is afterwards, given its old value. An
  error after the array was allocated frees it and leaves the pointer.
\<close>

definition get_per_cpu_local_nodes_mask ::
  "'w host \<Rightarrow> cpu_masks cptr \<Rightarrow> memory_attribute_t \<Rightarrow> 'w \<Rightarrow> ((int \<times> cpu_masks cptr) \<times> 'w) option" where
  "get_per_cpu_local_nodes_mask h old attr w =
    (if \<not> have_hwloc h then Some ((MEMKIND_ERROR_OPERATION_FAILED, old), w)
     else if hwloc_topology_init h \<noteq> 0 then Some ((MEMKIND_ERROR_UNAVAILABLE, old), w)
     else if hwloc_topology_load h \<noteq> 0 then Some ((MEMKIND_ERROR_UNAVAILABLE, old), w)
     else
       (let num_cpus = numa_num_configured_cpus h;
            (ok, w) = heap_alloc h (8 * num_cpus) w
        in if \<not> ok then Some ((MEMKIND_ERROR_MALLOC, Null), w)
           else
             (let (ok1, w) = heap_alloc h (8 * numa_num_configured_nodes h) w
              in if \<not> ok1 then Some ((MEMKIND_ERROR_MALLOC, Freed), w)
                 else
                   (let (ok2, w) = hwloc_bitmap_alloc h w
                    in if \<not> ok2 then Some ((MEMKIND_ERROR_MALLOC, Freed), w)
                       else
                         (let (ok3, w) = hwloc_bitmap_alloc h w
                          in if \<not> ok3 then Some ((MEMKIND_ERROR_MALLOC, Freed), w)
                             else
                               (case local_nodes_loop h attr (hwloc_numanodes h) []
                                       (replicate num_cpus None) w of
                                  None \<Rightarrow> None
                                | Some (ret, nodes_mask, w) \<Rightarrow>
                                    if ret \<noteq> MEMKIND_SUCCESS then Some ((ret, Freed), w)
                                    else Some ((MEMKIND_SUCCESS, Live nodes_mask), w)))))))"

section \<open>High-bandwidth nodes\<close>

abbreviation (input) MEMKIND_HBW_THRESHOLD_DEFAULT :: u64
  where "MEMKIND_HBW_THRESHOLD_DEFAULT \<equiv> 204800"

text \<open>The bandwidth threshold; \<open>None\<close> stands for \<open>MEMKIND_ERROR_ENVIRON\<close>.\<close>

definition hbw_threshold :: "'w host \<Rightarrow> u64 option" where
  "hbw_threshold h =
    (case getenv h ''MEMKIND_HBW_THRESHOLD'' of
       None \<Rightarrow> Some MEMKIND_HBW_THRESHOLD_DEFAULT
     | Some env \<Rightarrow>
         (let (v, end_ptr, erange) = strtoul env
          in if v > 4294967295 \<or> end_ptr \<noteq> [] \<or> erange then None else Some v))"

definition mem_attr_step ::
  "'w host \<Rightarrow> u64 \<Rightarrow> memkind_node_variant_t \<Rightarrow> hwloc_node \<Rightarrow> hwloc_node \<Rightarrow> int \<times> nat vec \<times> 'w
    \<Rightarrow> int \<times> nat vec \<times> 'w" where
  "mem_attr_step h threshold node_variant init_node target =
    (case hwloc_memattr_get_value h HWLOC_MEMATTR_ID_BANDWIDTH (os_index target)
            (hw_cpuset init_node) of
       None \<Rightarrow> id
     | Some bandwidth \<Rightarrow>
         if bandwidth \<ge> threshold then
           closest_push h node_variant (os_index init_node) (os_index target)
         else id)"

fun fill_cpuset ::
  "'w host \<Rightarrow> nat vec \<Rightarrow> nat list \<Rightarrow> nat vec list \<Rightarrow> 'w \<Rightarrow> (nat vec list \<times> 'w) option" where
  "fill_cpuset h current_dest_nodes [] node_arr w = Some (node_arr, w)"
| "fill_cpuset h current_dest_nodes (i # cpus) node_arr w =
    (if i \<ge> length node_arr then None
     else
       (let (v, w) = fold (push_ignoring (heap_alloc h) sizeof_int)
                       (VEC_FOREACH current_dest_nodes) (node_arr ! i, w)
        in fill_cpuset h current_dest_nodes cpus (node_arr[i := v]) w))"

fun mem_attr_loop ::
  "'w host \<Rightarrow> u64 \<Rightarrow> memkind_node_variant_t \<Rightarrow> hwloc_node list \<Rightarrow> nat list \<Rightarrow> nat vec
    \<Rightarrow> nat vec list \<Rightarrow> 'w \<Rightarrow> (int \<times> nat vec list \<times> 'w) option" where
  "mem_attr_loop h threshold node_variant [] node_cpus current_dest_nodes node_arr w =
    Some (MEMKIND_SUCCESS, node_arr, w)"
| "mem_attr_loop h threshold node_variant (init_node # nodes) node_cpus current_dest_nodes node_arr w =
    (if set (hw_cpuset init_node) \<subseteq> set node_cpus then
       mem_attr_loop h threshold node_variant nodes node_cpus current_dest_nodes node_arr w
     else
       (let (_, current_dest_nodes, w) =
              fold (mem_attr_step h threshold node_variant init_node) (hwloc_numanodes h)
                (INT_MAX, VEC_CLEAR current_dest_nodes, w)
        in if v_size current_dest_nodes = 0 then
             Some (MEMKIND_ERROR_MEMTYPE_NOT_AVAILABLE, node_arr, w)
           else if node_variant = NODE_VARIANT_SINGLE \<and> v_size current_dest_nodes > 1 then
             Some (MEMKIND_ERROR_RUNTIME, node_arr, w)
           else
             (case fill_cpuset h current_dest_nodes (hw_cpuset init_node) node_arr w of
                None \<Rightarrow> None
              | Some (node_arr, w) \<Rightarrow>
                  mem_attr_loop h threshold node_variant nodes
                    (node_cpus @ hw_cpuset init_node) current_dest_nodes node_arr w)))"

definition set_closest_numanode_mem_attr ::
  "'w host \<Rightarrow> memkind_node_variant_t \<Rightarrow> 'w \<Rightarrow> ((int \<times> nat vec list option) \<times> 'w) option" where
  "set_closest_numanode_mem_attr h node_variant w =
    (if \<not> have_hwloc h then Some ((MEMKIND_ERROR_OPERATION_FAILED, None), w)
     else
       (case hbw_threshold h of
          None \<Rightarrow> Some ((MEMKIND_ERROR_ENVIRON, None), w)
        | Some threshold \<Rightarrow>
            if hwloc_topology_init h \<noteq> 0 \<or> hwloc_topology_load h \<noteq> 0 then
              Some ((MEMKIND_ERROR_UNAVAILABLE, None), w)
            else
              (let (ok, w) = hwloc_bitmap_alloc h w
               in if \<not> ok then Some ((MEMKIND_ERROR_UNAVAILABLE, None), w)
                  else
                    (let num_cpu = numa_num_configured_cpus h;
                         (ok, w) = heap_alloc h (num_cpu * sizeof_vec) w
                     in if \<not> ok then Some ((MEMKIND_ERROR_MALLOC, None), w)
                        else
                          (case mem_attr_loop h threshold node_variant (hwloc_numanodes h) []
                                  VEC_INITIALIZER (replicate num_cpu VEC_INITIALIZER) w of
                             None \<Rightarrow> None
                           | Some (status, node_arr, w) \<Rightarrow>
                               Some ((status, if status = MEMKIND_SUCCESS then Some node_arr
                                              else None), w))))))"

section \<open>The chosen local node is best\<close>

text \<open>
  The order the three searches compare with: more memory, then a larger distance; more bandwidth,
  then less memory; less latency, then less memory. A node takes part if it has memory, or if hwloc
  knows the attribute for the initiator.
\<close>

fun attr_better :: "memory_attribute_t \<Rightarrow> u64 \<times> u64 \<Rightarrow> u64 \<times> u64 \<Rightarrow> bool" where
  "attr_better MEM_ATTR_CAPACITY (a, b) (c, d) = (a > c \<or> a = c \<and> b > d)"
| "attr_better MEM_ATTR_BANDWIDTH (a, b) (c, d) = (a > c \<or> a = c \<and> b < d)"
| "attr_better MEM_ATTR_LATENCY (a, b) (c, d) = (a < c \<or> a = c \<and> b < d)"

fun attr_value :: "'w host \<Rightarrow> memory_attribute_t \<Rightarrow> hwloc_node \<Rightarrow> hwloc_node \<Rightarrow> u64 option" where
  "attr_value h MEM_ATTR_CAPACITY init_node node =
    (if local_memory node = 0 then None else Some (local_memory node))"
| "attr_value h MEM_ATTR_BANDWIDTH init_node node =
    hwloc_memattr_get_value h HWLOC_MEMATTR_ID_BANDWIDTH (os_index node) (hw_cpuset init_node)"
| "attr_value h MEM_ATTR_LATENCY init_node node =
    hwloc_memattr_get_value h HWLOC_MEMATTR_ID_LATENCY (os_index node) (hw_cpuset init_node)"

definition attr_key :: "'w host \<Rightarrow> memory_attribute_t \<Rightarrow> hwloc_node \<Rightarrow> hwloc_node \<Rightarrow> u64 \<times> u64" where
  "attr_key h attr init_node node =
    (the (attr_value h attr init_node node),
     if attr = MEM_ATTR_CAPACITY then of_int (numa_distance h (os_index init_node) (os_index node))
     else local_memory node)"

fun attr_start :: "memory_attribute_t \<Rightarrow> u64 \<times> u64" where
  "attr_start MEM_ATTR_CAPACITY = (0, 0)"
| "attr_start MEM_ATTR_BANDWIDTH = (0, SIZE_MAX)"
| "attr_start MEM_ATTR_LATENCY = (of_int INT_MAX, SIZE_MAX)"

interpretation attr_scan: best_scan "attr_better attr" for attr
  by unfold_locales (cases attr; force)+

definition attr_fold ::
  "'w host \<Rightarrow> memory_attribute_t \<Rightarrow> hwloc_node \<Rightarrow> hwloc_node list \<Rightarrow> attr_state \<Rightarrow> attr_state" where
  "attr_fold h attr init_node =
    (case attr of
       MEM_ATTR_CAPACITY \<Rightarrow> fold (capacity_step h (os_index init_node))
     | MEM_ATTR_BANDWIDTH \<Rightarrow> fold (bandwidth_step h (hw_cpuset init_node))
     | MEM_ATTR_LATENCY \<Rightarrow> fold (latency_step h (hw_cpuset init_node)))"

lemma attr_fold_Cons:
  "attr_fold h attr n (x # xs) (b, u, sel) =
    attr_fold h attr n xs
      (if attr_value h attr n x \<noteq> None \<and> attr_better attr (attr_key h attr n x) (b, u)
       then (fst (attr_key h attr n x), snd (attr_key h attr n x), Some (os_index x)) else (b, u, sel))"
  by (cases attr)
    (auto simp: attr_fold_def capacity_step_def bandwidth_step_def latency_step_def attr_key_def Let_def
      split: option.splits)

lemma attr_fold_scan:
  "attr_fold h attr n xs (b, u, map_option os_index sel) =
    (let ((b', u'), sel') =
       fold (first_step (attr_better attr) (attr_key h attr n))
         (filter (\<lambda>x. attr_value h attr n x \<noteq> None) xs) ((b, u), sel)
     in (b', u', map_option os_index sel'))"
proof (induction xs arbitrary: b u sel)
  case Nil
  then show ?case
    by (cases attr) (simp_all add: attr_fold_def)
next
  case (Cons x xs)
  show ?case
    using Cons.IH [of "fst (attr_key h attr n x)" "snd (attr_key h attr n x)" "Some x"]
      Cons.IH [of b u sel]
    by (auto simp: attr_fold_Cons first_step_def [of _ _ x])
qed

lemma choose_local_scan:
  "choose_local h attr n xs =
    map_option os_index (snd (fold (first_step (attr_better attr) (attr_key h attr n))
      (filter (\<lambda>x. attr_value h attr n x \<noteq> None) xs) (attr_start attr, None)))"
proof -
  have "choose_local h attr n xs =
      snd (snd (attr_fold h attr n xs (fst (attr_start attr), snd (attr_start attr),
        map_option os_index (None :: hwloc_node option))))"
    by (cases attr) (simp_all add: choose_local_def attr_fold_def)
  also have "\<dots> = map_option os_index (snd (fold (first_step (attr_better attr) (attr_key h attr n))
      (filter (\<lambda>x. attr_value h attr n x \<noteq> None) xs) (attr_start attr, None)))"
    by (simp only: attr_fold_scan) (simp add: Let_def split_def)
  finally show ?thesis .
qed

definition best_local ::
  "'w host \<Rightarrow> memory_attribute_t \<Rightarrow> hwloc_node \<Rightarrow> hwloc_node list \<Rightarrow> nat \<Rightarrow> bool" where
  "best_local h attr n xs i \<longleftrightarrow>
    (\<exists>x \<in> set xs. os_index x = i \<and> attr_value h attr n x \<noteq> None \<and>
      (\<forall>y \<in> set xs. attr_value h attr n y \<noteq> None \<longrightarrow>
         \<not> attr_better attr (attr_key h attr n y) (attr_key h attr n x)))"

lemma choose_local_best:
  assumes "choose_local h attr n xs = Some i"
  shows "best_local h attr n xs i"
proof -
  let ?ys = "filter (\<lambda>x. attr_value h attr n x \<noteq> None) xs"
  obtain k sel where f:
    "fold (first_step (attr_better attr) (attr_key h attr n)) ?ys (attr_start attr, None) = (k, sel)"
    by (metis surj_pair)
  obtain x where x: "sel = Some x" "os_index x = i"
    using assms unfolding choose_local_scan f by auto
  have min: "\<And>y. y \<in> set ?ys \<Longrightarrow> \<not> attr_better attr (attr_key h attr n y) k"
    and "if k = attr_start attr then sel = None
      else \<exists>y \<in> set ?ys. sel = Some y \<and> attr_key h attr n y = k"
    using attr_scan.scan_first [OF f] by blast+
  then have "x \<in> set ?ys" "attr_key h attr n x = k"
    using x(1) by (auto split: if_splits)
  then show ?thesis
    using min x(2) by (auto simp: best_local_def)
qed

section \<open>The table of local nodes\<close>

lemma node_bitmask_bits:
  "numa_bitmask_isbitset (node_bitmask h i) j \<longleftrightarrow> j = i \<and> i < numa_num_possible_nodes h"
  by (auto simp: node_bitmask_def)
    (auto simp: numa_bitmask_isbitset_def)

lemma populate_cpus_spec:
  assumes "populate_cpus h i cpus m w = Some (MEMKIND_SUCCESS, m', w')"
  shows "length m' = length m \<and>
    (\<forall>c < length m. m' ! c = (if c \<in> set cpus then Some (node_bitmask h i) else m ! c))"
  using assms
proof (induction cpus arbitrary: m w)
  case (Cons c cpus)
  from Cons.prems obtain w1 where "c < length m"
    "populate_cpus h i cpus (m[c := Some (node_bitmask h i)]) w1 = Some (MEMKIND_SUCCESS, m', w')"
    by (auto split: if_splits prod.splits)
  from Cons.IH [OF this(2)] this(1) show ?case
    by (auto simp: nth_list_update)
qed simp

text \<open>The nodes that the loop takes as initiators.\<close>

fun initiators :: "hwloc_node list \<Rightarrow> nat list \<Rightarrow> hwloc_node list" where
  "initiators [] seen = []"
| "initiators (n # ns) seen =
    (if set (hw_cpuset n) \<subseteq> set seen then initiators ns seen
     else n # initiators ns (seen @ hw_cpuset n))"

text \<open>The mask of a CPU is the one stored for the last initiator that contains it.\<close>

definition cpu_mask_ok ::
  "'w host \<Rightarrow> memory_attribute_t \<Rightarrow> hwloc_node list \<Rightarrow> nat \<Rightarrow> bitmask option \<Rightarrow> bool" where
  "cpu_mask_ok h attr inits c entry \<longleftrightarrow>
    (\<forall>before n after. inits = before @ n # after \<longrightarrow> c \<in> set (hw_cpuset n) \<longrightarrow>
       (\<forall>n' \<in> set after. c \<notin> set (hw_cpuset n')) \<longrightarrow>
       (\<exists>local_nodes i. hwloc_local_numanodes h (hw_cpuset n) = Some local_nodes \<and>
          entry = Some (node_bitmask h i) \<and> best_local h attr n local_nodes i))"

lemma cpu_mask_ok_Cons:
  assumes "cpu_mask_ok h attr ns c entry"
    "c \<in> set (hw_cpuset n) \<Longrightarrow> \<forall>n' \<in> set ns. c \<notin> set (hw_cpuset n') \<Longrightarrow>
      \<exists>local_nodes i. hwloc_local_numanodes h (hw_cpuset n) = Some local_nodes \<and>
        entry = Some (node_bitmask h i) \<and> best_local h attr n local_nodes i"
  shows "cpu_mask_ok h attr (n # ns) c entry"
  using assms unfolding cpu_mask_ok_def by (auto simp: Cons_eq_append_conv)

lemma local_nodes_loop_spec:
  assumes "local_nodes_loop h attr ns seen m w = Some (MEMKIND_SUCCESS, m', w')"
  shows "length m' = length m \<and>
    (\<forall>c < length m. cpu_mask_ok h attr (initiators ns seen) c (m' ! c) \<and>
       ((\<forall>n \<in> set (initiators ns seen). c \<notin> set (hw_cpuset n)) \<longrightarrow> m' ! c = m ! c))"
  using assms
proof (induction ns arbitrary: seen m w)
  case Nil
  then show ?case
    by (auto simp: cpu_mask_ok_def)
next
  case (Cons n ns)
  show ?case
  proof (cases "set (hw_cpuset n) \<subseteq> set seen")
    case True
    with Cons show ?thesis
      by auto
  next
    case False
    from Cons.prems obtain ls i m1 w1 where
      ls: "hwloc_local_numanodes h (hw_cpuset n) = Some ls" "choose_local h attr n ls = Some i" and
      p: "populate_cpus h i (hw_cpuset n) m w = Some (MEMKIND_SUCCESS, m1, w1)" and
      rest: "local_nodes_loop h attr ns (seen @ hw_cpuset n) m1 w1 = Some (MEMKIND_SUCCESS, m', w')"
      by (auto simp: False split: option.splits if_splits)
    note ih = Cons.IH [OF rest] and pop = populate_cpus_spec [OF p]
    have "cpu_mask_ok h attr (n # initiators ns (seen @ hw_cpuset n)) c (m' ! c)"
      if "c < length m" for c
      using ih pop that ls choose_local_best [OF ls(2)] by (intro cpu_mask_ok_Cons) auto
    then show ?thesis
      using ih pop False by auto
  qed
qed

section \<open>Properties\<close>

text \<open>
  C6. When \<^verbatim>\<open>get_per_cpu_local_nodes_mask\<close> succeeds, every CPU of an initiator node has a mask with one
  bit, that of a local node of the initiator which no other local node beats: in memory size for
  the capacity kinds, in bandwidth or latency for the others, with the tie-break the code uses.
\<close>

theorem local_nodes_mask_best:
  assumes "get_per_cpu_local_nodes_mask h old attr w = Some ((MEMKIND_SUCCESS, p), w')"
  shows "\<exists>masks. p = Live masks \<and> length masks = numa_num_configured_cpus h \<and>
    (\<forall>c < length masks. cpu_mask_ok h attr (initiators (hwloc_numanodes h) []) c (masks ! c))"
proof -
  from assms obtain masks w1 where "p = Live masks"
    and "local_nodes_loop h attr (hwloc_numanodes h) [] (replicate (numa_num_configured_cpus h) None) w1
      = Some (MEMKIND_SUCCESS, masks, w')"
    by (auto simp: get_per_cpu_local_nodes_mask_def Let_def split: if_splits prod.splits option.splits)
  with local_nodes_loop_spec [OF this(2)] show ?thesis
    by auto
qed

theorem local_nodes_mask_best_witness:
  "get_per_cpu_local_nodes_mask sample_host Null MEM_ATTR_BANDWIDTH 0 =
      Some ((MEMKIND_SUCCESS, Live (map (Some \<circ> node_bitmask sample_host) [2, 2, 3, 3])), 0) \<and>
    cpu_mask_ok sample_host MEM_ATTR_BANDWIDTH (map sample_node [0, 1]) 3
      (Some (node_bitmask sample_host 3))"
proof -
  have run: "get_per_cpu_local_nodes_mask sample_host Null MEM_ATTR_BANDWIDTH 0 =
      Some ((MEMKIND_SUCCESS, Live (map (Some \<circ> node_bitmask sample_host) [2, 2, 3, 3])), 0)"
    by code_simp
  have "initiators (hwloc_numanodes sample_host) [] = map sample_node [0, 1]"
    by (simp add: sample_node_def)
  then show ?thesis
    using run local_nodes_mask_best [OF run] by (auto dest!: spec [of _ 3])
qed

end
