(* ===== verification/Kinds.thy ===== *)
theory Kinds
  imports Prelude
begin

text \<open>
  The kinds of memory: \<^verbatim>\<open>struct memkind\<close> and \<^verbatim>\<open>struct memkind_ops\<close> of
  \<^verbatim>\<open>include/memkind/internal/memkind_private.h\<close>, the operation tables of every kind
  (\<^verbatim>\<open>src/memkind_default.c\<close>, \<^verbatim>\<open>memkind_hbw.c\<close>, \<^verbatim>\<open>memkind_dax_kmem.c\<close>, \<dots>) and the static kinds
  and the registry initialiser of \<^verbatim>\<open>src/memkind.c\<close>.

  A function pointer of an operation table is a constructor of a datatype, one datatype per C
  function type, and a \<open>NULL\<close> pointer is \<open>None\<close>; the components dispatch on the constructor. A
  \<^verbatim>\<open>struct memkind *\<close> is a value of \<open>memkind_t\<close>: one of the 23 static kinds or a dynamic kind, named
  by the address \<^verbatim>\<open>jemk_calloc\<close> gave it.

  The lemmas show that the tables agree with each other and with what the code expects of them:
  every table has the operations that \<^verbatim>\<open>memkind_create\<close> and the public entry points call, every
  table that binds memory has a mode and a node mask, and \<^verbatim>\<open>supported_args\<close> names kinds whose
  tables implement the requested policy and page size.
\<close>

section \<open>Function pointers\<close>

datatype create_fn =
    Memkind_default_create
  | Memkind_arena_create
  | Memkind_pmem_create
  | Memkind_fixed_create

datatype destroy_fn =
    Memkind_default_destroy
  | Memkind_pmem_destroy
  | Memkind_fixed_destroy
  | Memkind_arena_finalize
  | Memkind_regular_finalize
  | Memkind_hi_cap_finalize
  | Memkind_hi_cap_preferred_finalize
  | Memkind_hi_cap_loc_finalize
  | Memkind_hi_cap_loc_preferred_finalize
  | Memkind_low_lat_loc_finalize
  | Memkind_low_lat_loc_preferred_finalize
  | Memkind_hi_bw_loc_finalize
  | Memkind_hi_bw_loc_preferred_finalize
  | Tbb_destroy

datatype malloc_fn =
    Memkind_default_malloc
  | Memkind_arena_malloc
  | Tbb_pool_malloc

datatype calloc_fn =
    Memkind_default_calloc
  | Memkind_arena_calloc
  | Tbb_pool_calloc

datatype posix_memalign_fn =
    Memkind_default_posix_memalign
  | Memkind_arena_posix_memalign
  | Tbb_pool_posix_memalign

datatype realloc_fn =
    Memkind_default_realloc
  | Memkind_arena_realloc
  | Tbb_pool_realloc

datatype free_fn =
    Memkind_default_free
  | Memkind_arena_free
  | Tbb_pool_free

datatype mmap_fn =
    Memkind_pmem_mmap
  | Memkind_fixed_mmap

datatype mbind_fn =
    Memkind_default_mbind

datatype madvise_fn =
    Memkind_nohugepage_madvise

datatype get_mmap_flags_fn =
    Memkind_hugetlb_get_mmap_flags
  | Memkind_default_get_mmap_flags
  | Memkind_pmem_get_mmap_flags

datatype get_mbind_mode_fn =
    Memkind_interleave_get_mbind_mode
  | Memkind_default_get_mbind_mode
  | Memkind_preferred_get_mbind_mode

datatype get_mbind_nodemask_fn =
    Memkind_default_get_mbind_nodemask
  | Memkind_hbw_get_mbind_nodemask
  | Memkind_hbw_all_get_mbind_nodemask
  | Memkind_hbw_get_preferred_mbind_nodemask
  | Memkind_regular_all_get_mbind_nodemask
  | Memkind_dax_kmem_get_mbind_nodemask
  | Memkind_dax_kmem_all_get_mbind_nodemask
  | Memkind_dax_kmem_get_preferred_mbind_nodemask
  | Memkind_hi_cap_get_mbind_nodemask
  | Memkind_hi_cap_preferred_get_mbind_nodemask
  | Memkind_hi_cap_loc_get_mbind_nodemask
  | Memkind_hi_cap_loc_preferred_get_mbind_nodemask
  | Memkind_low_lat_loc_get_mbind_nodemask
  | Memkind_low_lat_loc_preferred_get_mbind_nodemask
  | Memkind_hi_bw_loc_get_mbind_nodemask
  | Memkind_hi_bw_loc_preferred_get_mbind_nodemask

datatype get_arena_fn =
    Memkind_thread_get_arena
  | Memkind_bijective_get_arena

datatype check_available_fn =
    Memkind_hugetlb_check_available_2mb
  | Memkind_hbw_check_available
  | Memkind_hbw_hugetlb_check_available
  | Memkind_regular_check_available
  | Memkind_dax_kmem_check_available
  | Memkind_hi_cap_check_available
  | Memkind_loc_check_available

datatype init_once_fn =
    Memkind_default_init_once
  | Memkind_hugetlb_init_once
  | Memkind_interleave_init_once
  | Memkind_hbw_init_once
  | Memkind_hbw_all_init_once
  | Memkind_hbw_hugetlb_init_once
  | Memkind_hbw_all_hugetlb_init_once
  | Memkind_hbw_preferred_init_once
  | Memkind_hbw_preferred_hugetlb_init_once
  | Memkind_hbw_interleave_init_once
  | Memkind_regular_init_once
  | Memkind_dax_kmem_init_once
  | Memkind_dax_kmem_all_init_once
  | Memkind_dax_kmem_preferred_init_once
  | Memkind_dax_kmem_interleave_init_once
  | Memkind_hi_cap_init_once
  | Memkind_hi_cap_preferred_init_once
  | Memkind_hi_cap_loc_init_once
  | Memkind_hi_cap_loc_preferred_init_once
  | Memkind_low_lat_loc_init_once
  | Memkind_low_lat_loc_preferred_init_once
  | Memkind_hi_bw_loc_init_once
  | Memkind_hi_bw_loc_preferred_init_once

datatype malloc_usable_size_fn =
    Memkind_default_malloc_usable_size
  | Tbb_pool_malloc_usable_size

datatype update_memory_usage_policy_fn =
    Memkind_arena_update_memory_usage_policy
  | Tbb_update_memory_usage_policy

datatype get_stat_fn =
    Memkind_default_get_kind_stat
  | Memkind_arena_get_kind_stat
  | Tbb_get_kind_stat

datatype defrag_reallocate_fn =
    Memkind_arena_defrag_reallocate
  | Tbb_defrag_reallocate

section \<open>The operation table and the kind\<close>

record memkind_ops =
  o_create :: "create_fn option"
  o_destroy :: "destroy_fn option"
  o_malloc :: "malloc_fn option"
  o_calloc :: "calloc_fn option"
  o_posix_memalign :: "posix_memalign_fn option"
  o_realloc :: "realloc_fn option"
  o_free :: "free_fn option"
  o_mmap :: "mmap_fn option"
  o_mbind :: "mbind_fn option"
  o_madvise :: "madvise_fn option"
  o_get_mmap_flags :: "get_mmap_flags_fn option"
  o_get_mbind_mode :: "get_mbind_mode_fn option"
  o_get_mbind_nodemask :: "get_mbind_nodemask_fn option"
  o_get_arena :: "get_arena_fn option"
  o_check_available :: "check_available_fn option"
  o_init_once :: "init_once_fn option"
  o_finalize :: "destroy_fn option"
  o_malloc_usable_size :: "malloc_usable_size_fn option"
  o_update_memory_usage_policy :: "update_memory_usage_policy_fn option"
  o_get_stat :: "get_stat_fn option"
  o_defrag_reallocate :: "defrag_reallocate_fn option"

text \<open>The table with every pointer \<open>NULL\<close>: what a C designated initialiser leaves unmentioned.\<close>

definition no_ops :: memkind_ops where
  "no_ops = \<lparr>o_create = None,
     o_destroy = None,
     o_malloc = None,
     o_calloc = None,
     o_posix_memalign = None,
     o_realloc = None,
     o_free = None,
     o_mmap = None,
     o_mbind = None,
     o_madvise = None,
     o_get_mmap_flags = None,
     o_get_mbind_mode = None,
     o_get_mbind_nodemask = None,
     o_get_arena = None,
     o_check_available = None,
     o_init_once = None,
     o_finalize = None,
     o_malloc_usable_size = None,
     o_update_memory_usage_policy = None,
     o_get_stat = None,
     o_defrag_reallocate = None\<rparr>"

section \<open>Operation tables of the kinds\<close>

definition MEMKIND_DEFAULT_OPS :: memkind_ops where
  "MEMKIND_DEFAULT_OPS = no_ops\<lparr>
     o_create := Some Memkind_default_create,
     o_destroy := Some Memkind_default_destroy,
     o_malloc := Some Memkind_default_malloc,
     o_calloc := Some Memkind_default_calloc,
     o_posix_memalign := Some Memkind_default_posix_memalign,
     o_realloc := Some Memkind_default_realloc,
     o_free := Some Memkind_default_free,
     o_init_once := Some Memkind_default_init_once,
     o_malloc_usable_size := Some Memkind_default_malloc_usable_size,
     o_finalize := Some Memkind_default_destroy,
     o_get_stat := Some Memkind_default_get_kind_stat,
     o_defrag_reallocate := Some Memkind_arena_defrag_reallocate\<rparr>"

definition MEMKIND_HUGETLB_OPS :: memkind_ops where
  "MEMKIND_HUGETLB_OPS = no_ops\<lparr>
     o_create := Some Memkind_arena_create,
     o_destroy := Some Memkind_default_destroy,
     o_malloc := Some Memkind_arena_malloc,
     o_calloc := Some Memkind_arena_calloc,
     o_posix_memalign := Some Memkind_arena_posix_memalign,
     o_realloc := Some Memkind_arena_realloc,
     o_free := Some Memkind_arena_free,
     o_check_available := Some Memkind_hugetlb_check_available_2mb,
     o_get_mmap_flags := Some Memkind_hugetlb_get_mmap_flags,
     o_get_arena := Some Memkind_thread_get_arena,
     o_init_once := Some Memkind_hugetlb_init_once,
     o_malloc_usable_size := Some Memkind_default_malloc_usable_size,
     o_finalize := Some Memkind_arena_finalize,
     o_get_stat := Some Memkind_arena_get_kind_stat,
     o_defrag_reallocate := Some Memkind_arena_defrag_reallocate\<rparr>"

definition MEMKIND_INTERLEAVE_OPS :: memkind_ops where
  "MEMKIND_INTERLEAVE_OPS = no_ops\<lparr>
     o_create := Some Memkind_arena_create,
     o_destroy := Some Memkind_default_destroy,
     o_malloc := Some Memkind_arena_malloc,
     o_calloc := Some Memkind_arena_calloc,
     o_posix_memalign := Some Memkind_arena_posix_memalign,
     o_realloc := Some Memkind_arena_realloc,
     o_free := Some Memkind_arena_free,
     o_mbind := Some Memkind_default_mbind,
     o_madvise := Some Memkind_nohugepage_madvise,
     o_get_mmap_flags := Some Memkind_default_get_mmap_flags,
     o_get_mbind_mode := Some Memkind_interleave_get_mbind_mode,
     o_get_mbind_nodemask := Some Memkind_default_get_mbind_nodemask,
     o_get_arena := Some Memkind_thread_get_arena,
     o_init_once := Some Memkind_interleave_init_once,
     o_malloc_usable_size := Some Memkind_default_malloc_usable_size,
     o_finalize := Some Memkind_arena_finalize,
     o_get_stat := Some Memkind_arena_get_kind_stat,
     o_defrag_reallocate := Some Memkind_arena_defrag_reallocate\<rparr>"

definition MEMKIND_HBW_OPS :: memkind_ops where
  "MEMKIND_HBW_OPS = no_ops\<lparr>
     o_create := Some Memkind_arena_create,
     o_destroy := Some Memkind_default_destroy,
     o_malloc := Some Memkind_arena_malloc,
     o_calloc := Some Memkind_arena_calloc,
     o_posix_memalign := Some Memkind_arena_posix_memalign,
     o_realloc := Some Memkind_arena_realloc,
     o_free := Some Memkind_arena_free,
     o_check_available := Some Memkind_hbw_check_available,
     o_mbind := Some Memkind_default_mbind,
     o_get_mmap_flags := Some Memkind_default_get_mmap_flags,
     o_get_mbind_mode := Some Memkind_default_get_mbind_mode,
     o_get_mbind_nodemask := Some Memkind_hbw_get_mbind_nodemask,
     o_get_arena := Some Memkind_thread_get_arena,
     o_init_once := Some Memkind_hbw_init_once,
     o_malloc_usable_size := Some Memkind_default_malloc_usable_size,
     o_finalize := Some Memkind_arena_finalize,
     o_get_stat := Some Memkind_arena_get_kind_stat,
     o_defrag_reallocate := Some Memkind_arena_defrag_reallocate\<rparr>"

definition MEMKIND_HBW_ALL_OPS :: memkind_ops where
  "MEMKIND_HBW_ALL_OPS = no_ops\<lparr>
     o_create := Some Memkind_arena_create,
     o_destroy := Some Memkind_default_destroy,
     o_malloc := Some Memkind_arena_malloc,
     o_calloc := Some Memkind_arena_calloc,
     o_posix_memalign := Some Memkind_arena_posix_memalign,
     o_realloc := Some Memkind_arena_realloc,
     o_free := Some Memkind_arena_free,
     o_check_available := Some Memkind_hbw_check_available,
     o_mbind := Some Memkind_default_mbind,
     o_get_mmap_flags := Some Memkind_default_get_mmap_flags,
     o_get_mbind_mode := Some Memkind_default_get_mbind_mode,
     o_get_mbind_nodemask := Some Memkind_hbw_all_get_mbind_nodemask,
     o_get_arena := Some Memkind_thread_get_arena,
     o_init_once := Some Memkind_hbw_all_init_once,
     o_malloc_usable_size := Some Memkind_default_malloc_usable_size,
     o_finalize := Some Memkind_arena_finalize,
     o_get_stat := Some Memkind_arena_get_kind_stat,
     o_defrag_reallocate := Some Memkind_arena_defrag_reallocate\<rparr>"

definition MEMKIND_HBW_HUGETLB_OPS :: memkind_ops where
  "MEMKIND_HBW_HUGETLB_OPS = no_ops\<lparr>
     o_create := Some Memkind_arena_create,
     o_destroy := Some Memkind_default_destroy,
     o_malloc := Some Memkind_arena_malloc,
     o_calloc := Some Memkind_arena_calloc,
     o_posix_memalign := Some Memkind_arena_posix_memalign,
     o_realloc := Some Memkind_arena_realloc,
     o_free := Some Memkind_arena_free,
     o_check_available := Some Memkind_hbw_hugetlb_check_available,
     o_mbind := Some Memkind_default_mbind,
     o_get_mmap_flags := Some Memkind_hugetlb_get_mmap_flags,
     o_get_mbind_mode := Some Memkind_default_get_mbind_mode,
     o_get_mbind_nodemask := Some Memkind_hbw_get_mbind_nodemask,
     o_get_arena := Some Memkind_thread_get_arena,
     o_init_once := Some Memkind_hbw_hugetlb_init_once,
     o_malloc_usable_size := Some Memkind_default_malloc_usable_size,
     o_finalize := Some Memkind_arena_finalize,
     o_get_stat := Some Memkind_arena_get_kind_stat,
     o_defrag_reallocate := Some Memkind_arena_defrag_reallocate\<rparr>"

definition MEMKIND_HBW_ALL_HUGETLB_OPS :: memkind_ops where
  "MEMKIND_HBW_ALL_HUGETLB_OPS = no_ops\<lparr>
     o_create := Some Memkind_arena_create,
     o_destroy := Some Memkind_default_destroy,
     o_malloc := Some Memkind_arena_malloc,
     o_calloc := Some Memkind_arena_calloc,
     o_posix_memalign := Some Memkind_arena_posix_memalign,
     o_realloc := Some Memkind_arena_realloc,
     o_free := Some Memkind_arena_free,
     o_check_available := Some Memkind_hbw_hugetlb_check_available,
     o_mbind := Some Memkind_default_mbind,
     o_get_mmap_flags := Some Memkind_hugetlb_get_mmap_flags,
     o_get_mbind_mode := Some Memkind_default_get_mbind_mode,
     o_get_mbind_nodemask := Some Memkind_hbw_all_get_mbind_nodemask,
     o_get_arena := Some Memkind_thread_get_arena,
     o_init_once := Some Memkind_hbw_all_hugetlb_init_once,
     o_malloc_usable_size := Some Memkind_default_malloc_usable_size,
     o_finalize := Some Memkind_arena_finalize,
     o_get_stat := Some Memkind_arena_get_kind_stat,
     o_defrag_reallocate := Some Memkind_arena_defrag_reallocate\<rparr>"

definition MEMKIND_HBW_PREFERRED_OPS :: memkind_ops where
  "MEMKIND_HBW_PREFERRED_OPS = no_ops\<lparr>
     o_create := Some Memkind_arena_create,
     o_destroy := Some Memkind_default_destroy,
     o_malloc := Some Memkind_arena_malloc,
     o_calloc := Some Memkind_arena_calloc,
     o_posix_memalign := Some Memkind_arena_posix_memalign,
     o_realloc := Some Memkind_arena_realloc,
     o_free := Some Memkind_arena_free,
     o_check_available := Some Memkind_hbw_check_available,
     o_mbind := Some Memkind_default_mbind,
     o_get_mmap_flags := Some Memkind_default_get_mmap_flags,
     o_get_mbind_mode := Some Memkind_preferred_get_mbind_mode,
     o_get_mbind_nodemask := Some Memkind_hbw_get_preferred_mbind_nodemask,
     o_get_arena := Some Memkind_thread_get_arena,
     o_init_once := Some Memkind_hbw_preferred_init_once,
     o_malloc_usable_size := Some Memkind_default_malloc_usable_size,
     o_finalize := Some Memkind_arena_finalize,
     o_get_stat := Some Memkind_arena_get_kind_stat,
     o_defrag_reallocate := Some Memkind_arena_defrag_reallocate\<rparr>"

definition MEMKIND_HBW_PREFERRED_HUGETLB_OPS :: memkind_ops where
  "MEMKIND_HBW_PREFERRED_HUGETLB_OPS = no_ops\<lparr>
     o_create := Some Memkind_arena_create,
     o_destroy := Some Memkind_default_destroy,
     o_malloc := Some Memkind_arena_malloc,
     o_calloc := Some Memkind_arena_calloc,
     o_posix_memalign := Some Memkind_arena_posix_memalign,
     o_realloc := Some Memkind_arena_realloc,
     o_free := Some Memkind_arena_free,
     o_check_available := Some Memkind_hbw_hugetlb_check_available,
     o_mbind := Some Memkind_default_mbind,
     o_get_mmap_flags := Some Memkind_hugetlb_get_mmap_flags,
     o_get_mbind_mode := Some Memkind_preferred_get_mbind_mode,
     o_get_mbind_nodemask := Some Memkind_hbw_get_preferred_mbind_nodemask,
     o_get_arena := Some Memkind_thread_get_arena,
     o_init_once := Some Memkind_hbw_preferred_hugetlb_init_once,
     o_malloc_usable_size := Some Memkind_default_malloc_usable_size,
     o_finalize := Some Memkind_arena_finalize,
     o_get_stat := Some Memkind_arena_get_kind_stat,
     o_defrag_reallocate := Some Memkind_arena_defrag_reallocate\<rparr>"

definition MEMKIND_HBW_INTERLEAVE_OPS :: memkind_ops where
  "MEMKIND_HBW_INTERLEAVE_OPS = no_ops\<lparr>
     o_create := Some Memkind_arena_create,
     o_destroy := Some Memkind_default_destroy,
     o_malloc := Some Memkind_arena_malloc,
     o_calloc := Some Memkind_arena_calloc,
     o_posix_memalign := Some Memkind_arena_posix_memalign,
     o_realloc := Some Memkind_arena_realloc,
     o_free := Some Memkind_arena_free,
     o_check_available := Some Memkind_hbw_check_available,
     o_mbind := Some Memkind_default_mbind,
     o_madvise := Some Memkind_nohugepage_madvise,
     o_get_mmap_flags := Some Memkind_default_get_mmap_flags,
     o_get_mbind_mode := Some Memkind_interleave_get_mbind_mode,
     o_get_mbind_nodemask := Some Memkind_hbw_all_get_mbind_nodemask,
     o_get_arena := Some Memkind_thread_get_arena,
     o_init_once := Some Memkind_hbw_interleave_init_once,
     o_malloc_usable_size := Some Memkind_default_malloc_usable_size,
     o_finalize := Some Memkind_arena_finalize,
     o_get_stat := Some Memkind_arena_get_kind_stat,
     o_defrag_reallocate := Some Memkind_arena_defrag_reallocate\<rparr>"

definition MEMKIND_REGULAR_OPS :: memkind_ops where
  "MEMKIND_REGULAR_OPS = no_ops\<lparr>
     o_create := Some Memkind_arena_create,
     o_destroy := Some Memkind_default_destroy,
     o_malloc := Some Memkind_arena_malloc,
     o_calloc := Some Memkind_arena_calloc,
     o_posix_memalign := Some Memkind_arena_posix_memalign,
     o_realloc := Some Memkind_arena_realloc,
     o_free := Some Memkind_arena_free,
     o_check_available := Some Memkind_regular_check_available,
     o_mbind := Some Memkind_default_mbind,
     o_get_mmap_flags := Some Memkind_default_get_mmap_flags,
     o_get_mbind_mode := Some Memkind_default_get_mbind_mode,
     o_get_mbind_nodemask := Some Memkind_regular_all_get_mbind_nodemask,
     o_get_arena := Some Memkind_thread_get_arena,
     o_init_once := Some Memkind_regular_init_once,
     o_malloc_usable_size := Some Memkind_default_malloc_usable_size,
     o_finalize := Some Memkind_regular_finalize,
     o_get_stat := Some Memkind_arena_get_kind_stat,
     o_defrag_reallocate := Some Memkind_arena_defrag_reallocate\<rparr>"

definition MEMKIND_DAX_KMEM_OPS :: memkind_ops where
  "MEMKIND_DAX_KMEM_OPS = no_ops\<lparr>
     o_create := Some Memkind_arena_create,
     o_destroy := Some Memkind_default_destroy,
     o_malloc := Some Memkind_arena_malloc,
     o_calloc := Some Memkind_arena_calloc,
     o_posix_memalign := Some Memkind_arena_posix_memalign,
     o_realloc := Some Memkind_arena_realloc,
     o_free := Some Memkind_arena_free,
     o_check_available := Some Memkind_dax_kmem_check_available,
     o_mbind := Some Memkind_default_mbind,
     o_get_mmap_flags := Some Memkind_default_get_mmap_flags,
     o_get_mbind_mode := Some Memkind_default_get_mbind_mode,
     o_get_mbind_nodemask := Some Memkind_dax_kmem_get_mbind_nodemask,
     o_get_arena := Some Memkind_thread_get_arena,
     o_init_once := Some Memkind_dax_kmem_init_once,
     o_malloc_usable_size := Some Memkind_default_malloc_usable_size,
     o_finalize := Some Memkind_arena_finalize,
     o_get_stat := Some Memkind_arena_get_kind_stat,
     o_defrag_reallocate := Some Memkind_arena_defrag_reallocate\<rparr>"

definition MEMKIND_DAX_KMEM_ALL_OPS :: memkind_ops where
  "MEMKIND_DAX_KMEM_ALL_OPS = no_ops\<lparr>
     o_create := Some Memkind_arena_create,
     o_destroy := Some Memkind_default_destroy,
     o_malloc := Some Memkind_arena_malloc,
     o_calloc := Some Memkind_arena_calloc,
     o_posix_memalign := Some Memkind_arena_posix_memalign,
     o_realloc := Some Memkind_arena_realloc,
     o_free := Some Memkind_arena_free,
     o_check_available := Some Memkind_dax_kmem_check_available,
     o_mbind := Some Memkind_default_mbind,
     o_get_mmap_flags := Some Memkind_default_get_mmap_flags,
     o_get_mbind_mode := Some Memkind_default_get_mbind_mode,
     o_get_mbind_nodemask := Some Memkind_dax_kmem_all_get_mbind_nodemask,
     o_get_arena := Some Memkind_thread_get_arena,
     o_init_once := Some Memkind_dax_kmem_all_init_once,
     o_malloc_usable_size := Some Memkind_default_malloc_usable_size,
     o_finalize := Some Memkind_arena_finalize,
     o_get_stat := Some Memkind_arena_get_kind_stat,
     o_defrag_reallocate := Some Memkind_arena_defrag_reallocate\<rparr>"

definition MEMKIND_DAX_KMEM_PREFERRED_OPS :: memkind_ops where
  "MEMKIND_DAX_KMEM_PREFERRED_OPS = no_ops\<lparr>
     o_create := Some Memkind_arena_create,
     o_destroy := Some Memkind_default_destroy,
     o_malloc := Some Memkind_arena_malloc,
     o_calloc := Some Memkind_arena_calloc,
     o_posix_memalign := Some Memkind_arena_posix_memalign,
     o_realloc := Some Memkind_arena_realloc,
     o_free := Some Memkind_arena_free,
     o_check_available := Some Memkind_dax_kmem_check_available,
     o_mbind := Some Memkind_default_mbind,
     o_get_mmap_flags := Some Memkind_default_get_mmap_flags,
     o_get_mbind_mode := Some Memkind_preferred_get_mbind_mode,
     o_get_mbind_nodemask := Some Memkind_dax_kmem_get_preferred_mbind_nodemask,
     o_get_arena := Some Memkind_thread_get_arena,
     o_init_once := Some Memkind_dax_kmem_preferred_init_once,
     o_malloc_usable_size := Some Memkind_default_malloc_usable_size,
     o_finalize := Some Memkind_arena_finalize,
     o_get_stat := Some Memkind_arena_get_kind_stat,
     o_defrag_reallocate := Some Memkind_arena_defrag_reallocate\<rparr>"

definition MEMKIND_DAX_KMEM_INTERLEAVE_OPS :: memkind_ops where
  "MEMKIND_DAX_KMEM_INTERLEAVE_OPS = no_ops\<lparr>
     o_create := Some Memkind_arena_create,
     o_destroy := Some Memkind_default_destroy,
     o_malloc := Some Memkind_arena_malloc,
     o_calloc := Some Memkind_arena_calloc,
     o_posix_memalign := Some Memkind_arena_posix_memalign,
     o_realloc := Some Memkind_arena_realloc,
     o_free := Some Memkind_arena_free,
     o_check_available := Some Memkind_dax_kmem_check_available,
     o_mbind := Some Memkind_default_mbind,
     o_get_mmap_flags := Some Memkind_default_get_mmap_flags,
     o_get_mbind_mode := Some Memkind_interleave_get_mbind_mode,
     o_get_mbind_nodemask := Some Memkind_dax_kmem_all_get_mbind_nodemask,
     o_get_arena := Some Memkind_thread_get_arena,
     o_init_once := Some Memkind_dax_kmem_interleave_init_once,
     o_malloc_usable_size := Some Memkind_default_malloc_usable_size,
     o_finalize := Some Memkind_arena_finalize,
     o_get_stat := Some Memkind_arena_get_kind_stat,
     o_defrag_reallocate := Some Memkind_arena_defrag_reallocate\<rparr>"

definition MEMKIND_HIGHEST_CAPACITY_OPS :: memkind_ops where
  "MEMKIND_HIGHEST_CAPACITY_OPS = no_ops\<lparr>
     o_create := Some Memkind_arena_create,
     o_destroy := Some Memkind_default_destroy,
     o_malloc := Some Memkind_arena_malloc,
     o_calloc := Some Memkind_arena_calloc,
     o_posix_memalign := Some Memkind_arena_posix_memalign,
     o_realloc := Some Memkind_arena_realloc,
     o_free := Some Memkind_arena_free,
     o_check_available := Some Memkind_hi_cap_check_available,
     o_mbind := Some Memkind_default_mbind,
     o_get_mmap_flags := Some Memkind_default_get_mmap_flags,
     o_get_mbind_mode := Some Memkind_default_get_mbind_mode,
     o_get_mbind_nodemask := Some Memkind_hi_cap_get_mbind_nodemask,
     o_get_arena := Some Memkind_thread_get_arena,
     o_init_once := Some Memkind_hi_cap_init_once,
     o_malloc_usable_size := Some Memkind_default_malloc_usable_size,
     o_finalize := Some Memkind_hi_cap_finalize,
     o_get_stat := Some Memkind_arena_get_kind_stat,
     o_defrag_reallocate := Some Memkind_arena_defrag_reallocate\<rparr>"

definition MEMKIND_HIGHEST_CAPACITY_PREFERRED_OPS :: memkind_ops where
  "MEMKIND_HIGHEST_CAPACITY_PREFERRED_OPS = no_ops\<lparr>
     o_create := Some Memkind_arena_create,
     o_destroy := Some Memkind_default_destroy,
     o_malloc := Some Memkind_arena_malloc,
     o_calloc := Some Memkind_arena_calloc,
     o_posix_memalign := Some Memkind_arena_posix_memalign,
     o_realloc := Some Memkind_arena_realloc,
     o_free := Some Memkind_arena_free,
     o_check_available := Some Memkind_hi_cap_check_available,
     o_mbind := Some Memkind_default_mbind,
     o_get_mmap_flags := Some Memkind_default_get_mmap_flags,
     o_get_mbind_mode := Some Memkind_preferred_get_mbind_mode,
     o_get_mbind_nodemask := Some Memkind_hi_cap_preferred_get_mbind_nodemask,
     o_get_arena := Some Memkind_thread_get_arena,
     o_init_once := Some Memkind_hi_cap_preferred_init_once,
     o_malloc_usable_size := Some Memkind_default_malloc_usable_size,
     o_finalize := Some Memkind_hi_cap_preferred_finalize,
     o_get_stat := Some Memkind_arena_get_kind_stat,
     o_defrag_reallocate := Some Memkind_arena_defrag_reallocate\<rparr>"

definition MEMKIND_HIGHEST_CAPACITY_LOCAL_OPS :: memkind_ops where
  "MEMKIND_HIGHEST_CAPACITY_LOCAL_OPS = no_ops\<lparr>
     o_create := Some Memkind_arena_create,
     o_destroy := Some Memkind_default_destroy,
     o_malloc := Some Memkind_arena_malloc,
     o_calloc := Some Memkind_arena_calloc,
     o_posix_memalign := Some Memkind_arena_posix_memalign,
     o_realloc := Some Memkind_arena_realloc,
     o_free := Some Memkind_arena_free,
     o_check_available := Some Memkind_loc_check_available,
     o_mbind := Some Memkind_default_mbind,
     o_get_mmap_flags := Some Memkind_default_get_mmap_flags,
     o_get_mbind_mode := Some Memkind_default_get_mbind_mode,
     o_get_mbind_nodemask := Some Memkind_hi_cap_loc_get_mbind_nodemask,
     o_get_arena := Some Memkind_thread_get_arena,
     o_init_once := Some Memkind_hi_cap_loc_init_once,
     o_malloc_usable_size := Some Memkind_default_malloc_usable_size,
     o_finalize := Some Memkind_hi_cap_loc_finalize,
     o_get_stat := Some Memkind_arena_get_kind_stat,
     o_defrag_reallocate := Some Memkind_arena_defrag_reallocate\<rparr>"

definition MEMKIND_HIGHEST_CAPACITY_LOCAL_PREFERRED_OPS :: memkind_ops where
  "MEMKIND_HIGHEST_CAPACITY_LOCAL_PREFERRED_OPS = no_ops\<lparr>
     o_create := Some Memkind_arena_create,
     o_destroy := Some Memkind_default_destroy,
     o_malloc := Some Memkind_arena_malloc,
     o_calloc := Some Memkind_arena_calloc,
     o_posix_memalign := Some Memkind_arena_posix_memalign,
     o_realloc := Some Memkind_arena_realloc,
     o_free := Some Memkind_arena_free,
     o_check_available := Some Memkind_loc_check_available,
     o_mbind := Some Memkind_default_mbind,
     o_get_mmap_flags := Some Memkind_default_get_mmap_flags,
     o_get_mbind_mode := Some Memkind_preferred_get_mbind_mode,
     o_get_mbind_nodemask := Some Memkind_hi_cap_loc_preferred_get_mbind_nodemask,
     o_get_arena := Some Memkind_thread_get_arena,
     o_init_once := Some Memkind_hi_cap_loc_preferred_init_once,
     o_malloc_usable_size := Some Memkind_default_malloc_usable_size,
     o_finalize := Some Memkind_hi_cap_loc_preferred_finalize,
     o_get_stat := Some Memkind_arena_get_kind_stat,
     o_defrag_reallocate := Some Memkind_arena_defrag_reallocate\<rparr>"

definition MEMKIND_LOWEST_LATENCY_LOCAL_OPS :: memkind_ops where
  "MEMKIND_LOWEST_LATENCY_LOCAL_OPS = no_ops\<lparr>
     o_create := Some Memkind_arena_create,
     o_destroy := Some Memkind_default_destroy,
     o_malloc := Some Memkind_arena_malloc,
     o_calloc := Some Memkind_arena_calloc,
     o_posix_memalign := Some Memkind_arena_posix_memalign,
     o_realloc := Some Memkind_arena_realloc,
     o_free := Some Memkind_arena_free,
     o_check_available := Some Memkind_loc_check_available,
     o_mbind := Some Memkind_default_mbind,
     o_get_mmap_flags := Some Memkind_default_get_mmap_flags,
     o_get_mbind_mode := Some Memkind_default_get_mbind_mode,
     o_get_mbind_nodemask := Some Memkind_low_lat_loc_get_mbind_nodemask,
     o_get_arena := Some Memkind_thread_get_arena,
     o_init_once := Some Memkind_low_lat_loc_init_once,
     o_malloc_usable_size := Some Memkind_default_malloc_usable_size,
     o_finalize := Some Memkind_low_lat_loc_finalize,
     o_get_stat := Some Memkind_arena_get_kind_stat,
     o_defrag_reallocate := Some Memkind_arena_defrag_reallocate\<rparr>"

definition MEMKIND_LOWEST_LATENCY_LOCAL_PREFERRED_OPS :: memkind_ops where
  "MEMKIND_LOWEST_LATENCY_LOCAL_PREFERRED_OPS = no_ops\<lparr>
     o_create := Some Memkind_arena_create,
     o_destroy := Some Memkind_default_destroy,
     o_malloc := Some Memkind_arena_malloc,
     o_calloc := Some Memkind_arena_calloc,
     o_posix_memalign := Some Memkind_arena_posix_memalign,
     o_realloc := Some Memkind_arena_realloc,
     o_free := Some Memkind_arena_free,
     o_check_available := Some Memkind_loc_check_available,
     o_mbind := Some Memkind_default_mbind,
     o_get_mmap_flags := Some Memkind_default_get_mmap_flags,
     o_get_mbind_mode := Some Memkind_preferred_get_mbind_mode,
     o_get_mbind_nodemask := Some Memkind_low_lat_loc_preferred_get_mbind_nodemask,
     o_get_arena := Some Memkind_thread_get_arena,
     o_init_once := Some Memkind_low_lat_loc_preferred_init_once,
     o_malloc_usable_size := Some Memkind_default_malloc_usable_size,
     o_finalize := Some Memkind_low_lat_loc_preferred_finalize,
     o_get_stat := Some Memkind_arena_get_kind_stat,
     o_defrag_reallocate := Some Memkind_arena_defrag_reallocate\<rparr>"

definition MEMKIND_HIGHEST_BANDWIDTH_LOCAL_OPS :: memkind_ops where
  "MEMKIND_HIGHEST_BANDWIDTH_LOCAL_OPS = no_ops\<lparr>
     o_create := Some Memkind_arena_create,
     o_destroy := Some Memkind_default_destroy,
     o_malloc := Some Memkind_arena_malloc,
     o_calloc := Some Memkind_arena_calloc,
     o_posix_memalign := Some Memkind_arena_posix_memalign,
     o_realloc := Some Memkind_arena_realloc,
     o_free := Some Memkind_arena_free,
     o_check_available := Some Memkind_loc_check_available,
     o_mbind := Some Memkind_default_mbind,
     o_get_mmap_flags := Some Memkind_default_get_mmap_flags,
     o_get_mbind_mode := Some Memkind_default_get_mbind_mode,
     o_get_mbind_nodemask := Some Memkind_hi_bw_loc_get_mbind_nodemask,
     o_get_arena := Some Memkind_thread_get_arena,
     o_init_once := Some Memkind_hi_bw_loc_init_once,
     o_malloc_usable_size := Some Memkind_default_malloc_usable_size,
     o_finalize := Some Memkind_hi_bw_loc_finalize,
     o_get_stat := Some Memkind_arena_get_kind_stat,
     o_defrag_reallocate := Some Memkind_arena_defrag_reallocate\<rparr>"

definition MEMKIND_HIGHEST_BANDWIDTH_LOCAL_PREFERRED_OPS :: memkind_ops where
  "MEMKIND_HIGHEST_BANDWIDTH_LOCAL_PREFERRED_OPS = no_ops\<lparr>
     o_create := Some Memkind_arena_create,
     o_destroy := Some Memkind_default_destroy,
     o_malloc := Some Memkind_arena_malloc,
     o_calloc := Some Memkind_arena_calloc,
     o_posix_memalign := Some Memkind_arena_posix_memalign,
     o_realloc := Some Memkind_arena_realloc,
     o_free := Some Memkind_arena_free,
     o_check_available := Some Memkind_loc_check_available,
     o_mbind := Some Memkind_default_mbind,
     o_get_mmap_flags := Some Memkind_default_get_mmap_flags,
     o_get_mbind_mode := Some Memkind_preferred_get_mbind_mode,
     o_get_mbind_nodemask := Some Memkind_hi_bw_loc_preferred_get_mbind_nodemask,
     o_get_arena := Some Memkind_thread_get_arena,
     o_init_once := Some Memkind_hi_bw_loc_preferred_init_once,
     o_malloc_usable_size := Some Memkind_default_malloc_usable_size,
     o_finalize := Some Memkind_hi_bw_loc_preferred_finalize,
     o_get_stat := Some Memkind_arena_get_kind_stat,
     o_defrag_reallocate := Some Memkind_arena_defrag_reallocate\<rparr>"

definition MEMKIND_PMEM_OPS :: memkind_ops where
  "MEMKIND_PMEM_OPS = no_ops\<lparr>
     o_create := Some Memkind_pmem_create,
     o_destroy := Some Memkind_pmem_destroy,
     o_malloc := Some Memkind_arena_malloc,
     o_calloc := Some Memkind_arena_calloc,
     o_posix_memalign := Some Memkind_arena_posix_memalign,
     o_realloc := Some Memkind_arena_realloc,
     o_free := Some Memkind_arena_free,
     o_mmap := Some Memkind_pmem_mmap,
     o_get_mmap_flags := Some Memkind_pmem_get_mmap_flags,
     o_get_arena := Some Memkind_thread_get_arena,
     o_malloc_usable_size := Some Memkind_default_malloc_usable_size,
     o_finalize := Some Memkind_pmem_destroy,
     o_update_memory_usage_policy := Some Memkind_arena_update_memory_usage_policy,
     o_get_stat := Some Memkind_arena_get_kind_stat,
     o_defrag_reallocate := Some Memkind_arena_defrag_reallocate\<rparr>"

definition MEMKIND_FIXED_OPS :: memkind_ops where
  "MEMKIND_FIXED_OPS = no_ops\<lparr>
     o_create := Some Memkind_fixed_create,
     o_destroy := Some Memkind_fixed_destroy,
     o_malloc := Some Memkind_arena_malloc,
     o_calloc := Some Memkind_arena_calloc,
     o_posix_memalign := Some Memkind_arena_posix_memalign,
     o_realloc := Some Memkind_arena_realloc,
     o_free := Some Memkind_arena_free,
     o_mmap := Some Memkind_fixed_mmap,
     o_get_mmap_flags := None,
     o_get_arena := Some Memkind_thread_get_arena,
     o_malloc_usable_size := Some Memkind_default_malloc_usable_size,
     o_finalize := Some Memkind_fixed_destroy,
     o_update_memory_usage_policy := Some Memkind_arena_update_memory_usage_policy,
     o_get_stat := Some Memkind_arena_get_kind_stat,
     o_defrag_reallocate := Some Memkind_arena_defrag_reallocate\<rparr>"

section \<open>Private data and the kind structure\<close>

text \<open>
  \<^verbatim>\<open>struct memkind_pmem\<close> and \<^verbatim>\<open>struct memkind_fixed\<close> without their mutexes, and what \<^verbatim>\<open>kind->priv\<close>
  points to: the structure is only reached through the kind, so it is kept inside it together
  with its address; so is the string \<^verbatim>\<open>dir\<close>. \<open>off_t\<close> is the 64-bit word the code compares with
  \<open>size_t\<close> values.
\<close>

record memkind_pmem =
  pm_fd :: int
  pm_offset :: u64
  pm_max_size :: u64
  pm_dir :: "ptr \<times> string"
  pm_current_size :: u64

record memkind_fixed =
  fx_addr :: ptr
  fx_size :: u64
  fx_current :: u64

datatype priv = Priv_null | Priv_pmem ptr memkind_pmem | Priv_fixed ptr memkind_fixed | Priv_tbb ptr

primrec priv_addr :: "priv \<Rightarrow> ptr" where
  "priv_addr Priv_null = NULL"
| "priv_addr (Priv_pmem p d) = p"
| "priv_addr (Priv_fixed p d) = p"
| "priv_addr (Priv_tbb p) = p"

text \<open>
  \<^verbatim>\<open>struct memkind\<close>; \<^verbatim>\<open>arena_map\<close> is unused since 1.2 and \<^verbatim>\<open>arena_key\<close> is only used by the TLS
  variant. \<open>k_init_once\<close> says whether the \<^verbatim>\<open>pthread_once_t\<close> has fired.
\<close>

record memkind =
  k_ops :: memkind_ops
  k_partition :: u32
  k_name :: string
  k_init_once :: bool
  k_arena_map_len :: u32
  k_priv :: priv
  k_arena_map_mask :: u32
  k_arena_zero :: u32
  k_allow_zero_allocs :: bool

definition blank_kind :: memkind where
  "blank_kind = \<lparr>k_ops = no_ops, k_partition = 0, k_name = [], k_init_once = False,
     k_arena_map_len = 0, k_priv = Priv_null, k_arena_map_mask = 0, k_arena_zero = 0,
     k_allow_zero_allocs = False\<rparr>"

section \<open>The static kinds\<close>

datatype memkind_t =
    MEMKIND_DEFAULT
  | MEMKIND_HUGETLB
  | MEMKIND_INTERLEAVE
  | MEMKIND_HBW
  | MEMKIND_HBW_ALL
  | MEMKIND_HBW_PREFERRED
  | MEMKIND_HBW_HUGETLB
  | MEMKIND_HBW_ALL_HUGETLB
  | MEMKIND_HBW_PREFERRED_HUGETLB
  | MEMKIND_HBW_INTERLEAVE
  | MEMKIND_REGULAR
  | MEMKIND_DAX_KMEM
  | MEMKIND_DAX_KMEM_ALL
  | MEMKIND_DAX_KMEM_PREFERRED
  | MEMKIND_DAX_KMEM_INTERLEAVE
  | MEMKIND_HIGHEST_CAPACITY
  | MEMKIND_HIGHEST_CAPACITY_PREFERRED
  | MEMKIND_HIGHEST_CAPACITY_LOCAL
  | MEMKIND_HIGHEST_CAPACITY_LOCAL_PREFERRED
  | MEMKIND_LOWEST_LATENCY_LOCAL
  | MEMKIND_LOWEST_LATENCY_LOCAL_PREFERRED
  | MEMKIND_HIGHEST_BANDWIDTH_LOCAL
  | MEMKIND_HIGHEST_BANDWIDTH_LOCAL_PREFERRED
  | Dynamic ptr

abbreviation (input) MEMKIND_MAX_KIND :: nat where "MEMKIND_MAX_KIND \<equiv> 512"
abbreviation (input) MEMKIND_NUM_STATIC_KINDS :: nat where "MEMKIND_NUM_STATIC_KINDS \<equiv> 23"
abbreviation (input) MEMKIND_NAME_LENGTH_PRIV :: nat where "MEMKIND_NAME_LENGTH_PRIV \<equiv> 64"
abbreviation (input) ARENA_LIMIT_DEFAULT_KIND :: u32 where "ARENA_LIMIT_DEFAULT_KIND \<equiv> 256"
abbreviation (input) ARENA_LIMIT_PER_KIND :: int where "ARENA_LIMIT_PER_KIND \<equiv> 256"

text \<open>
  The 23 static structures. A dynamic kind starts as the zeroed block \<^verbatim>\<open>jemk_calloc\<close> returns.
\<close>

fun static_kind :: "memkind_t \<Rightarrow> memkind" where
  "static_kind MEMKIND_DEFAULT = blank_kind\<lparr>k_ops := MEMKIND_DEFAULT_OPS, k_name := ''memkind_default'',
     k_arena_zero := 0, k_arena_map_len := ARENA_LIMIT_DEFAULT_KIND - 1\<rparr>"
| "static_kind MEMKIND_HUGETLB = blank_kind\<lparr>k_ops := MEMKIND_HUGETLB_OPS, k_name := ''memkind_hugetlb''\<rparr>"
| "static_kind MEMKIND_INTERLEAVE = blank_kind\<lparr>k_ops := MEMKIND_INTERLEAVE_OPS, k_name := ''memkind_interleave''\<rparr>"
| "static_kind MEMKIND_HBW = blank_kind\<lparr>k_ops := MEMKIND_HBW_OPS, k_name := ''memkind_hbw''\<rparr>"
| "static_kind MEMKIND_HBW_ALL = blank_kind\<lparr>k_ops := MEMKIND_HBW_ALL_OPS, k_name := ''memkind_hbw_all''\<rparr>"
| "static_kind MEMKIND_HBW_PREFERRED = blank_kind\<lparr>k_ops := MEMKIND_HBW_PREFERRED_OPS, k_name := ''memkind_hbw_preferred''\<rparr>"
| "static_kind MEMKIND_HBW_HUGETLB = blank_kind\<lparr>k_ops := MEMKIND_HBW_HUGETLB_OPS, k_name := ''memkind_hbw_hugetlb''\<rparr>"
| "static_kind MEMKIND_HBW_ALL_HUGETLB = blank_kind\<lparr>k_ops := MEMKIND_HBW_ALL_HUGETLB_OPS, k_name := ''memkind_hbw_all_hugetlb''\<rparr>"
| "static_kind MEMKIND_HBW_PREFERRED_HUGETLB = blank_kind\<lparr>k_ops := MEMKIND_HBW_PREFERRED_HUGETLB_OPS, k_name := ''memkind_hbw_preferred_hugetlb''\<rparr>"
| "static_kind MEMKIND_HBW_INTERLEAVE = blank_kind\<lparr>k_ops := MEMKIND_HBW_INTERLEAVE_OPS, k_name := ''memkind_hbw_interleave''\<rparr>"
| "static_kind MEMKIND_REGULAR = blank_kind\<lparr>k_ops := MEMKIND_REGULAR_OPS, k_name := ''memkind_regular''\<rparr>"
| "static_kind MEMKIND_DAX_KMEM = blank_kind\<lparr>k_ops := MEMKIND_DAX_KMEM_OPS, k_name := ''memkind_dax_kmem''\<rparr>"
| "static_kind MEMKIND_DAX_KMEM_ALL = blank_kind\<lparr>k_ops := MEMKIND_DAX_KMEM_ALL_OPS, k_name := ''memkind_dax_kmem_all''\<rparr>"
| "static_kind MEMKIND_DAX_KMEM_PREFERRED = blank_kind\<lparr>k_ops := MEMKIND_DAX_KMEM_PREFERRED_OPS, k_name := ''memkind_dax_kmem_preferred''\<rparr>"
| "static_kind MEMKIND_DAX_KMEM_INTERLEAVE = blank_kind\<lparr>k_ops := MEMKIND_DAX_KMEM_INTERLEAVE_OPS, k_name := ''memkind_dax_kmem_interleave''\<rparr>"
| "static_kind MEMKIND_HIGHEST_CAPACITY = blank_kind\<lparr>k_ops := MEMKIND_HIGHEST_CAPACITY_OPS, k_name := ''memkind_highest_capacity''\<rparr>"
| "static_kind MEMKIND_HIGHEST_CAPACITY_PREFERRED = blank_kind\<lparr>k_ops := MEMKIND_HIGHEST_CAPACITY_PREFERRED_OPS, k_name := ''memkind_highest_capacity_preferred''\<rparr>"
| "static_kind MEMKIND_HIGHEST_CAPACITY_LOCAL = blank_kind\<lparr>k_ops := MEMKIND_HIGHEST_CAPACITY_LOCAL_OPS, k_name := ''memkind_highest_capacity_local''\<rparr>"
| "static_kind MEMKIND_HIGHEST_CAPACITY_LOCAL_PREFERRED = blank_kind\<lparr>k_ops := MEMKIND_HIGHEST_CAPACITY_LOCAL_PREFERRED_OPS, k_name := ''memkind_highest_capacity_local_preferred''\<rparr>"
| "static_kind MEMKIND_LOWEST_LATENCY_LOCAL = blank_kind\<lparr>k_ops := MEMKIND_LOWEST_LATENCY_LOCAL_OPS, k_name := ''memkind_lowest_latency_local''\<rparr>"
| "static_kind MEMKIND_LOWEST_LATENCY_LOCAL_PREFERRED = blank_kind\<lparr>k_ops := MEMKIND_LOWEST_LATENCY_LOCAL_PREFERRED_OPS, k_name := ''memkind_lowest_latency_local_preferred''\<rparr>"
| "static_kind MEMKIND_HIGHEST_BANDWIDTH_LOCAL = blank_kind\<lparr>k_ops := MEMKIND_HIGHEST_BANDWIDTH_LOCAL_OPS, k_name := ''memkind_highest_bandwidth_local''\<rparr>"
| "static_kind MEMKIND_HIGHEST_BANDWIDTH_LOCAL_PREFERRED = blank_kind\<lparr>k_ops := MEMKIND_HIGHEST_BANDWIDTH_LOCAL_PREFERRED_OPS, k_name := ''memkind_highest_bandwidth_local_preferred''\<rparr>"
| "static_kind (Dynamic p) = blank_kind"

definition static_registry :: "memkind_t list" where
  "static_registry =
    [MEMKIND_DEFAULT,
     MEMKIND_HBW,
     MEMKIND_HBW_PREFERRED,
     MEMKIND_HBW_HUGETLB,
     MEMKIND_HBW_PREFERRED_HUGETLB,
     MEMKIND_HUGETLB,
     MEMKIND_HBW_INTERLEAVE,
     MEMKIND_INTERLEAVE,
     MEMKIND_REGULAR,
     MEMKIND_HBW_ALL,
     MEMKIND_HBW_ALL_HUGETLB,
     MEMKIND_DAX_KMEM,
     MEMKIND_DAX_KMEM_ALL,
     MEMKIND_DAX_KMEM_PREFERRED,
     MEMKIND_DAX_KMEM_INTERLEAVE,
     MEMKIND_HIGHEST_CAPACITY,
     MEMKIND_HIGHEST_CAPACITY_PREFERRED,
     MEMKIND_HIGHEST_CAPACITY_LOCAL,
     MEMKIND_HIGHEST_CAPACITY_LOCAL_PREFERRED,
     MEMKIND_LOWEST_LATENCY_LOCAL,
     MEMKIND_LOWEST_LATENCY_LOCAL_PREFERRED,
     MEMKIND_HIGHEST_BANDWIDTH_LOCAL,
     MEMKIND_HIGHEST_BANDWIDTH_LOCAL_PREFERRED]"

definition is_static :: "memkind_t \<Rightarrow> bool" where
  "is_static k = (case k of Dynamic p \<Rightarrow> False | _ \<Rightarrow> True)"

text \<open>
  The kind each \<open>init_once\<close> function initialises: the argument of its \<^verbatim>\<open>memkind_init\<close> call, and of
  \<^verbatim>\<open>heap_manager_init\<close> for the default kind.
\<close>

fun init_once_kind :: "init_once_fn \<Rightarrow> memkind_t" where
  "init_once_kind Memkind_default_init_once = MEMKIND_DEFAULT"
| "init_once_kind Memkind_hugetlb_init_once = MEMKIND_HUGETLB"
| "init_once_kind Memkind_interleave_init_once = MEMKIND_INTERLEAVE"
| "init_once_kind Memkind_hbw_init_once = MEMKIND_HBW"
| "init_once_kind Memkind_hbw_all_init_once = MEMKIND_HBW_ALL"
| "init_once_kind Memkind_hbw_hugetlb_init_once = MEMKIND_HBW_HUGETLB"
| "init_once_kind Memkind_hbw_all_hugetlb_init_once = MEMKIND_HBW_ALL_HUGETLB"
| "init_once_kind Memkind_hbw_preferred_init_once = MEMKIND_HBW_PREFERRED"
| "init_once_kind Memkind_hbw_preferred_hugetlb_init_once = MEMKIND_HBW_PREFERRED_HUGETLB"
| "init_once_kind Memkind_hbw_interleave_init_once = MEMKIND_HBW_INTERLEAVE"
| "init_once_kind Memkind_regular_init_once = MEMKIND_REGULAR"
| "init_once_kind Memkind_dax_kmem_init_once = MEMKIND_DAX_KMEM"
| "init_once_kind Memkind_dax_kmem_all_init_once = MEMKIND_DAX_KMEM_ALL"
| "init_once_kind Memkind_dax_kmem_preferred_init_once = MEMKIND_DAX_KMEM_PREFERRED"
| "init_once_kind Memkind_dax_kmem_interleave_init_once = MEMKIND_DAX_KMEM_INTERLEAVE"
| "init_once_kind Memkind_hi_cap_init_once = MEMKIND_HIGHEST_CAPACITY"
| "init_once_kind Memkind_hi_cap_preferred_init_once = MEMKIND_HIGHEST_CAPACITY_PREFERRED"
| "init_once_kind Memkind_hi_cap_loc_init_once = MEMKIND_HIGHEST_CAPACITY_LOCAL"
| "init_once_kind Memkind_hi_cap_loc_preferred_init_once = MEMKIND_HIGHEST_CAPACITY_LOCAL_PREFERRED"
| "init_once_kind Memkind_low_lat_loc_init_once = MEMKIND_LOWEST_LATENCY_LOCAL"
| "init_once_kind Memkind_low_lat_loc_preferred_init_once = MEMKIND_LOWEST_LATENCY_LOCAL_PREFERRED"
| "init_once_kind Memkind_hi_bw_loc_init_once = MEMKIND_HIGHEST_BANDWIDTH_LOCAL"
| "init_once_kind Memkind_hi_bw_loc_preferred_init_once = MEMKIND_HIGHEST_BANDWIDTH_LOCAL_PREFERRED"

section \<open>Creating a kind from policy, page size and memory type\<close>

text \<open>
  \<^verbatim>\<open>memkind_policy_t\<close> values are kept as numbers, since the public function receives any value of
  the C enum type; the memory type and flag arguments are bit masks.
\<close>

abbreviation (input) MEMKIND_POLICY_BIND_LOCAL :: nat where "MEMKIND_POLICY_BIND_LOCAL \<equiv> 0"
abbreviation (input) MEMKIND_POLICY_BIND_ALL :: nat where "MEMKIND_POLICY_BIND_ALL \<equiv> 1"
abbreviation (input) MEMKIND_POLICY_PREFERRED_LOCAL :: nat where "MEMKIND_POLICY_PREFERRED_LOCAL \<equiv> 2"
abbreviation (input) MEMKIND_POLICY_INTERLEAVE_LOCAL :: nat where "MEMKIND_POLICY_INTERLEAVE_LOCAL \<equiv> 3"
abbreviation (input) MEMKIND_POLICY_INTERLEAVE_ALL :: nat where "MEMKIND_POLICY_INTERLEAVE_ALL \<equiv> 4"
abbreviation (input) MEMKIND_POLICY_MAX_VALUE :: nat where "MEMKIND_POLICY_MAX_VALUE \<equiv> 5"
abbreviation (input) MEMKIND_MASK_PAGE_SIZE_2MB :: u32 where "MEMKIND_MASK_PAGE_SIZE_2MB \<equiv> 21"
abbreviation (input) MEMKIND_MEMTYPE_DEFAULT :: u32 where "MEMKIND_MEMTYPE_DEFAULT \<equiv> 1"
abbreviation (input) MEMKIND_MEMTYPE_HIGH_BANDWIDTH :: u32 where "MEMKIND_MEMTYPE_HIGH_BANDWIDTH \<equiv> 2"

definition CLEAR_BIT :: "u32 \<Rightarrow> u32 \<Rightarrow> u32" where
  "CLEAR_BIT x msk = x AND NOT msk"

definition validate_memtype_bits :: "u32 \<Rightarrow> int" where
  "validate_memtype_bits memtype =
    (if memtype = 0 then - 1
     else if CLEAR_BIT (CLEAR_BIT memtype MEMKIND_MEMTYPE_DEFAULT)
               MEMKIND_MEMTYPE_HIGH_BANDWIDTH \<noteq> 0 then - 1
     else 0)"

definition validate_flags_bits :: "u32 \<Rightarrow> int" where
  "validate_flags_bits flags = (if CLEAR_BIT flags MEMKIND_MASK_PAGE_SIZE_2MB \<noteq> 0 then - 1 else 0)"

definition validate_policy :: "nat \<Rightarrow> int" where
  "validate_policy policy = (if policy \<ge> MEMKIND_POLICY_MAX_VALUE then - 1 else 0)"

record create_args =
  ca_kind :: memkind_t
  ca_policy :: nat
  ca_flags :: u32
  ca_memtype_flags :: u32

definition supported_args :: "create_args list" where
  "supported_args =
    [\<lparr>ca_kind = MEMKIND_HBW, ca_policy = MEMKIND_POLICY_BIND_LOCAL,
       ca_flags = 0, ca_memtype_flags = MEMKIND_MEMTYPE_HIGH_BANDWIDTH\<rparr>,
     \<lparr>ca_kind = MEMKIND_HBW_HUGETLB, ca_policy = MEMKIND_POLICY_BIND_LOCAL,
       ca_flags = MEMKIND_MASK_PAGE_SIZE_2MB, ca_memtype_flags = MEMKIND_MEMTYPE_HIGH_BANDWIDTH\<rparr>,
     \<lparr>ca_kind = MEMKIND_HBW_ALL, ca_policy = MEMKIND_POLICY_BIND_ALL,
       ca_flags = 0, ca_memtype_flags = MEMKIND_MEMTYPE_HIGH_BANDWIDTH\<rparr>,
     \<lparr>ca_kind = MEMKIND_HBW_ALL_HUGETLB, ca_policy = MEMKIND_POLICY_BIND_ALL,
       ca_flags = MEMKIND_MASK_PAGE_SIZE_2MB, ca_memtype_flags = MEMKIND_MEMTYPE_HIGH_BANDWIDTH\<rparr>,
     \<lparr>ca_kind = MEMKIND_HBW_PREFERRED, ca_policy = MEMKIND_POLICY_PREFERRED_LOCAL,
       ca_flags = 0, ca_memtype_flags = MEMKIND_MEMTYPE_HIGH_BANDWIDTH\<rparr>,
     \<lparr>ca_kind = MEMKIND_HBW_PREFERRED_HUGETLB, ca_policy = MEMKIND_POLICY_PREFERRED_LOCAL,
       ca_flags = MEMKIND_MASK_PAGE_SIZE_2MB, ca_memtype_flags = MEMKIND_MEMTYPE_HIGH_BANDWIDTH\<rparr>,
     \<lparr>ca_kind = MEMKIND_HBW_INTERLEAVE, ca_policy = MEMKIND_POLICY_INTERLEAVE_ALL,
       ca_flags = 0, ca_memtype_flags = MEMKIND_MEMTYPE_HIGH_BANDWIDTH\<rparr>,
     \<lparr>ca_kind = MEMKIND_DEFAULT, ca_policy = MEMKIND_POLICY_PREFERRED_LOCAL,
       ca_flags = 0, ca_memtype_flags = MEMKIND_MEMTYPE_DEFAULT\<rparr>,
     \<lparr>ca_kind = MEMKIND_HUGETLB, ca_policy = MEMKIND_POLICY_PREFERRED_LOCAL,
       ca_flags = MEMKIND_MASK_PAGE_SIZE_2MB, ca_memtype_flags = MEMKIND_MEMTYPE_DEFAULT\<rparr>,
     \<lparr>ca_kind = MEMKIND_INTERLEAVE, ca_policy = MEMKIND_POLICY_INTERLEAVE_ALL,
       ca_flags = 0, ca_memtype_flags = MEMKIND_MEMTYPE_HIGH_BANDWIDTH OR MEMKIND_MEMTYPE_DEFAULT\<rparr>]"

section \<open>Lemmas\<close>

lemmas ops_defs [mk_simps] = no_ops_def
  MEMKIND_DEFAULT_OPS_def MEMKIND_HUGETLB_OPS_def MEMKIND_INTERLEAVE_OPS_def MEMKIND_HBW_OPS_def
  MEMKIND_HBW_ALL_OPS_def MEMKIND_HBW_HUGETLB_OPS_def MEMKIND_HBW_ALL_HUGETLB_OPS_def
  MEMKIND_HBW_PREFERRED_OPS_def MEMKIND_HBW_PREFERRED_HUGETLB_OPS_def
  MEMKIND_HBW_INTERLEAVE_OPS_def MEMKIND_REGULAR_OPS_def MEMKIND_DAX_KMEM_OPS_def
  MEMKIND_DAX_KMEM_ALL_OPS_def MEMKIND_DAX_KMEM_PREFERRED_OPS_def
  MEMKIND_DAX_KMEM_INTERLEAVE_OPS_def MEMKIND_HIGHEST_CAPACITY_OPS_def
  MEMKIND_HIGHEST_CAPACITY_PREFERRED_OPS_def MEMKIND_HIGHEST_CAPACITY_LOCAL_OPS_def
  MEMKIND_HIGHEST_CAPACITY_LOCAL_PREFERRED_OPS_def MEMKIND_LOWEST_LATENCY_LOCAL_OPS_def
  MEMKIND_LOWEST_LATENCY_LOCAL_PREFERRED_OPS_def MEMKIND_HIGHEST_BANDWIDTH_LOCAL_OPS_def
  MEMKIND_HIGHEST_BANDWIDTH_LOCAL_PREFERRED_OPS_def MEMKIND_PMEM_OPS_def MEMKIND_FIXED_OPS_def

lemmas kind_defs [mk_simps] = blank_kind_def is_static_def static_registry_def

text \<open>
  What the dispatching code takes for granted of a table it is given: every operation that the
  allocation entry points, \<^verbatim>\<open>memkind_destroy_kind\<close>, \<^verbatim>\<open>memkind_finalize\<close> and the statistics calls
  reach without a test for \<open>NULL\<close> is there.
\<close>

definition table_complete :: "memkind_ops \<Rightarrow> bool" where
  "table_complete ops =
    (o_create ops \<noteq> None \<and> o_destroy ops \<noteq> None \<and> o_malloc ops \<noteq> None \<and> o_calloc ops \<noteq> None \<and>
     o_posix_memalign ops \<noteq> None \<and> o_realloc ops \<noteq> None \<and> o_free ops \<noteq> None \<and>
     o_finalize ops \<noteq> None \<and> o_malloc_usable_size ops \<noteq> None \<and> o_get_stat ops \<noteq> None \<and>
     o_defrag_reallocate ops \<noteq> None)"

text \<open>
  A table with the arena allocator names the function that picks an arena, and one that binds the
  pages it maps names the policy and the node mask.
\<close>

definition table_wired :: "memkind_ops \<Rightarrow> bool" where
  "table_wired ops =
    ((o_malloc ops = Some Memkind_arena_malloc \<longrightarrow> o_get_arena ops = Some Memkind_thread_get_arena) \<and>
     (o_mbind ops \<noteq> None \<longrightarrow> o_get_mbind_mode ops \<noteq> None \<and> o_get_mbind_nodemask ops \<noteq> None))"

definition hugetlb_table :: "memkind_ops \<Rightarrow> bool" where
  "hugetlb_table ops = (o_get_mmap_flags ops = Some Memkind_hugetlb_get_mmap_flags)"

lemma static_table_complete: "is_static k \<Longrightarrow> table_complete (k_ops (static_kind k))"
  by (cases k) (simp_all add: table_complete_def mk_simps)

lemma static_table_wired: "is_static k \<Longrightarrow> table_wired (k_ops (static_kind k))"
  by (cases k) (simp_all add: table_wired_def mk_simps)

lemma static_init_once_own:
  "is_static k \<Longrightarrow> map_option init_once_kind (o_init_once (k_ops (static_kind k))) = Some k"
  by (cases k) (simp_all add: mk_simps)

lemma hugetlb_table_iff:
  "hugetlb_table (k_ops (static_kind k)) \<longleftrightarrow>
    k \<in> {MEMKIND_HUGETLB, MEMKIND_HBW_HUGETLB, MEMKIND_HBW_ALL_HUGETLB,
         MEMKIND_HBW_PREFERRED_HUGETLB}"
  by (cases k) (simp_all add: hugetlb_table_def mk_simps)

lemma static_names_short:
  "is_static k \<Longrightarrow> length (k_name (static_kind k)) < MEMKIND_NAME_LENGTH_PRIV"
  by (cases k) (simp_all add: mk_simps)

lemma static_registry_set: "set static_registry = {k. is_static k}"
proof (rule set_eqI)
  fix k show "k \<in> set static_registry \<longleftrightarrow> k \<in> {k. is_static k}"
    by (cases k) (simp_all add: mk_simps)
qed

lemma static_registry_distinct: "distinct static_registry"
  by (simp add: mk_simps)

lemma static_registry_length: "length static_registry = MEMKIND_NUM_STATIC_KINDS"
  by (simp add: mk_simps)

lemma static_names_distinct: "distinct (map (k_name \<circ> static_kind) static_registry)"
  by (simp add: mk_simps)

end
