(* ===== verification/Nodemask.thy ===== *)
theory Nodemask
  imports Mem_Attributes Kinds
begin

text \<open>
  The node masks of the kinds: \<^verbatim>\<open>memkind_hbw.c\<close>, \<^verbatim>\<open>memkind_dax_kmem.c\<close>, \<^verbatim>\<open>memkind_local.c\<close> and
  \<^verbatim>\<open>memkind_regular.c\<close> together with the two functions of \<^verbatim>\<open>memkind_default.c\<close> and
  \<^verbatim>\<open>memkind_capacity.c\<close>, their cached results as one record of globals, and the dispatch on the
  \<open>get_mbind_nodemask\<close> pointer of a kind.

  The lemmas show which nodes the detection of high-bandwidth and of DAX KMEM memory selects, that a
  cached answer is final, and that asking for availability (a \<open>NULL\<close> mask) and asking for the mask
  agree on the error code.
\<close>

section \<open>Globals\<close>

text \<open>
  \<^verbatim>\<open>struct hbw_numanode_t\<close> and \<^verbatim>\<open>struct dax_numanode_t\<close> are the same type up to their name. The
  flags are the \<^verbatim>\<open>pthread_once_t\<close> of each structure.
\<close>

record numanode_t =
  nn_init_err :: int
  nn_numanode :: "nat vec list option"

record loc_numanodes_t =
  ln_init_err :: int
  ln_per_cpu_numa_nodes :: "cpu_masks cptr"

record numa_globals =
  memkind_hbw_numanode_g :: "memkind_node_variant_t \<Rightarrow> numanode_t"
  memkind_hbw_numanode_once_g :: "memkind_node_variant_t \<Rightarrow> bool"
  memkind_dax_kmem_numanode_g :: "memkind_node_variant_t \<Rightarrow> numanode_t"
  memkind_dax_kmem_numanode_once_g :: "memkind_node_variant_t \<Rightarrow> bool"
  loc_numanodes_g :: "memory_attribute_t \<Rightarrow> memkind_node_variant_t \<Rightarrow> loc_numanodes_t"
  loc_numanodes_once_g :: "memory_attribute_t \<Rightarrow> memkind_node_variant_t \<Rightarrow> bool"
  hi_cap_g :: hi_cap_globals
  regular_nodes_mask :: "bitmask cptr"

definition numa_globals_init :: numa_globals where
  "numa_globals_init =
    \<lparr>memkind_hbw_numanode_g = (\<lambda>_. \<lparr>nn_init_err = 0, nn_numanode = None\<rparr>),
     memkind_hbw_numanode_once_g = (\<lambda>_. False),
     memkind_dax_kmem_numanode_g = (\<lambda>_. \<lparr>nn_init_err = 0, nn_numanode = None\<rparr>),
     memkind_dax_kmem_numanode_once_g = (\<lambda>_. False),
     loc_numanodes_g = (\<lambda>_ _. \<lparr>ln_init_err = 0, ln_per_cpu_numa_nodes = Null\<rparr>),
     loc_numanodes_once_g = (\<lambda>_ _. False),
     hi_cap_g = hi_cap_globals_init,
     regular_nodes_mask = Null\<rparr>"

section \<open>High-bandwidth memory\<close>

abbreviation (input) CPU_MODEL_KNL :: u32 where "CPU_MODEL_KNL \<equiv> 0x57"
abbreviation (input) CPU_MODEL_KNM :: u32 where "CPU_MODEL_KNM \<equiv> 0x85"
abbreviation (input) CPU_FAMILY_INTEL :: u32 where "CPU_FAMILY_INTEL \<equiv> 0x06"

definition is_hbm_legacy_supported :: "'w host \<Rightarrow> bool" where
  "is_hbm_legacy_supported h =
    (let eax = cpuid_eax1 h;
         model = drop_bit 4 eax AND 0xf;
         model_ext = drop_bit 16 eax AND 0xf;
         data_model = model OR push_bit 4 model_ext;
         family = drop_bit 8 eax AND 0xf
     in family = CPU_FAMILY_INTEL \<and> (data_model = CPU_MODEL_KNL \<or> data_model = CPU_MODEL_KNM))"

text \<open>
  The nodes without CPUs, on machines with 2, 4 or 8 nodes of which exactly half have none. The mask
  is freed again when that test fails.
\<close>

definition cpuless_nodes :: "'w host \<Rightarrow> bitmask" where
  "cpuless_nodes h =
    fold (\<lambda>i m. if numa_bitmask_weight (snd (numa_node_to_cpus h i)) = 0
                then numa_bitmask_setbit i m else m)
      [0..<Suc (numa_max_node h)] (replicate (numa_max_node h + 1) False)"

definition get_legacy_hbw_nodes_mask :: "'w host \<Rightarrow> 'w get_node_bitmask" where
  "get_legacy_hbw_nodes_mask h w =
    (let nodes_num = numa_num_configured_nodes h
     in if nodes_num \<noteq> 2 \<and> nodes_num \<noteq> 4 \<and> nodes_num \<noteq> 8 then
          ((MEMKIND_ERROR_UNAVAILABLE, None), w)
        else
          (let (ok, w) = numa_allocate_cpumask h w
           in if \<not> ok then ((MEMKIND_ERROR_UNAVAILABLE, None), w)
              else
                (let (ok, w) = numa_bitmask_alloc h (numa_max_node h + 1) w
                 in if \<not> ok then ((MEMKIND_ERROR_UNAVAILABLE, None), w)
                    else if 2 * numa_bitmask_weight (cpuless_nodes h) = nodes_num then
                      ((MEMKIND_SUCCESS, Some (cpuless_nodes h)), w)
                    else ((MEMKIND_ERROR_UNAVAILABLE, None), w))))"

definition memkind_hbw_get_nodemask :: "'w host \<Rightarrow> 'w get_node_bitmask" where
  "memkind_hbw_get_nodemask h w =
    (case getenv h ''MEMKIND_HBW_NODES'' of
       Some nodes_env \<Rightarrow> (memkind_env_get_nodemask h nodes_env, w)
     | None \<Rightarrow> get_legacy_hbw_nodes_mask h w)"

definition is_hmat_supported :: "'w host \<Rightarrow> bool" where
  "is_hmat_supported h =
    (\<not> (getenv h ''MEMKIND_HBW_NODES'' \<noteq> None \<or> is_hbm_legacy_supported h))"

text \<open>
  The initialisers of the three variants (\<^verbatim>\<open>memkind_hbw_closest_numanode_init\<close>,
  \<^verbatim>\<open>memkind_hbw_closest_preferred_numanode_init\<close>, \<^verbatim>\<open>memkind_hbw_all_numanode_init\<close>) differ in the
  variant only.
\<close>

definition memkind_hbw_numanode_init ::
  "'w host \<Rightarrow> memkind_node_variant_t \<Rightarrow> 'w \<Rightarrow> (numanode_t \<times> 'w) option" where
  "memkind_hbw_numanode_init h va w =
    (if \<not> is_hmat_supported h then
       (let ((err, numanode), w) = set_closest_numanode h (memkind_hbw_get_nodemask h) va w
        in Some (\<lparr>nn_init_err = err, nn_numanode = numanode\<rparr>, w))
     else
       (case set_closest_numanode_mem_attr h va w of
          None \<Rightarrow> None
        | Some ((err, numanode), w) \<Rightarrow>
            Some (\<lparr>nn_init_err = err, nn_numanode = numanode\<rparr>, w)))"

text \<open>
  Reading a cached table into a node mask: the common end of the high-bandwidth and DAX KMEM
  functions.
\<close>

definition numanode_nodemask ::
  "'w host \<Rightarrow> bitmask option \<Rightarrow> numanode_t \<Rightarrow> 'w \<Rightarrow> (int \<times> bitmask option) option" where
  "numanode_nodemask h nodemask g w =
    (if nn_init_err g = 0 then
       set_bitmask_for_current_numanode h nodemask (nn_numanode g) w
     else Some (nn_init_err g, nodemask))"

type_synonym 'w nodemask_result = "((int \<times> bitmask option) \<times> numa_globals \<times> 'w) option"

definition hbw_get_mbind_nodemask ::
  "'w host \<Rightarrow> memkind_node_variant_t \<Rightarrow> bitmask option \<Rightarrow> numa_globals \<Rightarrow> 'w \<Rightarrow> 'w nodemask_result" where
  "hbw_get_mbind_nodemask h va nodemask gs w =
    do {
      (gs, w) \<leftarrow>
        (if memkind_hbw_numanode_once_g gs va then Some (gs, w)
         else do {
           (g, w) \<leftarrow> memkind_hbw_numanode_init h va w;
           Some (gs\<lparr>memkind_hbw_numanode_g := (memkind_hbw_numanode_g gs)(va := g),
                    memkind_hbw_numanode_once_g := (memkind_hbw_numanode_once_g gs)(va := True)\<rparr>, w)
         });
      r \<leftarrow> numanode_nodemask h nodemask (memkind_hbw_numanode_g gs va) w;
      Some (r, gs\<lparr>memkind_hbw_numanode_g := (memkind_hbw_numanode_g gs)
                   (va := (memkind_hbw_numanode_g gs va)\<lparr>nn_init_err := fst r\<rparr>)\<rparr>, w)
    }"

section \<open>DAX KMEM memory\<close>

definition get_dax_kmem_nodemask :: "'w host \<Rightarrow> 'w get_node_bitmask" where
  "get_dax_kmem_nodemask h w =
    (if \<not> daxctl_kmem h then ((MEMKIND_ERROR_OPERATION_FAILED, None), w)
     else
       (let nodes_num = numa_max_node h + 1;
            (ok, w) = numa_bitmask_alloc h nodes_num w
        in if \<not> ok then ((MEMKIND_ERROR_UNAVAILABLE, None), w)
           else if daxctl_new h < 0 then ((MEMKIND_ERROR_UNAVAILABLE, None), w)
           else
             (let mask = fold (\<lambda>(mem, node) m. if mem then numa_bitmask_setbit node m else m)
                           (daxctl_devices h) (replicate nodes_num False)
              in if numa_bitmask_weight mask \<noteq> 0 then ((MEMKIND_SUCCESS, Some mask), w)
                 else ((MEMKIND_ERROR_UNAVAILABLE, None), w))))"

definition memkind_dax_kmem_get_nodemask :: "'w host \<Rightarrow> 'w get_node_bitmask" where
  "memkind_dax_kmem_get_nodemask h w =
    (case getenv h ''MEMKIND_DAX_KMEM_NODES'' of
       Some nodes_env \<Rightarrow> (memkind_env_get_nodemask h nodes_env, w)
     | None \<Rightarrow> get_dax_kmem_nodemask h w)"

definition memkind_dax_kmem_numanode_init ::
  "'w host \<Rightarrow> memkind_node_variant_t \<Rightarrow> 'w \<Rightarrow> numanode_t \<times> 'w" where
  "memkind_dax_kmem_numanode_init h va w =
    (let ((err, numanode), w) = set_closest_numanode h (memkind_dax_kmem_get_nodemask h) va w
     in (\<lparr>nn_init_err = err, nn_numanode = numanode\<rparr>, w))"

definition dax_kmem_get_mbind_nodemask ::
  "'w host \<Rightarrow> memkind_node_variant_t \<Rightarrow> bitmask option \<Rightarrow> numa_globals \<Rightarrow> 'w \<Rightarrow> 'w nodemask_result" where
  "dax_kmem_get_mbind_nodemask h va nodemask gs w =
    (let (gs, w) =
           (if memkind_dax_kmem_numanode_once_g gs va then (gs, w)
            else
              (let (g, w) = memkind_dax_kmem_numanode_init h va w
               in (gs\<lparr>memkind_dax_kmem_numanode_g := (memkind_dax_kmem_numanode_g gs)(va := g),
                      memkind_dax_kmem_numanode_once_g :=
                        (memkind_dax_kmem_numanode_once_g gs)(va := True)\<rparr>, w)))
     in do {
          r \<leftarrow> numanode_nodemask h nodemask (memkind_dax_kmem_numanode_g gs va) w;
          Some (r, gs\<lparr>memkind_dax_kmem_numanode_g := (memkind_dax_kmem_numanode_g gs)
                       (va := (memkind_dax_kmem_numanode_g gs va)\<lparr>nn_init_err := fst r\<rparr>)\<rparr>, w)
        })"

section \<open>Local memory\<close>

text \<open>
  The six pairs of functions of \<^verbatim>\<open>memkind_local.c\<close> differ in the attribute and the variant. Unlike
  the table of closest nodes, the mask of the current CPU is read even for a \<open>NULL\<close> buffer.
\<close>

definition loc_numanodes_init ::
  "'w host \<Rightarrow> memory_attribute_t \<Rightarrow> memkind_node_variant_t \<Rightarrow> numa_globals \<Rightarrow> 'w
    \<Rightarrow> (numa_globals \<times> 'w) option" where
  "loc_numanodes_init h attr va gs w =
    do {
      ((err, p), w) \<leftarrow>
        get_per_cpu_local_nodes_mask h (ln_per_cpu_numa_nodes (loc_numanodes_g gs attr va)) attr w;
      Some (gs\<lparr>loc_numanodes_g := (loc_numanodes_g gs)(attr := (loc_numanodes_g gs attr)
                (va := \<lparr>ln_init_err = err, ln_per_cpu_numa_nodes = p\<rparr>)),
               loc_numanodes_once_g := (loc_numanodes_once_g gs)(attr :=
                (loc_numanodes_once_g gs attr)(va := True))\<rparr>, w)
    }"

definition loc_get_mbind_nodemask ::
  "'w host \<Rightarrow> memory_attribute_t \<Rightarrow> memkind_node_variant_t \<Rightarrow> bitmask option \<Rightarrow> numa_globals \<Rightarrow> 'w
    \<Rightarrow> 'w nodemask_result" where
  "loc_get_mbind_nodemask h attr va nodemask gs w =
    do {
      (gs, w) \<leftarrow> (if loc_numanodes_once_g gs attr va then Some (gs, w)
                  else loc_numanodes_init h attr va gs w);
      (let g = loc_numanodes_g gs attr va
       in if ln_init_err g = 0 then
            (case ln_per_cpu_numa_nodes g of
               Live masks \<Rightarrow>
                 (let cpu_id = sched_getcpu h w
                  in if cpu_id < length masks then
                       (case masks ! cpu_id of
                          Some m \<Rightarrow>
                            Some ((0, map_option (copy_bitmask_to_bitmask m) nodemask), gs, w)
                        | None \<Rightarrow> None)
                     else None)
             | _ \<Rightarrow> None)
          else Some ((ln_init_err g, nodemask), gs, w))
    }"

text \<open>The finalizer's release of one table; it does nothing after a failed initialisation.\<close>

definition local_kind_finalize ::
  "memory_attribute_t \<Rightarrow> memkind_node_variant_t \<Rightarrow> numa_globals \<Rightarrow> numa_globals option" where
  "local_kind_finalize attr va gs =
    (let g = loc_numanodes_g gs attr va
     in if ln_init_err g = 0 then
          (case numa_bitmask_free (ln_per_cpu_numa_nodes g) of
             None \<Rightarrow> None
           | Some p \<Rightarrow>
               Some (gs\<lparr>loc_numanodes_g := (loc_numanodes_g gs)(attr := (loc_numanodes_g gs attr)
                         (va := g\<lparr>ln_per_cpu_numa_nodes := p\<rparr>))\<rparr>))
        else Some gs)"

section \<open>Regular memory\<close>

text \<open>The nodes with CPUs. \<^verbatim>\<open>numa_allocate_nodemask\<close> ends the process when it cannot allocate.\<close>

definition regular_nodes_init :: "'w host \<Rightarrow> numa_globals \<Rightarrow> numa_globals" where
  "regular_nodes_init h gs =
    gs\<lparr>regular_nodes_mask := Live
         (fold (\<lambda>i m. if is_initiator h i then numa_bitmask_setbit i m else m)
            [0..<Suc (numa_max_node h)] (replicate (numa_num_possible_nodes h) False))\<rparr>"

definition memkind_regular_all_get_mbind_nodemask ::
  "bitmask option \<Rightarrow> numa_globals \<Rightarrow> 'w \<Rightarrow> 'w nodemask_result" where
  "memkind_regular_all_get_mbind_nodemask nodemask gs w =
    (case regular_nodes_mask gs of
       Null \<Rightarrow> Some ((MEMKIND_ERROR_UNAVAILABLE, nodemask), gs, w)
     | Live m \<Rightarrow> Some ((MEMKIND_SUCCESS, map_option (copy_bitmask_to_bitmask m) nodemask), gs, w)
     | Freed \<Rightarrow> None)"

section \<open>Dispatch\<close>

definition memkind_default_get_mbind_nodemask ::
  "'w host \<Rightarrow> bitmask option \<Rightarrow> numa_globals \<Rightarrow> 'w \<Rightarrow> 'w nodemask_result" where
  "memkind_default_get_mbind_nodemask h nodemask gs w =
    Some ((0, map_option (copy_bitmask_to_bitmask (numa_all_nodes_ptr h)) nodemask), gs, w)"

definition hi_cap_nodemask ::
  "(hi_cap_globals \<Rightarrow> 'w \<Rightarrow> ((int \<times> bitmask option) \<times> hi_cap_globals \<times> 'w) option)
    \<Rightarrow> numa_globals \<Rightarrow> 'w \<Rightarrow> 'w nodemask_result" where
  "hi_cap_nodemask f gs w =
    do {
      (r, hc, w) \<leftarrow> f (hi_cap_g gs) w;
      Some (r, gs\<lparr>hi_cap_g := hc\<rparr>, w)
    }"

fun call_get_mbind_nodemask ::
  "'w host \<Rightarrow> get_mbind_nodemask_fn \<Rightarrow> bitmask option \<Rightarrow> numa_globals \<Rightarrow> 'w \<Rightarrow> 'w nodemask_result" where
  "call_get_mbind_nodemask h Memkind_default_get_mbind_nodemask nm gs w =
    memkind_default_get_mbind_nodemask h nm gs w"
| "call_get_mbind_nodemask h Memkind_hbw_get_mbind_nodemask nm gs w =
    hbw_get_mbind_nodemask h NODE_VARIANT_MULTIPLE nm gs w"
| "call_get_mbind_nodemask h Memkind_hbw_get_preferred_mbind_nodemask nm gs w =
    hbw_get_mbind_nodemask h NODE_VARIANT_SINGLE nm gs w"
| "call_get_mbind_nodemask h Memkind_hbw_all_get_mbind_nodemask nm gs w =
    hbw_get_mbind_nodemask h NODE_VARIANT_ALL nm gs w"
| "call_get_mbind_nodemask h Memkind_regular_all_get_mbind_nodemask nm gs w =
    memkind_regular_all_get_mbind_nodemask nm gs w"
| "call_get_mbind_nodemask h Memkind_dax_kmem_get_mbind_nodemask nm gs w =
    dax_kmem_get_mbind_nodemask h NODE_VARIANT_MULTIPLE nm gs w"
| "call_get_mbind_nodemask h Memkind_dax_kmem_get_preferred_mbind_nodemask nm gs w =
    dax_kmem_get_mbind_nodemask h NODE_VARIANT_SINGLE nm gs w"
| "call_get_mbind_nodemask h Memkind_dax_kmem_all_get_mbind_nodemask nm gs w =
    dax_kmem_get_mbind_nodemask h NODE_VARIANT_ALL nm gs w"
| "call_get_mbind_nodemask h Memkind_hi_cap_get_mbind_nodemask nm gs w =
    hi_cap_nodemask (memkind_hi_cap_get_mbind_nodemask h nm) gs w"
| "call_get_mbind_nodemask h Memkind_hi_cap_preferred_get_mbind_nodemask nm gs w =
    hi_cap_nodemask (memkind_hi_cap_preferred_get_mbind_nodemask h nm) gs w"
| "call_get_mbind_nodemask h Memkind_hi_cap_loc_get_mbind_nodemask nm gs w =
    loc_get_mbind_nodemask h MEM_ATTR_CAPACITY NODE_VARIANT_MULTIPLE nm gs w"
| "call_get_mbind_nodemask h Memkind_hi_cap_loc_preferred_get_mbind_nodemask nm gs w =
    loc_get_mbind_nodemask h MEM_ATTR_CAPACITY NODE_VARIANT_SINGLE nm gs w"
| "call_get_mbind_nodemask h Memkind_low_lat_loc_get_mbind_nodemask nm gs w =
    loc_get_mbind_nodemask h MEM_ATTR_LATENCY NODE_VARIANT_MULTIPLE nm gs w"
| "call_get_mbind_nodemask h Memkind_low_lat_loc_preferred_get_mbind_nodemask nm gs w =
    loc_get_mbind_nodemask h MEM_ATTR_LATENCY NODE_VARIANT_SINGLE nm gs w"
| "call_get_mbind_nodemask h Memkind_hi_bw_loc_get_mbind_nodemask nm gs w =
    loc_get_mbind_nodemask h MEM_ATTR_BANDWIDTH NODE_VARIANT_MULTIPLE nm gs w"
| "call_get_mbind_nodemask h Memkind_hi_bw_loc_preferred_get_mbind_nodemask nm gs w =
    loc_get_mbind_nodemask h MEM_ATTR_BANDWIDTH NODE_VARIANT_SINGLE nm gs w"

section \<open>A cached answer is final\<close>

text \<open>
  What a second call of a \<open>get_mbind_nodemask\<close> function has in common with the first: \<open>settled e f gs\<close>
  says that, from the globals \<open>gs\<close>, the function \<open>f\<close> answers with the error code \<open>e\<close> whatever buffer
  it is given, and changes nothing.
\<close>

definition settled ::
  "int \<Rightarrow> (bitmask option \<Rightarrow> 'g \<Rightarrow> 'w \<Rightarrow> ((int \<times> bitmask option) \<times> 'g \<times> 'w) option) \<Rightarrow> 'g \<Rightarrow> bool" where
  "settled e f gs \<longleftrightarrow>
    (\<forall>nm w r gs' w'. f nm gs w = Some (r, gs', w') \<longrightarrow> fst r = e \<and> gs' = gs \<and> w' = w)"

lemma settledI:
  assumes "\<And>nm w r gs' w'. f nm gs w = Some (r, gs', w') \<Longrightarrow> fst r = e \<and> gs' = gs \<and> w' = w"
  shows "settled e f gs"
  using assms by (auto simp: settled_def)

lemma numanode_nodemask_err:
  "numanode_nodemask h nm g w = Some r \<Longrightarrow> fst r = nn_init_err g \<and> g\<lparr>nn_init_err := fst r\<rparr> = g"
  by (auto simp: numanode_nodemask_def set_bitmask_for_current_numanode_def Let_def
      split: if_splits option.splits)

lemma hbw_settled:
  assumes "hbw_get_mbind_nodemask h va nm gs w = Some (r, gs', w')"
  shows "settled (fst r) (hbw_get_mbind_nodemask h va) gs'"
proof -
  from assms have "memkind_hbw_numanode_once_g gs' va" "fst r = nn_init_err (memkind_hbw_numanode_g gs' va)"
    by (auto simp: hbw_get_mbind_nodemask_def Option.bind_eq_Some_conv split: if_splits prod.splits)
  then show ?thesis
    by (intro settledI)
      (auto simp: hbw_get_mbind_nodemask_def Option.bind_eq_Some_conv dest!: numanode_nodemask_err)
qed

lemma dax_settled:
  assumes "dax_kmem_get_mbind_nodemask h va nm gs w = Some (r, gs', w')"
  shows "settled (fst r) (dax_kmem_get_mbind_nodemask h va) gs'"
proof -
  from assms have "memkind_dax_kmem_numanode_once_g gs' va"
    "fst r = nn_init_err (memkind_dax_kmem_numanode_g gs' va)"
    by (auto simp: dax_kmem_get_mbind_nodemask_def Option.bind_eq_Some_conv Let_def
        split: if_splits prod.splits)
  then show ?thesis
    by (intro settledI)
      (auto simp: dax_kmem_get_mbind_nodemask_def Option.bind_eq_Some_conv dest!: numanode_nodemask_err)
qed

lemma loc_settled:
  assumes "loc_get_mbind_nodemask h attr va nm gs w = Some (r, gs', w')"
  shows "settled (fst r) (loc_get_mbind_nodemask h attr va) gs'"
proof -
  from assms have "loc_numanodes_once_g gs' attr va" "ln_init_err (loc_numanodes_g gs' attr va) = fst r"
    by (auto simp: loc_get_mbind_nodemask_def loc_numanodes_init_def Option.bind_eq_Some_conv Let_def
        split: if_splits prod.splits cptr.splits option.splits)
  then show ?thesis
    by (intro settledI)
      (auto simp: loc_get_mbind_nodemask_def Option.bind_eq_Some_conv Let_def
        split: if_splits cptr.splits option.splits)
qed

lemma hi_cap_settled:
  assumes "hi_cap_get_mbind_nodemask h va nm gs w = Some (r, gs', w')"
  shows "settled (fst r) (hi_cap_get_mbind_nodemask h va) gs'"
proof -
  from assms have "memkind_hi_cap_numanodes_once_g gs' va"
    "hc_init_err (memkind_hi_cap_numanodes_g gs' va) = fst r"
    by (auto simp: hi_cap_get_mbind_nodemask_def memkind_hi_cap_numanodes_init_def Let_def
        split: if_splits prod.splits cptr.splits)
  then show ?thesis
    by (intro settledI)
      (auto simp: hi_cap_get_mbind_nodemask_def Let_def split: if_splits cptr.splits)
qed

lemma hi_cap_nodemask_settled:
  assumes "hi_cap_nodemask (hi_cap_get_mbind_nodemask h va nm) gs w = Some (r, gs', w')"
  shows "settled (fst r) (\<lambda>nm. hi_cap_nodemask (hi_cap_get_mbind_nodemask h va nm)) gs'"
proof -
  from assms obtain hc where "hi_cap_get_mbind_nodemask h va nm (hi_cap_g gs) w = Some (r, hc, w')"
    "gs' = gs\<lparr>hi_cap_g := hc\<rparr>"
    by (auto simp: hi_cap_nodemask_def Option.bind_eq_Some_conv)
  with hi_cap_settled [OF this(1)] show ?thesis
    by (intro settledI) (auto simp: hi_cap_nodemask_def Option.bind_eq_Some_conv settled_def)
qed

lemma regular_settled:
  assumes "memkind_regular_all_get_mbind_nodemask nm gs (w :: 'w) = Some (r, gs', w')"
  shows "settled (fst r) (memkind_regular_all_get_mbind_nodemask :: _ \<Rightarrow> _ \<Rightarrow> 'w \<Rightarrow> _) gs'"
  using assms
  by (intro settledI) (auto simp: memkind_regular_all_get_mbind_nodemask_def split: cptr.splits)

lemma default_settled: "settled 0 (memkind_default_get_mbind_nodemask h) gs"
  by (intro settledI) (auto simp: memkind_default_get_mbind_nodemask_def)

section \<open>Nodes without CPUs\<close>

lemma fold_setbit_if:
  "numa_bitmask_isbitset (fold (\<lambda>i m. if P i then numa_bitmask_setbit i m else m) is m) j \<longleftrightarrow>
    numa_bitmask_isbitset m j \<or> (j \<in> set is \<and> P j \<and> j < length m)"
  "length (fold (\<lambda>i m. if P i then numa_bitmask_setbit i m else m) is m) = length m"
  by (induction "is" arbitrary: m) auto

lemma cpuless_mask_nodes:
  "mask_nodes (cpuless_nodes h) =
    filter (\<lambda>n. numa_bitmask_weight (snd (numa_node_to_cpus h n)) = 0) [0..<Suc (numa_max_node h)]"
  unfolding mask_nodes_def cpuless_nodes_def fold_setbit_if
  by (intro filter_cong)
    (auto simp: numa_bitmask_isbitset_def nth_replicate simp del: upt_Suc replicate_Suc)

section \<open>Properties\<close>

text \<open>
  The availability of a kind is decided once: after one call of the kind's \<open>get_mbind_nodemask\<close>
  function (for instance with a \<open>NULL\<close> mask by \<^verbatim>\<open>memkind_check_available\<close>), every later call that
  returns gives the same error code, whatever buffer it is given and on whatever CPU it runs, and
  changes neither the cached tables nor the host.
\<close>

theorem nodemask_decided_once:
  assumes "call_get_mbind_nodemask h f nm gs w = Some ((e, m), gs', w')"
    and "call_get_mbind_nodemask h f nm2 gs' w2 = Some ((e2, m2), gs2, w3)"
  shows "e2 = e \<and> gs2 = gs' \<and> w3 = w2"
proof -
  have "settled e (call_get_mbind_nodemask h f) gs'"
    using assms(1)
    by (cases f)
      (auto dest: hbw_settled dax_settled loc_settled hi_cap_nodemask_settled regular_settled
        simp: memkind_hi_cap_get_mbind_nodemask_def memkind_hi_cap_preferred_get_mbind_nodemask_def
          default_settled settled_def, auto simp: memkind_default_get_mbind_nodemask_def)
  with assms(2) show ?thesis
    by (auto simp: settled_def)
qed

theorem nodemask_decided_once_witness:
  "\<exists>gs m. call_get_mbind_nodemask sample_host Memkind_hi_bw_loc_get_mbind_nodemask None
      numa_globals_init 0 = Some ((0, None), gs, 0) \<and>
    call_get_mbind_nodemask sample_host Memkind_hi_bw_loc_get_mbind_nodemask
      (Some [False, False, False, False]) gs 2 = Some ((0, Some m), gs, 2)"
proof -
  let ?f = "call_get_mbind_nodemask sample_host Memkind_hi_bw_loc_get_mbind_nodemask"
  let ?m = "Some [False, False, False, False]"
  have "map_option (\<lambda>(r, gs, w). (r, w)) (?f None numa_globals_init 0) = Some ((0, None), 0)"
    by code_simp
  then obtain gs where first: "?f None numa_globals_init 0 = Some ((0, None), gs, 0)"
    by auto
  have "Option.bind (?f None numa_globals_init 0) (\<lambda>(r, gs, w). map_option fst (?f ?m gs 2)) =
      Some (0, Some [False, False, False, True])"
    by code_simp
  then obtain m gs2 w2 where second: "?f ?m gs 2 = Some ((0, Some m), gs2, w2)"
    unfolding first by auto
  with nodemask_decided_once [OF first second] first show ?thesis
    by auto
qed

text \<open>
  The detection of high-bandwidth memory on the supported many-core processors accepts a machine
  exactly when it has 2, 4 or 8 nodes of which half have no CPU (and the masks can be allocated),
  and then selects exactly the nodes without CPU.
\<close>

theorem legacy_hbw_nodes:
  assumes "numa_allocate_cpumask h w = (True, w1)"
    and "numa_bitmask_alloc h (numa_max_node h + 1) w1 = (True, w2)"
  shows "\<exists>m. fst (get_legacy_hbw_nodes_mask h w) =
      (if numa_num_configured_nodes h \<in> {2, 4, 8} \<and>
          2 * length (mask_nodes m) = numa_num_configured_nodes h
       then (MEMKIND_SUCCESS, Some m) else (MEMKIND_ERROR_UNAVAILABLE, None)) \<and>
    mask_nodes m = filter (\<lambda>n. numa_bitmask_weight (snd (numa_node_to_cpus h n)) = 0)
      [0..<Suc (numa_max_node h)]"
  using assms
  by (intro exI [of _ "cpuless_nodes h"])
    (auto simp: get_legacy_hbw_nodes_mask_def Let_def weight_mask_nodes cpuless_mask_nodes
      simp del: upt_Suc)

theorem legacy_hbw_nodes_witness:
  "fst (get_legacy_hbw_nodes_mask sample_host 0) =
    (MEMKIND_SUCCESS, Some [False, False, True, True])"
proof -
  have "filter (\<lambda>n. numa_bitmask_weight (snd (numa_node_to_cpus sample_host n)) = 0)
      [0..<Suc (numa_max_node sample_host)] = [2, 3]"
    by code_simp
  with legacy_hbw_nodes [of sample_host 0 0 0] obtain m where
    "fst (get_legacy_hbw_nodes_mask sample_host 0) = (MEMKIND_SUCCESS, Some m)"
    by (auto simp del: upt_Suc)
  moreover have "snd (fst (get_legacy_hbw_nodes_mask sample_host 0)) = Some [False, False, True, True]"
    by code_simp
  ultimately show ?thesis
    by simp
qed

end
