(* ===== verification/Hugetlb.thy ===== *)
theory Hugetlb
  imports Nodemask
begin

text \<open>
  \<^verbatim>\<open>src/memkind_hugetlb.c\<close>: the number of huge pages per node and the overcommit limit, read once
  from sysfs, and the test whether a kind can get huge pages.

  The lemmas show that the directory names of sysfs are read as the page sizes they print, and
  characterise the availability test: huge pages of the size are known and there is an overcommit
  limit or a page on a node of the kind's mask. \<open>None\<close> is the release of an uninitialised pointer
  in the error path.
\<close>

section \<open>Definitions\<close>

abbreviation (input) NUMA_NUM_NODES :: nat where "NUMA_NUM_NODES \<equiv> 128"

record hugepage_size_info =
  hp_size :: u64
  hp_nr_hugepages_per_node_array :: "u64 list"
  hp_nr_overcommit :: u64

record memkind_hugepages_config_t =
  hugepages_info_array :: "hugepage_size_info list"
  hugepages_err :: int
  hugepages_once :: bool

definition memkind_hugepages_config_init :: memkind_hugepages_config_t where
  "memkind_hugepages_config_init =
    \<lparr>hugepages_info_array = [], hugepages_err = 0, hugepages_once = False\<rparr>"

definition allocate_hugepage_size_info :: "'w host \<Rightarrow> 'w \<Rightarrow> bool \<times> 'w" where
  "allocate_hugepage_size_info h w =
    (let (ok, w) = heap_alloc h 24 w
     in if \<not> ok then (False, w) else heap_alloc h (NUMA_NUM_NODES * 8) w)"

definition nr_path :: "nat \<Rightarrow> nat \<Rightarrow> string" where
  "nr_path node kb = ''/sys/devices/system/node/node'' @ show_nat node @
    ''/hugepages/hugepages-'' @ show_nat kb @ ''kB/nr_hugepages''"

definition nr_overcommit_path :: "nat \<Rightarrow> string" where
  "nr_overcommit_path kb =
    ''/sys/kernel/mm/hugepages/hugepages-'' @ show_nat kb @ ''kB/nr_overcommit_hugepages''"

text \<open>
  Both formatted paths are shorter than the buffer of 128 characters for every page size, so the
  tests of the \<^verbatim>\<open>snprintf\<close> result succeed.
\<close>

definition init_hugepage_size_info :: "'w host \<Rightarrow> u64 \<Rightarrow> hugepage_size_info" where
  "init_hugepage_size_info h pagesize =
    (let pagesize_kb = unat (drop_bit 10 pagesize)
     in \<lparr>hp_size = pagesize,
         hp_nr_hugepages_per_node_array =
           map (\<lambda>node. sysfs_value h (nr_path node pagesize_kb)) [0..<NUMA_NUM_NODES],
         hp_nr_overcommit = sysfs_value h (nr_overcommit_path pagesize_kb)\<rparr>)"

text \<open>
  \<^verbatim>\<open>sscanf(entry, "hugepages-%zukB", \<dots>)\<close> returns 1 as soon as the prefix and a number match; what
  follows the number is not looked at.
\<close>

definition parse_pagesize_from_sysfs_entry :: "string \<Rightarrow> u64 option" where
  "parse_pagesize_from_sysfs_entry entry =
    (let prefix = ''hugepages-'';
         rest = drop (length prefix) entry
     in if take (length prefix) entry = prefix \<and> fst (snd (strtoul rest)) \<noteq> rest
        then Some (push_bit 10 (fst (strtoul rest))) else None)"

text \<open>
  The loop over the directory: the infos found so far, the capacity of the array that doubles when
  it is full, and the error that ends the loop.
\<close>

fun hugepages_dir_loop ::
  "'w host \<Rightarrow> (bool \<times> string) list \<Rightarrow> hugepage_size_info list \<Rightarrow> nat \<Rightarrow> 'w
    \<Rightarrow> int \<times> hugepage_size_info list \<times> 'w" where
  "hugepages_dir_loop h [] infos cap w = (0, infos, w)"
| "hugepages_dir_loop h ((is_dir, name) # entries) infos cap w =
    (case (if is_dir then parse_pagesize_from_sysfs_entry name else None) of
       None \<Rightarrow> hugepages_dir_loop h entries infos cap w
     | Some pagesize \<Rightarrow>
         (let (ok, w) = allocate_hugepage_size_info h w
          in if \<not> ok then (MEMKIND_ERROR_MALLOC, infos, w)
             else if length infos = cap then
               (let (ok, w) = heap_alloc h (cap * 2 * 8) w
                in if \<not> ok then (MEMKIND_ERROR_MALLOC, infos, w)
                   else hugepages_dir_loop h entries
                          (infos @ [init_hugepage_size_info h pagesize]) (cap * 2) w)
             else hugepages_dir_loop h entries
                    (infos @ [init_hugepage_size_info h pagesize]) cap w))"

text \<open>
  After an error the code means to free the infos collected so far, but frees the unset element
  behind them that many times.
\<close>

definition hugepages_config_init_once ::
  "'w host \<Rightarrow> memkind_hugepages_config_t \<Rightarrow> 'w \<Rightarrow> (memkind_hugepages_config_t \<times> 'w) option" where
  "hugepages_config_init_once h c w =
    (case hugepages_dir h of
       None \<Rightarrow> Some (c\<lparr>hugepages_err := MEMKIND_ERROR_HUGETLB\<rparr>, w)
     | Some entries \<Rightarrow>
         (let (ok, w) = heap_alloc h (2 * 8) w
          in if \<not> ok then Some (c\<lparr>hugepages_err := MEMKIND_ERROR_MALLOC\<rparr>, w)
             else
               (let (err, infos, w) = hugepages_dir_loop h entries [] 2 w
                in if err = 0 then Some (c\<lparr>hugepages_info_array := infos\<rparr>, w)
                   else if infos = [] then Some (c\<lparr>hugepages_err := err\<rparr>, w)
                   else None)))"

definition hugepages_init ::
  "'w host \<Rightarrow> memkind_hugepages_config_t \<Rightarrow> 'w \<Rightarrow> (memkind_hugepages_config_t \<times> 'w) option" where
  "hugepages_init h c w =
    (if hugepages_once c then Some (c, w)
     else do {
       (c, w) \<leftarrow> hugepages_config_init_once h c w;
       Some (c\<lparr>hugepages_once := True\<rparr>, w)
     })"

definition get_hugepage_info_for_pagesize ::
  "memkind_hugepages_config_t \<Rightarrow> u64 \<Rightarrow> hugepage_size_info option" where
  "get_hugepage_info_for_pagesize c pagesize =
    find (\<lambda>info. hp_size info = pagesize) (hugepages_info_array c)"

definition get_nr_hugepages_cached ::
  "'w host \<Rightarrow> u64 \<Rightarrow> bitmask \<Rightarrow> memkind_hugepages_config_t \<Rightarrow> 'w
    \<Rightarrow> ((int \<times> u64 option) \<times> memkind_hugepages_config_t \<times> 'w) option" where
  "get_nr_hugepages_cached h pagesize nodemask c w =
    do {
      (c, w) \<leftarrow> hugepages_init h c w;
      if hugepages_err c \<noteq> 0 then Some ((hugepages_err c, None), c, w)
      else
        (case get_hugepage_info_for_pagesize c pagesize of
           None \<Rightarrow> Some ((MEMKIND_ERROR_HUGETLB, None), c, w)
         | Some info \<Rightarrow>
             (let nodes = filter (numa_bitmask_isbitset nodemask) [0..<Suc (numa_max_node h)]
              in if \<forall>i \<in> set nodes. i < length (hp_nr_hugepages_per_node_array info) then
                   Some ((0, Some (sum_list (map (\<lambda>i. hp_nr_hugepages_per_node_array info ! i) nodes))),
                         c, w)
                 else None))
    }"

definition get_nr_overcommit_hugepages_cached ::
  "'w host \<Rightarrow> u64 \<Rightarrow> memkind_hugepages_config_t \<Rightarrow> 'w
    \<Rightarrow> ((int \<times> u64 option) \<times> memkind_hugepages_config_t \<times> 'w) option" where
  "get_nr_overcommit_hugepages_cached h pagesize c w =
    do {
      (c, w) \<leftarrow> hugepages_init h c w;
      if hugepages_err c \<noteq> 0 then Some ((hugepages_err c, None), c, w)
      else
        (case get_hugepage_info_for_pagesize c pagesize of
           None \<Rightarrow> Some ((MEMKIND_ERROR_HUGETLB, None), c, w)
         | Some info \<Rightarrow> Some ((0, Some (hp_nr_overcommit info)), c, w))
    }"

text \<open>
  The availability test for a table of operations. The error code of \<open>get_mbind_nodemask\<close> is
  overwritten by the next call, so after a failure the uninitialised mask is used.
\<close>

definition memkind_hugetlb_check_available ::
  "'w host \<Rightarrow> memkind_ops \<Rightarrow> u64 \<Rightarrow> memkind_hugepages_config_t \<Rightarrow> numa_globals \<Rightarrow> 'w
    \<Rightarrow> (int \<times> memkind_hugepages_config_t \<times> numa_globals \<times> 'w) option" where
  "memkind_hugetlb_check_available h ops huge_size c gs w =
    (let huge_size = (if huge_size = 0 then 2097152 else huge_size)
     in do {
          ((_, nodemask), gs, w) \<leftarrow>
            (case o_get_mbind_nodemask ops of
               Some f \<Rightarrow> call_get_mbind_nodemask h f (Some (stack_nodemask h w)) gs w
             | None \<Rightarrow> Some ((0, Some (replicate NUMA_NUM_NODES True)), gs, w));
          ((err, persistent), c, w) \<leftarrow> get_nr_hugepages_cached h huge_size (the nodemask) c w;
          if err \<noteq> 0 then Some (err, c, gs, w)
          else do {
            ((err, overcommit), c, w) \<leftarrow> get_nr_overcommit_hugepages_cached h huge_size c w;
            if err \<noteq> 0 then Some (err, c, gs, w)
            else if overcommit = Some 0 \<and> persistent = Some 0 then
              Some (MEMKIND_ERROR_HUGETLB, c, gs, w)
            else Some (err, c, gs, w)
          }
        })"

definition memkind_hugetlb_check_available_2mb ::
  "'w host \<Rightarrow> memkind_ops \<Rightarrow> memkind_hugepages_config_t \<Rightarrow> numa_globals \<Rightarrow> 'w
    \<Rightarrow> (int \<times> memkind_hugepages_config_t \<times> numa_globals \<times> 'w) option" where
  "memkind_hugetlb_check_available_2mb h ops = memkind_hugetlb_check_available h ops 2097152"

section \<open>Reading the directory names\<close>

lemma strtoul_show_suffix:
  assumes "n < 2 ^ 64" "rest = [] \<or> \<not> isdigit (hd rest)"
  shows "strtoul (show_nat n @ rest) = (of_nat n, rest, False)"
proof -
  obtain c cs where s: "show_nat n = c # cs"
    using show_nat_nonempty by (cases "show_nat n") auto
  have c: "isdigit c"
    using show_nat_digits [of n] s by auto
  have "dropWhile isspace (show_nat n @ rest) = show_nat n @ rest"
    "strip_sign (show_nat n @ rest) = (False, show_nat n @ rest)"
    using c isdigit_not_space isdigit_not_sign by (auto simp: s strip_sign_def)
  moreover have "takeWhile isdigit rest = []" "dropWhile isdigit rest = rest"
    using assms(2) by (cases rest; simp)+
  moreover have "takeWhile isdigit (show_nat n @ rest) = show_nat n @ takeWhile isdigit rest"
    "dropWhile isdigit (show_nat n @ rest) = dropWhile isdigit rest"
    using show_nat_digits [of n] by (auto simp: takeWhile_append2 dropWhile_append2)
  ultimately show ?thesis
    using assms(1) by (simp add: strtoul_def Let_def digits_val_show show_nat_nonempty)
qed

section \<open>The configuration\<close>

text \<open>Every info read from sysfs has a counter for each possible node.\<close>

definition hugepages_config_ok :: "memkind_hugepages_config_t \<Rightarrow> bool" where
  "hugepages_config_ok c \<longleftrightarrow>
    (\<forall>info \<in> set (hugepages_info_array c).
       length (hp_nr_hugepages_per_node_array info) = NUMA_NUM_NODES)"

lemma hugepages_dir_loop_ok:
  assumes "hugepages_dir_loop h entries infos cap w = (err, infos', w')"
    "\<forall>info \<in> set infos. length (hp_nr_hugepages_per_node_array info) = NUMA_NUM_NODES"
  shows "\<forall>info \<in> set infos'. length (hp_nr_hugepages_per_node_array info) = NUMA_NUM_NODES"
  using assms
proof (induction h entries infos cap w rule: hugepages_dir_loop.induct)
  case (2 h is_dir name entries infos cap w)
  have "length (hp_nr_hugepages_per_node_array (init_hugepage_size_info h p)) = NUMA_NUM_NODES" for p
    by (simp add: init_hugepage_size_info_def Let_def)
  with 2 show ?case
    by (auto simp: Let_def split: option.splits if_splits prod.splits)
qed auto

lemma hugepages_init_ok:
  assumes "hugepages_init h c w = Some (c', w')" "hugepages_config_ok c"
  shows "hugepages_config_ok c' \<and> hugepages_once c'"
  using assms hugepages_dir_loop_ok
  by (fastforce simp: hugepages_init_def hugepages_config_init_once_def hugepages_config_ok_def Let_def
      Option.bind_eq_Some_conv split: option.splits if_splits prod.splits)

section \<open>Properties\<close>

text \<open>
  The page size is read back from the name of a sysfs directory: the entry that the kernel
  prints for pages of \<open>kb\<close> kilobytes is parsed as \<open>kb * 1024\<close> bytes, for every size that fits.
\<close>

theorem pagesize_roundtrip:
  assumes "kb < 2 ^ 54"
  shows "\<exists>size. parse_pagesize_from_sysfs_entry (''hugepages-'' @ show_nat kb @ ''kB'') = Some size \<and>
    unat size = kb * 1024"
proof -
  have s: "strtoul (show_nat kb @ ''kB'') = (of_nat kb, ''kB'', False)"
    using assms by (intro strtoul_show_suffix) (auto simp: isdigit_def)
  have "unat (push_bit 10 (of_nat kb :: u64)) = kb * 1024"
    using assms by (simp add: push_bit_eq_mult unat_word_ariths unsigned_of_nat take_bit_nat_eq_self)
  then show ?thesis
    using s show_nat_nonempty by (auto simp: parse_pagesize_from_sysfs_entry_def Let_def)
qed

theorem pagesize_roundtrip_witness:
  "\<exists>size. parse_pagesize_from_sysfs_entry (''hugepages-'' @ show_nat 2048 @ ''kB'') = Some size \<and>
    unat size = 2097152"
  using pagesize_roundtrip [of 2048] by simp

text \<open>
  A kind can get huge pages exactly when there are some for it: once the configuration has been
  read, and the kind's node mask has been found, \<^verbatim>\<open>memkind_hugetlb_check_available\<close> returns 0 if and
  only if sysfs lists the page size and there is a non-zero overcommit limit or a non-zero total of
  pages on the nodes of the mask, and \<open>MEMKIND_ERROR_HUGETLB\<close> otherwise; it changes neither the
  configuration nor the host.
\<close>

theorem hugetlb_available_iff:
  assumes "hugepages_once c" "hugepages_err c = 0" "hugepages_config_ok c"
    and "numa_max_node h < NUMA_NUM_NODES"
    and "o_get_mbind_nodemask ops = Some f"
    and "call_get_mbind_nodemask h f (Some (stack_nodemask h w)) gs w = Some ((0, Some m), gs', w')"
    and "huge_size \<noteq> 0"
  shows "memkind_hugetlb_check_available h ops huge_size c gs w =
    Some (if \<exists>info. get_hugepage_info_for_pagesize c huge_size = Some info \<and>
             (hp_nr_overcommit info \<noteq> 0 \<or>
              sum_list (map (\<lambda>i. hp_nr_hugepages_per_node_array info ! i)
                (filter (numa_bitmask_isbitset m) [0..<Suc (numa_max_node h)])) \<noteq> 0)
          then MEMKIND_SUCCESS else MEMKIND_ERROR_HUGETLB, c, gs', w')"
proof (cases "get_hugepage_info_for_pagesize c huge_size")
  case None
  then show ?thesis
    using assms by (simp add: memkind_hugetlb_check_available_def get_nr_hugepages_cached_def
        hugepages_init_def)
next
  case (Some info)
  then have "info \<in> set (hugepages_info_array c)"
    by (auto simp: get_hugepage_info_for_pagesize_def find_Some_iff)
  then have "length (hp_nr_hugepages_per_node_array info) = NUMA_NUM_NODES"
    using assms(3) by (simp add: hugepages_config_ok_def)
  with Some show ?thesis
    using assms
    by (auto simp: memkind_hugetlb_check_available_def get_nr_hugepages_cached_def
        get_nr_overcommit_hugepages_cached_def hugepages_init_def Let_def simp del: upt_Suc)
qed

theorem hugetlb_available_iff_witness:
  "\<exists>c. memkind_hugetlb_check_available sample_host MEMKIND_INTERLEAVE_OPS 2097152 c numa_globals_init 0 =
    Some (MEMKIND_SUCCESS, c, numa_globals_init, 0)"
proof -
  let ?info = "init_hugepage_size_info sample_host 2097152"
  let ?c = "\<lparr>hugepages_info_array = [?info], hugepages_err = 0, hugepages_once = True\<rparr>"
  have info: "hp_size ?info = 2097152" "hp_nr_overcommit ?info = 16"
    "length (hp_nr_hugepages_per_node_array ?info) = NUMA_NUM_NODES"
    by (simp_all add: init_hugepage_size_info_def Let_def)
  have "memkind_hugetlb_check_available sample_host MEMKIND_INTERLEAVE_OPS 2097152 ?c
      numa_globals_init 0 =
    Some (if \<exists>info. get_hugepage_info_for_pagesize ?c 2097152 = Some info \<and>
             (hp_nr_overcommit info \<noteq> 0 \<or>
              sum_list (map (\<lambda>i. hp_nr_hugepages_per_node_array info ! i)
                (filter (numa_bitmask_isbitset
                    (copy_bitmask_to_bitmask [True, True, True, True] (replicate 128 False)))
                  [0..<Suc (numa_max_node sample_host)])) \<noteq> 0)
          then MEMKIND_SUCCESS else MEMKIND_ERROR_HUGETLB, ?c, numa_globals_init, 0)"
    by (rule hugetlb_available_iff [where f = Memkind_default_get_mbind_nodemask])
      (simp_all add: hugepages_config_ok_def info MEMKIND_INTERLEAVE_OPS_def no_ops_def
        memkind_default_get_mbind_nodemask_def)
  then show ?thesis
    by (intro exI [of _ ?c]) (simp add: get_hugepage_info_for_pagesize_def info)
qed

end
