(* ===== verification/Counters.thy ===== *)
theory Counters
  imports Prelude
begin

text \<open>
  The allocation counters of \<^verbatim>\<open>src/memkind_memtier.c\<close>: per kind one global counter and 256 buckets
  chosen by a hash of the thread, filled by \<^verbatim>\<open>increment_alloc_size\<close> and \<^verbatim>\<open>decrement_alloc_size\<close>, which
  move a bucket into the global counter when it passes a threshold; and the SplitMix64 hash itself,
  which \<^verbatim>\<open>memkind_arena.c\<close> uses too.

  The counters are 64-bit words; a bucket is a \<open>long long\<close>, read as a word since C adds and compares
  it with a \<open>size_t\<close> after conversion to unsigned. The lemmas show that the global counter and the
  buckets together always hold the sum of what was added, modulo \<open>2 ^ 64\<close>, both for whole calls
  one after the other and for the atomic steps of any number of threads interleaved.
\<close>

section \<open>The hash\<close>

definition hash64 :: "u64 \<Rightarrow> u64" where
  "hash64 x =
    (let x = x + 0x9e3779b97f4a7c15;
         x = (x XOR drop_bit 30 x) * 0xbf58476d1ce4e5b9;
         x = (x XOR drop_bit 27 x) * 0x94d049bb133111eb
     in x XOR drop_bit 31 x)"

abbreviation (input) THREAD_BUCKETS :: nat where "THREAD_BUCKETS \<equiv> 256"
abbreviation (input) FLUSH_THRESHOLD :: u64 where "FLUSH_THRESHOLD \<equiv> 51200"

text \<open>The bucket of a thread, given its \<^verbatim>\<open>pthread_self()\<close>.\<close>

definition t_hash_64 :: "u64 \<Rightarrow> nat" where
  "t_hash_64 self =
    (let x = self + 0x9e3779b97f4a7c15;
         x = (x XOR drop_bit 30 x) * 0xbf58476d1ce4e5b9;
         x = (x XOR drop_bit 27 x) * 0x94d049bb133111eb
     in unat ((x XOR drop_bit 31 x) AND (of_nat THREAD_BUCKETS - 1)))"

section \<open>The counters\<close>

record alloc_counters =
  t_alloc_size :: "nat \<Rightarrow> nat \<Rightarrow> u64"
  g_alloc_size :: "nat \<Rightarrow> u64"

definition alloc_counters_init :: alloc_counters where
  "alloc_counters_init = \<lparr>t_alloc_size = (\<lambda>_ _. 0), g_alloc_size = (\<lambda>_. 0)\<rparr>"

definition set_bucket :: "nat \<Rightarrow> nat \<Rightarrow> u64 \<Rightarrow> alloc_counters \<Rightarrow> alloc_counters" where
  "set_bucket kind_id bucket_id v c =
    c\<lparr>t_alloc_size := (t_alloc_size c)(kind_id := (t_alloc_size c kind_id)(bucket_id := v))\<rparr>"

definition add_global :: "nat \<Rightarrow> u64 \<Rightarrow> alloc_counters \<Rightarrow> alloc_counters" where
  "add_global kind_id v c =
    c\<lparr>g_alloc_size := (g_alloc_size c)(kind_id := g_alloc_size c kind_id + v)\<rparr>"

definition memtier_reset_size :: "nat \<Rightarrow> alloc_counters \<Rightarrow> alloc_counters" where
  "memtier_reset_size kind_id c =
    (let c = fold (\<lambda>bucket_id. set_bucket kind_id bucket_id 0) [0..<THREAD_BUCKETS] c
     in c\<lparr>g_alloc_size := (g_alloc_size c)(kind_id := 0)\<rparr>)"

text \<open>The atomic operations return the value before the addition; the test adds the size again.\<close>

definition increment_alloc_size :: "u64 \<Rightarrow> nat \<Rightarrow> u64 \<Rightarrow> alloc_counters \<Rightarrow> alloc_counters" where
  "increment_alloc_size self kind_id sz c =
    (let bucket_id = t_hash_64 self;
         old = t_alloc_size c kind_id bucket_id;
         c = set_bucket kind_id bucket_id (old + sz) c
     in if old + sz > FLUSH_THRESHOLD then
          (let size_f = t_alloc_size c kind_id bucket_id
           in add_global kind_id size_f (set_bucket kind_id bucket_id 0 c))
        else c)"

definition decrement_alloc_size :: "u64 \<Rightarrow> nat \<Rightarrow> u64 \<Rightarrow> alloc_counters \<Rightarrow> alloc_counters" where
  "decrement_alloc_size self kind_id sz c =
    (let bucket_id = t_hash_64 self;
         old = t_alloc_size c kind_id bucket_id;
         c = set_bucket kind_id bucket_id (old - sz) c
     in if old - sz < - FLUSH_THRESHOLD then
          (let size_f = t_alloc_size c kind_id bucket_id
           in add_global kind_id size_f (set_bucket kind_id bucket_id 0 c))
        else c)"

section \<open>The bucket is in range\<close>

lemma t_hash_64_hash: "t_hash_64 self = unat (hash64 self AND 255)"
  by (simp add: t_hash_64_def hash64_def Let_def)

lemma t_hash_64_less: "t_hash_64 self < THREAD_BUCKETS"
proof -
  have "hash64 self AND 255 \<le> 255"
    by (rule word_and_le1)
  then show ?thesis
    unfolding t_hash_64_hash word_le_nat_alt by simp
qed

section \<open>The total is conserved\<close>

definition counter_total :: "alloc_counters \<Rightarrow> nat \<Rightarrow> u64" where
  "counter_total c kind_id =
    g_alloc_size c kind_id + (\<Sum>b<THREAD_BUCKETS. t_alloc_size c kind_id b)"

lemma sum_upd:
  fixes f :: "nat \<Rightarrow> u64"
  assumes "b < n"
  shows "(\<Sum>i<n. (f(b := v)) i) = (\<Sum>i<n. f i) + v - f b"
proof -
  have "(\<Sum>i<n. (f(b := v)) i) = v + (\<Sum>i\<in>{..<n} - {b}. f i)"
    using assms by (subst sum.remove [of _ b]) (auto intro: sum.cong)
  moreover have "(\<Sum>i<n. f i) = f b + (\<Sum>i\<in>{..<n} - {b}. f i)"
    using assms by (intro sum.remove) auto
  ultimately show ?thesis
    by simp
qed

lemma total_set_bucket:
  assumes "b < THREAD_BUCKETS"
  shows "counter_total (set_bucket k b v c) j =
    counter_total c j + (if j = k then v - t_alloc_size c k b else 0)"
  using sum_upd [OF assms, of "t_alloc_size c k" v]
  by (simp add: counter_total_def set_bucket_def algebra_simps)

lemma total_add_global:
  "counter_total (add_global k v c) j = counter_total c j + (if j = k then v else 0)"
  by (simp add: counter_total_def add_global_def)

lemma set_bucket_get [simp]:
  "t_alloc_size (set_bucket k b v c) k b = v"
  "g_alloc_size (set_bucket k b v c) = g_alloc_size c"
  by (simp_all add: set_bucket_def)

lemma increment_total:
  "counter_total (increment_alloc_size self k n c) j = counter_total c j + (if j = k then n else 0)"
  by (simp add: increment_alloc_size_def Let_def total_add_global total_set_bucket t_hash_64_less)

lemma decrement_total:
  "counter_total (decrement_alloc_size self k n c) j = counter_total c j - (if j = k then n else 0)"
  by (simp add: decrement_alloc_size_def Let_def total_add_global total_set_bucket t_hash_64_less)

lemma reset_fold:
  "t_alloc_size (fold (\<lambda>b. set_bucket k b 0) bs c) j b =
    (if j = k \<and> b \<in> set bs then 0 else t_alloc_size c j b)"
  "g_alloc_size (fold (\<lambda>b. set_bucket k b 0) bs c) = g_alloc_size c"
  by (induction bs arbitrary: c) (auto simp: set_bucket_def)

lemma reset_total:
  "counter_total (memtier_reset_size k c) j = (if j = k then 0 else counter_total c j)"
  by (simp add: memtier_reset_size_def counter_total_def reset_fold Let_def)

text \<open>
  What the tiering code relies on: a family of counters with an operation that adds to one of them
  and leaves the others alone. A sequence of operations then adds up.
\<close>

locale sharded_counter =
  fixes total :: "'s \<Rightarrow> nat \<Rightarrow> u64" and bump :: "'o \<Rightarrow> 's \<Rightarrow> 's"
    and kind_of :: "'o \<Rightarrow> nat" and delta :: "'o \<Rightarrow> u64"
  assumes bump_total: "total (bump op s) k = total s k + (if k = kind_of op then delta op else 0)"
begin

lemma fold_bump_total:
  "total (fold bump ops s) k = total s k + (\<Sum>op\<leftarrow>ops. if k = kind_of op then delta op else 0)"
  by (induction ops arbitrary: s) (simp_all add: bump_total)

end

datatype counter_op = Incr u64 nat u64 | Decr u64 nat u64

fun counter_op_run :: "counter_op \<Rightarrow> alloc_counters \<Rightarrow> alloc_counters" where
  "counter_op_run (Incr self k n) = increment_alloc_size self k n"
| "counter_op_run (Decr self k n) = decrement_alloc_size self k n"

fun counter_op_kind :: "counter_op \<Rightarrow> nat" where
  "counter_op_kind (Incr self k n) = k"
| "counter_op_kind (Decr self k n) = k"

fun counter_op_delta :: "counter_op \<Rightarrow> u64" where
  "counter_op_delta (Incr self k n) = n"
| "counter_op_delta (Decr self k n) = - n"

interpretation tier_counter: sharded_counter counter_total counter_op_run counter_op_kind
    counter_op_delta
proof
  show "counter_total (counter_op_run op s) k =
      counter_total s k + (if k = counter_op_kind op then counter_op_delta op else 0)" for op s k
    by (cases op) (simp_all add: increment_total decrement_total)
qed

section \<open>Interleaved threads\<close>

text \<open>
  One call is three atomic steps: the fetch-and-add on the bucket, then, if its result passes the
  threshold, the exchange of the bucket with zero, then the addition to the global counter. Between
  the last two the size is held by the thread only. A step is labelled with what it adds to a kind.
\<close>

datatype counter_pc = Idle | Added nat nat | Taken nat u64

record counter_state =
  counters :: alloc_counters
  pcs :: "u64 \<Rightarrow> counter_pc"

inductive counter_step :: "counter_state \<Rightarrow> (nat \<times> u64) option \<Rightarrow> counter_state \<Rightarrow> bool" where
  incr_add: "pcs s self = Idle \<Longrightarrow> b = t_hash_64 self \<Longrightarrow>
    new = t_alloc_size (counters s) k b + sz \<Longrightarrow>
    counter_step s (Some (k, sz))
      (s\<lparr>counters := set_bucket k b new (counters s),
         pcs := (pcs s)(self := if new > FLUSH_THRESHOLD then Added k b else Idle)\<rparr>)"
| decr_add: "pcs s self = Idle \<Longrightarrow> b = t_hash_64 self \<Longrightarrow>
    new = t_alloc_size (counters s) k b - sz \<Longrightarrow>
    counter_step s (Some (k, - sz))
      (s\<lparr>counters := set_bucket k b new (counters s),
         pcs := (pcs s)(self := if new < - FLUSH_THRESHOLD then Added k b else Idle)\<rparr>)"
| take_bucket: "pcs s self = Added k b \<Longrightarrow>
    counter_step s None
      (s\<lparr>counters := set_bucket k b 0 (counters s),
         pcs := (pcs s)(self := Taken k (t_alloc_size (counters s) k b))\<rparr>)"
| add_taken: "pcs s self = Taken k size_f \<Longrightarrow>
    counter_step s None
      (s\<lparr>counters := add_global k size_f (counters s), pcs := (pcs s)(self := Idle)\<rparr>)"

inductive_cases counter_stepE: "counter_step s l s'"

fun in_flight :: "counter_pc \<Rightarrow> nat \<Rightarrow> u64" where
  "in_flight (Taken k v) j = (if j = k then v else 0)"
| "in_flight _ j = 0"

text \<open>What is counted for a kind, in the counters or in the hands of a thread.\<close>

definition flight_total :: "(u64 \<Rightarrow> counter_pc) \<Rightarrow> nat \<Rightarrow> u64" where
  "flight_total p k = (\<Sum>self\<in>UNIV. in_flight (p self) k)"

definition accounted :: "counter_state \<Rightarrow> nat \<Rightarrow> u64" where
  "accounted s k = counter_total (counters s) k + flight_total (pcs s) k"

definition label_delta :: "(nat \<times> u64) option \<Rightarrow> nat \<Rightarrow> u64" where
  "label_delta l k = (case l of Some (j, d) \<Rightarrow> if k = j then d else 0 | None \<Rightarrow> 0)"

definition pcs_ok :: "counter_state \<Rightarrow> bool" where
  "pcs_ok s \<longleftrightarrow> (\<forall>self k b. pcs s self = Added k b \<longrightarrow> b < THREAD_BUCKETS)"

lemma flight_upd:
  "flight_total (p(self := q)) k = flight_total p k + in_flight q k - in_flight (p self) k"
proof -
  have "(\<Sum>t\<in>UNIV. in_flight ((p(self := q)) t) k) =
      in_flight q k + (\<Sum>t\<in>UNIV - {self}. in_flight (p t) k)"
    by (subst sum.remove [of _ self]) (auto intro: sum.cong)
  moreover have "(\<Sum>t\<in>UNIV. in_flight (p t) k) =
      in_flight (p self) k + (\<Sum>t\<in>UNIV - {self}. in_flight (p t) k)"
    by (rule sum.remove) auto
  ultimately show ?thesis
    by (simp add: flight_total_def)
qed

lemma counter_step_accounted:
  assumes "counter_step s l s'" "pcs_ok s"
  shows "pcs_ok s' \<and> accounted s' k = accounted s k + label_delta l k"
  using assms
proof (cases rule: counter_step.cases)
  case (take_bucket self j b)
  then have "b < THREAD_BUCKETS"
    using assms(2) by (auto simp: pcs_ok_def)
  then show ?thesis
    using take_bucket assms(2)
    by (auto simp: accounted_def total_set_bucket flight_upd label_delta_def pcs_ok_def)
qed (auto simp: accounted_def total_set_bucket total_add_global flight_upd label_delta_def pcs_ok_def
    t_hash_64_less split: if_splits)

inductive counter_run :: "counter_state \<Rightarrow> (nat \<times> u64) option list \<Rightarrow> counter_state \<Rightarrow> bool" where
  run_nil: "counter_run s [] s"
| run_step: "counter_run s ls s' \<Longrightarrow> counter_step s' l s'' \<Longrightarrow> counter_run s (ls @ [l]) s''"

lemma counter_run_accounted:
  assumes "counter_run s ls s'" "pcs_ok s"
  shows "pcs_ok s' \<and> accounted s' k = accounted s k + (\<Sum>l\<leftarrow>ls. label_delta l k)"
  using assms
proof (induction rule: counter_run.induct)
  case (run_step s ls s' l s'')
  with counter_step_accounted [of s' l s'' k] show ?case
    by simp
qed simp

lemma conserved:
  assumes "counter_run \<lparr>counters = alloc_counters_init, pcs = \<lambda>_. Idle\<rparr> ls s"
    and "\<forall>self. pcs s self = Idle"
  shows "counter_total (counters s) k = (\<Sum>l\<leftarrow>ls. label_delta l k)"
proof -
  have "accounted s k =
      accounted \<lparr>counters = alloc_counters_init, pcs = \<lambda>_. Idle\<rparr> k + (\<Sum>l\<leftarrow>ls. label_delta l k)"
    using counter_run_accounted [OF assms(1), of k] by (simp add: pcs_ok_def)
  moreover have "flight_total (pcs s) k = 0"
    using assms(2) by (simp add: flight_total_def)
  ultimately show ?thesis
    by (simp add: accounted_def flight_total_def counter_total_def alloc_counters_init_def)
qed

section \<open>Progress\<close>

text \<open>The atomic steps that the calls in progress have still to make.\<close>

fun steps_left :: "counter_pc \<Rightarrow> nat" where
  "steps_left Idle = 0"
| "steps_left (Added k b) = 2"
| "steps_left (Taken k v) = 1"

definition pending :: "counter_state \<Rightarrow> nat" where
  "pending s = (\<Sum>self\<in>UNIV. steps_left (pcs s self))"

lemma pending_upd: "pending (s\<lparr>counters := c, pcs := (pcs s)(self := q)\<rparr>) + steps_left (pcs s self) = pending s + steps_left q"
proof -
  have "pending (s\<lparr>counters := c, pcs := (pcs s)(self := q)\<rparr>) = steps_left q + (\<Sum>t\<in>UNIV - {self}. steps_left (pcs s t))"
    unfolding pending_def by (subst sum.remove [of _ self]) (auto intro: sum.cong)
  moreover have "pending s = steps_left (pcs s self) + (\<Sum>t\<in>UNIV - {self}. steps_left (pcs s t))"
    unfolding pending_def by (rule sum.remove) auto
  ultimately show ?thesis
    by simp
qed

lemma pending_step: "counter_step s None s' \<Longrightarrow> pending s = Suc (pending s')"
proof (erule counter_stepE)
  show "pending s = Suc (pending s')"
    if "s' = s\<lparr>counters := set_bucket k b 0 (counters s), pcs := (pcs s)(self := Taken k (t_alloc_size (counters s) k b))\<rparr>"
      "pcs s self = Added k b" for self k b
    using that pending_upd [where self = self and q = "Taken k (t_alloc_size (counters s) k b)" and s = s] by simp
  show "pending s = Suc (pending s')"
    if "s' = s\<lparr>counters := add_global k v (counters s), pcs := (pcs s)(self := Idle)\<rparr>" "pcs s self = Taken k v"
    for self k v
    using that pending_upd [where self = self and q = Idle and s = s] by simp
qed auto

lemma pending_zero: "pending s = 0 \<longleftrightarrow> (\<forall>self. pcs s self = Idle)"
proof -
  have "steps_left q = 0 \<longleftrightarrow> q = Idle" for q
    by (cases q) auto
  then show ?thesis
    by (simp add: pending_def)
qed

lemma pending_enabled:
  assumes "pending s \<noteq> 0"
  obtains s' where "counter_step s None s'"
proof -
  obtain self where "pcs s self \<noteq> Idle"
    using assms by (auto simp: pending_zero)
  then show thesis
    using that by (cases "pcs s self") (auto intro: take_bucket add_taken)
qed

lemma run_append: "counter_run s ls s' \<Longrightarrow> counter_run s' ls' s'' \<Longrightarrow> counter_run s (ls @ ls') s''"
  by (rotate_tac, induction rule: counter_run.induct) (auto simp flip: append_assoc intro: run_step)

lemma pending_run:
  "counter_run s ls s' \<Longrightarrow> set ls \<subseteq> {None} \<Longrightarrow> pending s = length ls + pending s'"
  by (induction rule: counter_run.induct) (auto dest: pending_step)

lemma settles: "\<exists>s'. counter_run s (replicate (pending s) None) s'"
proof -
  have "m \<le> pending s \<Longrightarrow> \<exists>s'. counter_run s (replicate m None) s'" for m
  proof (induction m)
    case (Suc m)
    then obtain s' where s': "counter_run s (replicate m None) s'"
      by auto
    then have "pending s' \<noteq> 0"
      using pending_run [OF s'] Suc by (auto simp: set_replicate_conv_if split: if_splits)
    then obtain s'' where "counter_step s' None s''"
      by (rule pending_enabled)
    from run_step [OF s' this] show ?case
      by (auto simp: replicate_append_same)
  qed (auto intro: run_nil)
  then show ?thesis
    by simp
qed

section \<open>Properties\<close>


text \<open>Two threads; the second adds to the bucket of the first while it is being flushed.\<close>

lemma counters_run_example:
  "\<exists>s. counter_run \<lparr>counters = alloc_counters_init, pcs = \<lambda>_. Idle\<rparr>
      [Some (3, 60000), None, Some (3, 100), None] s \<and> (\<forall>self. pcs s self = Idle)"
proof -
  let ?s0 = "\<lparr>counters = alloc_counters_init, pcs = \<lambda>_. Idle\<rparr>"
  have e1: "\<exists>s. counter_run ?s0 [Some (3, 60000)] s \<and> pcs s 1 = Added 3 (t_hash_64 1) \<and>
      t_alloc_size (counters s) 3 (t_hash_64 1) = 60000 \<and> (\<forall>t. t \<noteq> 1 \<longrightarrow> pcs s t = Idle) \<and>
      (\<forall>b. b \<noteq> t_hash_64 1 \<longrightarrow> t_alloc_size (counters s) 3 b = 0)"
    using run_step [OF run_nil incr_add [of ?s0 1 "t_hash_64 1" 60000 3 60000]]
    by (force simp: alloc_counters_init_def set_bucket_def)
  then obtain s1 where s1: "counter_run ?s0 [Some (3, 60000)] s1" "pcs s1 1 = Added 3 (t_hash_64 1)"
    "\<forall>t. t \<noteq> 1 \<longrightarrow> pcs s1 t = Idle"
    "\<forall>b. b \<noteq> t_hash_64 1 \<longrightarrow> t_alloc_size (counters s1) 3 b = 0" "t_alloc_size (counters s1) 3 (t_hash_64 1) = 60000"
    by blast
  let ?s2 = "s1\<lparr>counters := set_bucket 3 (t_hash_64 1) 0 (counters s1),
    pcs := (pcs s1)(1 := Taken 3 (t_alloc_size (counters s1) 3 (t_hash_64 1)))\<rparr>"
  have s2: "counter_run ?s0 [Some (3, 60000), None] ?s2"
    using run_step [OF s1(1) take_bucket [OF s1(2)]] by simp
  have zero: "t_alloc_size (counters ?s2) 3 b = 0" for b
    using s1(4) by (simp add: set_bucket_def)
  have idle: "pcs ?s2 2 = Idle"
    using s1(3) by simp
  let ?s3 = "?s2\<lparr>counters := set_bucket 3 (t_hash_64 2) 100 (counters ?s2), pcs := (pcs ?s2)(2 := Idle)\<rparr>"
  have s3: "counter_run ?s0 [Some (3, 60000), None, Some (3, 100)] ?s3"
    using run_step [OF s2 incr_add [OF idle refl, of 100 3 100]] zero by simp
  have taken: "pcs ?s3 1 = Taken 3 60000"
    using s1(5) by simp
  show ?thesis
    using run_step [OF s3 add_taken [OF taken]] s1(3) by (intro exI) (auto split: if_splits)
qed


text \<open>
  C20. Every call of the counters finishes, and the counters settle. From any state that threads reach by
  interleaved calls, the calls in progress can always go on while one of them is unfinished, whatever
  order they are scheduled in they are finished after a number of steps that is fixed in advance,
  and then the global counter and the buckets hold exactly what was added and subtracted.
\<close>

theorem counters_settle:
  assumes "counter_run \<lparr>counters = alloc_counters_init, pcs = \<lambda>_. Idle\<rparr> ls s"
  shows "(\<exists>s'. counter_run s (replicate (pending s) None) s') \<and>
    (\<forall>m s'. counter_run s (replicate m None) s' \<longrightarrow>
      m \<le> pending s \<and>
      (m < pending s \<longrightarrow> (\<exists>s''. counter_step s' None s'')) \<and>
      (m = pending s \<longrightarrow> (\<forall>self. pcs s' self = Idle) \<and> counter_total (counters s') k = (\<Sum>l\<leftarrow>ls. label_delta l k)))"
proof (intro conjI allI impI settles)
  fix m s'
  assume run: "counter_run s (replicate m None) s'"
  then have p: "pending s = m + pending s'"
    using pending_run [OF run] by (simp add: set_replicate_conv_if)
  then show "m \<le> pending s"
    by simp
  show "\<exists>s''. counter_step s' None s''" if "m < pending s"
    using that p pending_enabled [of s'] by auto
  show idle: "pcs s' self = Idle" if "m = pending s" for self
    using that p pending_zero [of s'] by simp
  show "counter_total (counters s') k = (\<Sum>l\<leftarrow>ls. label_delta l k)" if "m = pending s"
    using idle that conserved [OF run_append [OF assms run]] by (simp add: label_delta_def sum_list_replicate)
qed

text \<open>A thread that is about to move its bucket has two steps left.\<close>

theorem counters_settle_witness:
  "\<exists>s s'. counter_run \<lparr>counters = alloc_counters_init, pcs = \<lambda>_. Idle\<rparr> [Some (3, 60000)] s \<and> pending s = 2 \<and>
    counter_run s [None, None] s' \<and> (\<forall>self. pcs s' self = Idle) \<and> counter_total (counters s') 3 = 60000"
proof -
  let ?start = "\<lparr>counters = alloc_counters_init, pcs = \<lambda>_. Idle\<rparr>"
  let ?s = "?start\<lparr>counters := set_bucket 3 (t_hash_64 1) 60000 (counters ?start), pcs := (pcs ?start)(1 := Added 3 (t_hash_64 1))\<rparr>"
  have run: "counter_run ?start [Some (3, 60000)] ?s"
    using run_step [OF run_nil incr_add [of ?start 1 "t_hash_64 1" 60000 3 60000]] by (simp add: alloc_counters_init_def)
  have two: "pending ?s = 2"
    using pending_upd [where s = ?start and self = 1 and q = "Added 3 (t_hash_64 1)"] by (simp add: pending_def)
  have steps: "replicate (pending ?s) None = [None, None]"
    by (simp only: two) (simp add: numeral_2_eq_2)
  note settle = counters_settle [OF run, of 3, unfolded steps]
  then obtain s' where s': "counter_run ?s [None, None] s'"
    by blast
  then have "(\<forall>self. pcs s' self = Idle) \<and> counter_total (counters s') 3 = 60000"
    using settle [THEN conjunct2, rule_format, of "pending ?s" s', unfolded steps] by (simp add: label_delta_def)
  with run two s' show ?thesis
    by blast
qed

end
