(* ===== verification/State.thy ===== *)
theory State
  imports Hugetlb Counters
begin

text \<open>
  The state of the library and the code it calls. The record \<open>mk\<close> collects the structures of the
  kinds and the globals of the components; \<open>world\<close> is the state of everything outside. The record
  \<open>sys\<close> holds the functions of jemalloc, of the TBB pool library, of the kernel and of the C library
  the sources call, as parameters; \<open>cstring_at\<close> is the string that starts at an address, and
  \<open>libc_malloc_zero\<close> says whether the C library's \<^verbatim>\<open>malloc(0)\<close> returns a block.

  jemalloc calls back into the library through the extent hooks of an arena, so its functions act
  on the whole state; what they may change there is stated as a hypothesis where a theorem needs
  it. Functions of the library return \<open>None\<close> where the process ends in \<open>abort()\<close>, a failed
  assertion or undefined behaviour.
\<close>

section \<open>Extent hooks\<close>

datatype extent_alloc_fn =
    Arena_extent_alloc
  | Arena_extent_alloc_hugetlb
  | Pmem_extent_alloc
  | Fixed_extent_alloc

datatype extent_dalloc_fn =
    Arena_extent_dalloc
  | Pmem_extent_dalloc
  | Pmem_extent_dalloc_hog_memory
  | Fixed_extent_dalloc

datatype extent_purge_fn =
    Arena_extent_purge
  | Arena_extent_purge_hog_memory
  | Pmem_extent_purge
  | Fixed_extent_purge

datatype extent_destroy_fn =
    Pmem_extent_destroy
  | Fixed_extent_destroy

text \<open>
  The hooks \<open>commit\<close>, \<open>decommit\<close>, \<open>split\<close> and \<open>merge\<close> ignore their arguments in all tables: they are
  kept as the constant they return.
\<close>

record extent_hooks_t =
  eh_alloc :: extent_alloc_fn
  eh_dalloc :: extent_dalloc_fn
  eh_commit :: bool
  eh_decommit :: bool
  eh_purge_lazy :: extent_purge_fn
  eh_split :: bool
  eh_merge :: bool
  eh_destroy :: "extent_destroy_fn option"

section \<open>The library's state\<close>

datatype heap_manager_t = Arena_heap_manager | Tbb_heap_manager

record 'w mk =
  kinds :: "memkind_t \<Rightarrow> memkind"
  kind_live :: "memkind_t \<Rightarrow> bool"
  partition_map :: "memkind_t option list"
  num_kind :: int
  arena_registry_g :: "u32 \<Rightarrow> memkind_t option"
  arena_config_once :: bool
  arena_init_status :: int
  tcache_maps :: "u64 \<Rightarrow> u32 list option"
  memkind_hog_memory :: bool
  heap_manager_g :: "heap_manager_t option"
  TBBInitDone :: bool
  tier_counters :: alloc_counters
  numa_g :: numa_globals
  hugepages_config :: memkind_hugepages_config_t
  errno :: int
  world :: 'w

abbreviation (input) MALLOCX_ARENA_MAX :: u32 where "MALLOCX_ARENA_MAX \<equiv> 0xffe"

definition upd_kind :: "memkind_t \<Rightarrow> (memkind \<Rightarrow> memkind) \<Rightarrow> 'w mk \<Rightarrow> 'w mk" where
  "upd_kind k f s = s\<lparr>kinds := (kinds s)(k := f (kinds s k))\<rparr>"

definition mk_init :: "'w \<Rightarrow> 'w mk" where
  "mk_init w =
    \<lparr>kinds = static_kind, kind_live = is_static,
     partition_map = map Some static_registry @ replicate (MEMKIND_MAX_KIND - MEMKIND_NUM_STATIC_KINDS) None,
     num_kind = int MEMKIND_NUM_STATIC_KINDS,
     arena_registry_g = (\<lambda>_. None), arena_config_once = False, arena_init_status = 0,
     tcache_maps = (\<lambda>_. None), memkind_hog_memory = False, heap_manager_g = None,
     TBBInitDone = False, tier_counters = alloc_counters_init, numa_g = numa_globals_init,
     hugepages_config = memkind_hugepages_config_init, errno = 0, world = w\<rparr>"

section \<open>The code outside\<close>

text \<open>
  The argument \<^verbatim>\<open>newp\<close> of \<^verbatim>\<open>mallctl\<close>. A call returns its error code and the value stored through
  \<^verbatim>\<open>oldp\<close>, which callers only use when the code is 0.
\<close>

datatype ctl_arg =
    Ctl_none
  | Ctl_hooks extent_hooks_t
  | Ctl_config extent_hooks_t bool
  | Ctl_unsigned u32
  | Ctl_size u64
  | Ctl_bool bool

record 'w sys =
  host_of :: "'w host"
  pthread_self :: "'w \<Rightarrow> u64"
  pthread_key_create :: int
  pthread_mutex_init :: "'w \<Rightarrow> int \<times> 'w"
  je_mallocx :: "u64 \<Rightarrow> u32 \<Rightarrow> 'w mk \<Rightarrow> ptr \<times> 'w mk"
  je_rallocx :: "ptr \<Rightarrow> u64 \<Rightarrow> u32 \<Rightarrow> 'w mk \<Rightarrow> ptr \<times> 'w mk"
  je_dallocx :: "ptr \<Rightarrow> u32 \<Rightarrow> 'w mk \<Rightarrow> 'w mk"
  je_malloc :: "u64 \<Rightarrow> 'w mk \<Rightarrow> ptr \<times> 'w mk"
  je_calloc :: "u64 \<Rightarrow> u64 \<Rightarrow> 'w mk \<Rightarrow> ptr \<times> 'w mk"
  je_posix_memalign :: "ptr \<Rightarrow> u64 \<Rightarrow> u64 \<Rightarrow> 'w mk \<Rightarrow> (int \<times> ptr) \<times> 'w mk"
  je_realloc :: "ptr \<Rightarrow> u64 \<Rightarrow> 'w mk \<Rightarrow> ptr \<times> 'w mk"
  je_free :: "ptr \<Rightarrow> 'w mk \<Rightarrow> 'w mk"
  je_mallctl :: "string \<Rightarrow> ctl_arg \<Rightarrow> 'w mk \<Rightarrow> (int \<times> u64) \<times> 'w mk"
  je_malloc_usable_size :: "ptr \<Rightarrow> 'w mk \<Rightarrow> u64"
  je_arenalookupx :: "ptr \<Rightarrow> 'w mk \<Rightarrow> u32"
  je_check_reallocatex :: "ptr \<Rightarrow> 'w mk \<Rightarrow> bool"
  je_stats_print :: "string option \<Rightarrow> 'w mk \<Rightarrow> 'w mk"
  memcpy :: "ptr \<Rightarrow> ptr \<Rightarrow> u64 \<Rightarrow> 'w \<Rightarrow> 'w"
  tbb_symbols_found :: bool
  tbb_has_msize :: bool
  pool_create_v1 :: "memkind_t \<Rightarrow> 'w mk \<Rightarrow> ptr \<times> 'w mk"
  pool_malloc :: "ptr \<Rightarrow> u64 \<Rightarrow> 'w mk \<Rightarrow> ptr \<times> 'w mk"
  pool_realloc :: "ptr \<Rightarrow> ptr \<Rightarrow> u64 \<Rightarrow> 'w mk \<Rightarrow> ptr \<times> 'w mk"
  pool_aligned_malloc :: "ptr \<Rightarrow> u64 \<Rightarrow> u64 \<Rightarrow> 'w mk \<Rightarrow> ptr \<times> 'w mk"
  pool_free :: "ptr \<Rightarrow> ptr \<Rightarrow> 'w mk \<Rightarrow> 'w mk"
  pool_destroy :: "ptr \<Rightarrow> 'w mk \<Rightarrow> bool \<times> 'w mk"
  pool_identify :: "ptr \<Rightarrow> 'w mk \<Rightarrow> ptr"
  pool_msize :: "ptr \<Rightarrow> ptr \<Rightarrow> 'w mk \<Rightarrow> u64"
  pool_identify_addr :: ptr
  memset_zero :: "ptr \<Rightarrow> u64 \<Rightarrow> 'w \<Rightarrow> 'w"
  sys_mmap :: "ptr \<Rightarrow> u64 \<Rightarrow> u32 \<Rightarrow> int \<Rightarrow> u64 \<Rightarrow> 'w \<Rightarrow> ptr \<times> 'w"
  sys_munmap :: "ptr \<Rightarrow> u64 \<Rightarrow> 'w \<Rightarrow> int \<times> 'w"
  sys_madvise :: "ptr \<Rightarrow> u64 \<Rightarrow> nat \<Rightarrow> 'w \<Rightarrow> (int \<times> int) \<times> 'w"
  sys_mbind :: "ptr \<Rightarrow> u64 \<Rightarrow> nat \<Rightarrow> bitmask \<Rightarrow> 'w \<Rightarrow> int \<times> 'w"
  sys_posix_fallocate :: "int \<Rightarrow> u64 \<Rightarrow> u64 \<Rightarrow> 'w \<Rightarrow> int \<times> 'w"
  sys_mkstemp :: "string \<Rightarrow> 'w \<Rightarrow> (int \<times> string) \<times> 'w"
  sys_unlink :: "string \<Rightarrow> 'w \<Rightarrow> 'w"
  sys_close :: "int \<Rightarrow> 'w \<Rightarrow> 'w"
  sys_ftruncate :: "int \<Rightarrow> u64 \<Rightarrow> 'w \<Rightarrow> int \<times> 'w"
  sys_pagesize :: u64
  sys_statvfs :: "string \<Rightarrow> 'w \<Rightarrow> int \<times> u64 \<times> u64"
  sys_move_pages :: "ptr list \<Rightarrow> 'w \<Rightarrow> (int \<times> int list) \<times> 'w"
  touch_page :: "ptr \<Rightarrow> 'w \<Rightarrow> 'w"
  cstring_at :: "ptr \<Rightarrow> 'w \<Rightarrow> string"
  libc_malloc_zero :: bool

text \<open>\<^verbatim>\<open>memkind_get_env\<close> reads the process environment, with or without \<^verbatim>\<open>secure_getenv\<close>.\<close>

definition memkind_get_env :: "'w sys \<Rightarrow> string \<Rightarrow> string option" where
  "memkind_get_env sy name = getenv (host_of sy) name"

definition self_of :: "'w sys \<Rightarrow> 'w mk \<Rightarrow> u64" where
  "self_of sy s = pthread_self sy (world s)"

text \<open>A call of the kernel or of the C library: the result and the state with the new world.\<close>

definition on_world :: "('w \<Rightarrow> 'r \<times> 'w) \<Rightarrow> 'w mk \<Rightarrow> 'r \<times> 'w mk" where
  "on_world f s = (let (r, w) = f (world s) in (r, s\<lparr>world := w\<rparr>))"

lemma upd_kind_sel [simp]:
  "kinds (upd_kind k f s) j = (if j = k then f (kinds s k) else kinds s j)"
  "kind_live (upd_kind k f s) = kind_live s"
  "partition_map (upd_kind k f s) = partition_map s"
  "num_kind (upd_kind k f s) = num_kind s"
  "arena_registry_g (upd_kind k f s) = arena_registry_g s"
  "arena_config_once (upd_kind k f s) = arena_config_once s"
  "arena_init_status (upd_kind k f s) = arena_init_status s"
  "tcache_maps (upd_kind k f s) = tcache_maps s"
  "memkind_hog_memory (upd_kind k f s) = memkind_hog_memory s"
  "heap_manager_g (upd_kind k f s) = heap_manager_g s"
  "TBBInitDone (upd_kind k f s) = TBBInitDone s"
  "tier_counters (upd_kind k f s) = tier_counters s"
  "numa_g (upd_kind k f s) = numa_g s"
  "hugepages_config (upd_kind k f s) = hugepages_config s"
  "errno (upd_kind k f s) = errno s"
  "world (upd_kind k f s) = world s"
  by (simp_all add: upd_kind_def)

lemma mk_init_sel [simp]:
  "kinds (mk_init w) = static_kind" "kind_live (mk_init w) = is_static"
  "num_kind (mk_init w) = 23" "arena_registry_g (mk_init w) = (\<lambda>_. None)"
  "arena_config_once (mk_init w) = False" "arena_init_status (mk_init w) = 0"
  "world (mk_init w) = w" "errno (mk_init w) = 0"
  by (simp_all add: mk_init_def)

section \<open>A sample system\<close>

text \<open>
  A system for concrete instances of the theorems, on top of the sample host. Its world is the
  number of arenas created so far; a pointer that its \<open>mallocx\<close> returns is the number of the arena
  plus one; mappings start at \<open>0x10000000\<close>.
\<close>

definition sample_mallctl :: "string \<Rightarrow> ctl_arg \<Rightarrow> nat mk \<Rightarrow> (int \<times> u64) \<times> nat mk" where
  "sample_mallctl cmd arg s =
    (if cmd = ''arenas.create'' \<or> cmd = ''experimental.arenas_create_ext''
     then ((0, of_nat (world s)), s\<lparr>world := Suc (world s)\<rparr>) else ((0, 1), s))"

definition sample_mallocx :: "u64 \<Rightarrow> u32 \<Rightarrow> nat mk \<Rightarrow> ptr \<times> nat mk" where
  "sample_mallocx n flags s = (ucast (drop_bit 20 flags), s)"

definition sample_sys :: "nat sys" where
  "sample_sys =
    \<lparr>host_of = sample_host, pthread_self = (\<lambda>w. 7), pthread_key_create = 0,
     pthread_mutex_init = (\<lambda>w. (0, w)),
     je_mallocx = sample_mallocx, je_rallocx = (\<lambda>p n f s. (p, s)), je_dallocx = (\<lambda>p f s. s),
     je_malloc = (\<lambda>n s. (0x1000, s)), je_calloc = (\<lambda>m n s. (0x2000, s)),
     je_posix_memalign = (\<lambda>p a n s. ((0, 0x4000), s)), je_realloc = (\<lambda>p n s. (p, s)),
     je_free = (\<lambda>p s. s), je_mallctl = sample_mallctl,
     je_malloc_usable_size = (\<lambda>p s. 64), je_arenalookupx = (\<lambda>p s. ucast p - 1),
     je_check_reallocatex = (\<lambda>p s. True), je_stats_print = (\<lambda>opts s. s),
     memcpy = (\<lambda>d p n w. w), tbb_symbols_found = False, tbb_has_msize = False,
     pool_create_v1 = (\<lambda>k s. (0, s)), pool_malloc = (\<lambda>p n s. (0, s)),
     pool_realloc = (\<lambda>p q n s. (0, s)), pool_aligned_malloc = (\<lambda>p n a s. (0, s)),
     pool_free = (\<lambda>p q s. s), pool_destroy = (\<lambda>p s. (True, s)), pool_identify = (\<lambda>p s. 0),
     pool_msize = (\<lambda>p q s. 0), pool_identify_addr = 0, memset_zero = (\<lambda>p n w. w),
     sys_mmap = (\<lambda>a n f fd off w. (0x10000000, w)), sys_munmap = (\<lambda>a n w. (0, w)),
     sys_madvise = (\<lambda>a n adv w. ((0, 0), w)), sys_mbind = (\<lambda>a n m bm w. (0, w)),
     sys_posix_fallocate = (\<lambda>fd off n w. (0, w)), sys_mkstemp = (\<lambda>nm w. ((5, nm), w)),
     sys_unlink = (\<lambda>nm w. w), sys_close = (\<lambda>fd w. w), sys_ftruncate = (\<lambda>fd n w. (0, w)),
     sys_pagesize = 4096, sys_statvfs = (\<lambda>nm w. (0, 1000, 4096)),
     sys_move_pages = (\<lambda>ps w. ((0, map (\<lambda>_. 0) ps), w)), touch_page = (\<lambda>p w. w),
     cstring_at = (\<lambda>p w. []), libc_malloc_zero = True\<rparr>"

lemma sample_sys_sel [simp]:
  "host_of sample_sys = sample_host" "pthread_self sample_sys w = 7"
  "pthread_key_create sample_sys = 0" "je_mallocx sample_sys = sample_mallocx"
  "je_mallctl sample_sys = sample_mallctl" "je_arenalookupx sample_sys p s = ucast p - 1"
  by (simp_all add: sample_sys_def)

end
