(* ===== verification/Bit_Util.thy ===== *)
theory Bit_Util
  imports Prelude
begin

text \<open>
  The bit operations of jemalloc (\<^verbatim>\<open>jemalloc/include/jemalloc/internal/bit_util.h\<close>) on \<^verbatim>\<open>unsigned long\<close> and \<^verbatim>\<open>size_t\<close>,
  which have 64 bits here: position of the lowest and of the highest bit, with and without the compiler's builtin
  function, rounding to a power of two and logarithms, and the number of set bits.

  The positions are natural numbers below 64. The functions assume a non-zero argument where the code
  tells the compiler to assume it. The lemmas give the positions as bounds by powers of two, and show that the
  code without builtin functions computes the same.
\<close>

section \<open>Definitions\<close>

text \<open>The builtin functions of the compiler.\<close>

definition builtin_ffsl :: "u64 \<Rightarrow> nat" where
  "builtin_ffsl x = (case List.find (bit x) [0..<64] of Some i \<Rightarrow> Suc i | None \<Rightarrow> 0)"

definition builtin_clzl :: "u64 \<Rightarrow> nat" where
  "builtin_clzl x = length (takeWhile Not (map (bit x) (rev [0..<64])))"

definition builtin_popcountl :: "u64 \<Rightarrow> nat" where
  "builtin_popcountl x = length (filter (bit x) [0..<64])"

definition ffs_lu :: "u64 \<Rightarrow> nat" where
  "ffs_lu x = builtin_ffsl x - 1"

definition fls_lu :: "u64 \<Rightarrow> nat" where
  "fls_lu x = (8 * 8 - 1) XOR builtin_clzl x"

definition fls_lu_slow :: "u64 \<Rightarrow> nat" where
  "fls_lu_slow x =
    (let x = x OR drop_bit 1 x; x = x OR drop_bit 2 x; x = x OR drop_bit 4 x; x = x OR drop_bit 8 x;
         x = x OR drop_bit 16 x; x = x OR drop_bit 32 x; x = x + 1
     in if x = 0 then 8 * 8 - 1 else ffs_lu x - 1)"

definition popcount_lu :: "u64 \<Rightarrow> nat" where
  "popcount_lu bitmap = builtin_popcountl bitmap"

text \<open>The bit that is cleared and what is left.\<close>

definition cfs_lu :: "u64 \<Rightarrow> nat \<times> u64" where
  "cfs_lu bitmap = (let b = ffs_lu bitmap in (b, bitmap XOR push_bit b 1))"

definition pow2_ceil_u64 :: "u64 \<Rightarrow> u64" where
  "pow2_ceil_u64 x = (if x \<le> 1 then x else push_bit (fls_lu (x - 1) + 1) 1)"

definition lg_floor :: "u64 \<Rightarrow> nat" where
  "lg_floor x = fls_lu x"

definition lg_ceil :: "u64 \<Rightarrow> nat" where
  "lg_ceil x = lg_floor x + (if x AND (x - 1) = 0 then 0 else 1)"

section \<open>The highest bit\<close>

lemma takeWhile_highest:
  assumes "f h" "h < n" "\<forall>j. h < j \<and> j < n \<longrightarrow> \<not> f j"
  shows "length (takeWhile Not (map f (rev [0..<n]))) = n - Suc h"
proof -
  have "[0..<n] = [0..<h] @ h # [Suc h..<n]"
    using assms(2) by (metis append.assoc append_Cons append_Nil le0 less_imp_le_nat upt_add_eq_append
        le_add_diff_inverse upt_conv_Cons)
  then have split: "map f (rev [0..<n]) = map f (rev [Suc h..<n]) @ f h # map f (rev [0..<h])"
    by simp
  have "takeWhile Not (map f (rev [0..<n])) = map f (rev [Suc h..<n])"
    unfolding split using assms(1,3) by (subst takeWhile_append2) auto
  then show ?thesis
    by simp
qed

lemma highest_bit:
  fixes v :: "'a :: len word"
  assumes "v \<noteq> 0"
  obtains h where "bit v h" "\<forall>j > h. \<not> bit v j" "h < LENGTH('a)"
proof -
  obtain i where "bit v i"
    using assms by (auto simp: bit_eq_iff)
  then have ex: "\<exists>i. bit v i" "\<forall>i. bit v i \<longrightarrow> i \<le> LENGTH('a)"
    using bit_imp_le_length [of v] by (fastforce intro: less_imp_le)+
  define h where "h = (GREATEST i. bit v i)"
  have h: "bit v h" "\<And>j. h < j \<Longrightarrow> \<not> bit v j"
    unfolding h_def using GreatestI_ex_nat [OF ex(1)] Greatest_le_nat [of "bit v" _ "LENGTH('a)"] ex(2)
    by (metis, metis not_le)
  show thesis
    using that h bit_imp_le_length [OF h(1)] by blast
qed

lemma highest_bit_bounds:
  fixes v :: "'a :: len word"
  assumes "bit v h" "\<forall>j > h. \<not> bit v j"
  shows "2 ^ h \<le> unat v" "unat v < 2 ^ Suc h"
proof -
  have bits: "bit (unat v) j = bit v j" for j
    using bit_imp_le_length [of v j] by (auto simp: bit_unsigned_iff)
  have "odd (unat v div 2 ^ h)"
    using assms bits by (simp add: bit_iff_odd)
  then have "unat v div 2 ^ h \<noteq> 0"
    by (metis even_zero)
  then show "2 ^ h \<le> unat v"
    by (metis div_less not_le)
  have "take_bit (Suc h) (unat v) = unat v"
    by (rule bit_eqI) (use assms bits in \<open>auto simp: bit_take_bit_iff less_Suc_eq_le not_less\<close>)
  then show "unat v < 2 ^ Suc h"
    by (metis take_bit_nat_less_exp)
qed

lemma exponent_unique:
  assumes "2 ^ m \<le> (n :: nat)" "n < 2 ^ Suc m" "2 ^ k \<le> n" "n < 2 ^ Suc k"
  shows "m = k"
proof -
  have "(2 :: nat) ^ m < 2 ^ Suc k" "(2 :: nat) ^ k < 2 ^ Suc m"
    using assms by linarith+
  then have "m < Suc k" "k < Suc m"
    by (simp_all only: power_strict_increasing_iff one_less_numeral_iff semiring_norm)
  then show ?thesis
    by simp
qed

lemma xor_63: "c < 64 \<Longrightarrow> (63 :: nat) XOR c = 63 - c"
proof -
  have "list_all (\<lambda>c. (63 :: nat) XOR c = 63 - c) [0..<64]"
    by code_simp
  then show "c < 64 \<Longrightarrow> (63 :: nat) XOR c = 63 - c"
    by (simp add: list_all_iff)
qed

lemma fls_lu_highest:
  assumes "bit x h" "\<forall>j > h. \<not> bit x j"
  shows "fls_lu x = h"
proof -
  have h: "h < 64"
    using bit_imp_le_length [OF assms(1)] by simp
  then have "builtin_clzl x = 63 - h"
    using takeWhile_highest [of "bit x" h 64] assms by (simp add: builtin_clzl_def)
  then show ?thesis
    using h by (simp add: fls_lu_def xor_63)
qed

lemma lg_floor_bounds:
  assumes "x \<noteq> 0"
  shows "2 ^ lg_floor x \<le> unat x" "unat x < 2 ^ Suc (lg_floor x)" "lg_floor x < 64"
proof -
  obtain h where h: "bit x h" "\<forall>j > h. \<not> bit x j" "h < 64"
    using highest_bit [OF assms] by auto
  then have "lg_floor x = h"
    by (simp add: lg_floor_def fls_lu_highest)
  then show "2 ^ lg_floor x \<le> unat x" "unat x < 2 ^ Suc (lg_floor x)" "lg_floor x < 64"
    using highest_bit_bounds [OF h(1,2)] h(3) by auto
qed

lemma lg_floor_unique:
  assumes "2 ^ k \<le> unat x" "unat x < 2 ^ Suc k"
  shows "lg_floor x = k"
proof -
  have "x \<noteq> 0"
    using assms(1) by auto
  from lg_floor_bounds(1,2) [OF this] assms show ?thesis
    by (rule exponent_unique)
qed

section \<open>Logarithm and power of two, rounded up\<close>

lemma lg_floor_pred:
  assumes "2 \<le> unat x"
  shows "2 ^ lg_floor (x - 1) < unat x" "unat x \<le> 2 ^ Suc (lg_floor (x - 1))" "lg_floor (x - 1) < 64"
proof -
  have "1 \<le> x"
    using assms by (simp add: word_le_nat_alt)
  then have u: "unat (x - 1) = unat x - 1"
    by (simp add: unat_sub)
  then have "x - 1 \<noteq> 0"
    using assms by auto
  from lg_floor_bounds [OF this] show "2 ^ lg_floor (x - 1) < unat x" "unat x \<le> 2 ^ Suc (lg_floor (x - 1))"
    "lg_floor (x - 1) < 64"
    using assms unfolding u by linarith+
qed

lemma bit_of_bounds:
  fixes x :: "'a :: len word"
  assumes "2 ^ h \<le> unat x" "unat x < 2 ^ Suc h"
  shows "bit x h"
proof -
  have "x \<noteq> 0"
    using assms(1) by auto
  then obtain k where k: "bit x k" "\<forall>j > k. \<not> bit x j"
    by (rule highest_bit)
  then show ?thesis
    using exponent_unique [OF assms highest_bit_bounds [OF k]] by simp
qed

lemma unat_pow2: "m < LENGTH('a) \<Longrightarrow> unat (2 ^ m :: 'a :: len word) = 2 ^ m"
  using unat_of_nat_no_wrap [of "2 ^ m", where 'a = 'a] by simp

lemma and_not_pow2_minus_one:
  assumes "j < 64"
  shows "unat ((x :: u64) AND NOT (2 ^ j - 1)) = unat x - unat x mod 2 ^ j"
proof -
  have m: "(2 :: u64) ^ j - 1 = mask j"
    by (simp add: mask_eq_exp_minus_1)
  have "x AND NOT (mask j) = x AND NOT (take_bit j x)"
    by (rule bit_word_eqI) (auto simp: bit_simps)
  also have "\<dots> = x - take_bit j x"
    by (rule disjunctive_diff [symmetric]) (simp add: bit_take_bit_iff)
  finally have e: "x AND NOT (2 ^ j - 1) = x - take_bit j x"
    by (simp only: m)
  have t: "unat (take_bit j x) = unat x mod 2 ^ j"
    by (simp only: unsigned_take_bit_eq) (simp add: take_bit_eq_mod)
  then have "take_bit j x \<le> x"
    by (simp add: word_le_nat_alt)
  then show ?thesis
    by (simp add: e unat_sub t)
qed

lemma and_pow2_minus_one_zero:
  assumes "j < 64"
  shows "(x :: u64) AND (2 ^ j - 1) = 0 \<longleftrightarrow> 2 ^ j dvd unat x"
proof -
  have "x AND (2 ^ j - 1) = take_bit j x"
    by (simp add: take_bit_eq_mask mask_eq_exp_minus_1)
  moreover have "unat (take_bit j x) = unat x mod 2 ^ j"
    by (simp only: unsigned_take_bit_eq) (simp add: take_bit_eq_mod)
  ultimately show ?thesis
    by (simp add: dvd_eq_mod_eq_0 flip: unat_eq_0)
qed

lemma and_pred_zero_iff:
  assumes "x \<noteq> (0 :: u64)"
  shows "x AND (x - 1) = 0 \<longleftrightarrow> unat x = 2 ^ lg_floor x"
proof
  note b = lg_floor_bounds [OF assms]
  assume "unat x = 2 ^ lg_floor x"
  then have x: "x = 2 ^ lg_floor x"
    using b(3) by (simp add: word_unat_eq_iff unat_pow2)
  have "x AND (x - 1) = 2 ^ lg_floor x AND mask (lg_floor x)"
    by (subst (1 2) x) (simp add: mask_eq_exp_minus_1)
  also have "\<dots> = 0"
    by (rule bit_word_eqI) (simp add: bit_simps)
  finally show "x AND (x - 1) = 0" .
next
  note b = lg_floor_bounds [OF assms]
  have "1 \<le> x"
    using assms by (simp add: word_le_nat_alt Suc_le_eq unat_gt_0)
  then have u: "unat (x - 1) = unat x - 1"
    by (simp add: unat_sub)
  assume "x AND (x - 1) = 0"
  then have "\<not> (bit x (lg_floor x) \<and> bit (x - 1) (lg_floor x))"
    by (metis bit_0_eq bit_and_iff bot_apply bot_bool_def)
  then have "\<not> bit (x - 1) (lg_floor x)"
    using bit_of_bounds [OF b(1,2)] by simp
  then show "unat x = 2 ^ lg_floor x"
    using b bit_of_bounds [of "lg_floor x" "x - 1"] unfolding u by linarith
qed

lemma lg_ceil_bounds:
  assumes "x \<noteq> 0"
  shows "unat x \<le> 2 ^ lg_ceil x" "unat x \<le> 2 ^ k \<Longrightarrow> lg_ceil x \<le> k"
proof -
  note b = lg_floor_bounds [OF assms]
  show "unat x \<le> 2 ^ lg_ceil x"
    using b and_pred_zero_iff [OF assms] by (auto simp: lg_ceil_def)
  assume k: "unat x \<le> 2 ^ k"
  show "lg_ceil x \<le> k"
  proof (cases "unat x = 2 ^ lg_floor x")
    case True
    then show ?thesis
      using k and_pred_zero_iff [OF assms] by (simp add: lg_ceil_def power_increasing_iff)
  next
    case False
    then have "2 ^ lg_floor x < (2 :: nat) ^ k"
      using b k by linarith
    then show ?thesis
      using False and_pred_zero_iff [OF assms] by (simp add: lg_ceil_def power_strict_increasing_iff)
  qed
qed

lemma pow2_ceil_bounds:
  assumes "1 < unat x" "unat x \<le> 2 ^ 63"
  shows "unat (pow2_ceil_u64 x) = 2 ^ Suc (lg_floor (x - 1))"
proof -
  have "2 ^ lg_floor (x - 1) < (2 :: nat) ^ 63"
    using lg_floor_pred(1) [of x] assms by linarith
  then have "lg_floor (x - 1) < 63"
    by (simp only: power_strict_increasing_iff one_less_numeral_iff semiring_norm)
  then have "Suc (lg_floor (x - 1)) < 64"
    by simp
  then show ?thesis
    using assms unat_pow2 [of "Suc (lg_floor (x - 1))", where 'a = 64]
    by (simp add: pow2_ceil_u64_def lg_floor_def word_le_nat_alt)
qed

section \<open>The lowest bit\<close>

lemma ffs_lu_lowest:
  assumes "x \<noteq> 0"
  shows "bit x (ffs_lu x)" "j < ffs_lu x \<Longrightarrow> \<not> bit x j" "ffs_lu x < 64"
proof -
  obtain h where "bit x h" "h < 64"
    using highest_bit [OF assms] by auto
  then have "List.find (bit x) [0..<64] \<noteq> None"
    unfolding find_None_iff by auto
  then obtain i where i: "List.find (bit x) [0..<64] = Some i"
    by auto
  then have "ffs_lu x = i"
    by (simp add: ffs_lu_def builtin_ffsl_def)
  then show "bit x (ffs_lu x)" "j < ffs_lu x \<Longrightarrow> \<not> bit x j" "ffs_lu x < 64"
    using i unfolding find_Some_iff by (auto simp del: upt_Suc)
qed

lemma ffs_lu_unique:
  assumes "bit x i" "\<forall>j<i. \<not> bit x j"
  shows "ffs_lu x = i"
proof -
  have "x \<noteq> 0"
    using assms(1) by auto
  then show ?thesis
    using ffs_lu_lowest [of x] assms by (metis linorder_neqE_nat)
qed

section \<open>The highest bit without builtin functions\<close>

lemma smear_step:
  fixes x y :: u64
  assumes "\<And>i. bit y i \<longleftrightarrow> (\<exists>d<m. bit x (i + d))" "n = m + m"
  shows "bit (y OR drop_bit m y) i \<longleftrightarrow> (\<exists>d<n. bit x (i + d))"
proof -
  have "(\<exists>d<m + m. P d) \<longleftrightarrow> (\<exists>d<m. P d) \<or> (\<exists>d<m. P (m + d))" for P :: "nat \<Rightarrow> bool"
  proof
    assume "\<exists>d<m + m. P d"
    then obtain d where d: "d < m + m" "P d"
      by blast
    show "(\<exists>d<m. P d) \<or> (\<exists>d<m. P (m + d))"
    proof (cases "d < m")
      case False
      then show ?thesis
        using d by (intro disjI2 exI [of _ "d - m"]) auto
    qed (use d in blast)
  next
    assume "(\<exists>d<m. P d) \<or> (\<exists>d<m. P (m + d))"
    then show "\<exists>d<m + m. P d"
      using nat_add_left_cancel_less [of m] trans_less_add1 [of _ m m] by blast
  qed
  then show ?thesis
    using assms(2) by (simp add: bit_or_iff bit_drop_bit_eq assms(1) add.assoc add.left_commute)
qed

lemma smear_mask:
  fixes x y :: u64
  assumes "\<And>i. bit y i \<longleftrightarrow> (\<exists>d<64. bit x (i + d))" "bit x h" "\<forall>j > h. \<not> bit x j"
  shows "y = mask (Suc h)"
proof (rule bit_word_eqI)
  fix i
  assume "i < LENGTH(64)"
  have "h < 64"
    using bit_imp_le_length [OF assms(2)] by simp
  show "bit y i \<longleftrightarrow> bit (mask (Suc h) :: u64) i"
  proof (cases "i \<le> h")
    case True
    then have "bit x (i + (h - i))" "h - i < 64"
      using assms(2) \<open>h < 64\<close> by auto
    then show ?thesis
      using True assms(1) \<open>i < LENGTH(64)\<close> by (auto simp: bit_mask_iff)
  next
    case False
    then show ?thesis
      using assms(1,3) by (auto simp: bit_mask_iff)
  qed
qed

lemma fls_slow_highest:
  assumes "bit x h" "\<forall>j > h. \<not> bit x j"
  shows "fls_lu_slow x = h"
proof -
  let ?a = "x OR drop_bit 1 x"
  let ?b = "?a OR drop_bit 2 ?a"
  let ?c = "?b OR drop_bit 4 ?b"
  let ?d = "?c OR drop_bit 8 ?c"
  let ?e = "?d OR drop_bit 16 ?d"
  let ?f = "?e OR drop_bit 32 ?e"
  have a: "bit ?a i \<longleftrightarrow> (\<exists>d<2. bit x (i + d))" for i
    by (rule smear_step) auto
  have b: "bit ?b i \<longleftrightarrow> (\<exists>d<4. bit x (i + d))" for i
    by (rule smear_step [OF a]) simp
  have c: "bit ?c i \<longleftrightarrow> (\<exists>d<8. bit x (i + d))" for i
    by (rule smear_step [OF b]) simp
  have d: "bit ?d i \<longleftrightarrow> (\<exists>d<16. bit x (i + d))" for i
    by (rule smear_step [OF c]) simp
  have e: "bit ?e i \<longleftrightarrow> (\<exists>d<32. bit x (i + d))" for i
    by (rule smear_step [OF d]) simp
  have f: "bit ?f i \<longleftrightarrow> (\<exists>d<64. bit x (i + d))" for i
    by (rule smear_step [OF e]) simp
  have "?f = mask (Suc h)"
    by (rule smear_mask [OF f assms])
  then have "?f + 1 = 2 ^ Suc h"
    by (simp only: mask_eq_exp_minus_1 diff_add_cancel)
  then have slow: "fls_lu_slow x = (if 2 ^ Suc h = (0 :: u64) then 8 * 8 - 1 else ffs_lu (2 ^ Suc h) - 1)"
    by (simp only: fls_lu_slow_def Let_def)
  have "h < 64"
    using bit_imp_le_length [OF assms(1)] by simp
  moreover have "2 ^ Suc h = (0 :: u64) \<longleftrightarrow> \<not> Suc h < 64"
    using exp_eq_zero_iff [of "Suc h", where 'a = 64] by auto
  moreover have "ffs_lu (2 ^ Suc h) = Suc h" if "Suc h < 64"
    by (rule ffs_lu_unique) (use that in \<open>auto simp: bit_simps\<close>)
  ultimately show ?thesis
    unfolding slow by (cases "Suc h < 64") auto
qed

end
