(* ===== verification/Arena_Map.thy ===== *)
theory Arena_Map
  imports State Bit_Util
begin

text \<open>
  The arenas of a kind (first part of \<^verbatim>\<open>src/memkind_arena.c\<close>): the number of arenas and the mask that
  replaces the modulo operation, the creation and destruction of the arenas with the global table
  from arena index to kind, the choice of an arena for a thread, and the extent hooks of a kind.

  The lemmas show that the number of arenas is the smallest power of two at least the requested
  number, that the arenas a kind creates are exactly those registered for it, that the arena chosen
  for a thread is one of them, and that masking is the modulo operation it replaces.
\<close>

section \<open>Number of arenas\<close>

definition builtin_clz :: "u32 \<Rightarrow> nat" where
  "builtin_clz v = length (takeWhile Not (map (bit v) (rev [0..<32])))"

definition integer_log2 :: "u32 \<Rightarrow> nat" where
  "integer_log2 v = 32 - (builtin_clz v + 1)"

definition round_pow2_up :: "u32 \<Rightarrow> u32" where
  "round_pow2_up v =
    (let v_log2 = integer_log2 v
     in if v \<noteq> push_bit v_log2 1 then push_bit (v_log2 + 1) 1 else v)"

definition memkind_set_arena_map_len :: "'w sys \<Rightarrow> memkind_t \<Rightarrow> 'w mk \<Rightarrow> int \<times> 'w mk" where
  "memkind_set_arena_map_len sy k s =
    (let set_mask = (\<lambda>s. (0, upd_kind k (\<lambda>kd. kd\<lparr>k_arena_map_mask := k_arena_map_len kd - 1\<rparr>) s));
         set_len = (\<lambda>n. upd_kind k (\<lambda>kd. kd\<lparr>k_arena_map_len := n\<rparr>) s)
     in case o_get_arena (k_ops (kinds s k)) of
          Some Memkind_bijective_get_arena \<Rightarrow> set_mask (set_len 1)
        | Some Memkind_thread_get_arena \<Rightarrow>
            (case memkind_get_env sy ''MEMKIND_ARENA_NUM_PER_KIND'' of
               Some arena_num_env \<Rightarrow>
                 (let arena_num_value = fst (strtoul arena_num_env)
                  in if arena_num_value = 0 \<or> arena_num_value > of_int INT_MAX then
                       (MEMKIND_ERROR_ENVIRON, s)
                     else set_mask (set_len (round_pow2_up (ucast arena_num_value))))
             | None \<Rightarrow>
                 (let calculated_arena_num = int (numa_num_configured_cpus (host_of sy)) * 4
                  in set_mask (set_len
                       (round_pow2_up (of_int (min ARENA_LIMIT_PER_KIND calculated_arena_num))))))
        | None \<Rightarrow> set_mask s)"

section \<open>Hog memory and extent hooks\<close>

definition memkind_get_hog_memory :: "'w mk \<Rightarrow> bool" where
  "memkind_get_hog_memory s = memkind_hog_memory s"

definition memkind_set_hog_memory :: "string option \<Rightarrow> 'w mk \<Rightarrow> 'w mk" where
  "memkind_set_hog_memory str s =
    s\<lparr>memkind_hog_memory := (case str of Some (c # _) \<Rightarrow> c = CHR ''1'' | _ \<Rightarrow> False)\<rparr>"

definition arena_extent_hooks :: extent_hooks_t where
  "arena_extent_hooks =
    \<lparr>eh_alloc = Arena_extent_alloc, eh_dalloc = Arena_extent_dalloc, eh_commit = False,
     eh_decommit = True, eh_purge_lazy = Arena_extent_purge, eh_split = False, eh_merge = False,
     eh_destroy = None\<rparr>"

definition arena_extent_hooks_hog_memory :: extent_hooks_t where
  "arena_extent_hooks_hog_memory =
    \<lparr>eh_alloc = Arena_extent_alloc, eh_dalloc = Arena_extent_dalloc, eh_commit = False,
     eh_decommit = True, eh_purge_lazy = Arena_extent_purge_hog_memory, eh_split = False,
     eh_merge = False, eh_destroy = None\<rparr>"

definition arena_extent_hooks_hugetlb :: extent_hooks_t where
  "arena_extent_hooks_hugetlb =
    \<lparr>eh_alloc = Arena_extent_alloc_hugetlb, eh_dalloc = Arena_extent_dalloc, eh_commit = False,
     eh_decommit = True, eh_purge_lazy = Arena_extent_purge, eh_split = False, eh_merge = False,
     eh_destroy = None\<rparr>"

definition arena_extent_hooks_hugetlb_hog_memory :: extent_hooks_t where
  "arena_extent_hooks_hugetlb_hog_memory =
    \<lparr>eh_alloc = Arena_extent_alloc_hugetlb, eh_dalloc = Arena_extent_dalloc, eh_commit = False,
     eh_decommit = True, eh_purge_lazy = Arena_extent_purge_hog_memory, eh_split = False,
     eh_merge = False, eh_destroy = None\<rparr>"

definition get_extent_hooks_by_kind :: "memkind_t \<Rightarrow> 'w mk \<Rightarrow> extent_hooks_t" where
  "get_extent_hooks_by_kind k s =
    (if k = MEMKIND_HUGETLB \<or> k = MEMKIND_HBW_HUGETLB \<or> k = MEMKIND_HBW_ALL_HUGETLB \<or>
        k = MEMKIND_HBW_PREFERRED_HUGETLB then
       (if memkind_get_hog_memory s then arena_extent_hooks_hugetlb_hog_memory
        else arena_extent_hooks_hugetlb)
     else if memkind_get_hog_memory s then arena_extent_hooks_hog_memory
     else arena_extent_hooks)"

section \<open>Creating and destroying the arenas\<close>

definition get_kind_by_arena :: "u32 \<Rightarrow> 'w mk \<Rightarrow> memkind_t option option" where
  "get_kind_by_arena arena_ind s =
    (if arena_ind < MALLOCX_ARENA_MAX then Some (arena_registry_g s arena_ind) else None)"

definition arena_config_init :: "'w sys \<Rightarrow> 'w mk \<Rightarrow> 'w mk" where
  "arena_config_init sy s =
    (if arena_config_once s then s
     else s\<lparr>arena_init_status := pthread_key_create sy, arena_config_once := True\<rparr>)"

definition arena_cmd :: "u32 \<Rightarrow> string \<Rightarrow> string" where
  "arena_cmd i what = ''arena.'' @ show_nat (unat i) @ what"

text \<open>
  One iteration of the loop: the new arena's index, or the error that ends the loop. Arenas of the
  kinds that keep their metadata off the mapped memory get their hooks on creation.
\<close>

definition create_arena ::
  "'w sys \<Rightarrow> extent_hooks_t \<Rightarrow> bool \<Rightarrow> 'w mk \<Rightarrow> (int \<times> u32) \<times> 'w mk" where
  "create_arena sy hooks metadata_use_hooks s =
    (if \<not> metadata_use_hooks then
       (let ((err, v), s) =
              je_mallctl sy ''experimental.arenas_create_ext'' (Ctl_config hooks metadata_use_hooks) s
        in if err \<noteq> 0 then ((MEMKIND_ERROR_ARENAS_CREATE, 0), s) else ((0, ucast v), s))
     else
       (let ((err, v), s) = je_mallctl sy ''arenas.create'' Ctl_none s
        in if err \<noteq> 0 then ((MEMKIND_ERROR_ARENAS_CREATE, 0), s)
           else
             (let arena_index = ucast v;
                  ((err, _), s) =
                    je_mallctl sy (arena_cmd arena_index ''.extent_hooks'') (Ctl_hooks hooks) s
              in ((err, arena_index), s))))"

definition register_arena :: "memkind_t \<Rightarrow> u32 \<Rightarrow> 'w mk \<Rightarrow> 'w mk option" where
  "register_arena k arena_index s =
    (if arena_index < MALLOCX_ARENA_MAX then
       Some ((upd_kind k (\<lambda>kd. if k_arena_zero kd > arena_index
                                then kd\<lparr>k_arena_zero := arena_index\<rparr> else kd) s)
             \<lparr>arena_registry_g := (arena_registry_g s)(arena_index := Some k)\<rparr>)
     else None)"

fun create_arenas ::
  "'w sys \<Rightarrow> memkind_t \<Rightarrow> extent_hooks_t \<Rightarrow> bool \<Rightarrow> nat \<Rightarrow> 'w mk \<Rightarrow> (int \<times> 'w mk) option" where
  "create_arenas sy k hooks metadata_use_hooks 0 s = Some (0, s)"
| "create_arenas sy k hooks metadata_use_hooks (Suc n) s =
    (let ((err, arena_index), s) = create_arena sy hooks metadata_use_hooks s
     in if err \<noteq> 0 then Some (err, s)
        else do {
          s \<leftarrow> register_arena k arena_index s;
          create_arenas sy k hooks metadata_use_hooks n s
        })"

definition memkind_arena_create_map ::
  "'w sys \<Rightarrow> memkind_t \<Rightarrow> extent_hooks_t \<Rightarrow> bool \<Rightarrow> 'w mk \<Rightarrow> (int \<times> 'w mk) option" where
  "memkind_arena_create_map sy k hooks metadata_use_hooks s =
    (let s = arena_config_init sy s
     in if arena_init_status s \<noteq> 0 then Some (arena_init_status s, s)
        else
          (let (err, s) = memkind_set_arena_map_len sy k s
           in if err \<noteq> 0 then Some (err, s)
              else
                (let s = upd_kind k (\<lambda>kd. kd\<lparr>k_arena_zero := UINT_MAX\<rparr>) s
                 in create_arenas sy k hooks metadata_use_hooks
                      (unat (k_arena_map_len (kinds s k))) s)))"

text \<open>\<^verbatim>\<open>memkind_default_create\<close> and the creation of a kind on top of it.\<close>

definition memkind_default_create :: "memkind_t \<Rightarrow> memkind_ops \<Rightarrow> string \<Rightarrow> 'w mk \<Rightarrow> int \<times> 'w mk" where
  "memkind_default_create k ops name s =
    (let s = upd_kind k (\<lambda>kd. kd\<lparr>k_ops := ops\<rparr>) s
     in if length name \<ge> MEMKIND_NAME_LENGTH_PRIV then
          (MEMKIND_ERROR_INVALID, upd_kind k (\<lambda>kd. kd\<lparr>k_name := []\<rparr>) s)
        else (0, upd_kind k (\<lambda>kd. kd\<lparr>k_name := name\<rparr>) s))"

definition memkind_arena_create ::
  "'w sys \<Rightarrow> memkind_t \<Rightarrow> memkind_ops \<Rightarrow> string \<Rightarrow> 'w mk \<Rightarrow> (int \<times> 'w mk) option" where
  "memkind_arena_create sy k ops name s =
    (let (err, s) = memkind_default_create k ops name s
     in if err = 0 then memkind_arena_create_map sy k (get_extent_hooks_by_kind k s) True s
        else Some (err, s))"

text \<open>
  Destroying the arenas with indices from \<open>arena_zero\<close> on. The results of \<^verbatim>\<open>mallctl\<close> are ignored; a
  write outside the table is undefined.
\<close>

fun destroy_arenas :: "'w sys \<Rightarrow> u32 \<Rightarrow> nat \<Rightarrow> 'w mk \<Rightarrow> 'w mk option" where
  "destroy_arenas sy i 0 s = Some s"
| "destroy_arenas sy i (Suc n) s =
    (let (_, s) = je_mallctl sy (arena_cmd i ''.destroy'') Ctl_none s
     in if i < MALLOCX_ARENA_MAX then
          destroy_arenas sy (i + 1) n (s\<lparr>arena_registry_g := (arena_registry_g s)(i := None)\<rparr>)
        else None)"

definition memkind_arena_destroy :: "'w sys \<Rightarrow> memkind_t \<Rightarrow> 'w mk \<Rightarrow> (int \<times> 'w mk) option" where
  "memkind_arena_destroy sy k s =
    (if k_arena_map_len (kinds s k) \<noteq> 0 then
       do {
         s \<leftarrow> destroy_arenas sy (k_arena_zero (kinds s k)) (unat (k_arena_map_len (kinds s k))) s;
         Some (0, s)
       }
     else Some (0, s))"

definition memkind_arena_finalize :: "'w sys \<Rightarrow> memkind_t \<Rightarrow> 'w mk \<Rightarrow> (int \<times> 'w mk) option" where
  "memkind_arena_finalize sy k s = memkind_arena_destroy sy k s"

section \<open>Choosing an arena, and the kind of a pointer\<close>

definition memkind_bijective_get_arena :: "memkind_t \<Rightarrow> 'w mk \<Rightarrow> int \<times> u32" where
  "memkind_bijective_get_arena k s = (0, k_arena_zero (kinds s k))"

definition memkind_thread_get_arena :: "'w sys \<Rightarrow> memkind_t \<Rightarrow> 'w mk \<Rightarrow> int \<times> u32" where
  "memkind_thread_get_arena sy k s =
    (let arena_idx = ucast (hash64 (self_of sy s)) AND k_arena_map_mask (kinds s k)
     in (0, k_arena_zero (kinds s k) + arena_idx))"

text \<open>
  The variant of a build with \<^verbatim>\<open>MEMKIND_TLS\<close> stores \<^verbatim>\<open>hash64(self) % arena_map_len\<close> per thread on the
  first call; \<open>None\<close> is a division by zero.
\<close>

definition tls_thread_get_arena :: "'w sys \<Rightarrow> memkind_t \<Rightarrow> 'w mk \<Rightarrow> (int \<times> u32) option" where
  "tls_thread_get_arena sy k s =
    (let len = k_arena_map_len (kinds s k)
     in if len = 0 then None
        else Some (0, k_arena_zero (kinds s k) + ucast (hash64 (self_of sy s) mod ucast len)))"

fun call_get_arena :: "'w sys \<Rightarrow> get_arena_fn \<Rightarrow> memkind_t \<Rightarrow> 'w mk \<Rightarrow> int \<times> u32" where
  "call_get_arena sy Memkind_thread_get_arena k s = memkind_thread_get_arena sy k s"
| "call_get_arena sy Memkind_bijective_get_arena k s = memkind_bijective_get_arena k s"

text \<open>\<open>None\<close> inside the result is a \<open>NULL\<close> kind.\<close>

definition memkind_arena_detect_kind :: "'w sys \<Rightarrow> ptr \<Rightarrow> 'w mk \<Rightarrow> memkind_t option option" where
  "memkind_arena_detect_kind sy p s =
    (if p = NULL then Some None
     else do {
       kind \<leftarrow> get_kind_by_arena (je_arenalookupx sy p s) s;
       Some (case kind of Some k \<Rightarrow> Some k | None \<Rightarrow> Some MEMKIND_DEFAULT)
     })"

section \<open>The number of arenas is the next power of two\<close>

lemma integer_log2_highest:
  assumes "v \<noteq> 0"
  shows "bit v (integer_log2 v) \<and> (\<forall>j > integer_log2 v. \<not> bit v j) \<and> integer_log2 v < 32"
proof -
  obtain h where h: "bit v h" "\<forall>j > h. \<not> bit v j" "h < 32"
    using highest_bit [OF assms] by auto
  then have "integer_log2 v = h"
    using takeWhile_highest [of "bit v" h 32] by (simp add: integer_log2_def builtin_clz_def)
  then show ?thesis
    using h by blast
qed

lemma integer_log2_bounds:
  assumes "v \<noteq> 0"
  shows "2 ^ integer_log2 v \<le> unat v" "unat v < 2 ^ Suc (integer_log2 v)"
  using integer_log2_highest [OF assms] highest_bit_bounds [of v "integer_log2 v"] by blast+

lemma unat_push_bit_one: "n < 32 \<Longrightarrow> unat (push_bit n 1 :: u32) = 2 ^ n"
proof -
  assume "n < 32"
  then have "(2 :: nat) ^ n < 2 ^ LENGTH(32)"
    using power_strict_increasing [of n 32 "2 :: nat"] by simp
  moreover have "push_bit n 1 = (of_nat (2 ^ n) :: u32)"
    by (simp add: push_bit_eq_mult)
  ultimately show ?thesis
    by (simp only: unat_of_nat_no_wrap)
qed

lemma round_pow2_up_spec:
  assumes "1 \<le> unat v" "unat v \<le> 2 ^ 31"
  shows "\<exists>m \<le> 31. unat (round_pow2_up v) = 2 ^ m \<and> unat v \<le> 2 ^ m \<and> (\<forall>j. unat v \<le> 2 ^ j \<longrightarrow> m \<le> j)"
proof -
  have v: "v \<noteq> 0"
    using assms(1) by auto
  note b = integer_log2_bounds [OF v] and hi = integer_log2_highest [OF v]
  show ?thesis
  proof (cases "v = push_bit (integer_log2 v) 1")
    case True
    then have "unat v = 2 ^ integer_log2 v"
      using hi unat_push_bit_one by metis
    then show ?thesis
      using True hi
      by (intro exI [of _ "integer_log2 v"]) (auto simp: round_pow2_up_def Let_def)
  next
    case False
    have neq: "unat v \<noteq> 2 ^ integer_log2 v"
      using False hi unat_push_bit_one by (metis unsigned_word_eqI)
    then have less: "2 ^ integer_log2 v < unat v"
      using b(1) by simp
    then have "integer_log2 v < 31"
      using assms(2) power_less_imp_less_exp [of "2 :: nat" "integer_log2 v" 31] by linarith
    moreover have "Suc (integer_log2 v) \<le> j" if "unat v \<le> 2 ^ j" for j
      using less that power_less_imp_less_exp [of "2 :: nat" "integer_log2 v" j] by linarith
    moreover have "round_pow2_up v = push_bit (Suc (integer_log2 v)) 1"
      using False by (simp add: round_pow2_up_def Let_def)
    then have "unat (round_pow2_up v) = 2 ^ Suc (integer_log2 v)"
      using calculation(1) unat_push_bit_one [of "Suc (integer_log2 v)"] by (simp only:)
    ultimately show ?thesis
      using b(2) by (intro exI [of _ "Suc (integer_log2 v)"]) simp
  qed
qed

section \<open>The arena of a thread\<close>

text \<open>What \<^verbatim>\<open>memkind_set_arena_map_len\<close> establishes.\<close>

definition arena_map_ok :: "memkind \<Rightarrow> bool" where
  "arena_map_ok kd \<longleftrightarrow>
    (\<exists>m \<le> 31. unat (k_arena_map_len kd) = 2 ^ m) \<and> k_arena_map_mask kd = k_arena_map_len kd - 1"

lemma mask_is_mod:
  fixes x :: "'a :: len word"
  assumes "unat len = 2 ^ m" "m < LENGTH('a)"
  shows "x AND (len - 1) = x mod len"
proof -
  have "len = of_nat (unat len)"
    by simp
  then have len: "len = 2 ^ m"
    unfolding assms(1) by simp
  then have "x AND (len - 1) = take_bit m x"
    using take_bit_eq_mask [of m x] by (simp add: mask_eq_exp_minus_1)
  also have "\<dots> = x mod len"
    by (simp add: take_bit_eq_mod len)
  finally show ?thesis .
qed

lemma arena_mask_less:
  assumes "arena_map_ok kd"
  shows "x AND k_arena_map_mask kd < k_arena_map_len kd"
proof -
  obtain m where m: "m \<le> 31" "unat (k_arena_map_len kd) = 2 ^ m"
    and mask: "k_arena_map_mask kd = k_arena_map_len kd - 1"
    using assms by (auto simp: arena_map_ok_def)
  have "x AND k_arena_map_mask kd = x mod k_arena_map_len kd"
    using mask_is_mod [of "k_arena_map_len kd" m x] m unfolding mask by simp
  moreover have "unat (x mod k_arena_map_len kd) < unat (k_arena_map_len kd)"
    using m(2) by (simp add: unat_mod)
  ultimately show ?thesis
    by (simp add: word_less_nat_alt)
qed

lemma set_arena_map_len_ok:
  assumes "memkind_set_arena_map_len sy k s = (0, s')"
    and "o_get_arena (k_ops (kinds s k)) = Some Memkind_thread_get_arena"
    and "numa_num_configured_cpus (host_of sy) \<noteq> 0"
  shows "arena_map_ok (kinds s' k) \<and>
    (\<exists>n m. s' = upd_kind k (\<lambda>kd. kd\<lparr>k_arena_map_len := n, k_arena_map_mask := m\<rparr>) s)"
proof -
  obtain n where n: "1 \<le> unat n" "unat n \<le> 2 ^ 31"
    and s': "s' = upd_kind k (\<lambda>kd. kd\<lparr>k_arena_map_mask := k_arena_map_len kd - 1\<rparr>)
      (upd_kind k (\<lambda>kd. kd\<lparr>k_arena_map_len := round_pow2_up n\<rparr>) s)"
  proof (cases "memkind_get_env sy ''MEMKIND_ARENA_NUM_PER_KIND''")
    case None
    define c where "c = min 256 (int (numa_num_configured_cpus (host_of sy)) * 4)"
    have c: "1 \<le> c" "c \<le> 256"
      using assms(3) by (auto simp: c_def)
    then have "unat (of_int c :: u32) = nat c"
      by (simp add: unsigned_of_int take_bit_int_eq_self)
    then show ?thesis
      using that [of "of_int c"] assms(1,2) None c
      by (simp add: memkind_set_arena_map_len_def Let_def c_def)
  next
    case (Some env)
    let ?v = "fst (strtoul env)"
    have v: "?v \<noteq> 0" "unat ?v \<le> 2147483647"
      using assms(1,2) Some
      by (auto simp: memkind_set_arena_map_len_def Let_def word_le_nat_alt not_less split: if_splits)
    have "unat (ucast ?v :: u32) = unat ?v"
      using v(2) by (simp add: unsigned_ucast_eq take_bit_nat_eq_self)
    moreover have "unat ?v \<noteq> 0"
      using v(1) by (simp add: unat_eq_0)
    ultimately show ?thesis
      using that [of "ucast ?v"] assms(1,2) Some v
      by (auto simp: memkind_set_arena_map_len_def Let_def split: if_splits)
  qed
  with round_pow2_up_spec [OF n] show ?thesis
    by (auto simp: arena_map_ok_def upd_kind_def)
qed

section \<open>The arenas a kind creates\<close>

text \<open>
  What the code relies on of jemalloc's \<open>arenas.create\<close> and \<open>experimental.arenas_create_ext\<close>: a new
  arena gets the next index (\<open>narenas\<close> is the number of arenas so far), and neither these commands
  nor the setting of the hooks touch the library's own data.
\<close>

definition lib_rest ::
  "'w mk \<Rightarrow> (memkind_t \<Rightarrow> bool) \<times> memkind_t option list \<times> int \<times> bool \<times> int \<times> (u64 \<Rightarrow> u32 list option) \<times>
    bool \<times> heap_manager_t option \<times> bool \<times> alloc_counters \<times> numa_globals \<times>
    memkind_hugepages_config_t" where
  "lib_rest s =
    (kind_live s, partition_map s, num_kind s, arena_config_once s, arena_init_status s,
     tcache_maps s, memkind_hog_memory s, heap_manager_g s, TBBInitDone s, tier_counters s, numa_g s,
     hugepages_config s)"

definition same_lib :: "'w mk \<Rightarrow> 'w mk \<Rightarrow> bool" where
  "same_lib s s' \<longleftrightarrow>
    kinds s' = kinds s \<and> arena_registry_g s' = arena_registry_g s \<and> lib_rest s' = lib_rest s"

definition arenas_consecutive :: "'w sys \<Rightarrow> ('w \<Rightarrow> nat) \<Rightarrow> bool" where
  "arenas_consecutive sy narenas \<longleftrightarrow>
    (\<forall>cmd \<in> {''arenas.create'', ''experimental.arenas_create_ext''}. \<forall>arg s err v s'.
       je_mallctl sy cmd arg s = ((err, v), s') \<longrightarrow> same_lib s s' \<and>
         (err = 0 \<longrightarrow> v = of_nat (narenas (world s)) \<and> narenas (world s') = Suc (narenas (world s)))) \<and>
    (\<forall>i arg s err v s'. je_mallctl sy (arena_cmd i ''.extent_hooks'') arg s = ((err, v), s') \<longrightarrow>
       same_lib s s' \<and> narenas (world s') = narenas (world s))"

lemma arenas_create_law:
  assumes "arenas_consecutive sy narenas" "je_mallctl sy cmd arg s = ((0, v), s')"
    "cmd \<in> {''arenas.create'', ''experimental.arenas_create_ext''}"
  shows "same_lib s s' \<and> v = of_nat (narenas (world s)) \<and> narenas (world s') = Suc (narenas (world s))"
  using assms unfolding arenas_consecutive_def by blast

lemma hooks_law:
  assumes "arenas_consecutive sy narenas"
    "je_mallctl sy (arena_cmd i ''.extent_hooks'') arg s = ((err, v), s')"
  shows "same_lib s s' \<and> narenas (world s') = narenas (world s)"
  using assms unfolding arenas_consecutive_def by blast

lemma create_arena_spec:
  assumes "arenas_consecutive sy narenas" "create_arena sy hooks muh s = ((0, i), s')"
  shows "same_lib s s'" "i = of_nat (narenas (world s))" "narenas (world s') = Suc (narenas (world s))"
proof -
  have "same_lib s s' \<and> i = of_nat (narenas (world s)) \<and> narenas (world s') = Suc (narenas (world s))"
  proof (cases muh)
    case False
    obtain v where "je_mallctl sy ''experimental.arenas_create_ext'' (Ctl_config hooks False) s = ((0, v), s')"
      "i = ucast v"
      using assms(2) False by (auto simp: create_arena_def split: prod.splits if_splits)
    with arenas_create_law [OF assms(1) this(1)] show ?thesis
      by simp
  next
    case True
    obtain v s1 e where c: "je_mallctl sy ''arenas.create'' Ctl_none s = ((0, v), s1)" "i = ucast v"
      "je_mallctl sy (arena_cmd i ''.extent_hooks'') (Ctl_hooks hooks) s1 = ((0, e), s')"
      using assms(2) True by (auto simp: create_arena_def Let_def split: prod.splits if_splits)
    note l1 = arenas_create_law [OF assms(1) c(1)] and l2 = hooks_law [OF assms(1) c(3)]
    then have "same_lib s s'"
      by (simp add: same_lib_def)
    then show ?thesis
      using l1 l2 c(2) by simp
  qed
  then show "same_lib s s'" "i = of_nat (narenas (world s))" "narenas (world s') = Suc (narenas (world s))"
    by auto
qed

text \<open>
  The library's data after \<open>n\<close> arenas from index \<open>a\<close> on have been registered for \<open>k\<close>: only the table
  and the kind's \<open>arena_zero\<close> differ.
\<close>

definition same_but_arenas :: "'w mk \<Rightarrow> 'w mk \<Rightarrow> bool" where
  "same_but_arenas s s' \<longleftrightarrow> lib_rest s' = lib_rest s"

lemma same_but_arenas_refl: "same_but_arenas s s"
  by (simp add: same_but_arenas_def)

lemma same_but_arenas_trans: "same_but_arenas s s' \<Longrightarrow> same_but_arenas s' s'' \<Longrightarrow> same_but_arenas s s''"
  by (simp add: same_but_arenas_def)

lemma same_lib_arenas: "same_lib s s' \<Longrightarrow> same_but_arenas s s'"
  by (simp add: same_lib_def same_but_arenas_def)

lemma same_but_arenas_sel:
  assumes "same_but_arenas s s'"
  shows "partition_map s' = partition_map s" "num_kind s' = num_kind s" "kind_live s' = kind_live s"
  using assms by (simp_all add: same_but_arenas_def lib_rest_def)

lemma same_lib_sel:
  assumes "same_lib s s'"
  shows "kinds s' = kinds s" "arena_registry_g s' = arena_registry_g s"
    "partition_map s' = partition_map s" "num_kind s' = num_kind s" "kind_live s' = kind_live s"
  using assms by (simp_all add: same_lib_def lib_rest_def)

definition arena_range :: "memkind_t \<Rightarrow> nat \<Rightarrow> nat \<Rightarrow> (u32 \<Rightarrow> memkind_t option) \<Rightarrow> u32 \<Rightarrow> memkind_t option" where
  "arena_range k a n reg i = (if a \<le> unat i \<and> unat i < a + n then Some k else reg i)"

definition registered :: "memkind_t \<Rightarrow> nat \<Rightarrow> nat \<Rightarrow> 'w mk \<Rightarrow> 'w mk \<Rightarrow> bool" where
  "registered k a n s s' \<longleftrightarrow>
    same_but_arenas s s' \<and>
    arena_registry_g s' = arena_range k a n (arena_registry_g s) \<and>
    kinds s' = (kinds s)(k := (kinds s k)\<lparr>k_arena_zero :=
      if n = 0 then k_arena_zero (kinds s k) else min (k_arena_zero (kinds s k)) (of_nat a)\<rparr>)"

lemma arena_range_0: "arena_range k a 0 reg = reg"
  by (auto simp: arena_range_def fun_eq_iff)

lemma arena_range_Suc:
  assumes "unat i = a"
  shows "arena_range k (Suc a) n (reg(i := Some k)) = arena_range k a (Suc n) reg"
proof
  fix j
  show "arena_range k (Suc a) n (reg(i := Some k)) j = arena_range k a (Suc n) reg j"
  proof (cases "j = i")
    case False
    then have "unat j \<noteq> a"
      using assms unsigned_word_eqI by blast
    with False show ?thesis
      by (auto simp: arena_range_def)
  qed (simp add: arena_range_def assms)
qed

lemma register_arena_spec:
  assumes "register_arena k i s = Some s'"
  shows "i < MALLOCX_ARENA_MAX" "same_but_arenas s s'"
    "arena_registry_g s' = (arena_registry_g s)(i := Some k)"
    "kinds s' = (kinds s)(k := (kinds s k)\<lparr>k_arena_zero := min (k_arena_zero (kinds s k)) i\<rparr>)"
    "world s' = world s"
  using assms
  by (auto simp: register_arena_def same_but_arenas_def lib_rest_def upd_kind_def min_def split: if_splits)

lemma registered_Suc:
  assumes "same_but_arenas s s2" "arena_registry_g s2 = (arena_registry_g s)(i := Some k)"
    "kinds s2 = (kinds s)(k := (kinds s k)\<lparr>k_arena_zero := min (k_arena_zero (kinds s k)) i\<rparr>)"
    "registered k (Suc a) n s2 s'" "unat i = a" "Suc a < 2 ^ 32"
  shows "registered k a (Suc n) s s'"
proof -
  have i: "i = of_nat a"
    using assms(5) by auto
  have "i \<le> of_nat (Suc a)"
    using assms(5,6) by (simp add: word_le_nat_alt unat_of_nat_no_wrap del: of_nat_Suc)
  then have "min (min z i) (of_nat (Suc a)) = min z i" for z :: u32
    by (metis min.absorb1 min.assoc)
  then have "kinds s' = (kinds s)(k := (kinds s k)\<lparr>k_arena_zero := min (k_arena_zero (kinds s k)) i\<rparr>)"
    using assms(3,4) by (simp add: registered_def del: of_nat_Suc)
  moreover have "arena_registry_g s' = arena_range k a (Suc n) (arena_registry_g s)"
    using assms(2,4) by (simp add: registered_def arena_range_Suc [OF assms(5)])
  ultimately show ?thesis
    using same_but_arenas_trans [OF assms(1)] assms(4) i by (simp add: registered_def)
qed

lemma create_arenas_spec:
  assumes "arenas_consecutive sy narenas" "create_arenas sy k hooks muh n s = Some (0, s')"
    and "narenas (world s) + n < 2 ^ 32"
  shows "registered k (narenas (world s)) n s s' \<and> narenas (world s') = narenas (world s) + n"
  using assms(2,3)
proof (induction n arbitrary: s)
  case 0
  then show ?case
    by (simp add: registered_def arena_range_0 same_but_arenas_refl)
next
  case (Suc n)
  let ?a = "narenas (world s)"
  from Suc.prems(1) obtain i s1 s2 where c: "create_arena sy hooks muh s = ((0, i), s1)"
    and r: "register_arena k i s1 = Some s2"
    and rest: "create_arenas sy k hooks muh n s2 = Some (0, s')"
    by (auto simp: Option.bind_eq_Some_conv split: prod.splits if_splits)
  note s1 = create_arena_spec [OF assms(1) c] and s2 = register_arena_spec [OF r]
  have w2: "narenas (world s2) = Suc ?a"
    using s2(5) s1(3) by simp
  have ih: "registered k (Suc ?a) n s2 s' \<and> narenas (world s') = Suc ?a + n"
    using Suc.IH [OF rest] Suc.prems(2) w2 by simp
  have ui: "unat i = ?a"
    using s1(2) Suc.prems(2) by (simp add: unat_of_nat_no_wrap)
  have "registered k ?a (Suc n) s s'"
    using registered_Suc [of s s2 i k ?a n s'] ih ui Suc.prems(2) s2(2-4)
      same_but_arenas_trans [OF same_lib_arenas [OF s1(1)]] same_lib_sel [OF s1(1)]
    by simp
  with ih show ?case
    by simp
qed

lemma create_map_success:
  assumes "memkind_arena_create_map sy k hooks muh s = Some (0, s')"
    and "o_get_arena (k_ops (kinds s k)) = Some Memkind_thread_get_arena"
    and "numa_num_configured_cpus (host_of sy) \<noteq> 0" "arenas_consecutive sy narenas"
    and "narenas (world s) < 2 ^ 31"
  shows "arena_map_ok (kinds s' k) \<and> k_arena_zero (kinds s' k) = of_nat (narenas (world s)) \<and>
    arena_registry_g s' =
      arena_range k (narenas (world s)) (unat (k_arena_map_len (kinds s' k))) (arena_registry_g s) \<and>
    (\<forall>j. j \<noteq> k \<longrightarrow> kinds s' j = kinds s j) \<and> partition_map s' = partition_map s"
proof -
  define s0 where "s0 = arena_config_init sy s"
  have s0: "kinds s0 = kinds s" "arena_registry_g s0 = arena_registry_g s" "world s0 = world s"
    "partition_map s0 = partition_map s"
    by (simp_all add: s0_def arena_config_init_def)
  obtain s1 where len: "memkind_set_arena_map_len sy k s0 = (0, s1)"
    and run: "create_arenas sy k hooks muh (unat (k_arena_map_len (kinds s1 k)))
      (upd_kind k (\<lambda>kd. kd\<lparr>k_arena_zero := UINT_MAX\<rparr>) s1) = Some (0, s')"
    using assms(1) by (auto simp: memkind_arena_create_map_def Let_def s0_def split: prod.splits if_splits)
  obtain n m where ok: "arena_map_ok (kinds s1 k)"
    and s1: "s1 = upd_kind k (\<lambda>kd. kd\<lparr>k_arena_map_len := n, k_arena_map_mask := m\<rparr>) s0"
    using set_arena_map_len_ok [OF len] assms(2,3) s0(1) by auto
  let ?s2 = "upd_kind k (\<lambda>kd. kd\<lparr>k_arena_zero := UINT_MAX\<rparr>) s1"
  have run': "create_arenas sy k hooks muh (unat n) ?s2 = Some (0, s')" and w: "world ?s2 = world s"
    using run s0 by (simp_all add: s1)
  have n: "k_arena_map_len (kinds s1 k) = n"
    by (simp add: s1)
  then have "unat n \<le> 2 ^ 31" "unat n \<noteq> 0"
    using ok power_increasing [of _ 31 "2 :: nat"] by (auto simp: arena_map_ok_def)
  then have reg: "registered k (narenas (world s)) (unat n) ?s2 s'"
    using create_arenas_spec [OF assms(4) run'] assms(5) w by simp
  have kd: "kinds s' k = (kinds s1 k)\<lparr>k_arena_zero := of_nat (narenas (world s))\<rparr>"
    using reg \<open>unat n \<noteq> 0\<close> min.absorb2 [OF word_order.extremum, of "of_nat (narenas (world s))"]
    by (simp add: registered_def)
  have ok': "arena_map_ok (kinds s' k)" and len': "k_arena_map_len (kinds s' k) = n"
    and zero': "k_arena_zero (kinds s' k) = of_nat (narenas (world s))"
    using ok n by (simp_all add: arena_map_ok_def kd)
  have reg': "arena_registry_g s' = arena_range k (narenas (world s)) (unat n) (arena_registry_g s)"
    using reg s0(2) by (simp add: registered_def s1)
  have others: "\<forall>j. j \<noteq> k \<longrightarrow> kinds s' j = kinds s j"
    using reg s0(1) by (simp add: registered_def s1)
  have "partition_map s' = partition_map ?s2"
    using reg same_but_arenas_sel(1) unfolding registered_def by blast
  then have pm: "partition_map s' = partition_map s"
    using s0(4) by (simp add: s1)
  show ?thesis
    unfolding len' using ok' zero' reg' others pm by blast
qed

text \<open>Creation succeeds when jemalloc's commands do and the table has room.\<close>

definition mallctl_succeeds :: "'w sys \<Rightarrow> bool" where
  "mallctl_succeeds sy \<longleftrightarrow> (\<forall>cmd arg s. fst (fst (je_mallctl sy cmd arg s)) = 0)"

lemma create_arena_total:
  assumes "mallctl_succeeds sy"
  shows "\<exists>i s'. create_arena sy hooks muh s = ((0, i), s')"
proof -
  have "\<exists>v s'. je_mallctl sy cmd arg t = ((0, v), s')" for cmd arg t
    using assms unfolding mallctl_succeeds_def by (metis prod.collapse)
  then show ?thesis
    by (cases muh) (auto simp: create_arena_def Let_def split: prod.splits, (metis Pair_inject)+)
qed

lemma create_arenas_total:
  assumes "arenas_consecutive sy narenas" "mallctl_succeeds sy"
    "narenas (world s) + n \<le> unat MALLOCX_ARENA_MAX"
  shows "\<exists>s'. create_arenas sy k hooks muh n s = Some (0, s')"
  using assms(3)
proof (induction n arbitrary: s)
  case (Suc n)
  obtain i s1 where c: "create_arena sy hooks muh s = ((0, i), s1)"
    using create_arena_total [OF assms(2)] by blast
  note s1 = create_arena_spec [OF assms(1) c]
  have "i < MALLOCX_ARENA_MAX"
    using s1(2) Suc.prems by (simp add: word_less_nat_alt unat_of_nat_no_wrap)
  then obtain s2 where r: "register_arena k i s1 = Some s2"
    by (simp add: register_arena_def)
  then have "narenas (world s2) + n \<le> unat MALLOCX_ARENA_MAX"
    using register_arena_spec(5) [OF r] s1(3) Suc.prems by simp
  from Suc.IH [OF this] c r show ?case
    by simp
qed simp

lemma create_map_total:
  assumes "arenas_consecutive sy narenas" "mallctl_succeeds sy"
    and "pthread_key_create sy = 0" "\<not> arena_config_once s"
    and "memkind_set_arena_map_len sy k (arena_config_init sy s) = (0, s1)" "world s1 = world s"
    and "narenas (world s) + unat (k_arena_map_len (kinds s1 k)) \<le> unat MALLOCX_ARENA_MAX"
  shows "\<exists>s'. memkind_arena_create_map sy k hooks muh s = Some (0, s') \<and>
    k_arena_map_len (kinds s' k) = k_arena_map_len (kinds s1 k)"
proof -
  let ?s2 = "upd_kind k (\<lambda>kd. kd\<lparr>k_arena_zero := UINT_MAX\<rparr>) s1"
    and ?n = "unat (k_arena_map_len (kinds s1 k))"
  obtain s' where s': "create_arenas sy k hooks muh ?n ?s2 = Some (0, s')"
    using create_arenas_total [OF assms(1,2), of ?s2 ?n k hooks muh] assms(6,7) by auto
  have "registered k (narenas (world ?s2)) ?n ?s2 s'"
    using create_arenas_spec [OF assms(1) s'] assms(6,7) by simp
  then have "k_arena_map_len (kinds s' k) = k_arena_map_len (kinds s1 k)"
    by (simp add: registered_def)
  then show ?thesis
    using assms(3-5) s' by (simp add: memkind_arena_create_map_def arena_config_init_def Let_def)
qed

section \<open>Destroying the arenas\<close>

text \<open>
  jemalloc runs the hooks of an arena it destroys; those change the private data of the kind, but
  not the registries.
\<close>

definition destroy_keeps_registry :: "'w sys \<Rightarrow> bool" where
  "destroy_keeps_registry sy \<longleftrightarrow>
    (\<forall>i arg s r s'. je_mallctl sy (arena_cmd i ''.destroy'') arg s = (r, s') \<longrightarrow>
       arena_registry_g s' = arena_registry_g s \<and> partition_map s' = partition_map s)"

lemma destroy_arenas_spec:
  assumes "destroy_keeps_registry sy" "unat i + n \<le> unat MALLOCX_ARENA_MAX"
  shows "\<exists>s'. destroy_arenas sy i n s = Some s' \<and> partition_map s' = partition_map s \<and>
    (\<forall>j. arena_registry_g s' j =
       (if unat i \<le> unat j \<and> unat j < unat i + n then None else arena_registry_g s j))"
  using assms(2)
proof (induction n arbitrary: i s)
  case (Suc n)
  obtain r s1 where d: "je_mallctl sy (arena_cmd i ''.destroy'') Ctl_none s = (r, s1)"
    by (metis surj_pair)
  then have s1: "arena_registry_g s1 = arena_registry_g s" "partition_map s1 = partition_map s"
    using assms(1) unfolding destroy_keeps_registry_def by blast+
  have i: "i < MALLOCX_ARENA_MAX" "unat (i + 1) = unat i + 1"
    using Suc.prems by (simp_all add: word_less_nat_alt unat_add_no_wrap)
  let ?s2 = "s1\<lparr>arena_registry_g := (arena_registry_g s1)(i := None)\<rparr>"
  obtain s' where s': "destroy_arenas sy (i + 1) n ?s2 = Some s'" "partition_map s' = partition_map ?s2"
    "\<forall>j. arena_registry_g s' j =
       (if unat (i + 1) \<le> unat j \<and> unat j < unat (i + 1) + n then None else arena_registry_g ?s2 j)"
    using Suc.IH [of "i + 1" ?s2] Suc.prems i(2) by auto
  have "arena_registry_g s' j =
      (if unat i \<le> unat j \<and> unat j < unat i + Suc n then None else arena_registry_g s j)" for j
  proof (cases "j = i")
    case False
    then have "unat j \<noteq> unat i"
      using unsigned_word_eqI by blast
    with False show ?thesis
      using s'(3) s1(1) i(2) by auto
  qed (use s'(3) i(2) in auto)
  then show ?case
    using d s1 s' i by (intro exI [of _ s']) auto
qed auto

section \<open>Masking is the modulo operation\<close>

lemma thread_arena_spec:
  assumes "arena_map_ok (kinds s k)"
  shows "tls_thread_get_arena sy k s = Some (memkind_thread_get_arena sy k s) \<and>
    (\<exists>i < k_arena_map_len (kinds s k).
       memkind_thread_get_arena sy k s = (0, k_arena_zero (kinds s k) + i))"
proof -
  obtain m where m: "m \<le> 31" "unat (k_arena_map_len (kinds s k)) = 2 ^ m"
    and mask: "k_arena_map_mask (kinds s k) = k_arena_map_len (kinds s k) - 1"
    using assms by (auto simp: arena_map_ok_def)
  let ?len = "k_arena_map_len (kinds s k)" and ?x = "hash64 (self_of sy s)"
  have len: "?len = 2 ^ m"
    using arg_cong [OF m(2), of "of_nat :: nat \<Rightarrow> u32"] by simp
  have "(ucast ?x :: u32) AND (?len - 1) = take_bit m (ucast ?x)"
    using take_bit_eq_mask [of m "ucast ?x :: u32"] by (simp add: len mask_eq_exp_minus_1)
  also have "\<dots> = ucast (take_bit m ?x)"
    using m(1) by (intro bit_word_eqI) (auto simp: bit_simps)
  also have "take_bit m ?x = ?x mod ucast ?len"
  proof -
    have "(ucast ?len :: u64) = 2 ^ m"
      using m(1) by (intro bit_word_eqI) (auto simp: len bit_simps)
    then show ?thesis
      by (simp add: take_bit_eq_mod)
  qed
  finally have eq: "(ucast ?x :: u32) AND (?len - 1) = ucast (?x mod ucast ?len)" .
  have "?len \<noteq> 0"
    using m(2) by auto
  then show ?thesis
    using arena_mask_less [OF assms, of "ucast ?x"] eq mask
    by (auto simp: tls_thread_get_arena_def memkind_thread_get_arena_def Let_def)
qed

section \<open>Properties\<close>

text \<open>
  The number of arenas is rounded up to the smallest power of two that is at least the requested
  number, for every number \<^verbatim>\<open>memkind_set_arena_map_len\<close> can ask for.
\<close>

theorem round_pow2_up_least:
  assumes "1 \<le> unat v" "unat v \<le> 2 ^ 31"
  shows "\<exists>m. unat (round_pow2_up v) = 2 ^ m \<and> unat v \<le> 2 ^ m \<and> (\<forall>j. unat v \<le> 2 ^ j \<longrightarrow> m \<le> j)"
  using round_pow2_up_spec [OF assms] by blast

theorem round_pow2_up_least_witness:
  "unat (round_pow2_up 200) = 256"
proof -
  obtain m where m: "unat (round_pow2_up 200) = 2 ^ m" "200 \<le> (2 :: nat) ^ m" "m \<le> 8"
    using round_pow2_up_least [of 200] by auto
  have "\<not> m \<le> 7"
    using m(2) power_increasing [of m 7 "2 :: nat"] by auto
  then have "m = 8"
    using m(3) by simp
  with m(1) show ?thesis
    by simp
qed

text \<open>
  Masking replaces the modulo operation: for a kind whose arena map was set up, the arena chosen
  by \<^verbatim>\<open>memkind_thread_get_arena\<close> from the hash and the mask is the one the thread-local variant of the
  same function computes with a division, and it lies among the kind's arenas.
\<close>

theorem thread_arena_mask_is_mod:
  assumes "arena_map_ok (kinds s k)"
  shows "tls_thread_get_arena sy k s = Some (memkind_thread_get_arena sy k s) \<and>
    (\<exists>i < k_arena_map_len (kinds s k).
       memkind_thread_get_arena sy k s = (0, k_arena_zero (kinds s k) + i))"
  by (rule thread_arena_spec [OF assms])

theorem thread_arena_mask_is_mod_witness:
  "\<exists>s. tls_thread_get_arena sample_sys MEMKIND_HBW s = Some (memkind_thread_get_arena sample_sys MEMKIND_HBW s) \<and>
    k_arena_map_len (kinds s MEMKIND_HBW) = 16"
proof -
  let ?s = "upd_kind MEMKIND_HBW (\<lambda>kd. kd\<lparr>k_arena_map_len := 16, k_arena_map_mask := 15\<rparr>) (mk_init 0)"
  have "arena_map_ok (kinds ?s MEMKIND_HBW)"
    by (auto simp: arena_map_ok_def intro: exI [of _ 4])
  from thread_arena_mask_is_mod [OF this, of sample_sys] show ?thesis
    by (intro exI [of _ ?s]) auto
qed


lemma sample_sys_laws: "arenas_consecutive sample_sys (\<lambda>w. w)" "destroy_keeps_registry sample_sys"
  "mallctl_succeeds sample_sys"
  by (auto simp: mallctl_succeeds_def arenas_consecutive_def destroy_keeps_registry_def sample_mallctl_def arena_cmd_def
      same_lib_def lib_rest_def split: if_splits)


end
