(* ===== verification/Default_Ops.thy ===== *)
theory Default_Ops
  imports Init
begin

text \<open>
  The allocation functions of the default kind (\<^verbatim>\<open>src/memkind_default.c\<close>): the plain jemalloc
  functions behind a check of zero sizes, the check of alignments that POSIX requires, and the
  binding policies of the kinds.
\<close>

section \<open>Definitions\<close>

definition size_out_of_bounds :: "u64 \<Rightarrow> bool" where
  "size_out_of_bounds sz \<longleftrightarrow> sz = 0"

definition memkind_default_destroy :: "memkind_t \<Rightarrow> 'w mk \<Rightarrow> int \<times> 'w mk" where
  "memkind_default_destroy k s = (0, s)"

definition memkind_default_malloc :: "'w sys \<Rightarrow> memkind_t \<Rightarrow> u64 \<Rightarrow> 'w mk \<Rightarrow> ptr \<times> 'w mk" where
  "memkind_default_malloc sy k sz s =
    (if \<not> k_allow_zero_allocs (kinds s k) \<and> size_out_of_bounds sz then (NULL, s)
     else je_malloc sy sz s)"

definition memkind_default_calloc :: "'w sys \<Rightarrow> memkind_t \<Rightarrow> u64 \<Rightarrow> u64 \<Rightarrow> 'w mk \<Rightarrow> ptr \<times> 'w mk" where
  "memkind_default_calloc sy k num sz s =
    (if \<not> k_allow_zero_allocs (kinds s k) \<and> (size_out_of_bounds num \<or> size_out_of_bounds sz)
     then (NULL, s) else je_calloc sy num sz s)"

text \<open>The pointer passed in is what \<^verbatim>\<open>*memptr\<close> holds before the call, the one returned what it holds after.\<close>

definition memkind_default_posix_memalign ::
  "'w sys \<Rightarrow> memkind_t \<Rightarrow> ptr \<Rightarrow> u64 \<Rightarrow> u64 \<Rightarrow> 'w mk \<Rightarrow> (int \<times> ptr) \<times> 'w mk" where
  "memkind_default_posix_memalign sy k memptr alignment sz s =
    (if \<not> k_allow_zero_allocs (kinds s k) \<and> size_out_of_bounds sz then ((0, NULL), s)
     else je_posix_memalign sy memptr alignment sz s)"

definition memkind_default_realloc :: "'w sys \<Rightarrow> memkind_t \<Rightarrow> ptr \<Rightarrow> u64 \<Rightarrow> 'w mk \<Rightarrow> ptr \<times> 'w mk" where
  "memkind_default_realloc sy k p sz s =
    (if \<not> k_allow_zero_allocs (kinds s k) \<and> size_out_of_bounds sz then (NULL, je_free sy p s)
     else
       (let (ret_ptr, s) = je_realloc sy p sz s
        in if ret_ptr = NULL \<and> p \<noteq> NULL \<and> sz \<noteq> 0 then (ret_ptr, s\<lparr>errno := ENOMEM\<rparr>)
           else (ret_ptr, s)))"

definition memkind_default_free :: "'w sys \<Rightarrow> memkind_t \<Rightarrow> ptr \<Rightarrow> 'w mk \<Rightarrow> 'w mk" where
  "memkind_default_free sy k p s = je_free sy p s"

definition memkind_default_malloc_usable_size :: "'w sys \<Rightarrow> memkind_t \<Rightarrow> ptr \<Rightarrow> 'w mk \<Rightarrow> u64" where
  "memkind_default_malloc_usable_size sy k p s = je_malloc_usable_size sy p s"

definition memkind_posix_check_alignment :: "u64 \<Rightarrow> int" where
  "memkind_posix_check_alignment alignment =
    (if alignment < 8 \<or> (alignment - 1) AND alignment \<noteq> 0 then EINVAL else 0)"

section \<open>Powers of two\<close>

lemma lowest_bit_split:
  fixes a :: "'a :: len word"
  assumes "a \<noteq> 0"
  obtains m where "m < LENGTH('a)" "(a - 1) AND a = unset_bit m a" "a = unset_bit m a + 2 ^ m"
    "\<And>j. bit a j \<Longrightarrow> m \<le> j" "bit a m"
proof
  define m where "m = (LEAST m. bit a m)"
  have "\<exists>m. bit a m"
    using assms by (auto simp: bit_eq_iff)
  then show m: "bit a m"
    unfolding m_def by (rule LeastI_ex)
  show low: "m \<le> j" if "bit a j" for j
    unfolding m_def using that by (rule Least_le)
  show "m < LENGTH('a)"
    using m by (rule bit_imp_le_length)
  let ?r = "unset_bit m a"
  have "?r AND 2 ^ m = 0" "?r AND mask m = 0"
    using low by (intro bit_word_eqI; fastforce simp: bit_simps)+
  then have sums: "?r + 2 ^ m = ?r OR 2 ^ m" "?r + mask m = ?r OR mask m"
    by (simp_all add: disjunctive_add_eq_or)
  have "a = ?r OR 2 ^ m"
    using m by (intro bit_word_eqI) (auto simp: bit_simps)
  then show a: "a = ?r + 2 ^ m"
    using sums(1) by simp
  have "a - 1 = ?r + mask m"
    by (subst a) (simp add: mask_eq_exp_minus_1)
  then have "a - 1 = ?r OR mask m"
    using sums(2) by simp
  then show "(a - 1) AND a = ?r"
    using low by (intro bit_word_eqI; fastforce simp: bit_simps)
qed

lemma and_minus_one_pow2:
  fixes a :: "'a :: len word"
  assumes "a \<noteq> 0"
  shows "(a - 1) AND a = 0 \<longleftrightarrow> (\<exists>m < LENGTH('a). a = 2 ^ m)"
proof -
  obtain m where m: "m < LENGTH('a)" "(a - 1) AND a = unset_bit m a" "a = unset_bit m a + 2 ^ m"
    "\<And>j. bit a j \<Longrightarrow> m \<le> j" "bit a m"
    using lowest_bit_split [OF assms] by blast
  have "unset_bit m a = 0" if "a = 2 ^ n" for n
    using m(5) that by (intro bit_word_eqI) (auto simp: bit_simps)
  then show ?thesis
    using m(1-3) by (metis add_0)
qed

lemma check_alignment_iff:
  "memkind_posix_check_alignment a = 0 \<longleftrightarrow> (\<exists>m. 3 \<le> m \<and> m < 64 \<and> a = 2 ^ m)"
  "memkind_posix_check_alignment a \<noteq> 0 \<longleftrightarrow> memkind_posix_check_alignment a = EINVAL"
proof -
  have "3 \<le> m \<longleftrightarrow> \<not> (2 ^ m :: u64) < 8" if "m < 64" for m
  proof -
    have "\<not> (2 ^ m :: u64) < 8 \<longleftrightarrow> (2 :: nat) ^ 3 \<le> 2 ^ m"
      using that by (simp add: word_less_nat_alt unat_pow2 not_less)
    then show ?thesis
      using power_increasing_iff [of "2 :: nat" 3 m] by simp
  qed
  then have "(\<exists>m. 3 \<le> m \<and> m < 64 \<and> a = 2 ^ m) \<longleftrightarrow> \<not> a < 8 \<and> (\<exists>m < 64. a = 2 ^ m)"
    by auto
  moreover have "a \<noteq> 0" if "\<not> a < 8"
    using that by auto
  ultimately show "memkind_posix_check_alignment a = 0 \<longleftrightarrow> (\<exists>m. 3 \<le> m \<and> m < 64 \<and> a = 2 ^ m)"
    using and_minus_one_pow2 [of a] by (auto simp: memkind_posix_check_alignment_def)
qed (simp add: memkind_posix_check_alignment_def)

end
