(* ===== verification/Arena.thy ===== *)
theory Arena
  imports Default_Ops
begin

text \<open>
  Allocation from the arenas of a kind: the second half of \<^verbatim>\<open>src/memkind_arena.c\<close>, from the caches of
  a thread to the statistics of a kind, and the encoding of jemalloc's flags
  (\<^verbatim>\<open>jemalloc_macros.h.in\<close> and, for the reading of flags, \<^verbatim>\<open>jemalloc_internal_types.h\<close>).

  The lemmas show that the flags carry the arena, the cache and the alignment without interference;
  that a pointer from \<^verbatim>\<open>memkind_arena_malloc\<close> is traced back to its kind; which codes
  \<^verbatim>\<open>memkind_arena_posix_memalign\<close> returns; and when \<^verbatim>\<open>memkind_arena_realloc\<close> is an allocation or a
  release.
\<close>

section \<open>Flags of the jemalloc calls\<close>

definition ffs :: "u32 \<Rightarrow> nat" where
  "ffs x = (case List.find (bit x) [0..<32] of Some i \<Rightarrow> Suc i | None \<Rightarrow> 0)"

definition MALLOCX_ALIGN :: "u64 \<Rightarrow> u32" where
  "MALLOCX_ALIGN a =
    (if a < 2147483647 then of_nat (ffs (ucast a)) - 1 else of_nat (ffs (ucast (drop_bit 32 a))) + 31)"

definition MALLOCX_ZERO :: u32 where "MALLOCX_ZERO = 0x40"

definition MALLOCX_TCACHE :: "u32 \<Rightarrow> u32" where
  "MALLOCX_TCACHE tc = push_bit 8 (tc + 2)"

definition MALLOCX_TCACHE_NONE :: u32 where
  "MALLOCX_TCACHE_NONE = MALLOCX_TCACHE (- 1)"

definition MALLOCX_ARENA :: "u32 \<Rightarrow> u32" where
  "MALLOCX_ARENA a = push_bit 20 (a + 1)"

definition MALLOCX_ALIGN_GET_SPECIFIED :: "u32 \<Rightarrow> u64" where
  "MALLOCX_ALIGN_GET_SPECIFIED flags = push_bit (unat (flags AND mask 6)) 1"

definition MALLOCX_ZERO_GET :: "u32 \<Rightarrow> bool" where
  "MALLOCX_ZERO_GET flags \<longleftrightarrow> flags AND MALLOCX_ZERO \<noteq> 0"

definition MALLOCX_TCACHE_GET :: "u32 \<Rightarrow> u32" where
  "MALLOCX_TCACHE_GET flags = drop_bit 8 (flags AND push_bit 8 (mask 12)) - 2"

definition MALLOCX_ARENA_GET :: "u32 \<Rightarrow> u32" where
  "MALLOCX_ARENA_GET flags = drop_bit 20 flags - 1"

section \<open>The thread's caches\<close>

abbreviation (input) TCACHE_MAX :: u64 where "TCACHE_MAX \<equiv> 4096"

fun tcache_finalize_from :: "'w sys \<Rightarrow> u32 list \<Rightarrow> 'w mk \<Rightarrow> 'w mk" where
  "tcache_finalize_from sy [] s = s"
| "tcache_finalize_from sy (tc # tcs) s =
    (if tc \<noteq> 0 then tcache_finalize_from sy tcs (snd (je_mallctl sy ''tcache.destroy'' (Ctl_unsigned tc) s))
     else tcache_finalize_from sy tcs s)"

definition tcache_finalize :: "'w sys \<Rightarrow> u32 list \<Rightarrow> 'w mk \<Rightarrow> 'w mk" where
  "tcache_finalize sy tcache_map s = tcache_finalize_from sy (take MEMKIND_NUM_STATIC_KINDS tcache_map) s"

text \<open>The thread's table of caches, allocated on the first use.\<close>

definition get_tcache_map :: "'w sys \<Rightarrow> 'w mk \<Rightarrow> u32 list option \<times> 'w mk" where
  "get_tcache_map sy s =
    (let self = self_of sy s
     in case tcache_maps s self of
          Some tcache_map \<Rightarrow> (Some tcache_map, s)
        | None \<Rightarrow>
            (let (p, s) = je_calloc sy (of_nat MEMKIND_NUM_STATIC_KINDS) 4 s
             in if p = NULL then (None, s)
                else
                  (let tcache_map = replicate MEMKIND_NUM_STATIC_KINDS 0
                   in (Some tcache_map, s\<lparr>tcache_maps := (tcache_maps s)(self \<mapsto> tcache_map)\<rparr>))))"

definition get_tcache_flag :: "'w sys \<Rightarrow> u32 \<Rightarrow> u64 \<Rightarrow> 'w mk \<Rightarrow> u32 \<times> 'w mk" where
  "get_tcache_flag sy part sz s =
    (if sz > TCACHE_MAX \<or> unat part \<ge> MEMKIND_NUM_STATIC_KINDS then (MALLOCX_TCACHE_NONE, s)
     else
       (let (tcache_map, s) = get_tcache_map sy s
        in case tcache_map of
             None \<Rightarrow> (MALLOCX_TCACHE_NONE, s)
           | Some tcache_map \<Rightarrow>
               (if tcache_map ! unat part = 0 then
                  (let self = self_of sy s;
                       ((err, v), s) = je_mallctl sy ''tcache.create'' Ctl_none s
                   in if err \<noteq> 0 then (MALLOCX_TCACHE_NONE, s)
                      else
                        (MALLOCX_TCACHE (ucast v),
                         s\<lparr>tcache_maps := (tcache_maps s)(self \<mapsto> tcache_map[unat part := ucast v])\<rparr>))
                else (MALLOCX_TCACHE (tcache_map ! unat part), s))))"

section \<open>Allocation and release\<close>

definition jemk_mallocx_check :: "'w sys \<Rightarrow> u64 \<Rightarrow> u32 \<Rightarrow> bool \<Rightarrow> 'w mk \<Rightarrow> ptr \<times> 'w mk" where
  "jemk_mallocx_check sy sz flags allow_zero_allocs s =
    (if \<not> allow_zero_allocs \<and> sz = 0 then (NULL, s)
     else
       (let (p, s) = je_mallocx sy sz flags s
        in if p = NULL then (p, s\<lparr>errno := ENOMEM\<rparr>) else (p, s)))"

text \<open>\<^verbatim>\<open>kind->ops->get_arena\<close>; calling a \<open>NULL\<close> pointer is undefined.\<close>

definition ops_get_arena :: "'w sys \<Rightarrow> memkind_t \<Rightarrow> 'w mk \<Rightarrow> (int \<times> u32) option" where
  "ops_get_arena sy k s =
    map_option (\<lambda>f. call_get_arena sy f k s) (o_get_arena (k_ops (kinds s k)))"

definition memkind_arena_malloc :: "'w sys \<Rightarrow> memkind_t \<Rightarrow> u64 \<Rightarrow> 'w mk \<Rightarrow> (ptr \<times> 'w mk) option" where
  "memkind_arena_malloc sy k sz s =
    do {
      s \<leftarrow> kind_init_once sy k s;
      (err, arena) \<leftarrow> ops_get_arena sy k s;
      if err = 0 then
        let (tcache, s) = get_tcache_flag sy (k_partition (kinds s k)) sz s
        in Some (jemk_mallocx_check sy sz (MALLOCX_ARENA arena OR tcache)
                   (k_allow_zero_allocs (kinds s k)) s)
      else Some (NULL, s)
    }"

definition memkind_arena_malloc_no_tcache ::
  "'w sys \<Rightarrow> memkind_t \<Rightarrow> u64 \<Rightarrow> 'w mk \<Rightarrow> (ptr \<times> 'w mk) option" where
  "memkind_arena_malloc_no_tcache sy k sz s =
    (if k = MEMKIND_DEFAULT then
       Some (jemk_mallocx_check sy sz MALLOCX_TCACHE_NONE (k_allow_zero_allocs (kinds s k)) s)
     else do {
       (err, arena) \<leftarrow> ops_get_arena sy k s;
       if err = 0 then
         Some (jemk_mallocx_check sy sz (MALLOCX_ARENA arena OR MALLOCX_TCACHE_NONE)
                 (k_allow_zero_allocs (kinds s k)) s)
       else Some (NULL, s)
     })"

text \<open>The kind is \<open>NULL\<close> (\<open>None\<close>) when it was detected from a \<open>NULL\<close> pointer.\<close>

definition memkind_arena_free :: "'w sys \<Rightarrow> memkind_t option \<Rightarrow> ptr \<Rightarrow> 'w mk \<Rightarrow> 'w mk option" where
  "memkind_arena_free sy kind p s =
    (if kind = Some MEMKIND_DEFAULT then Some (je_free sy p s)
     else if p \<noteq> NULL then
       do {
         k \<leftarrow> kind;
         s \<leftarrow> kind_init_once sy k s;
         let (tcache, s) = get_tcache_flag sy (k_partition (kinds s k)) 0 s
         in Some (je_dallocx sy p tcache s)
       }
     else Some s)"

definition memkind_arena_free_with_kind_detect :: "'w sys \<Rightarrow> ptr \<Rightarrow> 'w mk \<Rightarrow> 'w mk option" where
  "memkind_arena_free_with_kind_detect sy p s =
    do {
      kind \<leftarrow> memkind_arena_detect_kind sy p s;
      memkind_arena_free sy kind p s
    }"

definition memkind_arena_realloc ::
  "'w sys \<Rightarrow> memkind_t \<Rightarrow> ptr \<Rightarrow> u64 \<Rightarrow> 'w mk \<Rightarrow> (ptr \<times> 'w mk) option" where
  "memkind_arena_realloc sy k p sz s =
    do {
      s \<leftarrow> kind_init_once sy k s;
      if sz = 0 \<and> p \<noteq> NULL then
        let (tcache, s) = get_tcache_flag sy (k_partition (kinds s k)) 0 s
        in Some (NULL, je_dallocx sy p tcache s)
      else do {
        (err, arena) \<leftarrow> ops_get_arena sy k s;
        if err = 0 then
          if p = NULL then
            let (tcache, s) = get_tcache_flag sy (k_partition (kinds s k)) sz s
            in Some (jemk_mallocx_check sy sz (MALLOCX_ARENA arena OR tcache)
                       (k_allow_zero_allocs (kinds s k)) s)
          else if \<not> k_allow_zero_allocs (kinds s k) \<and> sz = 0 then Some (NULL, s)
          else
            let (tcache, s) = get_tcache_flag sy (k_partition (kinds s k)) sz s;
                (p, s) = je_rallocx sy p sz (MALLOCX_ARENA arena OR tcache) s
            in Some (p, if p = NULL then s\<lparr>errno := ENOMEM\<rparr> else s)
        else Some (NULL, s)
      }
    }"

definition memkind_arena_realloc_with_kind_detect ::
  "'w sys \<Rightarrow> ptr \<Rightarrow> u64 \<Rightarrow> 'w mk \<Rightarrow> (ptr \<times> 'w mk) option" where
  "memkind_arena_realloc_with_kind_detect sy p sz s =
    (if p = NULL then Some (NULL, s\<lparr>errno := EINVAL\<rparr>)
     else do {
       kind \<leftarrow> memkind_arena_detect_kind sy p s;
       k \<leftarrow> kind;
       if k = MEMKIND_DEFAULT then Some (memkind_default_realloc sy k p sz s)
       else memkind_arena_realloc sy k p sz s
     })"

definition memkind_arena_calloc ::
  "'w sys \<Rightarrow> memkind_t \<Rightarrow> u64 \<Rightarrow> u64 \<Rightarrow> 'w mk \<Rightarrow> (ptr \<times> 'w mk) option" where
  "memkind_arena_calloc sy k num sz s =
    do {
      s \<leftarrow> kind_init_once sy k s;
      (err, arena) \<leftarrow> ops_get_arena sy k s;
      if err = 0 then
        let (tcache, s) = get_tcache_flag sy (k_partition (kinds s k)) sz s
        in Some (jemk_mallocx_check sy (num * sz) (MALLOCX_ARENA arena OR MALLOCX_ZERO OR tcache)
                   (k_allow_zero_allocs (kinds s k)) s)
      else Some (NULL, s)
    }"

definition memkind_arena_posix_memalign ::
  "'w sys \<Rightarrow> memkind_t \<Rightarrow> u64 \<Rightarrow> u64 \<Rightarrow> 'w mk \<Rightarrow> ((int \<times> ptr) \<times> 'w mk) option" where
  "memkind_arena_posix_memalign sy k alignment sz s =
    do {
      s \<leftarrow> kind_init_once sy k s;
      (err, arena) \<leftarrow> ops_get_arena sy k s;
      let err = (if err = 0 then memkind_posix_check_alignment alignment else err)
      in if err = 0 then
           if \<not> k_allow_zero_allocs (kinds s k) \<and> size_out_of_bounds sz then Some ((0, NULL), s)
           else
             let errno_before = errno s;
                 (tcache, s) = get_tcache_flag sy (k_partition (kinds s k)) sz s;
                 (p, s) = jemk_mallocx_check sy sz
                            (MALLOCX_ALIGN alignment OR MALLOCX_ARENA arena OR tcache)
                            (k_allow_zero_allocs (kinds s k)) s;
                 s = s\<lparr>errno := errno_before\<rparr>
             in Some ((if p \<noteq> NULL then 0 else ENOMEM, p), s)
         else Some ((err, NULL), s)
    }"

definition memkind_arena_defrag_reallocate ::
  "'w sys \<Rightarrow> memkind_t \<Rightarrow> ptr \<Rightarrow> 'w mk \<Rightarrow> (ptr \<times> 'w mk) option" where
  "memkind_arena_defrag_reallocate sy k p s =
    (if p = NULL then Some (NULL, s)
     else if \<not> je_check_reallocatex sy p s then
       do {
         let sz = je_malloc_usable_size sy p s;
         (ptr_new, s) \<leftarrow> memkind_arena_malloc_no_tcache sy k sz s;
         if ptr_new = NULL then Some (NULL, s)
         else
           let s = s\<lparr>world := memcpy sy ptr_new p sz (world s)\<rparr>
           in Some (ptr_new, je_dallocx sy p MALLOCX_TCACHE_NONE s)
       }
     else Some (NULL, s))"

section \<open>The flags do not interfere\<close>

lemma ffs_pow2: "m < 32 \<Longrightarrow> ffs (2 ^ m) = Suc m"
proof -
  assume m: "m < 32"
  have "List.find (bit (2 ^ m :: u32)) [0..<32] = Some m"
    unfolding find_Some_iff using m by (intro exI [of _ m]) (auto simp: bit_simps simp del: upt_Suc)
  then show "ffs (2 ^ m) = Suc m"
    by (simp add: ffs_def)
qed

lemma MALLOCX_ALIGN_pow2: "m < 64 \<Longrightarrow> MALLOCX_ALIGN (2 ^ m) = of_nat m"
proof -
  assume m: "m < 64"
  consider "m \<le> 30" | "m = 31" | "32 \<le> m"
    by linarith
  then show "MALLOCX_ALIGN (2 ^ m) = of_nat m"
  proof cases
    case 1
    then have "(2 :: nat) ^ m \<le> 2 ^ 30"
      by (intro power_increasing) auto
    then have "(2 ^ m :: u64) < 2147483647"
      using 1 by (simp add: word_less_nat_alt unat_pow2)
    moreover have "ucast (2 ^ m :: u64) = (2 ^ m :: u32)"
      using 1 by (intro bit_word_eqI) (auto simp: bit_simps)
    ultimately show ?thesis
      using 1 by (simp add: MALLOCX_ALIGN_def ffs_pow2)
  next
    case 2
    then show ?thesis
      by (simp only: MALLOCX_ALIGN_def) code_simp
  next
    case 3
    then have "(2 :: nat) ^ 32 \<le> 2 ^ m"
      by (intro power_increasing) auto
    then have "\<not> (2 ^ m :: u64) < 2147483647"
      using m by (simp add: word_less_nat_alt unat_pow2)
    moreover have "ucast (drop_bit 32 (2 ^ m :: u64)) = (2 ^ (m - 32) :: u32)"
      using 3 m by (intro bit_word_eqI) (auto simp: bit_simps)
    moreover have "of_nat (Suc (m - 32)) + 31 = (of_nat m :: u32)"
      using 3 by (simp add: of_nat_diff)
    ultimately show ?thesis
      using 3 m by (simp add: MALLOCX_ALIGN_def ffs_pow2 del: of_nat_Suc)
  qed
qed

lemma bit_below: "unat (x :: u32) < 2 ^ n \<Longrightarrow> bit x j \<Longrightarrow> j < n"
proof -
  assume "unat x < 2 ^ n" "bit x j"
  then have "take_bit n (unat x) = unat x" "bit (unat x) j"
    by (simp_all add: take_bit_nat_eq_self bit_unsigned_iff)
  then show "j < n"
    by (metis bit_take_bit_iff)
qed

lemma flags_fields:
  assumes "unat x < 2 ^ 6" "unat t < 2 ^ 12" "unat a < 2 ^ 12"
    and flags: "flags = x OR push_bit 20 a OR push_bit 8 t OR (if z then MALLOCX_ZERO else 0)"
  shows "drop_bit 20 flags = a" "drop_bit 8 (flags AND push_bit 8 (mask 12)) = t"
    "flags AND mask 6 = x" "MALLOCX_ZERO_GET flags = z"
proof -
  note b = bit_below [OF assms(1)] bit_below [OF assms(2)] bit_below [OF assms(3)]
  have z: "bit MALLOCX_ZERO j \<longleftrightarrow> j = 6" for j
    using bit_exp_iff [where 'a = "32 word", of 6 j] by (auto simp: MALLOCX_ZERO_def)
  have bz: "bit (if z then MALLOCX_ZERO else 0) j \<longleftrightarrow> z \<and> j = 6" for j
    by (simp add: z)
  show "drop_bit 20 flags = a"
    unfolding flags using b by (intro bit_word_eqI) (fastforce simp: bit_simps bz)
  show "drop_bit 8 (flags AND push_bit 8 (mask 12)) = t"
    unfolding flags using b by (intro bit_word_eqI) (fastforce simp: bit_simps bz)
  show "flags AND mask 6 = x"
    unfolding flags using b by (intro bit_word_eqI) (fastforce simp: bit_simps bz)
  have "flags AND MALLOCX_ZERO = (if z then MALLOCX_ZERO else 0)"
    unfolding flags using b(1)[of 6] by (intro bit_word_eqI) (auto simp: bit_simps bz z)
  then show "MALLOCX_ZERO_GET flags = z"
    by (simp add: MALLOCX_ZERO_GET_def MALLOCX_ZERO_def)
qed

section \<open>Calls that keep the library's data\<close>

text \<open>
  What the code relies on when it sets up a cache: jemalloc's \<^verbatim>\<open>calloc\<close> and the command that creates a
  cache work on jemalloc's own arenas, whose hooks are not the library's.
\<close>

definition internal_calls_frame :: "'w sys \<Rightarrow> bool" where
  "internal_calls_frame sy \<longleftrightarrow>
    (\<forall>m n s. same_lib s (snd (je_calloc sy m n s))) \<and>
    (\<forall>s. same_lib s (snd (je_mallctl sy ''tcache.create'' Ctl_none s)))"

lemma same_lib_tcache: "same_lib s s' \<Longrightarrow> tcache_maps s' = tcache_maps s"
  by (simp add: same_lib_def lib_rest_def)

lemma calloc_frame:
  assumes "internal_calls_frame sy" "je_calloc sy m n s = (p, s')"
  shows "kinds s' = kinds s \<and> arena_registry_g s' = arena_registry_g s \<and> tcache_maps s' = tcache_maps s"
proof -
  have "same_lib s (snd (je_calloc sy m n s))"
    using assms(1) by (simp add: internal_calls_frame_def)
  then have "same_lib s s'"
    by (simp add: assms(2))
  then show ?thesis
    using same_lib_sel(1,2) same_lib_tcache by blast
qed

lemma tcache_create_frame:
  assumes "internal_calls_frame sy" "je_mallctl sy ''tcache.create'' Ctl_none s = (r, s')"
  shows "kinds s' = kinds s \<and> arena_registry_g s' = arena_registry_g s \<and> tcache_maps s' = tcache_maps s"
proof -
  have "same_lib s (snd (je_mallctl sy ''tcache.create'' Ctl_none s))"
    using assms(1) by (simp add: internal_calls_frame_def)
  then have "same_lib s s'"
    by (simp add: assms(2))
  then show ?thesis
    using same_lib_sel(1,2) same_lib_tcache by blast
qed

text \<open>The caches of all threads have numbers that fit the field of the flags.\<close>

definition tcache_map_ok :: "u32 list \<Rightarrow> bool" where
  "tcache_map_ok m \<longleftrightarrow> length m = MEMKIND_NUM_STATIC_KINDS \<and> (\<forall>tc \<in> set m. unat tc \<le> 4093)"

definition tcaches_ok :: "'w mk \<Rightarrow> bool" where
  "tcaches_ok s \<longleftrightarrow> (\<forall>t m. tcache_maps s t = Some m \<longrightarrow> tcache_map_ok m)"

definition tcache_ids_fit :: "'w sys \<Rightarrow> bool" where
  "tcache_ids_fit sy \<longleftrightarrow>
    (\<forall>s v s'. je_mallctl sy ''tcache.create'' Ctl_none s = ((0, v), s') \<longrightarrow> unat v \<le> 4093)"

lemma tcaches_ok_upd:
  assumes "tcaches_ok s" "tcache_maps s1 = tcache_maps s" "tcache_map_ok m"
  shows "tcaches_ok (s1\<lparr>tcache_maps := (tcache_maps s1)(t \<mapsto> m)\<rparr>)"
  using assms by (simp add: tcaches_ok_def)

lemma get_tcache_map_spec:
  assumes "internal_calls_frame sy" "tcaches_ok s" "get_tcache_map sy s = (r, s')"
  shows "kinds s' = kinds s \<and> arena_registry_g s' = arena_registry_g s \<and> tcaches_ok s' \<and>
    (\<forall>m. r = Some m \<longrightarrow> tcache_map_ok m)"
proof (cases "tcache_maps s (self_of sy s)")
  case None
  obtain p s0 where p: "je_calloc sy (of_nat MEMKIND_NUM_STATIC_KINDS) 4 s = (p, s0)"
    by fastforce
  note f = calloc_frame [OF assms(1) p]
  have m: "tcache_map_ok (replicate MEMKIND_NUM_STATIC_KINDS 0)"
    by (simp add: tcache_map_ok_def)
  have "tcaches_ok s0"
    using assms(2) f by (simp add: tcaches_ok_def)
  then show ?thesis
    using assms(3) None p f m tcaches_ok_upd [OF assms(2) _ m, of s0]
    by (auto simp: get_tcache_map_def Let_def split: if_splits)
next
  case (Some m)
  then show ?thesis
    using assms(2,3) by (auto simp: get_tcache_map_def tcaches_ok_def)
qed

lemma tcache_flag_fits: "unat tc \<le> 4093 \<Longrightarrow> \<exists>t. MALLOCX_TCACHE tc = push_bit 8 t \<and> unat t < 2 ^ 12"
  by (intro exI [of _ "tc + 2"]) (simp add: MALLOCX_TCACHE_def unat_add_no_wrap)

lemma tcache_none_fits: "\<exists>t. MALLOCX_TCACHE_NONE = push_bit 8 t \<and> unat t < 2 ^ 12"
  by (intro exI [of _ 1]) (simp add: MALLOCX_TCACHE_NONE_def MALLOCX_TCACHE_def)

lemma get_tcache_flag_spec:
  assumes "internal_calls_frame sy" "tcache_ids_fit sy" "tcaches_ok s"
    and "get_tcache_flag sy part sz s = (flag, s')"
  shows "kinds s' = kinds s \<and> arena_registry_g s' = arena_registry_g s \<and> tcaches_ok s' \<and>
    (\<exists>t. flag = push_bit 8 t \<and> unat t < 2 ^ 12)"
proof (cases "sz > TCACHE_MAX \<or> unat part \<ge> MEMKIND_NUM_STATIC_KINDS")
  case True
  then show ?thesis
    using assms(3,4) tcache_none_fits by (auto simp: get_tcache_flag_def)
next
  case False
  obtain r s1 where m: "get_tcache_map sy s = (r, s1)"
    by fastforce
  note ms = get_tcache_map_spec [OF assms(1,3) m]
  show ?thesis
  proof (cases r)
    case None
    then show ?thesis
      using False assms(4) m ms tcache_none_fits by (auto simp: get_tcache_flag_def)
  next
    case (Some tm)
    then have tm: "tcache_map_ok tm" "unat part < length tm"
      using ms False by (auto simp: tcache_map_ok_def)
    obtain err v s2 where v: "je_mallctl sy ''tcache.create'' Ctl_none s1 = ((err, v), s2)"
      by (metis surj_pair)
    note f = tcache_create_frame [OF assms(1) v]
    have ok2: "tcaches_ok s2"
      using ms f by (simp add: tcaches_ok_def)
    consider "tm ! unat part \<noteq> 0" | "tm ! unat part = 0" "err \<noteq> 0" | "tm ! unat part = 0" "err = 0"
      by blast
    then show ?thesis
    proof cases
      case 1
      have "unat (tm ! unat part) \<le> 4093"
        using tm by (simp add: tcache_map_ok_def)
      then show ?thesis
        using 1 Some False assms(4) m ms tcache_flag_fits by (auto simp: get_tcache_flag_def)
    next
      case 2
      then show ?thesis
        using Some False assms(4) m v ms f ok2 tcache_none_fits by (auto simp: get_tcache_flag_def Let_def)
    next
      case 3
      then have "unat v \<le> 4093"
        using assms(2) v unfolding tcache_ids_fit_def by blast
      then have u: "unat (ucast v :: u32) \<le> 4093"
        by (simp add: unsigned_ucast_eq take_bit_nat_eq_self)
      then have "tcache_map_ok (tm[unat part := ucast v])"
        using tm(1) set_update_subset_insert [of tm "unat part" "ucast v"]
        by (auto simp: tcache_map_ok_def)
      from tcaches_ok_upd [OF _ refl this, of s2] show ?thesis
        using 3 Some False assms(4) m v ms f ok2 tcache_flag_fits [OF u]
        by (auto simp: get_tcache_flag_def Let_def)
    qed
  qed
qed

section \<open>From a pointer back to its kind\<close>

text \<open>
  A kind owns its arenas when the registry maps all of them to it. jemalloc's promise about
  \<^verbatim>\<open>mallocx\<close> with an arena: the block lies in that arena, whatever \<open>errno\<close> holds, and the hooks it runs
  do not write the registry.
\<close>

definition arena_owner :: "memkind_t \<Rightarrow> 'w mk \<Rightarrow> bool" where
  "arena_owner k s \<longleftrightarrow>
    arena_map_ok (kinds s k) \<and>
    unat (k_arena_zero (kinds s k)) + unat (k_arena_map_len (kinds s k)) \<le> unat MALLOCX_ARENA_MAX \<and>
    (\<forall>i < k_arena_map_len (kinds s k). arena_registry_g s (k_arena_zero (kinds s k) + i) = Some k)"

definition mallocx_in_arena :: "'w sys \<Rightarrow> bool" where
  "mallocx_in_arena sy \<longleftrightarrow>
    (\<forall>n flags s p s'. je_mallocx sy n flags s = (p, s') \<and> p \<noteq> NULL \<and> drop_bit 20 flags \<noteq> 0 \<longrightarrow>
       (\<forall>e. je_arenalookupx sy p (s'\<lparr>errno := e\<rparr>) = MALLOCX_ARENA_GET flags) \<and>
       arena_registry_g s' = arena_registry_g s)"

lemma create_map_owner:
  assumes "memkind_arena_create_map sy k hooks muh s = Some (0, s')"
    and "o_get_arena (k_ops (kinds s k)) = Some Memkind_thread_get_arena"
    and "numa_num_configured_cpus (host_of sy) \<noteq> 0"
    and "arenas_consecutive sy narenas"
    and "narenas (world s) + unat (k_arena_map_len (kinds s' k)) \<le> unat MALLOCX_ARENA_MAX"
  shows "arena_owner k s'"
proof -
  let ?z = "k_arena_zero (kinds s' k)" and ?n = "k_arena_map_len (kinds s' k)"
  have n: "narenas (world s) < 2 ^ 31"
    using assms(5) by simp
  note c = create_map_success [OF assms(1-4) n]
  have z: "unat ?z = narenas (world s)"
    using c assms(5) by (simp add: unat_of_nat_no_wrap)
  have "arena_registry_g s' (?z + i) = Some k" if "i < ?n" for i
  proof -
    have "unat (?z + i) = unat ?z + unat i"
      using that assms(5) z by (intro unat_add_no_wrap) (simp add: word_less_nat_alt)
    then show ?thesis
      using c z that by (simp add: arena_range_def word_less_nat_alt)
  qed
  then show ?thesis
    using c z assms(5) by (simp add: arena_owner_def)
qed

lemma get_arena_owned:
  assumes "arena_owner k s" "ops_get_arena sy k s = Some (err, a)"
  shows "err = 0 \<and> arena_registry_g s a = Some k \<and> a < MALLOCX_ARENA_MAX"
proof -
  let ?z = "k_arena_zero (kinds s k)" and ?n = "k_arena_map_len (kinds s k)"
  have ok: "arena_map_ok (kinds s k)" "unat ?z + unat ?n \<le> unat MALLOCX_ARENA_MAX"
    "\<And>i. i < ?n \<Longrightarrow> arena_registry_g s (?z + i) = Some k"
    using assms(1) by (auto simp: arena_owner_def)
  obtain f where f: "call_get_arena sy f k s = (err, a)"
    using assms(2) by (auto simp: ops_get_arena_def)
  obtain i where i: "i < ?n" "err = 0" "a = ?z + i"
  proof (cases f)
    case Memkind_thread_get_arena
    then show ?thesis
      using thread_arena_spec [OF ok(1), of sy] f that by auto
  next
    case Memkind_bijective_get_arena
    have "0 < ?n"
      using ok(1) by (auto simp: arena_map_ok_def word_less_nat_alt)
    then show ?thesis
      using Memkind_bijective_get_arena f that [of 0] by (simp add: memkind_bijective_get_arena_def)
  qed
  have "unat (?z + i) = unat ?z + unat i"
    using i(1) ok(2) by (intro unat_add_no_wrap) (simp add: word_less_nat_alt)
  then show ?thesis
    using i ok by (simp add: word_less_nat_alt)
qed

lemma mallocx_check_traced:
  assumes "mallocx_in_arena sy" "jemk_mallocx_check sy sz flags az s = (p, s')" "p \<noteq> NULL"
    and "arena_registry_g s a = Some k" "a < MALLOCX_ARENA_MAX"
    and flags: "flags = x OR MALLOCX_ARENA a OR push_bit 8 t OR (if z then MALLOCX_ZERO else 0)"
    and "unat x < 2 ^ 6" "unat t < 2 ^ 12"
  shows "memkind_arena_detect_kind sy p (s'\<lparr>errno := e\<rparr>) = Some (Some k)"
    "memkind_arena_detect_kind sy p s' = Some (Some k)"
proof -
  have "unat (a + 1) = unat a + 1"
    using assms(5) by (simp add: word_less_nat_alt unat_add_no_wrap)
  then have A: "unat (a + 1) < 2 ^ 12" "a + 1 \<noteq> 0"
    using assms(5) by (auto simp: word_less_nat_alt)
  have d: "drop_bit 20 flags = a + 1"
    using flags_fields(1) [OF assms(7,8) A(1), of flags z] flags by (simp add: MALLOCX_ARENA_def)
  have "je_mallocx sy sz flags s = (p, s')"
    using assms(2,3) by (auto simp: jemk_mallocx_check_def split: if_splits prod.splits)
  then have "je_arenalookupx sy p (s'\<lparr>errno := e\<rparr>) = a \<and> arena_registry_g s' = arena_registry_g s" for e
    using assms(1,3) d A(2) unfolding mallocx_in_arena_def MALLOCX_ARENA_GET_def
    by (metis add_diff_cancel_right')
  then show any: "memkind_arena_detect_kind sy p (s'\<lparr>errno := e\<rparr>) = Some (Some k)" for e
    using assms(3-5) by (simp add: memkind_arena_detect_kind_def get_kind_by_arena_def)
  show "memkind_arena_detect_kind sy p s' = Some (Some k)"
    using any [of "errno s'"] by simp
qed

lemma arena_malloc_traced:
  assumes "k_init_once (kinds s k)" "arena_owner k s" "tcaches_ok s"
    and "mallocx_in_arena sy" "internal_calls_frame sy" "tcache_ids_fit sy"
  shows "memkind_arena_malloc sy k sz s = Some (p, s') \<Longrightarrow> p \<noteq> NULL \<Longrightarrow>
      memkind_arena_detect_kind sy p s' = Some (Some k)"
    and "memkind_arena_calloc sy k num sz s = Some (p, s') \<Longrightarrow> p \<noteq> NULL \<Longrightarrow>
      memkind_arena_detect_kind sy p s' = Some (Some k)"
    and "memkind_arena_posix_memalign sy k alignment sz s = Some ((err, p), s') \<Longrightarrow> p \<noteq> NULL \<Longrightarrow>
      memkind_arena_detect_kind sy p s' = Some (Some k)"
proof -
  obtain flag s1 where flag: "get_tcache_flag sy (k_partition (kinds s k)) sz s = (flag, s1)"
    by fastforce
  then obtain t where t: "kinds s1 = kinds s" "arena_registry_g s1 = arena_registry_g s"
    "flag = push_bit 8 t" "unat t < 2 ^ 12"
    using get_tcache_flag_spec [OF assms(5,6,3)] by blast
  have i: "kind_init_once sy k s = Some s"
    using assms(1) by (simp add: kind_init_once_def)
  note owned = get_arena_owned [OF assms(2), of sy]
  note traced = mallocx_check_traced [OF assms(4) _ _ _ _ _ _ t(4), where s = s1]
  {
    assume m: "memkind_arena_malloc sy k sz s = Some (p, s')" "p \<noteq> NULL"
    obtain err a where a: "ops_get_arena sy k s = Some (err, a)"
      using m(1) i by (auto simp: memkind_arena_malloc_def split: option.splits bind_splits)
    then have "jemk_mallocx_check sy sz (MALLOCX_ARENA a OR flag) (k_allow_zero_allocs (kinds s k)) s1 =
        (p, s')"
      using m(1) i flag owned [OF a] t(1) by (simp add: memkind_arena_malloc_def)
    then show "memkind_arena_detect_kind sy p s' = Some (Some k)"
      using traced(2) [of sz _ _ p s' a k 0 False] owned [OF a] t(2,3) m(2) by simp
  next
    assume m: "memkind_arena_calloc sy k num sz s = Some (p, s')" "p \<noteq> NULL"
    obtain err a where a: "ops_get_arena sy k s = Some (err, a)"
      using m(1) i by (auto simp: memkind_arena_calloc_def split: option.splits bind_splits)
    then have "jemk_mallocx_check sy (num * sz) (MALLOCX_ARENA a OR MALLOCX_ZERO OR flag)
        (k_allow_zero_allocs (kinds s k)) s1 = (p, s')"
      using m(1) i flag owned [OF a] t(1) by (simp add: memkind_arena_calloc_def)
    moreover have "MALLOCX_ARENA a OR MALLOCX_ZERO OR flag = 0 OR MALLOCX_ARENA a OR flag OR MALLOCX_ZERO"
      by (simp add: ac_simps)
    ultimately show "memkind_arena_detect_kind sy p s' = Some (Some k)"
      using traced(2) [of "num * sz" _ _ p s' a k 0 True] owned [OF a] t(2,3) m(2) by simp
  next
    assume m: "memkind_arena_posix_memalign sy k alignment sz s = Some ((err, p), s')" "p \<noteq> NULL"
    obtain err' a where a: "ops_get_arena sy k s = Some (err', a)"
      using m(1) i by (auto simp: memkind_arena_posix_memalign_def split: option.splits bind_splits)
    obtain q s2 where q: "jemk_mallocx_check sy sz (MALLOCX_ALIGN alignment OR MALLOCX_ARENA a OR flag)
        (k_allow_zero_allocs (kinds s k)) s1 = (q, s2)"
      by fastforce
    have al: "memkind_posix_check_alignment alignment = 0"
      using m i owned [OF a] a by (auto simp: memkind_posix_check_alignment_def memkind_arena_posix_memalign_def Let_def split: if_splits)
    then have p: "p = q" "s' = s2\<lparr>errno := errno s\<rparr>"
      using m i owned [OF a] a q flag t(1)
      by (auto simp: memkind_arena_posix_memalign_def Let_def split: if_splits)
    obtain n where "n < 64" "alignment = 2 ^ n"
      using al check_alignment_iff(1) by blast
    then have "unat (MALLOCX_ALIGN alignment) < 2 ^ 6"
      by (simp add: MALLOCX_ALIGN_pow2 unat_of_nat_no_wrap)
    then show "memkind_arena_detect_kind sy p s' = Some (Some k)"
      using traced(1) [OF q, of a k "MALLOCX_ALIGN alignment" False "errno s"] owned [OF a] t(2,3) m(2) p
      by simp
  }
qed

section \<open>Properties\<close>

text \<open>
  C38. The fields of a jemalloc flag word do not disturb each other: the flags that the library builds
  for an arena, a cache, an alignment that is a power of two and the request for zeroed memory are
  read back by jemalloc as the same arena, cache, alignment and request. The cache may be the number
  of an explicit cache or the value \<open>-1\<close> of \<^verbatim>\<open>MALLOCX_TCACHE_NONE\<close>.
\<close>

theorem arena_flags_roundtrip:
  assumes "unat a < 4095" "unat tc \<le> 4093 \<or> tc = - 1" "m < 64"
    and "flags = MALLOCX_ALIGN (2 ^ m) OR MALLOCX_ARENA a OR MALLOCX_TCACHE tc OR
      (if z then MALLOCX_ZERO else 0)"
  shows "MALLOCX_ARENA_GET flags = a \<and> MALLOCX_TCACHE_GET flags = tc \<and>
    MALLOCX_ALIGN_GET_SPECIFIED flags = 2 ^ m \<and> MALLOCX_ZERO_GET flags = z"
proof -
  have a: "unat (a + 1) < 2 ^ 12"
    using assms(1) by (simp add: unat_add_no_wrap)
  have t: "unat (tc + 2) < 2 ^ 12"
    using assms(2) by (auto simp: unat_add_no_wrap)
  have x: "unat (of_nat m :: u32) = m"
    using assms(3) by (simp add: unat_of_nat_no_wrap)
  then have x6: "unat (of_nat m :: u32) < 2 ^ 6"
    using assms(3) by simp
  have flags: "flags = of_nat m OR push_bit 20 (a + 1) OR push_bit 8 (tc + 2) OR (if z then MALLOCX_ZERO else 0)"
    using assms(3,4) by (simp add: MALLOCX_ALIGN_pow2 MALLOCX_ARENA_def MALLOCX_TCACHE_def)
  note f = flags_fields [OF x6 t a flags]
  show ?thesis
    using f x by (simp add: MALLOCX_ARENA_GET_def MALLOCX_TCACHE_GET_def MALLOCX_ALIGN_GET_SPECIFIED_def
        push_bit_eq_mult)
qed

theorem arena_flags_roundtrip_witness:
  "MALLOCX_ARENA_GET (MALLOCX_ALIGN (2 ^ 12) OR MALLOCX_ARENA 17 OR MALLOCX_TCACHE 3 OR MALLOCX_ZERO) = 17 \<and>
   MALLOCX_TCACHE_GET (MALLOCX_ALIGN (2 ^ 12) OR MALLOCX_ARENA 17 OR MALLOCX_TCACHE 3 OR MALLOCX_ZERO) = 3"
  using arena_flags_roundtrip [of 17 3 12 _ True, OF _ _ _ refl] by simp


lemma sample_arena_laws:
  "mallocx_in_arena sample_sys" "internal_calls_frame sample_sys" "tcache_ids_fit sample_sys"
proof -
  have "ucast (ucast (drop_bit 20 f :: u32) :: u64) = (drop_bit 20 f :: u32)" for f
    by (intro bit_word_eqI) (auto simp: bit_simps)
  then show "mallocx_in_arena sample_sys"
    by (auto simp: mallocx_in_arena_def sample_mallocx_def MALLOCX_ARENA_GET_def)
  show "internal_calls_frame sample_sys"
    by (auto simp: internal_calls_frame_def sample_sys_def sample_mallctl_def same_lib_def)
  show "tcache_ids_fit sample_sys"
    by (auto simp: tcache_ids_fit_def sample_mallctl_def)
qed

text \<open>A state of the sample system in which a kind has one arena.\<close>

definition sample_owned :: "nat mk" where
  "sample_owned =
    (upd_kind MEMKIND_HBW (\<lambda>kd. kd\<lparr>k_init_once := True, k_arena_map_len := 1, k_arena_map_mask := 0,
       k_arena_zero := 3\<rparr>) (mk_init 4))\<lparr>arena_registry_g := [3 \<mapsto> MEMKIND_HBW]\<rparr>"

lemma sample_owned_ok:
  "k_init_once (kinds sample_owned MEMKIND_HBW)" "arena_owner MEMKIND_HBW sample_owned"
  "tcaches_ok sample_owned"
proof -
  show "k_init_once (kinds sample_owned MEMKIND_HBW)"
    by (simp add: sample_owned_def)
  have "i = 0" if "i < (1 :: u32)" for i
    using that by (simp add: word_less_nat_alt unat_eq_0)
  then show "arena_owner MEMKIND_HBW sample_owned"
    by (auto simp: sample_owned_def arena_owner_def arena_map_ok_def intro: exI [of _ 0])
  show "tcaches_ok sample_owned"
    by (simp add: tcaches_ok_def sample_owned_def mk_init_def upd_kind_def)
qed


text \<open>
  The contract of \<^verbatim>\<open>memkind_arena_posix_memalign\<close> on an initialised kind that owns its arenas: the
  code is 0, \<open>EINVAL\<close> or \<open>ENOMEM\<close>; it is \<open>EINVAL\<close> exactly for alignments that are not a power of two
  of at least the size of a pointer; the pointer stored is \<open>NULL\<close> on every error; and \<open>errno\<close> is left
  as it was, whatever jemalloc does to it.
\<close>

theorem arena_posix_memalign_contract:
  assumes "k_init_once (kinds s k)" "arena_owner k s"
    and "memkind_arena_posix_memalign sy k alignment sz s = Some ((err, p), s')"
  shows "err \<in> {0, EINVAL, ENOMEM} \<and>
    (err = EINVAL \<longleftrightarrow> \<not> (\<exists>m. 3 \<le> m \<and> m < 64 \<and> alignment = 2 ^ m)) \<and>
    (err \<noteq> 0 \<longrightarrow> p = NULL) \<and> errno s' = errno s"
proof -
  have i: "kind_init_once sy k s = Some s"
    using assms(1) by (simp add: kind_init_once_def)
  obtain err' a where a: "ops_get_arena sy k s = Some (err', a)"
    using assms(3) i by (auto simp: memkind_arena_posix_memalign_def split: option.splits bind_splits)
  have "err' = 0"
    using get_arena_owned [OF assms(2) a] by simp
  then show ?thesis
    using assms(3) i a check_alignment_iff [of alignment]
    by (cases "memkind_posix_check_alignment alignment = 0")
      (auto simp: memkind_arena_posix_memalign_def Let_def split: if_splits prod.splits)
qed

theorem arena_posix_memalign_contract_witness:
  "\<exists>p s'. memkind_arena_posix_memalign sample_sys MEMKIND_HBW 24 100 sample_owned = Some ((EINVAL, p), s') \<and>
    p = NULL \<and> errno s' = 0"
proof -
  have "map_option (fst \<circ> fst) (memkind_arena_posix_memalign sample_sys MEMKIND_HBW 24 100 sample_owned) =
      Some EINVAL"
    by code_simp
  then obtain p s' where r: "memkind_arena_posix_memalign sample_sys MEMKIND_HBW 24 100 sample_owned =
      Some ((EINVAL, p), s')"
    by auto
  have "errno sample_owned = 0"
    by (simp add: sample_owned_def)
  then show ?thesis
    using arena_posix_memalign_contract [OF sample_owned_ok(1,2) r] r by auto
qed

text \<open>
  The two special cases of \<^verbatim>\<open>memkind_arena_realloc\<close>: with a \<open>NULL\<close> pointer it is
  \<^verbatim>\<open>memkind_arena_malloc\<close>, and with size 0 it is \<^verbatim>\<open>memkind_arena_free\<close> and returns \<open>NULL\<close>, for every kind
  but the default one.
\<close>

theorem arena_realloc_cases:
  "memkind_arena_realloc sy k NULL sz s = memkind_arena_malloc sy k sz s \<and>
   (p \<noteq> NULL \<and> k \<noteq> MEMKIND_DEFAULT \<longrightarrow>
     memkind_arena_realloc sy k p 0 s = map_option (\<lambda>s'. (NULL, s')) (memkind_arena_free sy (Some k) p s))"
  by (auto simp: memkind_arena_realloc_def memkind_arena_malloc_def memkind_arena_free_def Let_def
      split: Option.bind_splits prod.splits)

theorem arena_realloc_cases_witness:
  "memkind_arena_realloc sample_sys MEMKIND_HBW 4 0 sample_owned =
    map_option (\<lambda>s'. (NULL, s')) (memkind_arena_free sample_sys (Some MEMKIND_HBW) 4 sample_owned)"
  using arena_realloc_cases [of sample_sys MEMKIND_HBW 0 sample_owned 4] by simp



end
