(* ===== verification/Mmap.thy ===== *)
theory Mmap
  imports Arena
begin

text \<open>
  How a kind gets memory from the kernel: the default mapping function with its binding policy and
  advice (\<^verbatim>\<open>src/memkind_default.c\<close>), the flags of huge pages (\<^verbatim>\<open>src/memkind_hugetlb.c\<close>), and the
  availability checks of the kinds with \<^verbatim>\<open>memkind_check_available\<close>.

  The kernel's calls are parameters. What the code relies on is the predicate \<open>kernel_maps\<close>: the set of
  mapped addresses grows by fresh regions on \<^verbatim>\<open>mmap\<close> and shrinks on \<^verbatim>\<open>munmap\<close>. The lemmas show that a
  mapping function that fails leaves nothing mapped behind.
\<close>

section \<open>Definitions\<close>

abbreviation (input) MAP_SHARED :: u32 where "MAP_SHARED \<equiv> 0x01"
abbreviation (input) MAP_PRIVATE :: u32 where "MAP_PRIVATE \<equiv> 0x02"
abbreviation (input) MAP_ANONYMOUS :: u32 where "MAP_ANONYMOUS \<equiv> 0x20"
abbreviation (input) MAP_HUGETLB :: u32 where "MAP_HUGETLB \<equiv> 0x40000"
abbreviation (input) MAP_HUGE_2MB :: u32 where "MAP_HUGE_2MB \<equiv> 0x54000000"
abbreviation (input) MADV_DONTNEED :: nat where "MADV_DONTNEED \<equiv> 4"
abbreviation (input) MADV_REMOVE :: nat where "MADV_REMOVE \<equiv> 9"
abbreviation (input) MADV_NOHUGEPAGE :: nat where "MADV_NOHUGEPAGE \<equiv> 15"
abbreviation (input) MPOL_PREFERRED :: nat where "MPOL_PREFERRED \<equiv> 1"
abbreviation (input) MPOL_BIND :: nat where "MPOL_BIND \<equiv> 2"
abbreviation (input) MPOL_INTERLEAVE :: nat where "MPOL_INTERLEAVE \<equiv> 3"

definition memkind_default_get_mmap_flags :: "int \<times> u32" where
  "memkind_default_get_mmap_flags = (0, MAP_PRIVATE OR MAP_ANONYMOUS)"

definition memkind_hugetlb_get_mmap_flags :: "int \<times> u32" where
  "memkind_hugetlb_get_mmap_flags = (0, MAP_PRIVATE OR MAP_ANONYMOUS OR MAP_HUGETLB OR MAP_HUGE_2MB)"

definition memkind_pmem_get_mmap_flags :: "int \<times> u32" where
  "memkind_pmem_get_mmap_flags = (0, MAP_SHARED)"

fun call_get_mmap_flags :: "get_mmap_flags_fn \<Rightarrow> int \<times> u32" where
  "call_get_mmap_flags Memkind_hugetlb_get_mmap_flags = memkind_hugetlb_get_mmap_flags"
| "call_get_mmap_flags Memkind_default_get_mmap_flags = memkind_default_get_mmap_flags"
| "call_get_mmap_flags Memkind_pmem_get_mmap_flags = memkind_pmem_get_mmap_flags"

definition memkind_default_get_mbind_mode :: "int \<times> nat" where
  "memkind_default_get_mbind_mode = (0, MPOL_BIND)"

definition memkind_preferred_get_mbind_mode :: "int \<times> nat" where
  "memkind_preferred_get_mbind_mode = (0, MPOL_PREFERRED)"

definition memkind_interleave_get_mbind_mode :: "int \<times> nat" where
  "memkind_interleave_get_mbind_mode = (0, MPOL_INTERLEAVE)"

fun call_get_mbind_mode :: "get_mbind_mode_fn \<Rightarrow> int \<times> nat" where
  "call_get_mbind_mode Memkind_default_get_mbind_mode = memkind_default_get_mbind_mode"
| "call_get_mbind_mode Memkind_preferred_get_mbind_mode = memkind_preferred_get_mbind_mode"
| "call_get_mbind_mode Memkind_interleave_get_mbind_mode = memkind_interleave_get_mbind_mode"

text \<open>\<^verbatim>\<open>kind->ops->get_mbind_nodemask\<close> on the state of the library.\<close>

definition ops_get_mbind_nodemask ::
  "'w sys \<Rightarrow> memkind_t \<Rightarrow> bitmask option \<Rightarrow> 'w mk \<Rightarrow> ((int \<times> bitmask option) \<times> 'w mk) option" where
  "ops_get_mbind_nodemask sy k nodemask s =
    do {
      f \<leftarrow> o_get_mbind_nodemask (k_ops (kinds s k));
      (r, gs, w) \<leftarrow> call_get_mbind_nodemask (host_of sy) f nodemask (numa_g s) (world s);
      Some (r, s\<lparr>numa_g := gs, world := w\<rparr>)
    }"

text \<open>A call of \<^verbatim>\<open>madvise\<close>: the result, with \<open>errno\<close> set on a failure.\<close>

definition do_madvise :: "'w sys \<Rightarrow> ptr \<Rightarrow> u64 \<Rightarrow> nat \<Rightarrow> 'w mk \<Rightarrow> int \<times> 'w mk" where
  "do_madvise sy addr sz advice s =
    (let ((r, e), s) = on_world (sys_madvise sy addr sz advice) s
     in (r, if r \<noteq> 0 then s\<lparr>errno := e\<rparr> else s))"

definition do_munmap :: "'w sys \<Rightarrow> ptr \<Rightarrow> u64 \<Rightarrow> 'w mk \<Rightarrow> int \<times> 'w mk" where
  "do_munmap sy addr sz s = on_world (sys_munmap sy addr sz) s"

definition memkind_nohugepage_madvise :: "'w sys \<Rightarrow> ptr \<Rightarrow> u64 \<Rightarrow> 'w mk \<Rightarrow> int \<times> 'w mk" where
  "memkind_nohugepage_madvise sy addr sz s =
    (let (err, s) = do_madvise sy addr sz MADV_NOHUGEPAGE s
     in if err = EINVAL \<and> addr AND 0xfff = 0 \<and> sz > 0 then (0, s) else (err, s))"

definition memkind_default_mbind :: "'w sys \<Rightarrow> memkind_t \<Rightarrow> ptr \<Rightarrow> u64 \<Rightarrow> 'w mk \<Rightarrow> (int \<times> 'w mk) option" where
  "memkind_default_mbind sy k p sz s =
    (case o_get_mbind_mode (k_ops (kinds s k)) of
       None \<Rightarrow> Some (MEMKIND_ERROR_BADOPS, s)
     | Some get_mbind_mode \<Rightarrow>
         if o_get_mbind_nodemask (k_ops (kinds s k)) = None then Some (MEMKIND_ERROR_BADOPS, s)
         else do {
           ((err, nodemask), s) \<leftarrow>
             ops_get_mbind_nodemask sy k (Some (stack_nodemask (host_of sy) (world s))) s;
           if err \<noteq> 0 then Some (err, s)
           else
             let (err, mode) = call_get_mbind_mode get_mbind_mode
             in if err \<noteq> 0 then Some (err, s)
                else
                  let (err, s) = on_world (sys_mbind sy p sz mode (the nodemask)) s
                  in if err \<noteq> 0 then Some (MEMKIND_ERROR_MBIND, s) else Some (err, s)
         })"

text \<open>
  The default mapping function. Its steps run on: without flags the binding is applied to
  \<open>MAP_FAILED\<close>, and after a failed binding the advice is given for \<open>MAP_FAILED\<close>.
\<close>

definition mmap_advise :: "'w sys \<Rightarrow> memkind_t \<Rightarrow> ptr \<Rightarrow> u64 \<Rightarrow> 'w mk \<Rightarrow> ptr \<times> 'w mk" where
  "mmap_advise sy k result sz s =
    (case o_madvise (k_ops (kinds s k)) of
       None \<Rightarrow> (result, s)
     | Some Memkind_nohugepage_madvise \<Rightarrow>
         (let (err, s) = memkind_nohugepage_madvise sy result sz s
          in if err \<noteq> 0 then (MAP_FAILED, snd (do_munmap sy result sz s)) else (result, s)))"

definition mmap_bind :: "'w sys \<Rightarrow> memkind_t \<Rightarrow> ptr \<Rightarrow> u64 \<Rightarrow> 'w mk \<Rightarrow> (ptr \<times> 'w mk) option" where
  "mmap_bind sy k result sz s =
    (case o_mbind (k_ops (kinds s k)) of
       None \<Rightarrow> Some (result, s)
     | Some Memkind_default_mbind \<Rightarrow>
         do {
           (err, s) \<leftarrow> memkind_default_mbind sy k result sz s;
           Some (if err \<noteq> 0 then (MAP_FAILED, snd (do_munmap sy result sz s)) else (result, s))
         })"

definition memkind_default_mmap :: "'w sys \<Rightarrow> memkind_t \<Rightarrow> ptr \<Rightarrow> u64 \<Rightarrow> 'w mk \<Rightarrow> (ptr \<times> 'w mk) option" where
  "memkind_default_mmap sy k addr sz s =
    (let (err, flags) =
           (case o_get_mmap_flags (k_ops (kinds s k)) of
              Some f \<Rightarrow> call_get_mmap_flags f
            | None \<Rightarrow> memkind_default_get_mmap_flags);
         (result, s) = (if err = 0 then on_world (sys_mmap sy addr sz flags (- 1) 0) s else (MAP_FAILED, s))
     in if err = 0 \<and> result = MAP_FAILED then Some (result, s)
        else do {
          (result, s) \<leftarrow> mmap_bind sy k result sz s;
          Some (mmap_advise sy k result sz s)
        })"

section \<open>Availability\<close>

text \<open>The availability checks that ask for the node mask without a buffer.\<close>

definition nodemask_check_available :: "'w sys \<Rightarrow> memkind_t \<Rightarrow> 'w mk \<Rightarrow> (int \<times> 'w mk) option" where
  "nodemask_check_available sy k s =
    do {
      ((err, _), s) \<leftarrow> ops_get_mbind_nodemask sy k None s;
      Some (err, s)
    }"

definition hugetlb_check_available_2mb :: "'w sys \<Rightarrow> memkind_t \<Rightarrow> 'w mk \<Rightarrow> (int \<times> 'w mk) option" where
  "hugetlb_check_available_2mb sy k s =
    do {
      (err, c, gs, w) \<leftarrow>
        memkind_hugetlb_check_available_2mb (host_of sy) (k_ops (kinds s k)) (hugepages_config s)
          (numa_g s) (world s);
      Some (err, s\<lparr>hugepages_config := c, numa_g := gs, world := w\<rparr>)
    }"

definition memkind_hbw_hugetlb_check_available :: "'w sys \<Rightarrow> memkind_t \<Rightarrow> 'w mk \<Rightarrow> (int \<times> 'w mk) option" where
  "memkind_hbw_hugetlb_check_available sy k s =
    do {
      (err, s) \<leftarrow> nodemask_check_available sy k s;
      if err = 0 then hugetlb_check_available_2mb sy k s else Some (err, s)
    }"

definition memkind_regular_check_available :: "'w sys \<Rightarrow> memkind_t \<Rightarrow> 'w mk \<Rightarrow> (int \<times> 'w mk) option" where
  "memkind_regular_check_available sy k s =
    do {
      s \<leftarrow> kind_init_once sy k s;
      Some (if regular_nodes_mask (numa_g s) \<noteq> Null then MEMKIND_SUCCESS else MEMKIND_ERROR_UNAVAILABLE, s)
    }"

definition call_check_available ::
  "'w sys \<Rightarrow> check_available_fn \<Rightarrow> memkind_t \<Rightarrow> 'w mk \<Rightarrow> (int \<times> 'w mk) option" where
  "call_check_available sy f k s =
    (case f of
       Memkind_hugetlb_check_available_2mb \<Rightarrow> hugetlb_check_available_2mb sy k s
     | Memkind_hbw_hugetlb_check_available \<Rightarrow> memkind_hbw_hugetlb_check_available sy k s
     | Memkind_regular_check_available \<Rightarrow> memkind_regular_check_available sy k s
     | _ \<Rightarrow> nodemask_check_available sy k s)"

definition memkind_check_available :: "'w sys \<Rightarrow> memkind_t \<Rightarrow> 'w mk \<Rightarrow> (int \<times> 'w mk) option" where
  "memkind_check_available sy k s =
    (case o_check_available (k_ops (kinds s k)) of
       Some f \<Rightarrow> call_check_available sy f k s
     | None \<Rightarrow> Some (MEMKIND_SUCCESS, s))"

section \<open>What the kernel promises\<close>

abbreviation region :: "ptr \<Rightarrow> u64 \<Rightarrow> nat set" where
  "region p n \<equiv> {unat p..<unat p + unat n}"

abbreviation whole_pages :: "u64 \<Rightarrow> bool" where
  "whole_pages n \<equiv> 4096 dvd unat n"

text \<open>The result \<open>p\<close> of a mapping function for \<open>n\<close> bytes, with the addresses mapped before and after.\<close>

definition maps_fresh :: "ptr \<Rightarrow> u64 \<Rightarrow> nat set \<Rightarrow> nat set \<Rightarrow> bool" where
  "maps_fresh p n M M' \<longleftrightarrow>
    (if p = MAP_FAILED then M' = M
     else whole_pages p \<and> p \<noteq> NULL \<and> unat p + unat n < 2 ^ 64 \<and> M \<inter> region p n = {} \<and>
          M' = M \<union> region p n)"

text \<open>
  \<open>mapped w\<close> are the addresses the process has mapped. A successful \<^verbatim>\<open>mmap\<close> of whole pages adds a fresh
  region that starts on a page and ends below the top of the address space; \<^verbatim>\<open>munmap\<close> of whole pages
  removes them and fails for an address that is not on a page; binding and advice keep the map.
\<close>

definition kernel_maps :: "'w sys \<Rightarrow> ('w \<Rightarrow> nat set) \<Rightarrow> bool" where
  "kernel_maps sy mapped \<longleftrightarrow>
    (\<forall>a n flags fd off w p w'. whole_pages n \<and> sys_mmap sy a n flags fd off w = (p, w') \<longrightarrow>
       maps_fresh p n (mapped w) (mapped w')) \<and>
    (\<forall>p n w r w'. whole_pages n \<and> sys_munmap sy p n w = (r, w') \<longrightarrow>
       mapped w' = (if whole_pages p then mapped w - region p n else mapped w)) \<and>
    (\<forall>p n mode m w r w'. sys_mbind sy p n mode m w = (r, w') \<longrightarrow> mapped w' = mapped w) \<and>
    (\<forall>p n adv w r w'. sys_madvise sy p n adv w = (r, w') \<longrightarrow> mapped w' = mapped w)"

lemma kernel_mmap:
  assumes "kernel_maps sy mapped" "whole_pages n" "on_world (sys_mmap sy a n flags fd off) s = (p, s')"
  shows "same_lib s s' \<and> maps_fresh p n (mapped (world s)) (mapped (world s'))"
proof -
  obtain w where w: "sys_mmap sy a n flags fd off (world s) = (p, w)" "s' = s\<lparr>world := w\<rparr>"
    using assms(3) by (auto simp: on_world_def split: prod.splits)
  have "maps_fresh p n (mapped (world s)) (mapped w)"
    by (rule assms(1) [unfolded kernel_maps_def, THEN conjunct1, rule_format, OF conjI [OF assms(2) w(1)]])
  then show ?thesis
    by (simp add: w(2) same_lib_def lib_rest_def)
qed

lemma kernel_munmap:
  assumes "kernel_maps sy mapped" "whole_pages n" "do_munmap sy p n s = (r, s')"
  shows "same_lib s s'"
    "mapped (world s') = (if whole_pages p then mapped (world s) - region p n else mapped (world s))"
proof -
  obtain w where w: "sys_munmap sy p n (world s) = (r, w)" "s' = s\<lparr>world := w\<rparr>"
    using assms(3) by (auto simp: do_munmap_def on_world_def split: prod.splits)
  then show "mapped (world s') = (if whole_pages p then mapped (world s) - region p n else mapped (world s))"
    using assms(1,2) unfolding kernel_maps_def by simp
  show "same_lib s s'"
    by (simp add: w(2) same_lib_def lib_rest_def)
qed

lemma kernel_mbind:
  assumes "kernel_maps sy mapped" "on_world (sys_mbind sy p n mode m) s = (r, s')"
  shows "same_lib s s' \<and> mapped (world s') = mapped (world s)"
proof -
  obtain w where "sys_mbind sy p n mode m (world s) = (r, w)" "s' = s\<lparr>world := w\<rparr>"
    using assms(2) by (auto simp: on_world_def split: prod.splits)
  then show ?thesis
    using assms(1) unfolding kernel_maps_def by (auto simp: same_lib_def lib_rest_def)
qed

lemma kernel_madvise:
  assumes "kernel_maps sy mapped" "do_madvise sy p n adv s = (r, s')"
  shows "same_lib s s' \<and> mapped (world s') = mapped (world s)"
proof -
  obtain e w where "sys_madvise sy p n adv (world s) = ((r, e), w)"
    "s' = s\<lparr>world := w\<rparr> \<or> s' = s\<lparr>world := w, errno := e\<rparr>"
    using assms(2) by (auto simp: do_madvise_def on_world_def Let_def split: prod.splits if_splits)
  moreover from this(1) have "mapped w = mapped (world s)"
    by (rule assms(1) [unfolded kernel_maps_def, THEN conjunct2, THEN conjunct2, THEN conjunct2, rule_format])
  ultimately show ?thesis
    by (elim disjE) (simp_all add: same_lib_def lib_rest_def)
qed

lemma same_lib_refl: "same_lib s s"
  by (simp add: same_lib_def)

lemma same_lib_trans: "same_lib s s' \<Longrightarrow> same_lib s' s'' \<Longrightarrow> same_lib s s''"
  by (simp add: same_lib_def)

lemma same_lib_numa: "same_lib s s' \<Longrightarrow> numa_g s' = numa_g s \<and> hugepages_config s' = hugepages_config s"
  by (simp add: same_lib_def lib_rest_def)

section \<open>Kinds whose answers are cached\<close>

text \<open>
  A kind is ready when it is initialised, its node mask has been decided with the code 0 and the huge
  page configuration has been read: from then on asking changes nothing in the library.
\<close>

definition kind_ready :: "'w sys \<Rightarrow> memkind_t \<Rightarrow> 'w mk \<Rightarrow> bool" where
  "kind_ready sy k s \<longleftrightarrow>
    k_init_once (kinds s k) \<and> hugepages_once (hugepages_config s) \<and>
    (\<forall>f. o_get_mbind_nodemask (k_ops (kinds s k)) = Some f \<longrightarrow>
       settled 0 (call_get_mbind_nodemask (host_of sy) f) (numa_g s))"

lemma kind_ready_same_lib: "same_lib s s' \<Longrightarrow> kind_ready sy k s' = kind_ready sy k s"
  using same_lib_numa [of s s'] by (simp add: kind_ready_def same_lib_def)

lemma settledD:
  "settled e f gs \<Longrightarrow> f nm gs w = Some (r, gs', w') \<Longrightarrow> fst r = e \<and> gs' = gs \<and> w' = w"
  unfolding settled_def by blast

lemma ready_nodemask:
  assumes "kind_ready sy k s" "ops_get_mbind_nodemask sy k nm s = Some (r, s')"
  shows "fst r = 0 \<and> s' = s"
proof -
  obtain f gs w where f: "o_get_mbind_nodemask (k_ops (kinds s k)) = Some f"
    "call_get_mbind_nodemask (host_of sy) f nm (numa_g s) (world s) = Some (r, gs, w)"
    "s' = s\<lparr>numa_g := gs, world := w\<rparr>"
    using assms(2) by (auto simp: ops_get_mbind_nodemask_def Option.bind_eq_Some_conv)
  have "settled 0 (call_get_mbind_nodemask (host_of sy) f) (numa_g s)"
    using assms(1) f(1) by (simp add: kind_ready_def)
  from settledD [OF this f(2)] have "fst r = 0 \<and> gs = numa_g s \<and> w = world s" .
  then show ?thesis
    by (simp add: f(3))
qed

lemma ready_hugetlb:
  assumes "kind_ready sy k s" "hugetlb_check_available_2mb sy k s = Some (err, s')"
  shows "s' = s"
proof -
  have once: "hugepages_init (host_of sy) (hugepages_config s) w = Some (hugepages_config s, w)" for w
    using assms(1) by (simp add: kind_ready_def hugepages_init_def)
  have nm: "gs = numa_g s \<and> w' = world s"
    if "o_get_mbind_nodemask (k_ops (kinds s k)) = Some f"
      "call_get_mbind_nodemask (host_of sy) f nm (numa_g s) (world s) = Some (r, gs, w')" for f nm r gs w'
  proof -
    have "settled 0 (call_get_mbind_nodemask (host_of sy) f) (numa_g s)"
      using assms(1) that(1) by (simp add: kind_ready_def)
    from settledD [OF this that(2)] show ?thesis
      by simp
  qed
  obtain c gs w where c: "memkind_hugetlb_check_available (host_of sy) (k_ops (kinds s k)) 2097152
      (hugepages_config s) (numa_g s) (world s) = Some (err, c, gs, w)"
    "s' = s\<lparr>hugepages_config := c, numa_g := gs, world := w\<rparr>"
    using assms(2) by (auto simp: hugetlb_check_available_2mb_def memkind_hugetlb_check_available_2mb_def
        Option.bind_eq_Some_conv)
  have "c = hugepages_config s \<and> gs = numa_g s \<and> w = world s"
    using c(1)
    by (auto simp: memkind_hugetlb_check_available_def get_nr_hugepages_cached_def once
        get_nr_overcommit_hugepages_cached_def Let_def Option.bind_eq_Some_conv
        split: option.splits if_splits dest!: nm)
  then show ?thesis
    by (simp add: c(2))
qed

lemma ready_check_available:
  assumes "kind_ready sy k s" "memkind_check_available sy k s = Some (err, s')"
  shows "s' = s"
proof (cases "o_check_available (k_ops (kinds s k))")
  case None
  then show ?thesis
    using assms(2) by (simp add: memkind_check_available_def)
next
  case (Some f)
  have n: "s1 = s" if "nodemask_check_available sy k s = Some (e, s1)" for e s1
    using that ready_nodemask [OF assms(1)] by (auto simp: nodemask_check_available_def Option.bind_eq_Some_conv)
  have h: "s1 = s" if "hugetlb_check_available_2mb sy k s = Some (e, s1)" for e s1
    using that by (rule ready_hugetlb [OF assms(1)])
  have "kind_init_once sy k s = Some s"
    using assms(1) by (simp add: kind_ready_def kind_init_once_def)
  then show ?thesis
    using Some assms(2) n h
    by (cases f) (auto simp: memkind_check_available_def call_check_available_def
        memkind_regular_check_available_def memkind_hbw_hugetlb_check_available_def
        Option.bind_eq_Some_conv split: if_splits)
qed

section \<open>A mapping function maps its region or nothing\<close>

lemma mbind_frame:
  assumes "kernel_maps sy mapped" "kind_ready sy k s" "memkind_default_mbind sy k p sz s = Some (err, s')"
  shows "same_lib s s' \<and> mapped (world s') = mapped (world s)"
proof -
  have k: "same_lib s s1 \<and> mapped (world s1) = mapped (world s)"
    if "on_world (sys_mbind sy p sz mode m) s = (r, s1)" for mode m r s1
    using kernel_mbind [OF assms(1) that] .
  have n: "s1 = s" if "ops_get_mbind_nodemask sy k nm s = Some (r, s1)" for nm r s1
    using ready_nodemask [OF assms(2) that] by simp
  show ?thesis
    using assms(3) same_lib_refl k
    by (auto simp: memkind_default_mbind_def Option.bind_eq_Some_conv Let_def
        split: option.splits if_splits prod.splits dest!: n)
qed

lemma failed_not_page: "\<not> whole_pages MAP_FAILED"
  by (simp add: unsigned_minus_1_eq_mask mask_eq_exp_minus_1)

text \<open>Undoing a mapping leaves what was mapped before it.\<close>

lemma unmap_fresh:
  assumes "kernel_maps sy mapped" "whole_pages n" "maps_fresh p n M (mapped (world s))"
    "do_munmap sy p n s = (r, s')"
  shows "mapped (world s') = M"
  using kernel_munmap(2) [OF assms(1,2,4)] assms(3) failed_not_page
  by (auto simp: maps_fresh_def split: if_splits)

lemma mmap_bind_maps:
  assumes "kernel_maps sy mapped" "kind_ready sy k s" "whole_pages n"
    and "maps_fresh p n M (mapped (world s))" "mmap_bind sy k p n s = Some (q, s')"
  shows "same_lib s s' \<and> maps_fresh q n M (mapped (world s'))"
proof (cases "o_mbind (k_ops (kinds s k))")
  case None
  then show ?thesis
    using assms(4,5) by (simp add: mmap_bind_def same_lib_refl)
next
  case (Some f)
  then have f: "f = Memkind_default_mbind"
    by (cases f) simp
  obtain err s1 where b: "memkind_default_mbind sy k p n s = Some (err, s1)"
    "(q, s') = (if err \<noteq> 0 then (MAP_FAILED, snd (do_munmap sy p n s1)) else (p, s1))"
    using assms(5) Some f by (auto simp: mmap_bind_def Option.bind_eq_Some_conv)
  note fr = mbind_frame [OF assms(1,2) b(1)]
  obtain r s2 where u: "do_munmap sy p n s1 = (r, s2)"
    by fastforce
  have "mapped (world s2) = M" "same_lib s1 s2"
    using unmap_fresh [OF assms(1,3) _ u] kernel_munmap(1) [OF assms(1,3) u] assms(4) fr by simp_all
  then show ?thesis
    using b(2) u fr assms(4) same_lib_trans [of s s1 s2] by (auto simp: maps_fresh_def split: if_splits)
qed

lemma mmap_advise_maps:
  assumes "kernel_maps sy mapped" "whole_pages n"
    and "maps_fresh p n M (mapped (world s))" "mmap_advise sy k p n s = (q, s')"
  shows "same_lib s s' \<and> maps_fresh q n M (mapped (world s'))"
proof (cases "o_madvise (k_ops (kinds s k))")
  case None
  then show ?thesis
    using assms(3,4) by (simp add: mmap_advise_def same_lib_refl)
next
  case (Some f)
  then have f: "f = Memkind_nohugepage_madvise"
    by (cases f) simp
  obtain err s1 where a: "memkind_nohugepage_madvise sy p n s = (err, s1)"
    by fastforce
  then obtain r where "do_madvise sy p n MADV_NOHUGEPAGE s = (r, s1)"
    by (auto simp: memkind_nohugepage_madvise_def Let_def split: prod.splits if_splits)
  note fr = kernel_madvise [OF assms(1) this]
  obtain r' s2 where u: "do_munmap sy p n s1 = (r', s2)"
    by fastforce
  have "mapped (world s2) = M" "same_lib s1 s2"
    using unmap_fresh [OF assms(1,2) _ u] kernel_munmap(1) [OF assms(1,2) u] assms(3) fr by simp_all
  then show ?thesis
    using assms(4) Some f a u fr assms(3) same_lib_trans [of s s1 s2]
    by (auto simp: mmap_advise_def maps_fresh_def split: if_splits)
qed

lemma get_mmap_flags_ok: "fst (call_get_mmap_flags f) = 0"
  by (cases f) (simp_all add: memkind_hugetlb_get_mmap_flags_def memkind_default_get_mmap_flags_def
      memkind_pmem_get_mmap_flags_def)

lemma default_mmap_cases:
  assumes "memkind_default_mmap sy k addr n s = Some (p, s')"
  obtains flags s1 where "on_world (sys_mmap sy addr n flags (- 1) 0) s = (MAP_FAILED, s1)"
      "p = MAP_FAILED" "s' = s1"
    | flags p0 s1 q s2 where "on_world (sys_mmap sy addr n flags (- 1) 0) s = (p0, s1)" "p0 \<noteq> MAP_FAILED"
      "mmap_bind sy k p0 n s1 = Some (q, s2)" "mmap_advise sy k q n s2 = (p, s')"
proof -
  define ef where "ef = (case o_get_mmap_flags (k_ops (kinds s k)) of
      Some f \<Rightarrow> call_get_mmap_flags f | None \<Rightarrow> memkind_default_get_mmap_flags)"
  have e: "fst ef = 0"
    by (auto simp: ef_def get_mmap_flags_ok memkind_default_get_mmap_flags_def split: option.splits)
  obtain p0 s1 where m: "on_world (sys_mmap sy addr n (snd ef) (- 1) 0) s = (p0, s1)"
    by fastforce
  have def: "(if p0 = MAP_FAILED then Some (p0, s1)
      else do { (result, s) \<leftarrow> mmap_bind sy k p0 n s1; Some (mmap_advise sy k result n s) }) = Some (p, s')"
    using assms e m unfolding memkind_default_mmap_def ef_def [symmetric]
    by (cases ef) simp
  show ?thesis
  proof (cases "p0 = MAP_FAILED")
    case True
    then have "on_world (sys_mmap sy addr n (snd ef) (- 1) 0) s = (MAP_FAILED, s1)"
        "p = MAP_FAILED" "s' = s1"
      using def m by simp_all
    then show ?thesis
      by (rule that(1))
  next
    case False
    then obtain q s2 where "mmap_bind sy k p0 n s1 = Some (q, s2)" "mmap_advise sy k q n s2 = (p, s')"
      using def by (auto simp: Option.bind_eq_Some_conv)
    then show ?thesis
      by (rule that(2) [OF m False])
  qed
qed

lemma default_mmap_maps:
  assumes "kernel_maps sy mapped" "kind_ready sy k s" "whole_pages n"
    and "memkind_default_mmap sy k addr n s = Some (p, s')"
  shows "same_lib s s' \<and> maps_fresh p n (mapped (world s)) (mapped (world s'))"
  using assms(4)
proof (cases rule: default_mmap_cases)
  case (1 flags s1)
  then show ?thesis
    using kernel_mmap [OF assms(1,3) 1(1)] by simp
next
  case (2 flags p0 s1 q s2)
  note m = kernel_mmap [OF assms(1,3) 2(1)]
  then have "kind_ready sy k s1"
    using assms(2) kind_ready_same_lib by blast
  note b = mmap_bind_maps [OF assms(1) this assms(3) conjunct2 [OF m] 2(3)]
  note a = mmap_advise_maps [OF assms(1,3) conjunct2 [OF b] 2(4)]
  show ?thesis
    using a b m same_lib_trans by blast
qed

section \<open>Properties\<close>

text \<open>
  C8. A mapping is complete or absent: for a kind whose node mask is decided, \<^verbatim>\<open>memkind_default_mmap\<close> either
  returns a fresh region on a page boundary and exactly that region is newly mapped, or it returns
  \<open>MAP_FAILED\<close> and the address space is as before, also when the binding or the advice fails. It changes
  no data of the library.
\<close>

theorem default_mmap_all_or_nothing:
  assumes "kernel_maps sy mapped" "kind_ready sy k s" "4096 dvd unat n"
    and "memkind_default_mmap sy k addr n s = Some (p, s')"
  shows "kinds s' = kinds s \<and> arena_registry_g s' = arena_registry_g s \<and> numa_g s' = numa_g s \<and>
    (p = MAP_FAILED \<longrightarrow> mapped (world s') = mapped (world s)) \<and>
    (p \<noteq> MAP_FAILED \<longrightarrow> 4096 dvd unat p \<and> unat p + unat n < 2 ^ 64 \<and>
      mapped (world s) \<inter> {unat p..<unat p + unat n} = {} \<and>
      mapped (world s') = mapped (world s) \<union> {unat p..<unat p + unat n})"
  using default_mmap_maps [OF assms] same_lib_numa [of s s']
  by (auto simp: maps_fresh_def same_lib_def split: if_splits)

text \<open>
  A kernel for concrete instances: bit \<open>i\<close> of its world says whether page \<open>i\<close> is mapped, and \<^verbatim>\<open>mmap\<close> hands
  out the pages from number \<open>w + 1\<close> on, above all pages mapped in \<open>w\<close>. It has room for a few of them.
\<close>

definition sample_mapped :: "nat \<Rightarrow> nat set" where
  "sample_mapped w = {a. bit w (a div 4096)}"

definition sample_mmap :: "ptr \<Rightarrow> u64 \<Rightarrow> u32 \<Rightarrow> int \<Rightarrow> u64 \<Rightarrow> nat \<Rightarrow> ptr \<times> nat" where
  "sample_mmap a n flags fd off w =
    (if w < 64 \<and> n < 262144 then (4096 * of_nat (Suc w), w OR push_bit (Suc w) (mask (unat (n div 4096))))
     else (MAP_FAILED, w))"

definition sample_munmap :: "ptr \<Rightarrow> u64 \<Rightarrow> nat \<Rightarrow> int \<times> nat" where
  "sample_munmap p n w =
    (if p mod 4096 = 0 then (0, w XOR (w AND push_bit (unat (p div 4096)) (mask (unat (n div 4096)))))
     else (- 1, w))"

definition sample_kernel :: "nat sys" where
  "sample_kernel = sample_sys\<lparr>sys_mmap := sample_mmap, sys_munmap := sample_munmap\<rparr>"

lemma pages_region:
  fixes p n b k :: nat
  assumes "p = 4096 * b" "n = 4096 * k"
  shows "{p..<p + n} = {a. b \<le> a div 4096 \<and> a div 4096 < b + k}"
proof (rule set_eqI)
  fix a :: nat
  have "p \<le> a \<longleftrightarrow> b \<le> a div 4096"
    using assms(1) by (simp add: less_eq_div_iff_mult_less_eq mult.commute)
  moreover have "a < p + n \<longleftrightarrow> a div 4096 < b + k"
    using assms by (simp add: div_less_iff_less_mult algebra_simps)
  ultimately show "a \<in> {p..<p + n} \<longleftrightarrow> a \<in> {a. b \<le> a div 4096 \<and> a div 4096 < b + k}"
    by simp
qed

lemma bit_nat_less: "bit w j \<Longrightarrow> j < (w :: nat)"
proof -
  assume "bit w j"
  then have "2 ^ j \<le> w"
    by (metis bit_iff_odd div_less even_zero not_le)
  then show "j < w"
    using less_exp [of j] by linarith
qed

lemma sample_kernel_maps: "kernel_maps sample_kernel sample_mapped"
proof -
  have mm: "maps_fresh p n (sample_mapped w) (sample_mapped w')"
    if "whole_pages n" "sample_mmap a n flags fd off w = (p, w')" for a n flags fd off w p w'
  proof (cases "w < 64 \<and> n < 262144")
    case False
    then show ?thesis
      using that(2) by (auto simp: maps_fresh_def sample_mmap_def)
  next
    case True
    from that(1) obtain k where k: "unat n = 4096 * k"
      by (auto elim: dvdE)
    have r: "p = 4096 * of_nat (Suc w)" "w' = w OR push_bit (Suc w) (mask k)"
      using that(2) True k by (auto simp: sample_mmap_def unat_div)
    have "p = of_nat (4096 * Suc w)"
      unfolding r(1) by simp
    moreover have "unat (of_nat (4096 * Suc w) :: u64) = 4096 * Suc w"
      using True by (intro unat_of_nat_no_wrap) simp
    ultimately have p: "unat p = 4096 * Suc w"
      by (simp only:)
    have n: "unat n < 262144"
      using True by (simp add: word_less_nat_alt)
    note reg = pages_region [OF p k]
    have "sample_mapped w \<inter> region p n = {}"
      unfolding reg sample_mapped_def using bit_nat_less by fastforce
    moreover have "sample_mapped w' = sample_mapped w \<union> region p n"
      unfolding reg sample_mapped_def r(2) by (auto simp: bit_simps simp del: push_bit_Suc)
    moreover have "unat p + unat n < 2 ^ 64" "p \<noteq> NULL"
      using True p n by auto
    moreover have "whole_pages p"
      unfolding p by simp
    moreover from this have "p \<noteq> MAP_FAILED"
      using failed_not_page by auto
    ultimately show ?thesis
      by (simp add: maps_fresh_def)
  qed
  have mu: "sample_mapped w' = (if whole_pages p then sample_mapped w - region p n else sample_mapped w)"
    if "whole_pages n" "sample_munmap p n w = (r, w')" for p n w r w'
  proof -
    have iff: "p mod 4096 = 0 \<longleftrightarrow> whole_pages p"
      by (simp add: dvd_eq_mod_eq_0 unat_mod flip: unat_eq_0)
    show ?thesis
    proof (cases "whole_pages p")
      case True
      with that(1) obtain k b where k: "unat n = 4096 * k" "unat p = 4096 * b"
        by (auto elim!: dvdE)
      then have "w' = w XOR (w AND push_bit b (mask k))"
        using that(2) True iff by (auto simp: sample_munmap_def unat_div)
      then show ?thesis
        using True unfolding pages_region [OF k(2,1)] sample_mapped_def by (auto simp: bit_simps)
    next
      case False
      then show ?thesis
        using that(2) iff by (auto simp: sample_munmap_def)
    qed
  qed
  show ?thesis
    unfolding kernel_maps_def using mm mu by (auto simp: sample_kernel_def sample_sys_def)
qed

text \<open>A state in which the interleaving kind is ready.\<close>

definition sample_ready :: "nat mk" where
  "sample_ready =
    (upd_kind MEMKIND_INTERLEAVE (\<lambda>kd. kd\<lparr>k_init_once := True\<rparr>) (mk_init 0))
      \<lparr>hugepages_config := memkind_hugepages_config_init\<lparr>hugepages_once := True\<rparr>\<rparr>"

lemma sample_ready_ok:
  assumes "host_of sy = sample_host"
  shows "kind_ready sy MEMKIND_INTERLEAVE sample_ready"
  using default_settled [of sample_host "numa_g sample_ready"] assms
  by (simp add: kind_ready_def sample_ready_def mk_simps settled_def)

theorem default_mmap_all_or_nothing_witness:
  "\<exists>p s'. memkind_default_mmap sample_kernel MEMKIND_INTERLEAVE NULL 8192 sample_ready = Some (p, s') \<and>
    p \<noteq> MAP_FAILED \<and>
    sample_mapped (world s') = sample_mapped (world sample_ready) \<union> {unat p..<unat p + 8192}"
proof -
  have "map_option fst (memkind_default_mmap sample_kernel MEMKIND_INTERLEAVE NULL 8192 sample_ready) =
      Some 4096"
    by code_simp
  then obtain s' where r: "memkind_default_mmap sample_kernel MEMKIND_INTERLEAVE NULL 8192 sample_ready =
      Some (4096, s')"
    by auto
  have h: "host_of sample_kernel = sample_host"
    by (simp add: sample_kernel_def)
  have "sample_mapped (world s') = sample_mapped (world sample_ready) \<union> {4096..<4096 + 8192}"
    using default_mmap_all_or_nothing [OF sample_kernel_maps sample_ready_ok [OF h] _ r] by simp
  then show ?thesis
    using r by (intro exI [of _ 4096] exI [of _ s']) simp
qed

text \<open>
  C31. The advice against huge pages is never excused: \<^verbatim>\<open>memkind_nohugepage_madvise\<close> means to ignore the
  \<open>EINVAL\<close> of a kernel without transparent huge pages, but compares the result of \<^verbatim>\<open>madvise\<close>, which is
  \<open>-1\<close> on failure, with \<open>EINVAL\<close>, which is stored in \<open>errno\<close>. So on such a kernel every mapping of a kind
  with this advice (the interleaving kinds) fails.
\<close>

theorem nohugepage_einval_not_excused:
  assumes "\<And>p n w. fst (sys_madvise sy p n MADV_NOHUGEPAGE w) = (- 1, EINVAL)"
    and "o_madvise (k_ops (kinds s k)) = Some Memkind_nohugepage_madvise"
    and "kernel_maps sy mapped" "kind_ready sy k s" "4096 dvd unat n"
    and "memkind_default_mmap sy k addr n s = Some (p, s')"
  shows "p = MAP_FAILED"
  using assms(6)
proof (cases rule: default_mmap_cases)
  case (2 flags p0 s1 q s2)
  note m = kernel_mmap [OF assms(3,5) 2(1)]
  then have "kind_ready sy k s1"
    using assms(4) kind_ready_same_lib by blast
  note b = mmap_bind_maps [OF assms(3) this assms(5) conjunct2 [OF m] 2(3)]
  then have o: "o_madvise (k_ops (kinds s2 k)) = Some Memkind_nohugepage_madvise"
    using assms(2) m by (simp add: same_lib_def)
  have "fst (do_madvise sy q n MADV_NOHUGEPAGE s2) = - 1"
    using assms(1) [of q n "world s2"] by (auto simp: do_madvise_def on_world_def Let_def split: prod.splits)
  then have "fst (memkind_nohugepage_madvise sy q n s2) = - 1"
    by (auto simp: memkind_nohugepage_madvise_def Let_def split: prod.splits)
  then show ?thesis
    using 2(4) o by (auto simp: mmap_advise_def Let_def split: prod.splits)
qed simp

text \<open>The sample kernel without support for transparent huge pages.\<close>

definition sample_kernel_no_thp :: "nat sys" where
  "sample_kernel_no_thp = sample_kernel\<lparr>sys_madvise := (\<lambda>p n adv w. ((- 1, EINVAL), w))\<rparr>"

theorem nohugepage_einval_not_excused_witness:
  "\<exists>s'. memkind_default_mmap sample_kernel_no_thp MEMKIND_INTERLEAVE NULL 8192 sample_ready =
    Some (MAP_FAILED, s')"
proof -
  let ?m = "memkind_default_mmap sample_kernel_no_thp MEMKIND_INTERLEAVE NULL 8192 sample_ready"
  have "map_option (\<lambda>_. ()) ?m = Some ()"
    by code_simp
  then obtain p s' where r: "?m = Some (p, s')"
    by auto
  have k: "kernel_maps sample_kernel_no_thp sample_mapped"
    using sample_kernel_maps unfolding kernel_maps_def sample_kernel_no_thp_def by (elim conjE) (intro conjI, simp_all)
  have h: "host_of sample_kernel_no_thp = sample_host"
    by (simp add: sample_kernel_no_thp_def sample_kernel_def)
  have "p = MAP_FAILED"
    by (rule nohugepage_einval_not_excused [OF _ _ k sample_ready_ok [OF h] _ r])
      (simp_all add: sample_kernel_no_thp_def sample_ready_def mk_simps)
  then show ?thesis
    using r by simp
qed

end
