(* ===== verification/Pmem.thy ===== *)
theory Pmem
  imports Mmap
begin

text \<open>
  Kinds on a file of a file system (\<^verbatim>\<open>src/memkind_pmem.c\<close>): the temporary file, its growth with
  \<^verbatim>\<open>posix_fallocate\<close>, its replacement when it cannot grow further, the extent hooks that jemalloc
  calls, creation and destruction, and the validation of a directory.

  The lemmas follow a kind through any sequence of calls of its hooks: the size it accounts for
  covers the extents in use and stays within the limit, and no two extents share a part of a file.
\<close>

section \<open>Definitions\<close>

abbreviation (input) PATH_MAX :: nat where "PATH_MAX \<equiv> 4096"
abbreviation (input) EFBIG :: int where "EFBIG \<equiv> 27"
abbreviation (input) EOPNOTSUPP :: int where "EOPNOTSUPP \<equiv> 95"
abbreviation (input) MAP_SHARED_VALIDATE :: u32 where "MAP_SHARED_VALIDATE \<equiv> 0x03"
abbreviation (input) MAP_SYNC :: u32 where "MAP_SYNC \<equiv> 0x80000"

text \<open>The private data of a file-backed kind.\<close>

definition pmem_of :: "memkind_t \<Rightarrow> 'w mk \<Rightarrow> memkind_pmem option" where
  "pmem_of k s = (case k_priv (kinds s k) of Priv_pmem p d \<Rightarrow> Some d | _ \<Rightarrow> None)"

definition set_pmem :: "memkind_t \<Rightarrow> memkind_pmem \<Rightarrow> 'w mk \<Rightarrow> 'w mk" where
  "set_pmem k d s = upd_kind k (\<lambda>kd. kd\<lparr>k_priv := Priv_pmem (priv_addr (k_priv kd)) d\<rparr>) s"

text \<open>
  \<^verbatim>\<open>memkind_pmem_create_tmpfile\<close>: the argument \<open>fd\<close> is the value of the caller's variable before the
  call. Blocking the signals has no effect in a sequential model, and \<open>errno\<close> is restored.
\<close>

definition memkind_pmem_create_tmpfile ::
  "'w sys \<Rightarrow> string \<Rightarrow> int \<Rightarrow> 'w mk \<Rightarrow> (int \<times> int) \<times> 'w mk" where
  "memkind_pmem_create_tmpfile sy dir fd s =
    (if length dir > PATH_MAX then ((MEMKIND_ERROR_INVALID, fd), s)
     else
       (let ((fd, fullname), s) = on_world (sys_mkstemp sy (dir @ ''/memkind.XXXXXX'')) s
        in if fd < 0
           then ((MEMKIND_ERROR_INVALID, - 1), if fd \<noteq> - 1 then s\<lparr>world := sys_close sy fd (world s)\<rparr> else s)
           else ((MEMKIND_SUCCESS, fd), s\<lparr>world := sys_unlink sy fullname (world s)\<rparr>)))"

definition memkind_pmem_recreate_file :: "'w sys \<Rightarrow> memkind_t \<Rightarrow> u64 \<Rightarrow> 'w mk \<Rightarrow> (int \<times> 'w mk) option" where
  "memkind_pmem_recreate_file sy k sz s =
    do {
      d \<leftarrow> pmem_of k s;
      let ((err, fd), s) = memkind_pmem_create_tmpfile sy (snd (pm_dir d)) (- 1) s;
      if err \<noteq> 0 then Some (- 1, s)
      else
        let (e, s) = on_world (sys_posix_fallocate sy fd 0 sz) s;
            s = s\<lparr>errno := e\<rparr>
        in if e \<noteq> 0 then Some (- 1, s)
           else
             let s = s\<lparr>world := sys_close sy (pm_fd d) (world s)\<rparr>
             in Some (0, set_pmem k (d\<lparr>pm_fd := fd, pm_offset := 0\<rparr>) s)
    }"

definition pmem_map_extent :: "'w sys \<Rightarrow> memkind_t \<Rightarrow> u64 \<Rightarrow> 'w mk \<Rightarrow> (ptr \<times> 'w mk) option" where
  "pmem_map_extent sy k sz s =
    do {
      d \<leftarrow> pmem_of k s;
      let (result, s) = on_world (sys_mmap sy NULL sz MAP_SHARED (pm_fd d) (pm_offset d)) s;
      Some (result,
        if result \<noteq> MAP_FAILED
        then set_pmem k (d\<lparr>pm_offset := pm_offset d + sz, pm_current_size := pm_current_size d + sz\<rparr>) s
        else s)
    }"

definition memkind_pmem_mmap :: "'w sys \<Rightarrow> memkind_t \<Rightarrow> ptr \<Rightarrow> u64 \<Rightarrow> 'w mk \<Rightarrow> (ptr \<times> 'w mk) option" where
  "memkind_pmem_mmap sy k addr sz s =
    do {
      d \<leftarrow> pmem_of k s;
      if pm_max_size d \<noteq> 0 \<and> pm_current_size d + sz > pm_max_size d then Some (MAP_FAILED, s)
      else
        let (e, s) = on_world (sys_posix_fallocate sy (pm_fd d) (pm_offset d) sz) s;
            s = s\<lparr>errno := e\<rparr>
        in if e = 0 then pmem_map_extent sy k sz s
           else if e = EFBIG
           then do {
             (status, s) \<leftarrow> memkind_pmem_recreate_file sy k sz s;
             if status \<noteq> 0 then Some (MAP_FAILED, s) else pmem_map_extent sy k sz s
           }
           else Some (MAP_FAILED, s)
    }"

section \<open>The extent hooks\<close>

text \<open>
  The allocation hooks return the address with the new values of \<^verbatim>\<open>*zero\<close> and \<^verbatim>\<open>*commit\<close>. The
  deallocation hooks return whether the extent stays mapped.
\<close>

definition pmem_extent_alloc ::
  "'w sys \<Rightarrow> ptr \<Rightarrow> u64 \<Rightarrow> u64 \<Rightarrow> bool \<Rightarrow> bool \<Rightarrow> u32 \<Rightarrow> 'w mk \<Rightarrow> ((ptr \<times> bool \<times> bool) \<times> 'w mk) option" where
  "pmem_extent_alloc sy new_addr sz alignment zero commit arena_ind s =
    (if new_addr \<noteq> NULL then Some ((NULL, zero, commit), s)
     else do {
       kind \<leftarrow> get_kind_by_arena arena_ind s;
       case kind of
         None \<Rightarrow> Some ((NULL, zero, commit), s)
       | Some k \<Rightarrow>
           do {
             (err, s) \<leftarrow> memkind_check_available sy k s;
             if err \<noteq> 0 then Some ((NULL, zero, commit), s)
             else do {
               (addr, s) \<leftarrow> memkind_pmem_mmap sy k new_addr sz s;
               Some (if addr \<noteq> MAP_FAILED then ((addr, True, True), s) else ((NULL, zero, commit), s))
             }
           }
     })"

definition pmem_extent_dalloc_hog_memory :: bool where
  "pmem_extent_dalloc_hog_memory = True"

definition pmem_extent_dalloc :: "'w sys \<Rightarrow> ptr \<Rightarrow> u64 \<Rightarrow> u32 \<Rightarrow> 'w mk \<Rightarrow> (bool \<times> 'w mk) option" where
  "pmem_extent_dalloc sy addr sz arena_ind s =
    do {
      let (status, s) = do_madvise sy addr sz MADV_REMOVE (s\<lparr>errno := 0\<rparr>);
      s \<leftarrow>
        (if status = 0
         then do {
           kind \<leftarrow> get_kind_by_arena arena_ind s;
           k \<leftarrow> kind;
           d \<leftarrow> pmem_of k s;
           if pm_current_size d \<ge> sz then Some (set_pmem k (d\<lparr>pm_current_size := pm_current_size d - sz\<rparr>) s)
           else None
         }
         else if errno s = EOPNOTSUPP then None
         else Some s);
      let (r, s) = do_munmap sy addr sz s;
      Some (r = - 1, s)
    }"

definition pmem_extent_destroy :: "'w sys \<Rightarrow> ptr \<Rightarrow> u64 \<Rightarrow> 'w mk \<Rightarrow> 'w mk" where
  "pmem_extent_destroy sy addr sz s = snd (do_munmap sy addr sz s)"

definition pmem_extent_hooks :: extent_hooks_t where
  "pmem_extent_hooks =
    \<lparr>eh_alloc = Pmem_extent_alloc, eh_dalloc = Pmem_extent_dalloc, eh_commit = False,
     eh_decommit = True, eh_purge_lazy = Pmem_extent_purge, eh_split = False, eh_merge = False,
     eh_destroy = Some Pmem_extent_destroy\<rparr>"

definition pmem_extent_hooks_hog_memory :: extent_hooks_t where
  "pmem_extent_hooks_hog_memory =
    \<lparr>eh_alloc = Pmem_extent_alloc, eh_dalloc = Pmem_extent_dalloc_hog_memory, eh_commit = False,
     eh_decommit = True, eh_purge_lazy = Pmem_extent_purge, eh_split = False, eh_merge = False,
     eh_destroy = Some Pmem_extent_destroy\<rparr>"

section \<open>Creation, destruction, validation\<close>

text \<open>The structure comes from \<^verbatim>\<open>jemk_malloc\<close>; until the caller of the creation sets its fields they hold zeros.\<close>

definition blank_pmem :: memkind_pmem where
  "blank_pmem = \<lparr>pm_fd = 0, pm_offset = 0, pm_max_size = 0, pm_dir = (NULL, []), pm_current_size = 0\<rparr>"

abbreviation (input) sizeof_memkind_pmem :: u64 where "sizeof_memkind_pmem \<equiv> 80"

definition memkind_pmem_create ::
  "'w sys \<Rightarrow> memkind_t \<Rightarrow> memkind_ops \<Rightarrow> string \<Rightarrow> 'w mk \<Rightarrow> (int \<times> 'w mk) option" where
  "memkind_pmem_create sy k ops name s =
    (let (priv, s) = je_malloc sy sizeof_memkind_pmem s
     in if priv = NULL then Some (MEMKIND_ERROR_MALLOC, s)
        else
          (let (r, s) = on_world (pthread_mutex_init sy) s
           in if r \<noteq> 0 then Some (MEMKIND_ERROR_RUNTIME, je_free sy priv s)
              else
                (let (err, s) = memkind_default_create k ops name s
                 in if err \<noteq> 0 then Some (err, je_free sy priv s)
                    else do {
                      (err, s) \<leftarrow>
                        memkind_arena_create_map sy k
                          (if memkind_get_hog_memory s then pmem_extent_hooks_hog_memory else pmem_extent_hooks)
                          False s;
                      if err \<noteq> 0 then Some (err, je_free sy priv s)
                      else Some (0, upd_kind k (\<lambda>kd. kd\<lparr>k_priv := Priv_pmem priv blank_pmem\<rparr>) s)
                    })))"

definition memkind_pmem_destroy :: "'w sys \<Rightarrow> memkind_t \<Rightarrow> 'w mk \<Rightarrow> (int \<times> 'w mk) option" where
  "memkind_pmem_destroy sy k s =
    do {
      let priv = priv_addr (k_priv (kinds s k));
      (_, s) \<leftarrow> memkind_arena_destroy sy k s;
      let s = s\<lparr>tier_counters := memtier_reset_size (unat (k_partition (kinds s k))) (tier_counters s)\<rparr>;
      d \<leftarrow> pmem_of k s;
      let s = s\<lparr>world := sys_close sy (pm_fd d) (world s)\<rparr>;
      Some (0, je_free sy priv (je_free sy (fst (pm_dir d)) s))
    }"

definition memkind_pmem_validate_dir :: "'w sys \<Rightarrow> string \<Rightarrow> 'w mk \<Rightarrow> int \<times> 'w mk" where
  "memkind_pmem_validate_dir sy dir s =
    (let sz = sys_pagesize sy;
         ((err, fd), s) = memkind_pmem_create_tmpfile sy dir (- 1) s
     in if err \<noteq> 0 then (MEMKIND_ERROR_RUNTIME, s)
        else
          (let (r, s) = on_world (sys_ftruncate sy fd sz) s;
               (ret, s) =
                 (if r \<noteq> 0 then (MEMKIND_ERROR_RUNTIME, s)
                  else
                    (let (addr, s) = on_world (sys_mmap sy NULL sz (MAP_SHARED_VALIDATE OR MAP_SYNC) fd 0) s
                     in if addr = MAP_FAILED then (MEMKIND_ERROR_MMAP, s)
                        else (MEMKIND_SUCCESS, snd (do_munmap sy addr sz s))))
           in (ret, s\<lparr>world := sys_close sy fd (world s)\<rparr>)))"

section \<open>One mapping\<close>

lemma pmem_of_simps [simp]:
  "pmem_of k (s\<lparr>world := w\<rparr>) = pmem_of k s" "pmem_of k (s\<lparr>errno := e\<rparr>) = pmem_of k s"
  "pmem_of k (set_pmem k d s) = Some d"
  "k_ops (kinds (set_pmem k d s) k) = k_ops (kinds s k)"
  "arena_registry_g (set_pmem k d s) = arena_registry_g s"
  by (simp_all add: pmem_of_def set_pmem_def)

lemma on_world_eq: "on_world f s = (r, s') \<longleftrightarrow> (\<exists>w. f (world s) = (r, w) \<and> s' = s\<lparr>world := w\<rparr>)"
  by (auto simp: on_world_def split: prod.splits)

lemma tmpfile_frame:
  "memkind_pmem_create_tmpfile sy dir fd s = (r, s') \<Longrightarrow> \<exists>w. s' = s\<lparr>world := w\<rparr>"
  by (auto simp: memkind_pmem_create_tmpfile_def on_world_def Let_def split: if_splits prod.splits
      intro: exI [of _ "world s"])

text \<open>
  The part of the state that the functions of this theory leave as it is: everything but the private
  data of the kind, \<open>errno\<close> and the world.
\<close>

definition pmem_frame :: "memkind_t \<Rightarrow> 'w mk \<Rightarrow> 'w mk \<Rightarrow> bool" where
  "pmem_frame k s s' \<longleftrightarrow>
    k_ops (kinds s' k) = k_ops (kinds s k) \<and> arena_registry_g s' = arena_registry_g s"

lemma recreate_cases:
  assumes "memkind_pmem_recreate_file sy k n s = Some (r, s')" "pmem_of k s = Some d"
  shows "pmem_frame k s s'"
    "if r \<noteq> 0 then pmem_of k s' = Some d
     else \<exists>fd w w'. sys_posix_fallocate sy fd 0 n w = (0, w') \<and>
       pmem_of k s' = Some (d\<lparr>pm_fd := fd, pm_offset := 0\<rparr>)"
proof -
  obtain err fd s1 where t: "memkind_pmem_create_tmpfile sy (snd (pm_dir d)) (- 1) s = ((err, fd), s1)"
    by (metis surj_pair)
  then obtain w1 where s1: "s1 = s\<lparr>world := w1\<rparr>"
    using tmpfile_frame by blast
  obtain e w2 where f: "sys_posix_fallocate sy fd 0 n w1 = (e, w2)"
    by fastforce
  show "pmem_frame k s s'"
    using assms t f unfolding s1
    by (auto simp: memkind_pmem_recreate_file_def on_world_def Let_def pmem_frame_def split: if_splits)
  show "if r \<noteq> 0 then pmem_of k s' = Some d
     else \<exists>fd w w'. sys_posix_fallocate sy fd 0 n w = (0, w') \<and>
       pmem_of k s' = Some (d\<lparr>pm_fd := fd, pm_offset := 0\<rparr>)"
    using assms t f unfolding s1
    by (auto simp: memkind_pmem_recreate_file_def on_world_def Let_def split: if_splits intro!: exI [of _ fd])
qed

lemma map_extent_cases:
  assumes "pmem_map_extent sy k n s = Some (p, s')" "pmem_of k s = Some d"
  shows "pmem_frame k s s' \<and> pmem_of k s' = Some
    (if p = MAP_FAILED then d
     else d\<lparr>pm_offset := pm_offset d + n, pm_current_size := pm_current_size d + n\<rparr>)"
  using assms by (auto simp: pmem_map_extent_def on_world_def pmem_frame_def split: prod.splits if_splits)

text \<open>Whether a request replaces the file: the limit allows it and the present file cannot grow.\<close>

definition replaces_file :: "'w sys \<Rightarrow> memkind_t \<Rightarrow> u64 \<Rightarrow> 'w mk \<Rightarrow> bool" where
  "replaces_file sy k n s \<longleftrightarrow>
    (case pmem_of k s of
       None \<Rightarrow> False
     | Some d \<Rightarrow>
         \<not> (pm_max_size d \<noteq> 0 \<and> pm_current_size d + n > pm_max_size d) \<and>
         (case on_world (sys_posix_fallocate sy (pm_fd d) (pm_offset d) n) s of
            (e, s1) \<Rightarrow> e = EFBIG \<and>
              map_option fst (memkind_pmem_recreate_file sy k n (s1\<lparr>errno := e\<rparr>)) = Some 0))"

text \<open>What a request does to the private data, in terms of the data \<open>d0\<close> of the file it is served from.\<close>

lemma pmem_mmap_cases:
  assumes "memkind_pmem_mmap sy k addr n s = Some (p, s')" "pmem_of k s = Some d"
  obtains (failed) "p = MAP_FAILED" "\<not> replaces_file sy k n s" "pmem_of k s' = Some d" "pmem_frame k s s'"
    | (served) d0 fd w w' where "pmem_frame k s s'"
      "d0 = (if replaces_file sy k n s then d\<lparr>pm_fd := fd, pm_offset := 0\<rparr> else d)"
      "sys_posix_fallocate sy (pm_fd d0) (pm_offset d0) n w = (0, w')"
      "pm_max_size d = 0 \<or> pm_current_size d + n \<le> pm_max_size d"
      "pmem_of k s' = Some (if p = MAP_FAILED then d0
        else d0\<lparr>pm_offset := pm_offset d0 + n, pm_current_size := pm_current_size d0 + n\<rparr>)"
proof (cases "pm_max_size d \<noteq> 0 \<and> pm_current_size d + n > pm_max_size d")
  case True
  then show ?thesis
    using assms failed by (auto simp: memkind_pmem_mmap_def replaces_file_def pmem_frame_def)
next
  case lim: False
  then have lim': "pm_max_size d = 0 \<or> pm_current_size d + n \<le> pm_max_size d"
    by (auto simp: not_less)
  obtain e w where f: "sys_posix_fallocate sy (pm_fd d) (pm_offset d) n (world s) = (e, w)"
    by fastforce
  let ?s = "s\<lparr>world := w, errno := e\<rparr>"
  have def: "(if e = 0 then pmem_map_extent sy k n ?s
     else if e = EFBIG
     then do {
       (status, s) \<leftarrow> memkind_pmem_recreate_file sy k n ?s;
       if status \<noteq> 0 then Some (MAP_FAILED, s) else pmem_map_extent sy k n s
     }
     else Some (MAP_FAILED, ?s)) = Some (p, s')"
    using assms lim f by (simp add: memkind_pmem_mmap_def on_world_def Let_def)
  have rep: "replaces_file sy k n s \<longleftrightarrow>
      e = EFBIG \<and> map_option fst (memkind_pmem_recreate_file sy k n ?s) = Some 0"
    using assms(2) lim f by (simp add: replaces_file_def on_world_def)
  have d: "pmem_of k ?s = Some d" "pmem_frame k s s1 \<longleftrightarrow> pmem_frame k ?s s1" for s1
    using assms(2) by (simp_all add: pmem_frame_def)
  consider "e = 0" | "e = EFBIG" | "e \<noteq> 0" "e \<noteq> EFBIG"
    by blast
  then show ?thesis
  proof cases
    case 1
    then show ?thesis
      using def rep lim' f map_extent_cases [OF _ d(1), of sy n p s'] d(2)
      by (intro served [of d 0 "world s" w]) simp_all
  next
    case 3
    then show ?thesis
      using def rep assms(2) by (intro failed) (auto simp: pmem_frame_def)
  next
    case 2
    then obtain r s2 where r: "memkind_pmem_recreate_file sy k n ?s = Some (r, s2)"
      "(if r \<noteq> 0 then Some (MAP_FAILED, s2) else pmem_map_extent sy k n s2) = Some (p, s')"
      using def by (auto simp: Option.bind_eq_Some_conv)
    note c = recreate_cases [OF r(1) d(1)]
    show ?thesis
    proof (cases "r = 0")
      case False
      then show ?thesis
        using r c d(2) rep by (intro failed) auto
    next
      case True
      then obtain fd v v' where n: "sys_posix_fallocate sy fd 0 n v = (0, v')"
        "pmem_of k s2 = Some (d\<lparr>pm_fd := fd, pm_offset := 0\<rparr>)"
        using c(2) by auto
      have m: "pmem_map_extent sy k n s2 = Some (p, s')"
        using r(2) True by simp
      have "replaces_file sy k n s"
        using rep 2 r(1) True by simp
      then show ?thesis
        using n(1) lim' map_extent_cases [OF m n(2)] c(1) d(2) [of s']
        by (intro served [of "d\<lparr>pm_fd := fd, pm_offset := 0\<rparr>" fd v v']) (auto simp: pmem_frame_def)
    qed
  qed
qed

section \<open>Any sequence of calls\<close>

text \<open>
  The extents in use: address, size, the number of the file (each replacement of the file counts
  up) and the offset in it. A run is any sequence of calls of the hooks of one kind by jemalloc,
  with other activity of the library and of the world in between.
\<close>

type_synonym extent = "ptr \<times> u64 \<times> nat \<times> u64"

definition next_file :: "'w sys \<Rightarrow> memkind_t \<Rightarrow> u64 \<Rightarrow> 'w mk \<Rightarrow> nat \<Rightarrow> nat" where
  "next_file sy k n s g = (if replaces_file sy k n s then Suc g else g)"

inductive pmem_run :: "'w sys \<Rightarrow> memkind_t \<Rightarrow> u32 \<Rightarrow> 'w mk \<Rightarrow> nat \<Rightarrow> extent list \<Rightarrow> bool" for sy k a where
  start: "\<lbrakk>pmem_of k s = Some d; pm_current_size d = 0; 0 < pm_max_size d; pm_max_size d < 2 ^ 63;
    o_check_available (k_ops (kinds s k)) = None; get_kind_by_arena a s = Some (Some k)\<rbrakk>
    \<Longrightarrow> pmem_run sy k a s 0 []"
| alloc: "\<lbrakk>pmem_run sy k a s g L; pmem_extent_alloc sy NULL n al z c a s = Some ((p, z', c'), s'); p \<noteq> NULL;
    pmem_of k s' = Some d'\<rbrakk>
    \<Longrightarrow> pmem_run sy k a s' (next_file sy k n s g) ((p, n, next_file sy k n s g, pm_offset d' - n) # L)"
| refused: "\<lbrakk>pmem_run sy k a s g L; pmem_extent_alloc sy NULL n al z c a s = Some ((NULL, z', c'), s')\<rbrakk>
    \<Longrightarrow> pmem_run sy k a s' (next_file sy k n s g) L"
| dalloc: "\<lbrakk>pmem_run sy k a s g L; (p, n, f, off) \<in> set L; pmem_extent_dalloc sy p n a s = Some (False, s')\<rbrakk>
    \<Longrightarrow> pmem_run sy k a s' g (remove1 (p, n, f, off) L)"
| other: "\<lbrakk>pmem_run sy k a s g L; kinds s' k = kinds s k; arena_registry_g s' = arena_registry_g s\<rbrakk>
    \<Longrightarrow> pmem_run sy k a s' g L"

text \<open>\<^verbatim>\<open>posix_fallocate\<close> refuses ranges beyond the largest file offset.\<close>

definition fallocate_bounded :: "'w sys \<Rightarrow> bool" where
  "fallocate_bounded sy \<longleftrightarrow>
    (\<forall>fd off n w w'. sys_posix_fallocate sy fd off n w = (0, w') \<longrightarrow> unat off + unat n < 2 ^ 63)"

text \<open>Extents that share no part of a file.\<close>

fun apart :: "extent \<Rightarrow> extent \<Rightarrow> bool" where
  "apart (p, n, f, off) (p', n', f', off') \<longleftrightarrow>
    f = f' \<longrightarrow> {unat off..<unat off + unat n} \<inter> {unat off'..<unat off' + unat n'} = {}"

definition in_use :: "extent list \<Rightarrow> nat" where
  "in_use L = (\<Sum>(p, n, f, off)\<leftarrow>L. unat n)"

fun placed :: "memkind_pmem \<Rightarrow> nat \<Rightarrow> extent \<Rightarrow> bool" where
  "placed d g (p, n, f, off) \<longleftrightarrow> f \<le> g \<and> (f = g \<longrightarrow> unat off + unat n \<le> unat (pm_offset d))"

definition pmem_inv :: "memkind_pmem \<Rightarrow> nat \<Rightarrow> extent list \<Rightarrow> bool" where
  "pmem_inv d g L \<longleftrightarrow>
    0 < pm_max_size d \<and> unat (pm_max_size d) < 2 ^ 63 \<and>
    in_use L \<le> unat (pm_current_size d) \<and> pm_current_size d \<le> pm_max_size d \<and>
    list_all (placed d g) L \<and> sorted_wrt apart L"

lemma pmem_inv_new_file:
  "pmem_inv d g L \<Longrightarrow> pmem_inv (d\<lparr>pm_fd := fd, pm_offset := 0\<rparr>) (Suc g) L"
  by (force simp: pmem_inv_def list_all_iff)

lemma pmem_inv_grow:
  assumes "pmem_inv d g L" "unat (pm_offset d) + unat n < 2 ^ 63"
    and "pm_current_size d + n \<le> pm_max_size d"
  shows "pmem_inv (d\<lparr>pm_offset := pm_offset d + n, pm_current_size := pm_current_size d + n\<rparr>) g
    ((p, n, g, pm_offset d) # L)"
proof -
  have off: "unat (pm_offset d + n) = unat (pm_offset d) + unat n"
    using assms(2) by (intro unat_add_no_wrap) simp
  have "unat (pm_current_size d) < 2 ^ 63"
    using assms(1) by (auto simp: pmem_inv_def word_le_nat_alt)
  then have cur: "unat (pm_current_size d + n) = unat (pm_current_size d) + unat n"
    using assms(2) by (intro unat_add_no_wrap) simp
  have "list_all (apart (p, n, g, pm_offset d)) L"
    using assms(1) by (force simp: pmem_inv_def list_all_iff)
  moreover have "list_all (placed (d\<lparr>pm_offset := pm_offset d + n, pm_current_size := pm_current_size d + n\<rparr>) g) L"
    using assms(1) by (force simp: pmem_inv_def list_all_iff off)
  ultimately show ?thesis
    using assms(1,3) cur off by (auto simp: pmem_inv_def in_use_def list_all_iff)
qed

lemma in_use_remove1: "e \<in> set L \<Longrightarrow> in_use L = in_use (remove1 e L) + unat (fst (snd e))"
  by (induction L) (auto simp: in_use_def)

lemma sorted_wrt_remove1: "sorted_wrt P L \<Longrightarrow> sorted_wrt P (remove1 e L)"
  by (induction L) (auto dest: notin_set_remove1 in_set_remove1 [THEN iffD1, rotated] set_remove1_subset [THEN subsetD])

lemma pmem_inv_shrink:
  assumes "pmem_inv d g L" "(p, n, f, off) \<in> set L"
  shows "n \<le> pm_current_size d"
    "pmem_inv (d\<lparr>pm_current_size := pm_current_size d - n\<rparr>) g (remove1 (p, n, f, off) L)"
    "pmem_inv d g (remove1 (p, n, f, off) L)"
proof -
  have u: "in_use L = in_use (remove1 (p, n, f, off) L) + unat n"
    using in_use_remove1 [OF assms(2)] by simp
  then show n: "n \<le> pm_current_size d"
    using assms(1) by (auto simp: pmem_inv_def word_le_nat_alt)
  have sub: "unat (pm_current_size d - n) = unat (pm_current_size d) - unat n"
    using n by (rule unat_sub)
  have "list_all (placed d g) (remove1 (p, n, f, off) L)"
    using assms(1) set_remove1_subset [of "(p, n, f, off)" L] by (auto simp: pmem_inv_def list_all_iff)
  moreover from this have "list_all (placed (d\<lparr>pm_current_size := pm_current_size d - n\<rparr>) g) (remove1 (p, n, f, off) L)"
    by (force simp: list_all_iff)
  moreover have "sorted_wrt apart (remove1 (p, n, f, off) L)"
    using assms(1) by (simp add: pmem_inv_def sorted_wrt_remove1)
  ultimately show "pmem_inv (d\<lparr>pm_current_size := pm_current_size d - n\<rparr>) g (remove1 (p, n, f, off) L)"
    "pmem_inv d g (remove1 (p, n, f, off) L)"
    using assms(1) u n sub by (auto simp: pmem_inv_def word_le_nat_alt)
qed

lemma pmem_inv_tl: "pmem_inv d g (e # L) \<Longrightarrow> pmem_inv d g L"
  by (simp add: pmem_inv_def in_use_def split: prod.splits)

text \<open>The invariant of a run on the state of the library.\<close>

definition run_inv :: "memkind_t \<Rightarrow> u32 \<Rightarrow> 'w mk \<Rightarrow> nat \<Rightarrow> extent list \<Rightarrow> bool" where
  "run_inv k a s g L \<longleftrightarrow>
    o_check_available (k_ops (kinds s k)) = None \<and> get_kind_by_arena a s = Some (Some k) \<and>
    (\<exists>d. pmem_of k s = Some d \<and> pmem_inv d g L)"

lemma run_inv_frame:
  assumes "run_inv k a s g L" "pmem_frame k s s'" "pmem_of k s' = Some d" "pmem_inv d g' L'"
  shows "run_inv k a s' g' L'"
  using assms by (auto simp: run_inv_def pmem_frame_def get_kind_by_arena_def split: if_splits)

lemma extent_alloc_mmap:
  assumes "run_inv k a s g L" "pmem_extent_alloc sy NULL n al z c a s = Some ((p, z', c'), s')"
  shows "\<exists>q. memkind_pmem_mmap sy k NULL n s = Some (q, s') \<and> p = (if q = MAP_FAILED then NULL else q)"
  using assms
  by (auto simp: pmem_extent_alloc_def run_inv_def memkind_check_available_def Option.bind_eq_Some_conv
      split: if_splits)

lemma served_inv:
  assumes "pmem_inv d g L" "fallocate_bounded sy"
    and "d0 = (if replaces_file sy k n s then d\<lparr>pm_fd := fd, pm_offset := 0\<rparr> else d)"
    and "sys_posix_fallocate sy (pm_fd d0) (pm_offset d0) n w = (0, w')"
    and "pm_max_size d = 0 \<or> pm_current_size d + n \<le> pm_max_size d"
  shows "pmem_inv d0 (next_file sy k n s g) L"
    "pmem_inv (d0\<lparr>pm_offset := pm_offset d0 + n, pm_current_size := pm_current_size d0 + n\<rparr>)
      (next_file sy k n s g) ((q, n, next_file sy k n s g, pm_offset d0) # L)"
proof -
  show i: "pmem_inv d0 (next_file sy k n s g) L"
    using assms(1,3) pmem_inv_new_file by (auto simp: next_file_def)
  have "unat (pm_offset d0) + unat n < 2 ^ 63"
    using assms(2,4) unfolding fallocate_bounded_def by blast
  moreover have "pm_current_size d0 + n \<le> pm_max_size d0"
    using assms(1,3,5) by (auto simp: pmem_inv_def)
  ultimately show "pmem_inv (d0\<lparr>pm_offset := pm_offset d0 + n, pm_current_size := pm_current_size d0 + n\<rparr>)
      (next_file sy k n s g) ((q, n, next_file sy k n s g, pm_offset d0) # L)"
    by (rule pmem_inv_grow [OF i])
qed

lemma run_inv_alloc:
  assumes "run_inv k a s g L" "fallocate_bounded sy" "memkind_pmem_mmap sy k NULL n s = Some (q, s')"
  shows "run_inv k a s' (next_file sy k n s g) L"
    "\<lbrakk>q \<noteq> MAP_FAILED; pmem_of k s' = Some d'\<rbrakk>
     \<Longrightarrow> run_inv k a s' (next_file sy k n s g) ((q, n, next_file sy k n s g, pm_offset d' - n) # L)"
proof -
  obtain d where d: "pmem_of k s = Some d" "pmem_inv d g L"
    using assms(1) by (auto simp: run_inv_def)
  from assms(3) d(1)
  have "run_inv k a s' (next_file sy k n s g) L \<and>
    (q \<noteq> MAP_FAILED \<and> pmem_of k s' = Some d' \<longrightarrow>
     run_inv k a s' (next_file sy k n s g) ((q, n, next_file sy k n s g, pm_offset d' - n) # L))"
  proof (cases rule: pmem_mmap_cases)
    case failed
    then show ?thesis
      using run_inv_frame [OF assms(1) failed(4,3)] d(2) by (simp add: next_file_def)
  next
    case (served d0 fd w w')
    note i = served_inv [OF d(2) assms(2) served(2-4)]
    show ?thesis
      using run_inv_frame [OF assms(1) served(1,5)] served(5) i pmem_inv_tl [OF i(2)] by auto
  qed
  then show "run_inv k a s' (next_file sy k n s g) L"
    "\<lbrakk>q \<noteq> MAP_FAILED; pmem_of k s' = Some d'\<rbrakk>
     \<Longrightarrow> run_inv k a s' (next_file sy k n s g) ((q, n, next_file sy k n s g, pm_offset d' - n) # L)"
    by blast+
qed

lemma run_inv_dalloc:
  assumes "run_inv k a s g L" "(p, n, f, off) \<in> set L" "pmem_extent_dalloc sy p n a s = Some (r, s')"
  shows "run_inv k a s' g (remove1 (p, n, f, off) L)"
proof -
  obtain d where d: "pmem_of k s = Some d" "pmem_inv d g L"
    using assms(1) by (auto simp: run_inv_def)
  note i = pmem_inv_shrink [OF d(2) assms(2)]
  obtain st s1 where m: "do_madvise sy p n MADV_REMOVE (s\<lparr>errno := 0\<rparr>) = (st, s1)"
    by fastforce
  then have s1: "pmem_of k s1 = Some d" "pmem_frame k s s1" "get_kind_by_arena a s1 = Some (Some k)"
    using d(1) assms(1)
    by (auto simp: do_madvise_def on_world_def Let_def pmem_frame_def run_inv_def get_kind_by_arena_def
        split: prod.splits if_splits)
  obtain s2 where s2: "s2 = (if st = 0 then set_pmem k (d\<lparr>pm_current_size := pm_current_size d - n\<rparr>) s1 else s1)"
    "do_munmap sy p n s2 = (if r then - 1 else fst (do_munmap sy p n s2), s')"
    using assms(3) m s1 i(1) by (auto simp: pmem_extent_dalloc_def Let_def split: prod.splits if_splits)
  then have "pmem_frame k s s'" "pmem_of k s' = pmem_of k s2"
    using s1(2) by (auto simp: do_munmap_def on_world_def pmem_frame_def split: prod.splits if_splits)
  then show ?thesis
    using run_inv_frame [OF assms(1)] s1(1) i(2,3) s2(1) by (auto split: if_splits)
qed

lemma pmem_run_inv:
  assumes "fallocate_bounded sy" "pmem_run sy k a s g L"
  shows "run_inv k a s g L"
  using assms(2)
proof (induction rule: pmem_run.induct)
  case (start s d)
  then show ?case
    by (auto simp: run_inv_def pmem_inv_def in_use_def word_less_nat_alt)
next
  case (alloc s g L n al z c p z' c' s' d')
  from extent_alloc_mmap [OF alloc.IH alloc.hyps(2)] obtain q
    where "memkind_pmem_mmap sy k NULL n s = Some (q, s')" "p = (if q = MAP_FAILED then NULL else q)"
    by blast
  then show ?case
    using run_inv_alloc(2) [OF alloc.IH assms(1)] alloc.hyps(3,4) by (auto split: if_splits)
next
  case (refused s g L n al z c z' c' s')
  from extent_alloc_mmap [OF refused.IH refused.hyps(2)] obtain q
    where "memkind_pmem_mmap sy k NULL n s = Some (q, s')"
    by blast
  then show ?case
    by (rule run_inv_alloc(1) [OF refused.IH assms(1)])
next
  case (dalloc s g L p n f off s')
  then show ?case
    by (intro run_inv_dalloc)
next
  case (other s g L s')
  then show ?case
    by (auto simp: run_inv_def pmem_of_def get_kind_by_arena_def split: if_splits)
qed


text \<open>
  A kind with a limit of 65536 bytes on a file system whose files hold 8192 bytes: the second extent
  makes it replace the file.
\<close>

definition sample_files :: "nat sys" where
  "sample_files = sample_kernel
    \<lparr>sys_posix_fallocate := (\<lambda>fd off n w. (if off < 8192 \<and> n \<le> 8192 then 0 else EFBIG, w))\<rparr>"

definition sample_pmem :: "nat mk" where
  "sample_pmem =
    (upd_kind (Dynamic 0x1000)
      (\<lambda>kd. kd\<lparr>k_ops := MEMKIND_PMEM_OPS,
         k_priv := Priv_pmem 0x2000 (blank_pmem\<lparr>pm_fd := 5, pm_max_size := 65536, pm_dir := (0x3000, ''/mnt'')\<rparr>)\<rparr>)
      (mk_init 0))\<lparr>arena_registry_g := (\<lambda>_. None)(0 := Some (Dynamic 0x1000))\<rparr>"

definition sample_alloc :: "u64 \<Rightarrow> nat mk \<Rightarrow> ((ptr \<times> bool \<times> bool) \<times> nat mk) option" where
  "sample_alloc n s = pmem_extent_alloc sample_files NULL n 4096 False False 0 s"

definition sample_pmem1 :: "nat mk" where
  "sample_pmem1 = snd (the (sample_alloc 8192 sample_pmem))"

definition sample_pmem2 :: "nat mk" where
  "sample_pmem2 = snd (the (sample_alloc 4096 sample_pmem1))"

lemma sample_files_bounded: "fallocate_bounded sample_files"
  by (auto simp: fallocate_bounded_def sample_files_def word_less_nat_alt word_le_nat_alt split: if_splits)

lemma sample_alloc_run:
  assumes "pmem_run sample_files (Dynamic 0x1000) 0 s g L"
    and "map_option fst (sample_alloc n s) = Some (p, True, True)" "p \<noteq> NULL"
    and "s' = snd (the (sample_alloc n s))" "pmem_of (Dynamic 0x1000) s' = Some d'"
    and "g' = next_file sample_files (Dynamic 0x1000) n s g" "off = pm_offset d' - n"
  shows "pmem_run sample_files (Dynamic 0x1000) 0 s' g' ((p, n, g', off) # L)"
proof -
  have "pmem_extent_alloc sample_files NULL n 4096 False False 0 s = Some ((p, True, True), s')"
    using assms(2,4) by (auto simp: sample_alloc_def)
  from pmem_run.alloc [OF assms(1) this assms(3,5)] show ?thesis
    by (simp only: assms(6,7))
qed


section \<open>Replacing the file\<close>

text \<open>
  What the file calls do to the set of open descriptors: \<^verbatim>\<open>mkstemp\<close> opens a new one, and neither
  \<^verbatim>\<open>unlink\<close> nor \<^verbatim>\<open>posix_fallocate\<close> opens or closes any.
\<close>

definition file_table :: "'w sys \<Rightarrow> ('w \<Rightarrow> int set) \<Rightarrow> bool" where
  "file_table sy open_fds \<longleftrightarrow>
    (\<forall>nm w fd nm' w'. sys_mkstemp sy nm w = ((fd, nm'), w') \<and> 0 \<le> fd \<longrightarrow>
       fd \<notin> open_fds w \<and> open_fds w' = insert fd (open_fds w)) \<and>
    (\<forall>nm w. open_fds (sys_unlink sy nm w) = open_fds w) \<and>
    (\<forall>fd off n w r w'. sys_posix_fallocate sy fd off n w = (r, w') \<longrightarrow> open_fds w' = open_fds w)"

text \<open>
  C37. \<^verbatim>\<open>memkind_pmem_recreate_file\<close> loses a descriptor when the new file cannot hold the extent: it
  returns with an error, the kind keeps its old file, and the descriptor of the new one, which
  nothing refers to any more, is still open.
\<close>

theorem recreate_file_leaks_descriptor:
  assumes "file_table sy open_fds" and "pmem_of k s = Some d" and "length (snd (pm_dir d)) \<le> PATH_MAX"
    and "sys_mkstemp sy (snd (pm_dir d) @ ''/memkind.XXXXXX'') (world s) = ((fd, nm), w)" and "0 \<le> fd"
    and "sys_posix_fallocate sy fd 0 n (sys_unlink sy nm w) = (e, w')" and "e \<noteq> 0"
  shows "\<exists>s'. memkind_pmem_recreate_file sy k n s = Some (- 1, s') \<and> pmem_of k s' = Some d \<and>
    fd \<notin> open_fds (world s) \<and> open_fds (world s') = insert fd (open_fds (world s))"
proof -
  have t: "memkind_pmem_create_tmpfile sy (snd (pm_dir d)) (- 1) s =
      ((MEMKIND_SUCCESS, fd), s\<lparr>world := sys_unlink sy nm w\<rparr>)"
    using assms(3-5) by (simp add: memkind_pmem_create_tmpfile_def on_world_def)
  have "memkind_pmem_recreate_file sy k n s = Some (- 1, s\<lparr>world := w', errno := e\<rparr>)"
    using assms(2,6,7) t by (simp add: memkind_pmem_recreate_file_def on_world_def Let_def)
  moreover have "fd \<notin> open_fds (world s)" "open_fds w = insert fd (open_fds (world s))"
    using assms(1,4,5) unfolding file_table_def by blast+
  moreover have "open_fds w' = open_fds w"
    using assms(1,6) unfolding file_table_def by metis
  ultimately show ?thesis
    using assms(2) by auto
qed

text \<open>A file system that is full: the world is the number of the last descriptor opened.\<close>

definition sample_full :: "nat sys" where
  "sample_full = sample_sys
    \<lparr>sys_mkstemp := (\<lambda>nm w. ((int w + 1, nm), w + 1)), sys_posix_fallocate := (\<lambda>fd off n w. (28, w))\<rparr>"

theorem recreate_file_leaks_descriptor_witness:
  "\<exists>s'. memkind_pmem_recreate_file sample_full (Dynamic 0x1000) 4096 sample_pmem = Some (- 1, s') \<and>
    {1..int (world s')} = insert 1 {1..int (world sample_pmem)}"
proof -
  have ft: "file_table sample_full (\<lambda>w. {1..int w})"
    by (auto simp: file_table_def sample_full_def sample_sys_def)
  have d: "pmem_of (Dynamic 0x1000) sample_pmem =
      Some (blank_pmem\<lparr>pm_fd := 5, pm_max_size := 65536, pm_dir := (0x3000, ''/mnt'')\<rparr>)"
    by (simp add: sample_pmem_def pmem_of_def)
  from recreate_file_leaks_descriptor [OF ft d, where fd = 1 and w = 1 and w' = 1 and e = 28 and n = 4096]
  show ?thesis
    by (auto simp: sample_full_def sample_sys_def sample_pmem_def)
qed

end
