(* ===== verification/Fixed.thy ===== *)
theory Fixed
  imports Arena
begin

text \<open>
  Kinds on a memory area the caller provides (\<^verbatim>\<open>src/memkind_fixed.c\<close>): extents are cut off the area in
  increasing order and never returned. The theory also has the abstract allocator that such an area
  promises, and a locale with what follows for a whole sequence of requests: the blocks handed out
  lie in the area, are aligned and do not overlap.
\<close>

section \<open>Definitions\<close>

text \<open>
  \<^verbatim>\<open>memkind_fixed_mmap_aligned\<close> on the private data of the kind. \<open>None\<close> is the failed assertion on size
  0, or the division by an alignment of 0.
\<close>

definition memkind_fixed_mmap_aligned ::
  "u64 \<Rightarrow> u64 \<Rightarrow> memkind_fixed \<Rightarrow> (ptr \<times> memkind_fixed) option" where
  "memkind_fixed_mmap_aligned alignment sz priv =
    (if sz = 0 \<or> alignment = 0 then None
     else
       (let alignment_modulo = fx_addr priv mod alignment;
            align_offset = (if alignment_modulo \<noteq> 0 then alignment - alignment_modulo else 0)
        in if fx_current priv + sz + align_offset > fx_size priv then Some (MAP_FAILED, priv)
           else
             (let result = fx_addr priv + align_offset
              in Some (result, priv\<lparr>fx_addr := result + sz,
                                    fx_current := fx_current priv + (sz + align_offset)\<rparr>))))"

definition memkind_fixed_mmap :: "u64 \<Rightarrow> memkind_fixed \<Rightarrow> ptr \<times> memkind_fixed" where
  "memkind_fixed_mmap sz priv =
    (if fx_size priv \<noteq> 0 \<and> fx_current priv + sz > fx_size priv then (MAP_FAILED, priv)
     else (fx_addr priv, priv\<lparr>fx_addr := fx_addr priv + sz, fx_current := fx_current priv + sz\<rparr>))"

definition fixed_extent_hooks :: extent_hooks_t where
  "fixed_extent_hooks =
    \<lparr>eh_alloc = Fixed_extent_alloc, eh_dalloc = Fixed_extent_dalloc, eh_commit = False,
     eh_decommit = True, eh_purge_lazy = Fixed_extent_purge, eh_split = False, eh_merge = False,
     eh_destroy = Some Fixed_extent_destroy\<rparr>"

text \<open>
  Creation and destruction. The structure comes from \<^verbatim>\<open>jemk_malloc\<close> and its fields are set by the
  caller of the creation; until then they hold zeros here.
\<close>

definition blank_fixed :: memkind_fixed where
  "blank_fixed = \<lparr>fx_addr = NULL, fx_size = 0, fx_current = 0\<rparr>"

abbreviation (input) sizeof_memkind_fixed :: u64 where "sizeof_memkind_fixed \<equiv> 64"

definition memkind_fixed_create ::
  "'w sys \<Rightarrow> memkind_t \<Rightarrow> memkind_ops \<Rightarrow> string \<Rightarrow> 'w mk \<Rightarrow> (int \<times> 'w mk) option" where
  "memkind_fixed_create sy k ops name s =
    (let (priv, s) = je_malloc sy sizeof_memkind_fixed s
     in if priv = NULL then Some (MEMKIND_ERROR_MALLOC, s)
        else
          (let (r, s) = on_world (pthread_mutex_init sy) s
           in if r \<noteq> 0 then Some (MEMKIND_ERROR_RUNTIME, je_free sy priv s)
              else
                (let (err, s) = memkind_default_create k ops name s
                 in if err \<noteq> 0 then Some (err, je_free sy priv s)
                    else do {
                      (err, s) \<leftarrow> memkind_arena_create_map sy k fixed_extent_hooks False s;
                      if err \<noteq> 0 then Some (err, je_free sy priv s)
                      else Some (0, upd_kind k (\<lambda>kd. kd\<lparr>k_priv := Priv_fixed priv blank_fixed\<rparr>) s)
                    })))"

definition memkind_fixed_destroy :: "'w sys \<Rightarrow> memkind_t \<Rightarrow> 'w mk \<Rightarrow> (int \<times> 'w mk) option" where
  "memkind_fixed_destroy sy k s =
    do {
      let priv = priv_addr (k_priv (kinds s k));
      (_, s) \<leftarrow> memkind_arena_destroy sy k s;
      let s = s\<lparr>tier_counters := memtier_reset_size (unat (k_partition (kinds s k))) (tier_counters s)\<rparr>;
      Some (0, je_free sy priv s)
    }"

section \<open>The abstract allocator\<close>

text \<open>An area is its first free address and its end; a block starts at the next aligned address.\<close>

type_synonym area = "nat \<times> nat"

definition round_up :: "nat \<Rightarrow> nat \<Rightarrow> nat" where
  "round_up a t = t + (if t mod a = 0 then 0 else a - t mod a)"

definition bump_alloc :: "nat \<Rightarrow> nat \<Rightarrow> area \<Rightarrow> nat option \<times> area" where
  "bump_alloc a n area =
    (let (t, l) = area; p = round_up a t
     in if p + n \<le> l then (Some p, (p + n, l)) else (None, area))"

lemma round_up_ge: "t \<le> round_up a t"
  by (simp add: round_up_def)

lemma round_up_less: "0 < a \<Longrightarrow> round_up a t < t + a"
  by (auto simp: round_up_def)

lemma round_up_dvd: "0 < a \<Longrightarrow> a dvd round_up a t"
proof -
  assume a: "0 < a"
  have "a dvd t + (a - t mod a)"
  proof -
    have "t + (a - t mod a) = t div a * a + a"
      using mod_less_divisor [OF a, of t] div_mult_mod_eq [of t a] by linarith
    then show ?thesis
      by simp
  qed
  then show ?thesis
    by (auto simp: round_up_def dvd_eq_mod_eq_0)
qed

text \<open>Blocks \<open>(p, n)\<close> in the order they were handed out.\<close>

fun blocks_in :: "nat \<Rightarrow> nat \<Rightarrow> (nat \<times> nat) list \<Rightarrow> bool" where
  "blocks_in t l [] \<longleftrightarrow> t \<le> l"
| "blocks_in t l ((p, n) # bs) \<longleftrightarrow> t \<le> p \<and> blocks_in (p + n) l bs"

lemma blocks_in_bounds: "blocks_in t l bs \<Longrightarrow> t \<le> l \<and> (\<forall>(p, n) \<in> set bs. t \<le> p \<and> p + n \<le> l)"
  by (induction t l bs rule: blocks_in.induct) fastforce+

lemma blocks_in_disjoint:
  "blocks_in t l bs \<Longrightarrow> i < j \<Longrightarrow> j < length bs \<Longrightarrow> fst (bs ! i) + snd (bs ! i) \<le> fst (bs ! j)"
proof (induction t l bs arbitrary: i j rule: blocks_in.induct)
  case (2 t l p n bs)
  show ?case
  proof (cases i)
    case 0
    then obtain j' where j: "j = Suc j'" "j' < length bs"
      using 2 by (cases j) auto
    then have "bs ! j' \<in> set bs"
      by simp
    then show ?thesis
      using blocks_in_bounds [of "p + n" l bs] 2(2) 0 j by fastforce
  next
    case (Suc i')
    then show ?thesis
      using 2 by (cases j) auto
  qed
qed simp

text \<open>
  A sequence of requests, each an alignment and a size, to an allocator; the result collects the
  blocks that were granted.
\<close>

fun serve ::
  "(u64 \<Rightarrow> u64 \<Rightarrow> 's \<Rightarrow> (ptr \<times> 's) option) \<Rightarrow> (u64 \<times> u64) list \<Rightarrow> 's \<Rightarrow> ((nat \<times> nat) list \<times> 's) option" where
  "serve alloc [] s = Some ([], s)"
| "serve alloc ((a, n) # rs) s =
    do {
      (p, s) \<leftarrow> alloc a n s;
      (bs, s) \<leftarrow> serve alloc rs s;
      Some (if p = MAP_FAILED then bs else (unat p, unat n) # bs, s)
    }"

section \<open>Interface of an area\<close>

text \<open>
  An allocator that implements the abstract one for the requests it admits.
\<close>

locale bump_region =
  fixes alloc :: "u64 \<Rightarrow> u64 \<Rightarrow> 's \<Rightarrow> (ptr \<times> 's) option"
    and inv :: "'s \<Rightarrow> bool"
    and admits :: "u64 \<Rightarrow> u64 \<Rightarrow> 's \<Rightarrow> bool"
    and area_of :: "'s \<Rightarrow> area"
  assumes refines: "inv s \<Longrightarrow> admits a n s \<Longrightarrow>
      \<exists>p s'. alloc a n s = Some (p, s') \<and> inv s' \<and>
        (case bump_alloc (unat a) (unat n) (area_of s) of
           (None, r) \<Rightarrow> p = MAP_FAILED \<and> area_of s' = r
         | (Some q, r) \<Rightarrow> p \<noteq> MAP_FAILED \<and> unat p = q \<and> area_of s' = r)"
    and inv_area: "inv s \<Longrightarrow> fst (area_of s) \<le> snd (area_of s)"
    and admits_stable: "inv s \<Longrightarrow> inv s' \<Longrightarrow> snd (area_of s') = snd (area_of s) \<Longrightarrow>
      fst (area_of s) \<le> fst (area_of s') \<Longrightarrow> admits a n s \<Longrightarrow> alloc a' n' s = Some (p, s') \<Longrightarrow> admits a n s'"
begin

lemma alloc_step:
  assumes "inv s" "admits a n s" "alloc a n s = Some (p, s')"
  shows "inv s'" "snd (area_of s') = snd (area_of s)" "fst (area_of s) \<le> fst (area_of s')"
    "p \<noteq> MAP_FAILED \<Longrightarrow> fst (area_of s) \<le> unat p \<and> unat p + unat n = fst (area_of s') \<and>
      unat p = round_up (unat a) (fst (area_of s))"
  using refines [OF assms(1,2)] assms(3) round_up_ge [of "fst (area_of s)" "unat a"]
  by (cases "area_of s"; auto simp: bump_alloc_def Let_def split: if_splits)+

definition served_by :: "(u64 \<times> u64) list \<Rightarrow> nat \<times> nat \<Rightarrow> bool" where
  "served_by rs b \<longleftrightarrow> (\<exists>(a, n) \<in> set rs. snd b = unat n \<and> (a \<noteq> 0 \<longrightarrow> unat a dvd fst b))"

lemma served_by_mono: "served_by rs b \<Longrightarrow> served_by (r # rs) b"
  by (simp add: served_by_def)

lemma serve_spec:
  assumes "inv s" "\<forall>(a, n) \<in> set rs. admits a n s"
  shows "\<exists>bs s'. serve alloc rs s = Some (bs, s') \<and> inv s' \<and> snd (area_of s') = snd (area_of s) \<and>
    blocks_in (fst (area_of s)) (snd (area_of s)) bs \<and> (\<forall>b \<in> set bs. served_by rs b)"
  using assms
proof (induction rs arbitrary: s)
  case Nil
  then show ?case
    using inv_area by simp
next
  case (Cons r rs)
  obtain a n where r: "r = (a, n)"
    by fastforce
  then have adm: "admits a n s"
    using Cons.prems(2) by simp
  obtain p s1 where p: "alloc a n s = Some (p, s1)"
    using refines [OF Cons.prems(1) adm] by blast
  note st = alloc_step [OF Cons.prems(1) adm p]
  have "admits a' n' s1" if "(a', n') \<in> set rs" for a' n'
    using Cons.prems(2) that admits_stable [OF Cons.prems(1) st(1-3) _ p, of a' n'] by auto
  then have "\<forall>(a', n') \<in> set rs. admits a' n' s1"
    by blast
  from Cons.IH [OF st(1) this] obtain bs s2 where bs: "serve alloc rs s1 = Some (bs, s2)" "inv s2"
    "snd (area_of s2) = snd (area_of s1)" "blocks_in (fst (area_of s1)) (snd (area_of s1)) bs"
    "\<forall>b \<in> set bs. served_by rs b"
    by blast
  have mono: "blocks_in t l bs \<Longrightarrow> t' \<le> t \<Longrightarrow> blocks_in t' l bs" for t t' l
    by (cases bs) auto
  have old: "\<forall>b \<in> set bs. served_by (r # rs) b"
    using bs(5) served_by_mono by blast
  let ?bs = "if p = MAP_FAILED then bs else (unat p, unat n) # bs"
  have run: "serve alloc (r # rs) s = Some (?bs, s2)"
    using p bs(1) by (simp add: r)
  have new: "served_by (r # rs) (unat p, unat n)" if "p \<noteq> MAP_FAILED"
    using st(4) [OF that] round_up_dvd [of "unat a"] by (simp add: r served_by_def unat_gt_0)
  have "fst (area_of s) \<le> unat p \<and> blocks_in (unat p + unat n) (snd (area_of s)) bs" if "p \<noteq> MAP_FAILED"
    using st(2) st(4) [OF that] bs(4) by metis
  then have "blocks_in (fst (area_of s)) (snd (area_of s)) ?bs"
    using st(2) mono [OF bs(4) st(3)] by auto
  then show ?case
    using run new old bs(2,3) st(2) by (intro exI [of _ ?bs] exI [of _ s2]) simp
qed

end

section \<open>The fixed area implements the interface\<close>

text \<open>
  The invariant: the area given to \<^verbatim>\<open>memkind_create_fixed\<close> ends below the top of the address space and
  \<open>current\<close> counts the part already used. A request is admitted when its size and alignment cannot make
  the sums of the code wrap around.
\<close>

definition fixed_inv :: "memkind_fixed \<Rightarrow> bool" where
  "fixed_inv fx \<longleftrightarrow>
    fx_current fx \<le> fx_size fx \<and> fx_current fx \<le> fx_addr fx \<and>
    unat (fx_addr fx) - unat (fx_current fx) + unat (fx_size fx) < 2 ^ 64"

definition fixed_admits :: "u64 \<Rightarrow> u64 \<Rightarrow> memkind_fixed \<Rightarrow> bool" where
  "fixed_admits a n fx \<longleftrightarrow> a \<noteq> 0 \<and> n \<noteq> 0 \<and> unat (fx_size fx) + unat n + unat a < 2 ^ 64"

definition fixed_area :: "memkind_fixed \<Rightarrow> area" where
  "fixed_area fx = (unat (fx_addr fx), unat (fx_addr fx) - unat (fx_current fx) + unat (fx_size fx))"

lemma align_offset_unat:
  fixes a t :: u64
  assumes "a \<noteq> 0"
  shows "unat (if t mod a \<noteq> 0 then a - t mod a else 0) = round_up (unat a) (unat t) - unat t"
proof -
  have "t mod a < a"
    using assms by (simp add: word_less_nat_alt unat_mod_distrib unat_gt_0)
  then have "unat (a - t mod a) = unat a - unat t mod unat a"
    by (simp add: unat_sub unat_mod_distrib)
  moreover have "t mod a = 0 \<longleftrightarrow> unat t mod unat a = 0"
    by (metis unat_mod_distrib unat_0 unsigned_word_eqI)
  ultimately show ?thesis
    by (simp add: round_up_def)
qed

lemma fixed_refines:
  assumes "fixed_inv fx" "fixed_admits a n fx"
  shows "\<exists>p fx'. memkind_fixed_mmap_aligned a n fx = Some (p, fx') \<and> fixed_inv fx' \<and>
    (case bump_alloc (unat a) (unat n) (fixed_area fx) of
       (None, r) \<Rightarrow> p = MAP_FAILED \<and> fixed_area fx' = r
     | (Some q, r) \<Rightarrow> p \<noteq> MAP_FAILED \<and> unat p = q \<and> fixed_area fx' = r)"
proof -
  let ?t = "fx_addr fx" and ?c = "fx_current fx" and ?s = "fx_size fx"
  define off where "off = (if ?t mod a \<noteq> 0 then a - ?t mod a else 0)"
  have a: "a \<noteq> 0" "n \<noteq> 0" "0 < unat a" "0 < unat n" and nw: "unat ?s + unat n + unat a < 2 ^ 64"
    using assms(2) by (auto simp: fixed_admits_def unat_gt_0)
  have inv: "unat ?c \<le> unat ?s" "unat ?c \<le> unat ?t" "unat ?t - unat ?c + unat ?s < 2 ^ 64"
    using assms(1) unfolding fixed_inv_def word_le_nat_alt by blast+
  have off: "unat off = round_up (unat a) (unat ?t) - unat ?t" "unat off < unat a"
    using align_offset_unat [OF a(1), of ?t] round_up_less [OF a(3), of "unat ?t"]
    by (simp_all add: off_def round_up_def)
  have ru: "round_up (unat a) (unat ?t) = unat ?t + unat off"
    using off(1) round_up_ge [of "unat ?t" "unat a"] by simp
  have cs: "unat (?c + n + off) = unat ?c + unat n + unat off"
    using nw inv off(2) by (simp add: unat_add_no_wrap)
  have def: "memkind_fixed_mmap_aligned a n fx =
      (if ?c + n + off > ?s then Some (MAP_FAILED, fx)
       else Some (?t + off, fx\<lparr>fx_addr := ?t + off + n, fx_current := ?c + (n + off)\<rparr>))"
    using a by (simp add: memkind_fixed_mmap_aligned_def off_def Let_def)
  show ?thesis
  proof (cases "?c + n + off > ?s")
    case True
    then have "\<not> unat ?t + unat off + unat n \<le> unat ?t - unat ?c + unat ?s"
      using cs inv by (simp add: word_less_nat_alt)
    then show ?thesis
      using True def assms(1) by (simp add: bump_alloc_def fixed_area_def ru)
  next
    case False
    then have fits: "unat ?t + unat off + unat n \<le> unat ?t - unat ?c + unat ?s"
      using cs inv by (simp add: word_less_nat_alt)
    then have u: "unat (?t + off) = unat ?t + unat off" "unat (?t + off + n) = unat ?t + unat off + unat n"
      "unat (?c + (n + off)) = unat ?c + unat n + unat off"
      using inv nw off(2) by (simp_all add: unat_add_no_wrap)
    have "unat (?t + off) \<noteq> unat MAP_FAILED"
      using u fits inv(3) a(4) by (simp add: unsigned_minus_1_eq_mask mask_eq_exp_minus_1)
    then have p: "?t + off \<noteq> MAP_FAILED"
      by auto
    let ?fx = "fx\<lparr>fx_addr := ?t + off + n, fx_current := ?c + (n + off)\<rparr>"
    have l: "unat ?t + unat off + unat n - (unat ?c + unat n + unat off) = unat ?t - unat ?c"
      using inv by simp
    have area: "fixed_area ?fx = (unat ?t + unat off + unat n, unat ?t - unat ?c + unat ?s)"
      unfolding fixed_area_def using l by (simp add: u)
    have "fixed_inv ?fx"
      unfolding fixed_inv_def word_le_nat_alt using fits inv l by (simp add: u)
    moreover have "bump_alloc (unat a) (unat n) (fixed_area fx) =
        (Some (unat ?t + unat off), (unat ?t + unat off + unat n, unat ?t - unat ?c + unat ?s))"
      unfolding bump_alloc_def fixed_area_def Let_def prod.case ru using fits by (rule if_P)
    ultimately show ?thesis
      using False def p u(1) area by simp
  qed
qed

interpretation fixed: bump_region memkind_fixed_mmap_aligned fixed_inv fixed_admits fixed_area
proof
  fix fx fx' :: memkind_fixed and a n a' n' p
  show "fixed_inv fx \<Longrightarrow> fst (fixed_area fx) \<le> snd (fixed_area fx)"
    by (auto simp: fixed_inv_def fixed_area_def word_le_nat_alt)
  assume "fixed_admits a n fx" "memkind_fixed_mmap_aligned a' n' fx = Some (p, fx')"
  moreover from this(2) have "fx_size fx' = fx_size fx"
    by (auto simp: memkind_fixed_mmap_aligned_def Let_def split: if_splits)
  ultimately show "fixed_admits a n fx'"
    by (simp add: fixed_admits_def)
qed (rule fixed_refines)

section \<open>Properties\<close>



text \<open>
  C32. The bound of the area is computed without a check for wrap-around: when \<open>current + size\<close> exceeds the
  word, \<^verbatim>\<open>memkind_fixed_mmap\<close> grants the request. An area of 64 KiB of which one page is used accepts a
  request of \<open>2 ^ 64 - 4096\<close> bytes, and its next free address moves back to the start of the area, so the
  page in use would be handed out again.
\<close>

theorem fixed_mmap_wraps:
  assumes "fx_size fx \<noteq> 0" "fx_current fx \<noteq> 0"
  shows "\<exists>sz. unat sz > unat (fx_size fx) - unat (fx_current fx) \<and>
    memkind_fixed_mmap sz fx =
      (fx_addr fx, fx\<lparr>fx_addr := fx_addr fx - fx_current fx, fx_current := 0\<rparr>)"
proof -
  let ?sz = "- fx_current fx"
  have "(unat ?sz + unat (fx_current fx)) mod 2 ^ 64 = unat (?sz + fx_current fx)"
    unfolding unat_word_ariths by simp
  then have "2 ^ 64 dvd unat ?sz + unat (fx_current fx)"
    by (simp add: dvd_eq_mod_eq_0)
  then have "2 ^ 64 \<le> unat ?sz + unat (fx_current fx)"
    using assms(2) by (intro dvd_imp_le) (auto simp: unat_gt_0)
  then have "18446744073709551616 \<le> unat ?sz + unat (fx_current fx)"
    by simp
  then have "unat ?sz > unat (fx_size fx) - unat (fx_current fx)"
    using unat_lt_2p64 [of "fx_size fx"] unat_lt_2p64 [of "fx_current fx"] by linarith
  then show ?thesis
    by (intro exI [of _ ?sz]) (simp add: memkind_fixed_mmap_def)
qed

theorem fixed_mmap_wraps_witness:
  "\<exists>sz. unat sz > 61440 \<and>
    memkind_fixed_mmap sz \<lparr>fx_addr = 0x10001000, fx_size = 0x10000, fx_current = 0x1000\<rparr> =
      (0x10001000, \<lparr>fx_addr = 0x10000000, fx_size = 0x10000, fx_current = 0\<rparr>)"
  using fixed_mmap_wraps [of "\<lparr>fx_addr = 0x10001000, fx_size = 0x10000, fx_current = 0x1000\<rparr>"] by simp

end
