(* ===== verification/Extent.thy ===== *)
theory Extent
  imports Pmem Fixed
begin

text \<open>
  The extent hooks that jemalloc calls for the arenas of a kind (\<^verbatim>\<open>src/memkind_arena.c\<close>), with the
  hook of the fixed kinds (\<^verbatim>\<open>src/memkind_fixed.c\<close>) and the choice of the mapping function
  \<^verbatim>\<open>kind_mmap\<close> (\<^verbatim>\<open>src/memkind.c\<close>).

  The lemmas show what an arena's allocation hook leaves mapped: exactly the extent it returns, at the
  alignment asked for, although it may have mapped more on the way.
\<close>

section \<open>Definitions\<close>

abbreviation (input) HUGE_PAGE_SIZE :: u64 where "HUGE_PAGE_SIZE \<equiv> 2097152"

definition fixed_of :: "memkind_t \<Rightarrow> 'w mk \<Rightarrow> memkind_fixed option" where
  "fixed_of k s = (case k_priv (kinds s k) of Priv_fixed p d \<Rightarrow> Some d | _ \<Rightarrow> None)"

definition set_fixed :: "memkind_t \<Rightarrow> memkind_fixed \<Rightarrow> 'w mk \<Rightarrow> 'w mk" where
  "set_fixed k d s = upd_kind k (\<lambda>kd. kd\<lparr>k_priv := Priv_fixed (priv_addr (k_priv kd)) d\<rparr>) s"

definition kind_mmap :: "'w sys \<Rightarrow> memkind_t \<Rightarrow> ptr \<Rightarrow> u64 \<Rightarrow> 'w mk \<Rightarrow> (ptr \<times> 'w mk) option" where
  "kind_mmap sy k addr sz s =
    (case o_mmap (k_ops (kinds s k)) of
       None \<Rightarrow> memkind_default_mmap sy k addr sz s
     | Some Memkind_pmem_mmap \<Rightarrow> memkind_pmem_mmap sy k addr sz s
     | Some Memkind_fixed_mmap \<Rightarrow>
         do {
           d \<leftarrow> fixed_of k s;
           let (result, d) = memkind_fixed_mmap sz d;
           Some (result, set_fixed k d s)
         })"

definition unmap_part :: "'w sys \<Rightarrow> ptr \<Rightarrow> u64 \<Rightarrow> 'w mk \<Rightarrow> 'w mk" where
  "unmap_part sy p len s = (if len > 0 then snd (do_munmap sy p len s) else s)"

definition alloc_aligned_slow :: "'w sys \<Rightarrow> u64 \<Rightarrow> u64 \<Rightarrow> memkind_t \<Rightarrow> 'w mk \<Rightarrow> (ptr \<times> 'w mk) option" where
  "alloc_aligned_slow sy sz alignment k s =
    do {
      let extended_size = sz + alignment;
      (addr, s) \<leftarrow> kind_mmap sy k NULL extended_size s;
      if addr = MAP_FAILED then Some (NULL, s)
      else
        let aligned_addr = (addr + alignment) AND NOT (alignment - 1);
            s = unmap_part sy addr (aligned_addr - addr) s;
            tail_len = (addr + extended_size) - (aligned_addr + sz);
            s = unmap_part sy (aligned_addr + sz) tail_len s
        in Some (aligned_addr, s)
    }"

definition arena_extent_alloc ::
  "'w sys \<Rightarrow> ptr \<Rightarrow> u64 \<Rightarrow> u64 \<Rightarrow> bool \<Rightarrow> bool \<Rightarrow> u32 \<Rightarrow> 'w mk \<Rightarrow> ((ptr \<times> bool \<times> bool) \<times> 'w mk) option" where
  "arena_extent_alloc sy new_addr sz alignment zero commit arena_ind s =
    do {
      kind \<leftarrow> get_kind_by_arena arena_ind s;
      k \<leftarrow> kind;
      (err, s) \<leftarrow> memkind_check_available sy k s;
      if err \<noteq> 0 then Some ((NULL, zero, commit), s)
      else do {
        (addr, s) \<leftarrow> kind_mmap sy k new_addr sz s;
        if addr = MAP_FAILED then Some ((NULL, zero, commit), s)
        else if new_addr \<noteq> NULL \<and> addr \<noteq> new_addr
        then Some ((NULL, zero, commit), snd (do_munmap sy addr sz s))
        else if addr AND (alignment - 1) \<noteq> 0
        then do {
          (addr, s) \<leftarrow> alloc_aligned_slow sy sz alignment k (snd (do_munmap sy addr sz s));
          Some (if addr = NULL then ((NULL, zero, commit), s) else ((addr, True, True), s))
        }
        else Some ((addr, True, True), s)
      }
    }"

definition arena_extent_alloc_hugetlb ::
  "'w sys \<Rightarrow> ptr \<Rightarrow> u64 \<Rightarrow> u64 \<Rightarrow> bool \<Rightarrow> bool \<Rightarrow> u32 \<Rightarrow> 'w mk \<Rightarrow> ((ptr \<times> bool \<times> bool) \<times> 'w mk) option" where
  "arena_extent_alloc_hugetlb sy new_addr sz alignment zero commit arena_ind s =
    arena_extent_alloc sy new_addr ((sz + (HUGE_PAGE_SIZE - 1)) AND NOT (HUGE_PAGE_SIZE - 1)) alignment
      zero commit arena_ind s"

definition arena_extent_purge :: "'w sys \<Rightarrow> ptr \<Rightarrow> u64 \<Rightarrow> u64 \<Rightarrow> 'w mk \<Rightarrow> bool \<times> 'w mk" where
  "arena_extent_purge sy addr offset len s =
    (let (err, s) = do_madvise sy (addr + offset) len MADV_DONTNEED s in (err \<noteq> 0, s))"

definition fixed_extent_alloc ::
  "'w sys \<Rightarrow> ptr \<Rightarrow> u64 \<Rightarrow> u64 \<Rightarrow> bool \<Rightarrow> bool \<Rightarrow> u32 \<Rightarrow> 'w mk \<Rightarrow> ((ptr \<times> bool \<times> bool) \<times> 'w mk) option" where
  "fixed_extent_alloc sy new_addr sz alignment zero commit arena_ind s =
    (if new_addr \<noteq> NULL then Some ((NULL, zero, commit), s)
     else do {
       kind \<leftarrow> get_kind_by_arena arena_ind s;
       case kind of
         None \<Rightarrow> Some ((NULL, zero, commit), s)
       | Some k \<Rightarrow>
           do {
             (err, s) \<leftarrow> memkind_check_available sy k s;
             if err \<noteq> 0 then Some ((NULL, zero, commit), s)
             else do {
               d \<leftarrow> fixed_of k s;
               (addr, d) \<leftarrow> memkind_fixed_mmap_aligned alignment sz d;
               let s = set_fixed k d s;
               Some (if addr \<noteq> MAP_FAILED then ((addr, True, True), s) else ((NULL, zero, commit), s))
             }
           }
     })"

text \<open>The hooks of a table, as jemalloc calls them.\<close>

definition call_extent_alloc ::
  "'w sys \<Rightarrow> extent_hooks_t \<Rightarrow> ptr \<Rightarrow> u64 \<Rightarrow> u64 \<Rightarrow> bool \<Rightarrow> bool \<Rightarrow> u32 \<Rightarrow> 'w mk
   \<Rightarrow> ((ptr \<times> bool \<times> bool) \<times> 'w mk) option" where
  "call_extent_alloc sy hooks =
    (case eh_alloc hooks of
       Arena_extent_alloc \<Rightarrow> arena_extent_alloc sy
     | Arena_extent_alloc_hugetlb \<Rightarrow> arena_extent_alloc_hugetlb sy
     | Pmem_extent_alloc \<Rightarrow> pmem_extent_alloc sy
     | Fixed_extent_alloc \<Rightarrow> fixed_extent_alloc sy)"

definition call_extent_dalloc ::
  "'w sys \<Rightarrow> extent_hooks_t \<Rightarrow> ptr \<Rightarrow> u64 \<Rightarrow> u32 \<Rightarrow> 'w mk \<Rightarrow> (bool \<times> 'w mk) option" where
  "call_extent_dalloc sy hooks addr sz arena_ind s =
    (case eh_dalloc hooks of
       Pmem_extent_dalloc \<Rightarrow> pmem_extent_dalloc sy addr sz arena_ind s
     | Pmem_extent_dalloc_hog_memory \<Rightarrow> Some (pmem_extent_dalloc_hog_memory, s)
     | Arena_extent_dalloc \<Rightarrow> Some (True, s)
     | Fixed_extent_dalloc \<Rightarrow> Some (True, s))"

definition call_extent_purge ::
  "'w sys \<Rightarrow> extent_hooks_t \<Rightarrow> ptr \<Rightarrow> u64 \<Rightarrow> u64 \<Rightarrow> 'w mk \<Rightarrow> bool \<times> 'w mk" where
  "call_extent_purge sy hooks addr offset len s =
    (case eh_purge_lazy hooks of
       Arena_extent_purge \<Rightarrow> arena_extent_purge sy addr offset len s
     | Arena_extent_purge_hog_memory \<Rightarrow> (True, s)
     | Pmem_extent_purge \<Rightarrow> (True, s)
     | Fixed_extent_purge \<Rightarrow> (True, s))"

section \<open>Rounding\<close>

text \<open>The numbers of the slow path: the aligned block lies inside the extended one.\<close>

lemma align_up:
  fixes x a :: nat
  assumes "0 < a"
  defines "y \<equiv> x + a - (x + a) mod a"
  shows "a dvd y" "x < y" "y \<le> x + a"
proof -
  show "a dvd y"
    unfolding y_def by (rule dvd_minus_mod)
  have "(x + a) mod a < a"
    using assms(1) by simp
  then show "x < y" "y \<le> x + a"
    unfolding y_def by linarith+
qed

section \<open>What stays mapped\<close>

lemma unmap_part_maps:
  assumes "kernel_maps sy mapped" "whole_pages q" "whole_pages l"
  shows "same_lib s (unmap_part sy q l s) \<and>
    mapped (world (unmap_part sy q l s)) = mapped (world s) - region q l"
proof (cases "0 < l")
  case True
  obtain r s' where u: "do_munmap sy q l s = (r, s')"
    by fastforce
  then show ?thesis
    using kernel_munmap [OF assms(1,3) u] assms(2) True by (simp add: unmap_part_def)
next
  case False
  then show ?thesis
    by (simp add: unmap_part_def same_lib_refl word_less_nat_alt)
qed

lemma kind_mmap_maps:
  assumes "kernel_maps sy mapped" "kind_ready sy k s" "o_mmap (k_ops (kinds s k)) = None" "whole_pages n"
    and "kind_mmap sy k addr n s = Some (p, s')"
  shows "same_lib s s' \<and> maps_fresh p n (mapped (world s)) (mapped (world s'))"
  using assms(3,5) by (intro default_mmap_maps [OF assms(1,2,4)]) (simp add: kind_mmap_def)

text \<open>Cutting an aligned block out of a fresh mapping.\<close>

lemma cut_block:
  fixes x y n a :: nat
  assumes "M \<inter> {x..<x + (n + a)} = {}" "x \<le> y" "y \<le> x + a"
  shows "(M \<union> {x..<x + (n + a)}) - {x..<x + (y - x)} - {y + n..<y + n + (x + a - y)} = M \<union> {y..<y + n}"
  using assms by auto

lemma aligned_slow_maps:
  assumes k: "kernel_maps sy mapped" "kind_ready sy k s" "o_mmap (k_ops (kinds s k)) = None"
    and n: "whole_pages n" "unat n + 2 ^ j < 2 ^ 64" and j: "12 \<le> j" "j < 64"
    and call: "alloc_aligned_slow sy n (2 ^ j) k s = Some (p, s')"
  shows "same_lib s s' \<and>
    (if p = NULL then mapped (world s') = mapped (world s)
     else 2 ^ j dvd unat p \<and> maps_fresh p n (mapped (world s)) (mapped (world s')))"
proof -
  let ?M = "mapped (world s)"
  have a: "unat (2 ^ j :: u64) = 2 ^ j" "(4096 :: nat) dvd 2 ^ j"
    using j(2) le_imp_power_dvd [OF j(1), of "2 :: nat"] by (simp_all add: unat_pow2)
  have ext: "unat (n + 2 ^ j) = unat n + 2 ^ j" "whole_pages (n + 2 ^ j)"
    using n a by (simp_all add: unat_add_no_wrap)
  obtain q s1 where q: "kind_mmap sy k NULL (n + 2 ^ j) s = Some (q, s1)"
    using call by (auto simp: alloc_aligned_slow_def Let_def Option.bind_eq_Some_conv)
  note m = kind_mmap_maps [OF k ext(2) q]
  show ?thesis
  proof (cases "q = MAP_FAILED")
    case True
    then show ?thesis
      using call q m by (auto simp: alloc_aligned_slow_def maps_fresh_def)
  next
    case False
    then have f: "whole_pages q" "unat q + (unat n + 2 ^ j) < 2 ^ 64" "?M \<inter> region q (n + 2 ^ j) = {}"
      "mapped (world s1) = ?M \<union> region q (n + 2 ^ j)"
      using m by (simp_all add: maps_fresh_def ext)
    define y where "y = (q + 2 ^ j) AND NOT (2 ^ j - 1)"
    define s2 where "s2 = unmap_part sy q (y - q) s1"
    define t where "t = q + (n + 2 ^ j) - (y + n)"
    have "unat y = unat q + 2 ^ j - (unat q + 2 ^ j) mod 2 ^ j"
      unfolding y_def using f(2) by (simp only: and_not_pow2_minus_one [OF j(2)]) (simp add: unat_add_no_wrap a(1))
    then have y: "2 ^ j dvd unat y" "unat q < unat y" "unat y \<le> unat q + 2 ^ j"
      using align_up [of "2 ^ j" "unat q"] by simp_all
    have head: "unat (y - q) = unat y - unat q"
      using y(2) by (intro unat_sub) (simp add: word_le_nat_alt)
    have "unat y + unat n < 2 ^ LENGTH(64)" "unat q + unat (n + 2 ^ j) < 2 ^ LENGTH(64)"
      using f(2) y(3) unfolding ext by simp_all
    then have yn: "unat (y + n) = unat y + unat n" "unat (q + (n + 2 ^ j)) = unat q + (unat n + 2 ^ j)"
      by (simp_all only: unat_add_no_wrap ext)
    then have tail: "unat t = unat q + 2 ^ j - unat y"
      unfolding t_def using y(3) by (subst unat_sub) (simp_all add: word_le_nat_alt)
    have py: "whole_pages y" "whole_pages (y - q)" "whole_pages (y + n)" "whole_pages t"
      unfolding head yn(1) tail using f(1) n(1) a(2) dvd_trans [OF a(2) y(1)]
      by (simp_all add: dvd_diff_nat)
    have s': "p = y" "s' = unmap_part sy (y + n) t s2"
      using call q False unfolding y_def s2_def t_def alloc_aligned_slow_def Let_def by auto
    have lib: "same_lib s s'"
      using m unmap_part_maps [OF k(1) f(1) py(2), of s1] unmap_part_maps [OF k(1) py(3,4), of s2]
        same_lib_trans unfolding s' s2_def by blast
    have "mapped (world s') = ?M \<union> region y n"
      using unmap_part_maps [OF k(1) f(1) py(2), of s1] unmap_part_maps [OF k(1) py(3,4), of s2]
        cut_block [OF f(3) [unfolded ext], of "unat y"] y(2,3)
      unfolding s'(2) s2_def [symmetric] by (simp add: f(4) ext head yn tail)
    moreover have "?M \<inter> region y n = {}"
      using f(3) y(2,3) by (auto simp: ext)
    moreover have "y \<noteq> NULL" "y \<noteq> MAP_FAILED"
      using y(2) py(1) failed_not_page by auto
    ultimately show ?thesis
      using lib y f(2) py(1) by (simp add: s'(1) maps_fresh_def)
  qed
qed

lemma arena_extent_alloc_maps:
  assumes k: "kernel_maps sy mapped" "kind_ready sy k s" "o_mmap (k_ops (kinds s k)) = None"
    and a: "get_kind_by_arena a s = Some (Some k)"
    and n: "whole_pages n" "unat n + 2 ^ j < 2 ^ 64" and j: "12 \<le> j" "j < 64"
    and call: "arena_extent_alloc sy new n (2 ^ j) z c a s = Some ((p, z', c'), s')"
  shows "same_lib s s' \<and>
    (if p = NULL then mapped (world s') = mapped (world s) \<and> (z', c') = (z, c)
     else z' \<and> c' \<and> 2 ^ j dvd unat p \<and> (new \<noteq> NULL \<and> 2 ^ j dvd unat new \<longrightarrow> p = new) \<and>
       maps_fresh p n (mapped (world s)) (mapped (world s')))"
proof -
  obtain err s1 where ck: "memkind_check_available sy k s = Some (err, s1)"
    using call a by (auto simp: arena_extent_alloc_def Option.bind_eq_Some_conv)
  note eq = ready_check_available [OF k(2) ck]
  show ?thesis
  proof (cases "err = 0")
    case False
    then show ?thesis
      using call a ck eq by (auto simp: arena_extent_alloc_def same_lib_refl)
  next
    case True
    then obtain q s2 where q: "kind_mmap sy k new n s = Some (q, s2)"
      using call a ck eq by (auto simp: arena_extent_alloc_def Option.bind_eq_Some_conv)
    note m = kind_mmap_maps [OF k n(1) q]
    obtain r s3 where u: "do_munmap sy q n s2 = (r, s3)"
      by fastforce
    have undone: "mapped (world s3) = mapped (world s)" "same_lib s s3"
      using unmap_fresh [OF k(1) n(1) _ u] kernel_munmap(1) [OF k(1) n(1) u] m same_lib_trans [of s s2 s3] by auto
    then have k3: "kind_ready sy k s3" "o_mmap (k_ops (kinds s3 k)) = None"
      using k(2,3) kind_ready_same_lib [of s s3 sy k] by (simp_all add: same_lib_def)
    have def: "(if q = MAP_FAILED then Some ((NULL, z, c), s2)
        else if new \<noteq> NULL \<and> q \<noteq> new then Some ((NULL, z, c), s3)
        else if q AND (2 ^ j - 1) \<noteq> 0
        then do {
          (addr, s) \<leftarrow> alloc_aligned_slow sy n (2 ^ j) k s3;
          Some (if addr = NULL then ((NULL, z, c), s) else ((addr, True, True), s))
        }
        else Some ((q, True, True), s2)) = Some ((p, z', c'), s')"
      using call a ck eq q True unfolding arena_extent_alloc_def
      by (simp only: Option.bind.bind_lunit split_conv u snd_conv if_False simp_thms)
    consider "q = MAP_FAILED" | "q \<noteq> MAP_FAILED" "new \<noteq> NULL" "q \<noteq> new"
      | "q \<noteq> MAP_FAILED" "new = NULL \<or> q = new" "\<not> 2 ^ j dvd unat q"
      | "q \<noteq> MAP_FAILED" "new = NULL \<or> q = new" "2 ^ j dvd unat q"
      by blast
    then show ?thesis
    proof cases
      case 3
      then obtain y s4 where y: "alloc_aligned_slow sy n (2 ^ j) k s3 = Some (y, s4)"
        "((p, z', c'), s') = (if y = NULL then ((NULL, z, c), s4) else ((y, True, True), s4))"
        using def and_pow2_minus_one_zero [OF j(2), of q] by (auto simp: Option.bind_eq_Some_conv split: if_splits)
      show ?thesis
        using aligned_slow_maps [OF k(1) k3 n j y(1)] y(2) undone same_lib_trans [of s s3 s4] 3
        by (auto split: if_splits)
    qed (use def m undone and_pow2_minus_one_zero [OF j(2), of q] in \<open>auto simp: maps_fresh_def\<close>)
  qed
qed

text \<open>
  C28. The allocation hook of an arena maps exactly what it hands to jemalloc. When it returns an extent, the
  extent has the alignment asked for and the address asked for, it was not mapped before, and it is
  the only region that is mapped after the call and was not before: the first mapping at the wrong
  place and the ends of the extended mapping of the slow path are gone. When it returns \<open>NULL\<close>,
  whichever step failed, the address space is as before and the flags of the caller are untouched.
  Sizes are whole pages and alignments powers of two of at least a page, as jemalloc requests them.
\<close>

theorem arena_extent_alloc_exact:
  assumes "kernel_maps sy mapped" "kind_ready sy k s" "o_mmap (k_ops (kinds s k)) = None"
    and "get_kind_by_arena a s = Some (Some k)"
    and "4096 dvd unat n" "unat n + 2 ^ j < 2 ^ 64" "12 \<le> j" "j < 64"
    and "arena_extent_alloc sy new n (2 ^ j) z c a s = Some ((p, z', c'), s')"
  shows "kinds s' = kinds s \<and> arena_registry_g s' = arena_registry_g s \<and>
    (p = NULL \<longrightarrow> mapped (world s') = mapped (world s) \<and> z' = z \<and> c' = c) \<and>
    (p \<noteq> NULL \<longrightarrow> z' \<and> c' \<and> 2 ^ j dvd unat p \<and> (new \<noteq> NULL \<and> 2 ^ j dvd unat new \<longrightarrow> p = new) \<and>
      mapped (world s) \<inter> {unat p..<unat p + unat n} = {} \<and>
      mapped (world s') = mapped (world s) \<union> {unat p..<unat p + unat n})"
proof -
  have "p \<noteq> NULL \<and> 2 ^ j dvd unat p \<Longrightarrow> p \<noteq> MAP_FAILED"
    using dvd_trans [OF le_imp_power_dvd [OF assms(7), of "2 :: nat"], of "unat p"] failed_not_page by auto
  then show ?thesis
    using arena_extent_alloc_maps [OF assms] by (auto simp: maps_fresh_def same_lib_def split: if_splits)
qed

text \<open>
  On the sample kernel, which maps from the first page on, an extent of one page aligned to 8192 bytes
  takes the slow path.
\<close>

theorem arena_extent_alloc_exact_witness:
  "\<exists>s'. arena_extent_alloc sample_kernel NULL 4096 (2 ^ 13) False False 0
      (sample_ready\<lparr>arena_registry_g := (\<lambda>_. Some MEMKIND_INTERLEAVE)\<rparr>) = Some ((8192, True, True), s') \<and>
    sample_mapped (world s') = sample_mapped (world sample_ready) \<union> {8192..<12288}"
proof -
  let ?s = "sample_ready\<lparr>arena_registry_g := (\<lambda>_. Some MEMKIND_INTERLEAVE)\<rparr>"
  have "map_option fst (arena_extent_alloc sample_kernel NULL 4096 (2 ^ 13) False False 0 ?s) =
      Some (8192, True, True)"
    by code_simp
  then obtain s' where r: "arena_extent_alloc sample_kernel NULL 4096 (2 ^ 13) False False 0 ?s =
      Some ((8192, True, True), s')"
    by auto
  have h: "host_of sample_kernel = sample_host"
    by (simp add: sample_kernel_def)
  have ready: "kind_ready sample_kernel MEMKIND_INTERLEAVE ?s"
    using sample_ready_ok [OF h] by (simp add: kind_ready_def)
  have "sample_mapped (world s') = sample_mapped (world ?s) \<union> {8192..<8192 + 4096}"
    using arena_extent_alloc_exact [OF sample_kernel_maps ready _ _ _ _ _ _ r]
    by (simp add: get_kind_by_arena_def sample_ready_def MEMKIND_INTERLEAVE_OPS_def no_ops_def)
  then show ?thesis
    using r by simp
qed

end
