(* ===== verification/Arena_Stats.thy ===== *)
theory Arena_Stats
  imports Arena
begin

text \<open>
  The queries and controls of \<^verbatim>\<open>src/memkind_arena.c\<close> that go through jemalloc's \<^verbatim>\<open>mallctl\<close>: the memory usage
  policy, the statistics of a kind and of the process, the background threads, and the options of
  \<^verbatim>\<open>malloc_stats_print\<close>.

  The lemmas show that the statistic of a kind is the sum over its arenas, and that the option string
  always fits its buffer and determines the options.
\<close>

section \<open>Policies and statistics\<close>

abbreviation (input) MEMKIND_MEM_USAGE_POLICY_DEFAULT :: nat where "MEMKIND_MEM_USAGE_POLICY_DEFAULT \<equiv> 0"
abbreviation (input) MEMKIND_MEM_USAGE_POLICY_CONSERVATIVE :: nat
  where "MEMKIND_MEM_USAGE_POLICY_CONSERVATIVE \<equiv> 1"
abbreviation (input) MEMKIND_MEM_USAGE_POLICY_MAX_VALUE :: nat where "MEMKIND_MEM_USAGE_POLICY_MAX_VALUE \<equiv> 2"
abbreviation (input) MEMKIND_STAT_TYPE_RESIDENT :: nat where "MEMKIND_STAT_TYPE_RESIDENT \<equiv> 0"
abbreviation (input) MEMKIND_STAT_TYPE_ACTIVE :: nat where "MEMKIND_STAT_TYPE_ACTIVE \<equiv> Suc 0"
abbreviation (input) MEMKIND_STAT_TYPE_ALLOCATED :: nat where "MEMKIND_STAT_TYPE_ALLOCATED \<equiv> 2"
abbreviation (input) MEMKIND_STAT_TYPE_MAX_VALUE :: nat where "MEMKIND_STAT_TYPE_MAX_VALUE \<equiv> 3"

definition memkind_arena_update_cached_stats :: "'w sys \<Rightarrow> 'w mk \<Rightarrow> int \<times> 'w mk" where
  "memkind_arena_update_cached_stats sy s =
    (let ((err, _), s) = je_mallctl sy ''epoch'' (Ctl_size 1) s in (err, s))"

fun set_decay :: "'w sys \<Rightarrow> u32 \<Rightarrow> nat \<Rightarrow> u64 \<Rightarrow> 'w mk \<Rightarrow> int \<times> 'w mk" where
  "set_decay sy i 0 dirty_decay_val s = (MEMKIND_SUCCESS, s)"
| "set_decay sy i (Suc n) dirty_decay_val s =
    (let ((err, _), s) = je_mallctl sy (arena_cmd i ''.dirty_decay_ms'') (Ctl_size dirty_decay_val) s
     in if err \<noteq> 0 then (MEMKIND_ERROR_INVALID, s) else set_decay sy (i + 1) n dirty_decay_val s)"

definition memkind_arena_update_memory_usage_policy ::
  "'w sys \<Rightarrow> memkind_t \<Rightarrow> nat \<Rightarrow> 'w mk \<Rightarrow> int \<times> 'w mk" where
  "memkind_arena_update_memory_usage_policy sy k policy s =
    (let loop = (\<lambda>dirty_decay_val. set_decay sy (k_arena_zero (kinds s k))
                   (unat (k_arena_map_len (kinds s k))) dirty_decay_val s)
     in if policy = MEMKIND_MEM_USAGE_POLICY_DEFAULT then loop 10000
        else if policy = MEMKIND_MEM_USAGE_POLICY_CONSERVATIVE then loop 0
        else (MEMKIND_ERROR_INVALID, s))"

definition global_stats :: "string list" where
  "global_stats = [''stats.resident'', ''stats.active'', ''stats.allocated'']"

text \<open>The statistics of one arena that make up a statistic of a kind, without the arena's number.\<close>

definition arena_stats :: "string list list" where
  "arena_stats = [[''.resident''], [''.pactive''], [''.small.allocated'', ''.large.allocated'']]"

definition stats_cmd :: "u32 \<Rightarrow> string \<Rightarrow> string" where
  "stats_cmd i what = ''stats.arenas.'' @ show_nat (unat i) @ what"

fun arena_stat_items :: "'w sys \<Rightarrow> u32 \<Rightarrow> string list \<Rightarrow> u64 \<Rightarrow> 'w mk \<Rightarrow> (int \<times> u64) \<times> 'w mk" where
  "arena_stat_items sy i [] v s = ((0, v), s)"
| "arena_stat_items sy i (c # cs) v s =
    (let ((err, temp_stat), s) = je_mallctl sy (stats_cmd i c) Ctl_none s
     in if err \<noteq> 0 then ((MEMKIND_ERROR_INVALID, v), s) else arena_stat_items sy i cs (v + temp_stat) s)"

text \<open>The loop over the arenas. A command that is not a number is read as a \<open>bool\<close>: 0 is false.\<close>

fun arena_stat_loop ::
  "'w sys \<Rightarrow> bool \<Rightarrow> string list \<Rightarrow> u32 \<Rightarrow> nat \<Rightarrow> u64 \<Rightarrow> 'w mk \<Rightarrow> (int \<times> u64) \<times> 'w mk" where
  "arena_stat_loop sy check_init cs i 0 v s = ((0, v), s)"
| "arena_stat_loop sy check_init cs i (Suc n) v s =
    (let ((err, is_init), s) =
           (if check_init then je_mallctl sy (arena_cmd i ''.initialized'') Ctl_none s else ((0, 1), s))
     in if err \<noteq> 0 then ((MEMKIND_ERROR_INVALID, v), s)
        else if is_init = 0 then arena_stat_loop sy check_init cs (i + 1) n v s
        else
          (let ((err, v), s) = arena_stat_items sy i cs v s
           in if err \<noteq> 0 then ((err, v), s) else arena_stat_loop sy check_init cs (i + 1) n v s))"

definition memkind_arena_get_stat ::
  "'w sys \<Rightarrow> memkind_t \<Rightarrow> nat \<Rightarrow> bool \<Rightarrow> 'w mk \<Rightarrow> (int \<times> u64) \<times> 'w mk" where
  "memkind_arena_get_stat sy k stat check_init s =
    arena_stat_loop sy check_init (arena_stats ! stat) (k_arena_zero (kinds s k))
      (unat (k_arena_map_len (kinds s k))) 0 s"

text \<open>The value passed in is what \<^verbatim>\<open>*value\<close> holds before the call.\<close>

definition memkind_arena_get_stat_with_check_init ::
  "'w sys \<Rightarrow> memkind_t \<Rightarrow> nat \<Rightarrow> bool \<Rightarrow> u64 \<Rightarrow> 'w mk \<Rightarrow> (int \<times> u64) \<times> 'w mk" where
  "memkind_arena_get_stat_with_check_init sy k stat check_init v s =
    (if stat = MEMKIND_STAT_TYPE_RESIDENT \<or> stat = MEMKIND_STAT_TYPE_ALLOCATED then
       memkind_arena_get_stat sy k stat check_init s
     else if stat = MEMKIND_STAT_TYPE_ACTIVE then
       (let ((status, v), s) = memkind_arena_get_stat sy k stat check_init s
        in ((status, push_bit 12 v), s))
     else ((MEMKIND_ERROR_INVALID, v), s))"

definition memkind_arena_get_kind_stat ::
  "'w sys \<Rightarrow> memkind_t \<Rightarrow> nat \<Rightarrow> u64 \<Rightarrow> 'w mk \<Rightarrow> (int \<times> u64) \<times> 'w mk" where
  "memkind_arena_get_kind_stat sy k stat v s = memkind_arena_get_stat_with_check_init sy k stat False v s"

text \<open>\<^verbatim>\<open>memkind_default_get_kind_stat\<close> also asks whether each arena is initialised.\<close>

definition memkind_default_get_kind_stat ::
  "'w sys \<Rightarrow> memkind_t \<Rightarrow> nat \<Rightarrow> u64 \<Rightarrow> 'w mk \<Rightarrow> (int \<times> u64) \<times> 'w mk" where
  "memkind_default_get_kind_stat sy k stat v s = memkind_arena_get_stat_with_check_init sy k stat True v s"

definition memkind_arena_get_global_stat :: "'w sys \<Rightarrow> nat \<Rightarrow> 'w mk \<Rightarrow> ((int \<times> u64) \<times> 'w mk) option" where
  "memkind_arena_get_global_stat sy stat s =
    (if stat < length global_stats then
       (let ((err, v), s) = je_mallctl sy (global_stats ! stat) Ctl_none s
        in Some (if err \<noteq> 0 then ((MEMKIND_ERROR_INVALID, v), s) else ((err, v), s)))
     else None)"

definition memkind_arena_set_max_bg_threads :: "'w sys \<Rightarrow> u64 \<Rightarrow> 'w mk \<Rightarrow> int \<times> 'w mk" where
  "memkind_arena_set_max_bg_threads sy threads_limit s =
    (if threads_limit \<noteq> 0 then
       (let ((err, _), s) = je_mallctl sy ''max_background_threads'' (Ctl_size threads_limit) s
        in if err \<noteq> 0 then (MEMKIND_ERROR_INVALID, s) else (err, s))
     else (MEMKIND_ERROR_INVALID, s))"

definition memkind_arena_set_bg_threads :: "'w sys \<Rightarrow> bool \<Rightarrow> 'w mk \<Rightarrow> int \<times> 'w mk" where
  "memkind_arena_set_bg_threads sy state s =
    (let ((err, _), s) = je_mallctl sy ''background_thread'' (Ctl_bool state) s
     in if err \<noteq> 0 then (MEMKIND_ERROR_INVALID, s) else (err, s))"

section \<open>Options of the statistics report\<close>

text \<open>The bits of \<^verbatim>\<open>memkind_stat_print_opt\<close> and the character each adds to the option string, in order.\<close>

definition stat_print_opts :: "(u32 \<times> char) list" where
  "stat_print_opts =
    [(1, CHR ''J''), (2, CHR ''g''), (4, CHR ''m''), (8, CHR ''d''), (16, CHR ''a''), (32, CHR ''b''),
     (64, CHR ''l''), (128, CHR ''x''), (256, CHR ''e'')]"

definition is_stats_print_opts_valid :: "u32 \<Rightarrow> bool" where
  "is_stats_print_opts_valid opts \<longleftrightarrow> fold (\<lambda>(b, _) x. CLEAR_BIT x b) stat_print_opts opts = 0"

definition stats_print_chars :: "u32 \<Rightarrow> string" where
  "stats_print_chars opts = map snd (filter (\<lambda>(b, _). opts AND b \<noteq> 0) stat_print_opts)"

definition memkind_arena_stats_print :: "'w sys \<Rightarrow> u32 \<Rightarrow> 'w mk \<Rightarrow> int \<times> 'w mk" where
  "memkind_arena_stats_print sy opts s =
    (if \<not> is_stats_print_opts_valid opts then (MEMKIND_ERROR_INVALID, s)
     else (MEMKIND_SUCCESS,
           je_stats_print sy (if opts \<noteq> 0 then Some (stats_print_chars opts) else None) s))"

section \<open>A statistic is the sum over the arenas\<close>

text \<open>
  Statistics that jemalloc serves from its snapshot: reading one changes nothing, \<open>stat i c\<close> is the
  value of the item \<open>c\<close> of arena \<open>i\<close>, and \<open>ini i\<close> says whether the arena is initialised.
\<close>

definition stats_readable :: "'w sys \<Rightarrow> (u32 \<Rightarrow> bool) \<Rightarrow> (u32 \<Rightarrow> string \<Rightarrow> u64) \<Rightarrow> bool" where
  "stats_readable sy ini stat \<longleftrightarrow>
    (\<forall>i c s. je_mallctl sy (stats_cmd i c) Ctl_none s = ((0, stat i c), s)) \<and>
    (\<forall>i s. je_mallctl sy (arena_cmd i ''.initialized'') Ctl_none s = ((0, of_bool (ini i)), s))"

definition arena_total :: "bool \<Rightarrow> (u32 \<Rightarrow> bool) \<Rightarrow> (u32 \<Rightarrow> string \<Rightarrow> u64) \<Rightarrow> string list \<Rightarrow> u32 \<Rightarrow> u64" where
  "arena_total check_init ini stat cs i =
    (if check_init \<and> \<not> ini i then 0 else sum_list (map (stat i) cs))"

lemma arena_stat_items_sum:
  assumes "stats_readable sy ini stat"
  shows "arena_stat_items sy i cs v s = ((0, v + sum_list (map (stat i) cs)), s)"
  using assms by (induction cs arbitrary: v) (simp_all add: stats_readable_def algebra_simps)

lemma arena_stat_loop_sum:
  assumes "stats_readable sy ini stat"
  shows "arena_stat_loop sy check_init cs i n v s =
    ((0, v + (\<Sum>j < n. arena_total check_init ini stat cs (i + of_nat j))), s)"
proof (induction n arbitrary: i v)
  case (Suc n)
  have r: "je_mallctl sy (arena_cmd i ''.initialized'') Ctl_none s = ((0, of_bool (ini i)), s)"
    using assms by (simp add: stats_readable_def)
  have step: "arena_stat_loop sy check_init cs i (Suc n) v s =
      arena_stat_loop sy check_init cs (i + 1) n (v + arena_total check_init ini stat cs i) s"
    by (cases "check_init"; cases "ini i")
      (simp_all add: r arena_stat_items_sum [OF assms] arena_total_def)
  have "(\<Sum>j < n. arena_total check_init ini stat cs (i + 1 + of_nat j)) =
      (\<Sum>j < n. arena_total check_init ini stat cs (i + of_nat (Suc j)))"
    by (simp add: add.assoc)
  then show ?case
    unfolding step Suc.IH sum.lessThan_Suc_shift by (simp add: algebra_simps)
qed simp

section \<open>The option string\<close>

lemma stat_print_opts_pow2:
  "stat_print_opts = map (\<lambda>i. (2 ^ i, ''Jgmdablxe'' ! i)) [0..<9]"
  by code_simp

lemma and_pow2_bit: "(x :: u32) AND 2 ^ i \<noteq> 0 \<longleftrightarrow> bit x i"
proof
  assume "x AND 2 ^ i \<noteq> 0"
  then obtain j where "bit (x AND 2 ^ i) j"
    by (auto simp: bit_eq_iff)
  then show "bit x i"
    by (auto simp: bit_simps)
next
  assume "bit x i"
  moreover from this have "i < 32"
    using bit_imp_le_length [of x i] by simp
  ultimately have "bit (x AND 2 ^ i) i"
    by (simp add: bit_simps)
  then show "x AND 2 ^ i \<noteq> 0"
    by auto
qed

lemma clear_bits:
  "bit (fold (\<lambda>(b, _) x. CLEAR_BIT x b) (map (\<lambda>i. (2 ^ i, f i)) is) (opts :: u32)) j \<longleftrightarrow>
    bit opts j \<and> j \<notin> set is"
  by (induction "is" arbitrary: opts) (auto simp: CLEAR_BIT_def bit_simps dest: bit_imp_le_length)

lemma opts_valid_iff: "is_stats_print_opts_valid opts \<longleftrightarrow> (\<forall>j. bit opts j \<longrightarrow> j < 9)"
  unfolding is_stats_print_opts_valid_def stat_print_opts_pow2 bit_eq_iff clear_bits
  using bit_imp_le_length [of opts] by fastforce

lemma stats_print_chars_bits:
  "stats_print_chars opts = map (\<lambda>i. ''Jgmdablxe'' ! i) (filter (bit opts) [0..<9])"
  unfolding stats_print_chars_def stat_print_opts_pow2
  by (simp add: filter_map o_def and_pow2_bit del: upt_Suc)

lemma stats_print_chars_set:
  assumes "i < 9"
  shows "''Jgmdablxe'' ! i \<in> set (stats_print_chars opts) \<longleftrightarrow> bit opts i"
proof -
  have "distinct ''Jgmdablxe''"
    by simp
  then have eq: "''Jgmdablxe'' ! i = ''Jgmdablxe'' ! j \<longleftrightarrow> i = j" if "j < 9" for j
    using that assms nth_eq_iff_index_eq [of "''Jgmdablxe''" i j] by simp
  have "''Jgmdablxe'' ! i \<in> set (stats_print_chars opts) \<longleftrightarrow>
      (\<exists>j < 9. bit opts j \<and> ''Jgmdablxe'' ! i = ''Jgmdablxe'' ! j)"
    unfolding stats_print_chars_bits by auto
  then show ?thesis
    using assms eq by blast
qed

section \<open>Properties\<close>

text \<open>
  The statistic of a kind is the sum of the items of its arenas, modulo \<open>2 ^ 64\<close>: resident bytes,
  active pages turned into bytes, and the small and large allocations together. For the default kind
  arenas that jemalloc has not initialised do not count.
\<close>

theorem kind_stat_sum:
  assumes "stats_readable sy ini stat"
    and "tot = (\<lambda>check_init st. \<Sum>j < unat (k_arena_map_len (kinds s k)).
      arena_total check_init ini stat (arena_stats ! st) (k_arena_zero (kinds s k) + of_nat j))"
  shows "memkind_arena_get_kind_stat sy k MEMKIND_STAT_TYPE_RESIDENT v s = ((0, tot False 0), s) \<and>
    memkind_arena_get_kind_stat sy k MEMKIND_STAT_TYPE_ACTIVE v s = ((0, 4096 * tot False 1), s) \<and>
    memkind_arena_get_kind_stat sy k MEMKIND_STAT_TYPE_ALLOCATED v s = ((0, tot False 2), s) \<and>
    memkind_default_get_kind_stat sy k MEMKIND_STAT_TYPE_ALLOCATED v s = ((0, tot True 2), s)"
  by (simp add: assms(2) memkind_arena_get_kind_stat_def memkind_default_get_kind_stat_def
      memkind_arena_get_stat_with_check_init_def memkind_arena_get_stat_def
      arena_stat_loop_sum [OF assms(1)] push_bit_eq_mult)

text \<open>A system whose arenas report their number in every item.\<close>

definition sample_stats_mallctl :: "string \<Rightarrow> ctl_arg \<Rightarrow> nat mk \<Rightarrow> (int \<times> u64) \<times> nat mk" where
  "sample_stats_mallctl cmd arg s = ((0, 1), s)"

theorem kind_stat_sum_witness:
  "memkind_arena_get_kind_stat (sample_sys\<lparr>je_mallctl := sample_stats_mallctl\<rparr>) MEMKIND_HBW
    MEMKIND_STAT_TYPE_ALLOCATED 0
    (upd_kind MEMKIND_HBW (\<lambda>kd. kd\<lparr>k_arena_map_len := 4, k_arena_zero := 8\<rparr>) (mk_init 0)) =
   ((0, 8), upd_kind MEMKIND_HBW (\<lambda>kd. kd\<lparr>k_arena_map_len := 4, k_arena_zero := 8\<rparr>) (mk_init 0))"
proof -
  have "stats_readable (sample_sys\<lparr>je_mallctl := sample_stats_mallctl\<rparr>) (\<lambda>_. True) (\<lambda>_ _. 1)"
    by (simp add: stats_readable_def sample_stats_mallctl_def)
  from kind_stat_sum [OF this refl, where k = MEMKIND_HBW and v = 0 and
      s = "upd_kind MEMKIND_HBW (\<lambda>kd. kd\<lparr>k_arena_map_len := 4, k_arena_zero := 8\<rparr>) (mk_init 0)"]
  show ?thesis
    by (simp add: arena_total_def arena_stats_def)
qed

text \<open>
  The options of the statistics report: they are accepted exactly when only the nine defined bits are
  set; the string built from them, with its terminating \<open>NUL\<close>, fits the 12 bytes of the buffer; and it
  determines the options.
\<close>

theorem stats_print_options:
  "(is_stats_print_opts_valid opts \<longleftrightarrow> opts < 512) \<and>
   length (stats_print_chars opts) + 1 \<le> 12 \<and>
   (is_stats_print_opts_valid opts \<and> is_stats_print_opts_valid opts' \<and>
     stats_print_chars opts = stats_print_chars opts' \<longrightarrow> opts = opts')"
proof (intro conjI impI)
  show "is_stats_print_opts_valid opts \<longleftrightarrow> opts < 512"
  proof
    assume "is_stats_print_opts_valid opts"
    then have "take_bit 9 opts = opts"
      by (intro bit_word_eqI) (auto simp: opts_valid_iff bit_take_bit_iff)
    then have "unat opts = take_bit 9 (unat opts)"
      by (metis unsigned_take_bit_eq)
    then have "unat opts < 2 ^ 9"
      by (metis take_bit_nat_less_exp)
    then show "opts < 512"
      by (simp add: word_less_nat_alt)
  next
    assume "opts < 512"
    then show "is_stats_print_opts_valid opts"
      unfolding opts_valid_iff using bit_below [of opts 9] by (simp add: word_less_nat_alt)
  qed
  have "length (filter (bit opts) [0..<9]) \<le> length [0..<9]"
    by (rule length_filter_le)
  then show "length (stats_print_chars opts) + 1 \<le> 12"
    by (simp add: stats_print_chars_bits del: upt_Suc)
  assume "is_stats_print_opts_valid opts \<and> is_stats_print_opts_valid opts' \<and>
     stats_print_chars opts = stats_print_chars opts'"
  then show "opts = opts'"
    using stats_print_chars_set by (metis opts_valid_iff bit_word_eqI)
qed

theorem stats_print_options_witness:
  "is_stats_print_opts_valid 257 \<and> stats_print_chars 257 = ''Je'' \<and> \<not> is_stats_print_opts_valid 512"
proof -
  have "stats_print_chars 257 = ''Je''"
    by code_simp
  then show ?thesis
    using stats_print_options [of 257 257] stats_print_options [of 512 512] by simp
qed

end
