(* ===== verification/Tbb.thy ===== *)
theory Tbb
  imports Extent Arena_Stats
begin

text \<open>
  The operations of a kind whose heap is managed by TBB (\<^verbatim>\<open>src/tbb_wrapper.c\<close>) and the functions that
  choose between the heap managers (\<^verbatim>\<open>src/heap_manager.c\<close>). The pool functions of TBB are parameters.
\<close>

section \<open>Pools\<close>

definition memkind_kind_by_priv :: "ptr \<Rightarrow> 'w mk \<Rightarrow> memkind_t option" where
  "memkind_kind_by_priv wanted_priv s =
    (case find (\<lambda>slot. case slot of None \<Rightarrow> False | Some k \<Rightarrow> priv_addr (k_priv (kinds s k)) = wanted_priv)
        (partition_map s) of
       Some slot \<Rightarrow> slot
     | None \<Rightarrow> None)"

definition raw_alloc :: "'w sys \<Rightarrow> memkind_t \<Rightarrow> u64 \<Rightarrow> 'w mk \<Rightarrow> (ptr \<times> 'w mk) option" where
  "raw_alloc sy pool_id bytes s =
    do {
      (p, s) \<leftarrow> kind_mmap sy pool_id NULL bytes s;
      Some (if p = MAP_FAILED then NULL else p, s)
    }"

definition raw_free :: "'w sys \<Rightarrow> ptr \<Rightarrow> u64 \<Rightarrow> 'w mk \<Rightarrow> int \<times> 'w mk" where
  "raw_free sy raw_ptr raw_bytes s = do_munmap sy raw_ptr raw_bytes s"

definition pool_of :: "memkind_t \<Rightarrow> 'w mk \<Rightarrow> ptr" where
  "pool_of k s = priv_addr (k_priv (kinds s k))"

definition enomem_if_null :: "ptr \<Rightarrow> 'w mk \<Rightarrow> 'w mk" where
  "enomem_if_null p s = (if p = NULL then s\<lparr>errno := ENOMEM\<rparr> else s)"

definition tbb_pool_malloc :: "'w sys \<Rightarrow> memkind_t \<Rightarrow> u64 \<Rightarrow> 'w mk \<Rightarrow> ptr \<times> 'w mk" where
  "tbb_pool_malloc sy k sz s =
    (if size_out_of_bounds sz then (NULL, s)
     else
       (let (result, s) = pool_malloc sy (pool_of k s) sz s
        in (result, enomem_if_null result s)))"

definition tbb_pool_calloc :: "'w sys \<Rightarrow> memkind_t \<Rightarrow> u64 \<Rightarrow> u64 \<Rightarrow> 'w mk \<Rightarrow> ptr \<times> 'w mk" where
  "tbb_pool_calloc sy k num sz s =
    (if size_out_of_bounds num \<or> size_out_of_bounds sz then (NULL, s)
     else
       (let array_size = num * sz
        in if array_size div num \<noteq> sz then (NULL, s\<lparr>errno := ENOMEM\<rparr>)
           else
             (let (result, s) = pool_malloc sy (pool_of k s) array_size s
              in if result \<noteq> NULL then (result, s\<lparr>world := memset_zero sy result array_size (world s)\<rparr>)
                 else (result, s\<lparr>errno := ENOMEM\<rparr>))))"

definition tbb_pool_common_realloc :: "'w sys \<Rightarrow> ptr \<Rightarrow> ptr \<Rightarrow> u64 \<Rightarrow> 'w mk \<Rightarrow> ptr \<times> 'w mk" where
  "tbb_pool_common_realloc sy pool p sz s =
    (if size_out_of_bounds sz then (NULL, pool_free sy pool p s)
     else
       (let (result, s) = pool_realloc sy pool p sz s
        in (result, enomem_if_null result s)))"

definition tbb_pool_realloc :: "'w sys \<Rightarrow> memkind_t \<Rightarrow> ptr \<Rightarrow> u64 \<Rightarrow> 'w mk \<Rightarrow> ptr \<times> 'w mk" where
  "tbb_pool_realloc sy k p sz s = tbb_pool_common_realloc sy (pool_of k s) p sz s"

definition tbb_pool_realloc_with_kind_detect :: "'w sys \<Rightarrow> ptr \<Rightarrow> u64 \<Rightarrow> 'w mk \<Rightarrow> ptr \<times> 'w mk" where
  "tbb_pool_realloc_with_kind_detect sy p sz s =
    (if p = NULL then (NULL, s\<lparr>errno := EINVAL\<rparr>)
     else tbb_pool_common_realloc sy (pool_identify sy p s) p sz s)"

text \<open>What TBB does not support: the result, with the state as it is.\<close>

definition tbb_get_global_stat :: int where "tbb_get_global_stat = MEMKIND_ERROR_OPERATION_FAILED"
definition tbb_get_kind_stat :: int where "tbb_get_kind_stat = MEMKIND_ERROR_OPERATION_FAILED"
definition tbb_update_cached_stats :: int where "tbb_update_cached_stats = MEMKIND_ERROR_OPERATION_FAILED"
definition tbb_stats_print :: int where "tbb_stats_print = MEMKIND_ERROR_OPERATION_FAILED"
definition tbb_set_bg_threads :: int where "tbb_set_bg_threads = MEMKIND_ERROR_OPERATION_FAILED"
definition tbb_update_memory_usage_policy :: int where "tbb_update_memory_usage_policy = MEMKIND_SUCCESS"
definition tbb_defrag_reallocate :: ptr where "tbb_defrag_reallocate = NULL"
definition tbb_pool_defrag_reallocate_with_kind_detect :: ptr where
  "tbb_pool_defrag_reallocate_with_kind_detect = NULL"

text \<open>The argument of the lookup is the function pointer \<^verbatim>\<open>pool_identify\<close>, not the result of a call.\<close>

definition tbb_detect_kind :: "'w sys \<Rightarrow> ptr \<Rightarrow> 'w mk \<Rightarrow> memkind_t option" where
  "tbb_detect_kind sy p s = (if p = NULL then None else memkind_kind_by_priv (pool_identify_addr sy) s)"

definition tbb_pool_posix_memalign ::
  "'w sys \<Rightarrow> memkind_t \<Rightarrow> ptr \<Rightarrow> u64 \<Rightarrow> u64 \<Rightarrow> 'w mk \<Rightarrow> (int \<times> ptr) \<times> 'w mk" where
  "tbb_pool_posix_memalign sy k memptr alignment sz s =
    (if alignment = 0 \<and> 0 \<noteq> alignment AND (alignment - 8) then ((EINVAL, memptr), s)
     else if alignment AND (alignment - 1) \<noteq> 0 then ((EINVAL, memptr), s)
     else if size_out_of_bounds sz then ((0, NULL), s)
     else
       (let (result, s) = pool_aligned_malloc sy (pool_of k s) sz alignment s
        in if result = NULL then ((ENOMEM, memptr), s) else ((0, result), s)))"

definition tbb_pool_free_with_kind_detect :: "'w sys \<Rightarrow> ptr \<Rightarrow> 'w mk \<Rightarrow> 'w mk" where
  "tbb_pool_free_with_kind_detect sy p s = (if p \<noteq> NULL then pool_free sy (pool_identify sy p s) p s else s)"

definition tbb_pool_free :: "'w sys \<Rightarrow> memkind_t \<Rightarrow> ptr \<Rightarrow> 'w mk \<Rightarrow> 'w mk" where
  "tbb_pool_free sy k p s = pool_free sy (pool_of k s) p s"

definition tbb_pool_common_malloc_usable_size :: "'w sys \<Rightarrow> ptr \<Rightarrow> ptr \<Rightarrow> 'w mk \<Rightarrow> u64" where
  "tbb_pool_common_malloc_usable_size sy pool p s = (if tbb_has_msize sy then pool_msize sy pool p s else 0)"

definition tbb_pool_malloc_usable_size :: "'w sys \<Rightarrow> memkind_t \<Rightarrow> ptr \<Rightarrow> 'w mk \<Rightarrow> u64" where
  "tbb_pool_malloc_usable_size sy k p s = tbb_pool_common_malloc_usable_size sy (pool_of k s) p s"

definition tbb_pool_malloc_usable_size_with_kind_detect :: "'w sys \<Rightarrow> ptr \<Rightarrow> 'w mk \<Rightarrow> u64" where
  "tbb_pool_malloc_usable_size_with_kind_detect sy p s =
    (if p \<noteq> NULL then tbb_pool_common_malloc_usable_size sy (pool_identify sy p s) p s else 0)"

definition tbb_destroy :: "'w sys \<Rightarrow> memkind_t \<Rightarrow> 'w mk \<Rightarrow> int \<times> 'w mk" where
  "tbb_destroy sy k s =
    (let (ok, s) = pool_destroy sy (pool_of k s) s
     in (if ok then MEMKIND_SUCCESS else MEMKIND_ERROR_OPERATION_FAILED, s))"

section \<open>The heap manager\<close>

definition heap_manager_malloc_usable_size :: "'w sys \<Rightarrow> ptr \<Rightarrow> 'w mk \<Rightarrow> u64 \<times> 'w mk" where
  "heap_manager_malloc_usable_size sy p s =
    (let (m, s) = get_heap_manager sy s
     in case m of
          Arena_heap_manager \<Rightarrow> (je_malloc_usable_size sy p s, s)
        | Tbb_heap_manager \<Rightarrow> (tbb_pool_malloc_usable_size_with_kind_detect sy p s, s))"

definition heap_manager_free :: "'w sys \<Rightarrow> ptr \<Rightarrow> 'w mk \<Rightarrow> 'w mk option" where
  "heap_manager_free sy p s =
    (let (m, s) = get_heap_manager sy s
     in case m of
          Arena_heap_manager \<Rightarrow> memkind_arena_free_with_kind_detect sy p s
        | Tbb_heap_manager \<Rightarrow> Some (tbb_pool_free_with_kind_detect sy p s))"

definition heap_manager_realloc :: "'w sys \<Rightarrow> ptr \<Rightarrow> u64 \<Rightarrow> 'w mk \<Rightarrow> (ptr \<times> 'w mk) option" where
  "heap_manager_realloc sy p sz s =
    (let (m, s) = get_heap_manager sy s
     in case m of
          Arena_heap_manager \<Rightarrow> memkind_arena_realloc_with_kind_detect sy p sz s
        | Tbb_heap_manager \<Rightarrow> Some (tbb_pool_realloc_with_kind_detect sy p sz s))"

definition heap_manager_detect_kind :: "'w sys \<Rightarrow> ptr \<Rightarrow> 'w mk \<Rightarrow> (memkind_t option \<times> 'w mk) option" where
  "heap_manager_detect_kind sy p s =
    (let (m, s) = get_heap_manager sy s
     in case m of
          Arena_heap_manager \<Rightarrow> do { kind \<leftarrow> memkind_arena_detect_kind sy p s; Some (kind, s) }
        | Tbb_heap_manager \<Rightarrow> Some (tbb_detect_kind sy p s, s))"

definition heap_manager_update_cached_stats :: "'w sys \<Rightarrow> 'w mk \<Rightarrow> int \<times> 'w mk" where
  "heap_manager_update_cached_stats sy s =
    (let (m, s) = get_heap_manager sy s
     in case m of
          Arena_heap_manager \<Rightarrow> memkind_arena_update_cached_stats sy s
        | Tbb_heap_manager \<Rightarrow> (tbb_update_cached_stats, s))"

definition heap_manager_get_stat :: "'w sys \<Rightarrow> nat \<Rightarrow> u64 \<Rightarrow> 'w mk \<Rightarrow> ((int \<times> u64) \<times> 'w mk) option" where
  "heap_manager_get_stat sy stat value s =
    (let (m, s) = get_heap_manager sy s
     in case m of
          Arena_heap_manager \<Rightarrow> memkind_arena_get_global_stat sy stat s
        | Tbb_heap_manager \<Rightarrow> Some ((tbb_get_global_stat, value), s))"

definition memkind_arena_defrag_reallocate_with_kind_detect ::
  "'w sys \<Rightarrow> ptr \<Rightarrow> 'w mk \<Rightarrow> (ptr \<times> 'w mk) option" where
  "memkind_arena_defrag_reallocate_with_kind_detect sy p s =
    do {
      (kind, s) \<leftarrow> heap_manager_detect_kind sy p s;
      case kind of
        Some k \<Rightarrow> memkind_arena_defrag_reallocate sy k p s
      | None \<Rightarrow> if p = NULL then Some (NULL, s) else None
    }"

definition heap_manager_defrag_reallocate :: "'w sys \<Rightarrow> ptr \<Rightarrow> 'w mk \<Rightarrow> (ptr \<times> 'w mk) option" where
  "heap_manager_defrag_reallocate sy p s =
    (let (m, s) = get_heap_manager sy s
     in case m of
          Arena_heap_manager \<Rightarrow> memkind_arena_defrag_reallocate_with_kind_detect sy p s
        | Tbb_heap_manager \<Rightarrow> Some (tbb_pool_defrag_reallocate_with_kind_detect, s))"

definition heap_manager_set_bg_threads :: "'w sys \<Rightarrow> bool \<Rightarrow> 'w mk \<Rightarrow> int \<times> 'w mk" where
  "heap_manager_set_bg_threads sy state s =
    (let (m, s) = get_heap_manager sy s
     in case m of
          Arena_heap_manager \<Rightarrow> memkind_arena_set_bg_threads sy state s
        | Tbb_heap_manager \<Rightarrow> (tbb_set_bg_threads, s))"

definition heap_manager_stats_print :: "'w sys \<Rightarrow> u32 \<Rightarrow> 'w mk \<Rightarrow> int \<times> 'w mk" where
  "heap_manager_stats_print sy opts s =
    (let (m, s) = get_heap_manager sy s
     in case m of
          Arena_heap_manager \<Rightarrow> memkind_arena_stats_print sy opts s
        | Tbb_heap_manager \<Rightarrow> (tbb_stats_print, s))"

section \<open>Lemmas\<close>

text \<open>The division test for an overflow of a product.\<close>

lemma product_overflow_test:
  fixes num sz :: u64
  assumes "num \<noteq> 0"
  shows "num * sz div num = sz \<longleftrightarrow> unat num * unat sz < 2 ^ 64"
proof
  assume "unat num * unat sz < 2 ^ 64"
  then have "unat (num * sz) = unat num * unat sz"
    by (intro unat_mult_no_wrap) simp
  then show "num * sz div num = sz"
    using assms by (simp add: word_unat_eq_iff unat_div)
next
  assume "num * sz div num = sz"
  then have "unat (num * sz) div unat num = unat sz"
    by (simp add: flip: unat_div)
  then have "unat num * unat sz \<le> unat (num * sz)"
    by (metis div_times_less_eq_dividend mult.commute)
  then show "unat num * unat sz < 2 ^ 64"
    by (rule order.strict_trans1) simp
qed

section \<open>Properties\<close>

text \<open>
  \<^verbatim>\<open>tbb_pool_calloc\<close> detects every overflow of the number of elements times their size: such a request
  fails with \<open>ENOMEM\<close> without a call of the pool, and every other request asks the pool for exactly the
  product and clears the block it got.
\<close>

theorem tbb_calloc_checks_overflow:
  assumes "num \<noteq> 0" "sz \<noteq> 0"
  shows "(2 ^ 64 \<le> unat num * unat sz \<longrightarrow> tbb_pool_calloc sy k num sz s = (NULL, s\<lparr>errno := ENOMEM\<rparr>)) \<and>
    (unat num * unat sz < 2 ^ 64 \<and> pool_malloc sy (pool_of k s) (num * sz) s = (p, s1) \<longrightarrow>
      unat (num * sz) = unat num * unat sz \<and>
      tbb_pool_calloc sy k num sz s =
        (p, if p = NULL then s1\<lparr>errno := ENOMEM\<rparr> else s1\<lparr>world := memset_zero sy p (num * sz) (world s1)\<rparr>))"
proof -
  have "unat (num * sz) = unat num * unat sz" if "unat num * unat sz < 2 ^ 64"
    using that by (intro unat_mult_no_wrap) simp
  then show ?thesis
    using assms product_overflow_test [OF assms(1), of sz]
    by (auto simp: tbb_pool_calloc_def size_out_of_bounds_def Let_def)
qed

definition sample_pool :: "nat sys" where
  "sample_pool = sample_sys\<lparr>pool_malloc := (\<lambda>p n s. (0x5000, s)), pool_aligned_malloc := (\<lambda>p n a s. (0x5000, s)),
     pool_identify := (\<lambda>p s. 0x7000), pool_identify_addr := 0x401000\<rparr>"

theorem tbb_calloc_checks_overflow_witness:
  "tbb_pool_calloc sample_pool MEMKIND_DEFAULT 0x8000000000000001 2 (mk_init 0) =
    (NULL, (mk_init 0)\<lparr>errno := ENOMEM\<rparr>) \<and>
   fst (tbb_pool_calloc sample_pool MEMKIND_DEFAULT 16 4 (mk_init 0)) = 0x5000"
  using tbb_calloc_checks_overflow [of "0x8000000000000001" 2 sample_pool MEMKIND_DEFAULT "mk_init 0"]
    tbb_calloc_checks_overflow [of 16 4 sample_pool MEMKIND_DEFAULT "mk_init 0" "0x5000" "mk_init 0"]
  by (simp add: sample_pool_def)

text \<open>
  C35. \<^verbatim>\<open>tbb_pool_posix_memalign\<close> rejects an alignment with \<open>EINVAL\<close> only when it is neither 0 nor a power of
  two: the test for the size of a pointer can never be true, as it requires an alignment of 0 with a
  bit set. Alignments below 8, which the check of the other heap manager rejects, are accepted.
\<close>

theorem tbb_posix_memalign_alignments:
  "(fst (fst (tbb_pool_posix_memalign sy k m a n s)) = EINVAL \<longleftrightarrow> a \<noteq> 0 \<and> (\<forall>j < 64. a \<noteq> 2 ^ j)) \<and>
   (\<forall>b \<in> {0, 1, 2, 4}. memkind_posix_check_alignment b = EINVAL \<and>
      fst (fst (tbb_pool_posix_memalign sy k m b n s)) \<noteq> EINVAL)"
proof -
  have e: "fst (fst (tbb_pool_posix_memalign sy k m b n s)) = EINVAL \<longleftrightarrow> b AND (b - 1) \<noteq> 0" for b
    by (simp add: tbb_pool_posix_memalign_def Let_def split: prod.splits)
  then show ?thesis
    using and_minus_one_pow2 [of a]
    by (cases "a = 0") (auto simp: memkind_posix_check_alignment_def and.commute)
qed

theorem tbb_posix_memalign_alignments_witness:
  "memkind_posix_check_alignment 4 = EINVAL \<and>
   fst (fst (tbb_pool_posix_memalign sample_pool MEMKIND_DEFAULT NULL 4 64 (mk_init 0))) \<noteq> EINVAL"
  using tbb_posix_memalign_alignments [of sample_pool MEMKIND_DEFAULT NULL 8 64 "mk_init 0"] by simp

text \<open>
  C36. Under the TBB heap manager the kind of a pointer is never found. \<^verbatim>\<open>tbb_detect_kind\<close> looks for a kind
  whose private data is at the address of the function \<^verbatim>\<open>pool_identify\<close>; as the private data of a kind is
  a pool or a heap block and never at the address of a function, the result is \<open>NULL\<close> for every pointer, also for those
  whose pool belongs to a registered kind.
\<close>

theorem tbb_detect_kind_never_finds:
  assumes "\<forall>k \<in> set (partition_map s). \<forall>j. k = Some j \<longrightarrow> pool_of j s \<noteq> pool_identify_addr sy"
  shows "tbb_detect_kind sy p s = None"
proof -
  have "find (\<lambda>slot. case slot of None \<Rightarrow> False | Some k \<Rightarrow> priv_addr (k_priv (kinds s k)) = pool_identify_addr sy)
      (partition_map s) = None"
    using assms by (auto simp: find_None_iff pool_of_def split: option.splits)
  then show ?thesis
    by (simp add: tbb_detect_kind_def memkind_kind_by_priv_def)
qed

text \<open>A state in which the pool of the sample system belongs to a registered kind.\<close>

definition sample_pooled :: "nat mk" where
  "sample_pooled = upd_kind MEMKIND_HBW (\<lambda>kd. kd\<lparr>k_priv := Priv_tbb 0x7000\<rparr>) (mk_init 0)"

theorem tbb_detect_kind_never_finds_witness:
  "memkind_kind_by_priv (pool_identify sample_pool 0x5000 sample_pooled) sample_pooled = Some MEMKIND_HBW \<and>
   tbb_detect_kind sample_pool 0x5000 sample_pooled = None"
proof
  show "memkind_kind_by_priv (pool_identify sample_pool 0x5000 sample_pooled) sample_pooled = Some MEMKIND_HBW"
    by code_simp
  have "list_all (\<lambda>k. case k of None \<Rightarrow> True | Some j \<Rightarrow> pool_of j sample_pooled \<noteq> 0x401000)
      (partition_map sample_pooled)"
    by code_simp
  then show "tbb_detect_kind sample_pool 0x5000 sample_pooled = None"
    by (intro tbb_detect_kind_never_finds) (auto simp: list_all_iff sample_pool_def split: option.splits)
qed

end
