(* ===== verification/Registry.thy ===== *)
theory Registry
  imports Tbb
begin

text \<open>
  The registry of kinds (\<^verbatim>\<open>src/memkind.c\<close>): creation and destruction of dynamic kinds, the choice of a
  static kind by its properties, and what the library does when it is loaded and unloaded. The
  functions behind the pointers \<^verbatim>\<open>create\<close>, \<^verbatim>\<open>destroy\<close> and \<^verbatim>\<open>finalize\<close> of the operation tables are
  dispatched here.

  A dynamic kind is a block of jemalloc; using one that has been released is undefined. The lemmas
  show that the registry stays consistent, and where its bookkeeping fails.
\<close>

section \<open>Operation tables\<close>

definition call_create ::
  "'w sys \<Rightarrow> create_fn \<Rightarrow> memkind_t \<Rightarrow> memkind_ops \<Rightarrow> string \<Rightarrow> 'w mk \<Rightarrow> (int \<times> 'w mk) option" where
  "call_create sy f k ops name s =
    (case f of
       Memkind_default_create \<Rightarrow> Some (memkind_default_create k ops name s)
     | Memkind_arena_create \<Rightarrow> memkind_arena_create sy k ops name s
     | Memkind_pmem_create \<Rightarrow> memkind_pmem_create sy k ops name s
     | Memkind_fixed_create \<Rightarrow> memkind_fixed_create sy k ops name s)"

definition memkind_regular_finalize :: "'w sys \<Rightarrow> memkind_t \<Rightarrow> 'w mk \<Rightarrow> (int \<times> 'w mk) option" where
  "memkind_regular_finalize sy k s =
    do {
      p \<leftarrow> numa_bitmask_free (regular_nodes_mask (numa_g s));
      memkind_arena_finalize sy k (s\<lparr>numa_g := (numa_g s)\<lparr>regular_nodes_mask := p\<rparr>\<rparr>)
    }"

definition hi_cap_finalize ::
  "(hi_cap_globals \<Rightarrow> hi_cap_globals option) \<Rightarrow> 'w sys \<Rightarrow> memkind_t \<Rightarrow> 'w mk \<Rightarrow> (int \<times> 'w mk) option" where
  "hi_cap_finalize free_nodes sy k s =
    do {
      g \<leftarrow> free_nodes (hi_cap_g (numa_g s));
      memkind_arena_finalize sy k (s\<lparr>numa_g := (numa_g s)\<lparr>hi_cap_g := g\<rparr>\<rparr>)
    }"

definition loc_finalize ::
  "memory_attribute_t \<Rightarrow> memkind_node_variant_t \<Rightarrow> 'w sys \<Rightarrow> memkind_t \<Rightarrow> 'w mk \<Rightarrow> (int \<times> 'w mk) option" where
  "loc_finalize attr va sy k s =
    do {
      gs \<leftarrow> local_kind_finalize attr va (numa_g s);
      memkind_arena_finalize sy k (s\<lparr>numa_g := gs\<rparr>)
    }"

definition call_destroy :: "'w sys \<Rightarrow> destroy_fn \<Rightarrow> memkind_t \<Rightarrow> 'w mk \<Rightarrow> (int \<times> 'w mk) option" where
  "call_destroy sy f k s =
    (case f of
       Memkind_default_destroy \<Rightarrow> Some (memkind_default_destroy k s)
     | Memkind_pmem_destroy \<Rightarrow> memkind_pmem_destroy sy k s
     | Memkind_fixed_destroy \<Rightarrow> memkind_fixed_destroy sy k s
     | Memkind_arena_finalize \<Rightarrow> memkind_arena_finalize sy k s
     | Memkind_regular_finalize \<Rightarrow> memkind_regular_finalize sy k s
     | Memkind_hi_cap_finalize \<Rightarrow> hi_cap_finalize hi_cap_finalize_nodes sy k s
     | Memkind_hi_cap_preferred_finalize \<Rightarrow> hi_cap_finalize hi_cap_preferred_finalize_nodes sy k s
     | Memkind_hi_cap_loc_finalize \<Rightarrow> loc_finalize MEM_ATTR_CAPACITY NODE_VARIANT_MULTIPLE sy k s
     | Memkind_hi_cap_loc_preferred_finalize \<Rightarrow> loc_finalize MEM_ATTR_CAPACITY NODE_VARIANT_SINGLE sy k s
     | Memkind_low_lat_loc_finalize \<Rightarrow> loc_finalize MEM_ATTR_LATENCY NODE_VARIANT_MULTIPLE sy k s
     | Memkind_low_lat_loc_preferred_finalize \<Rightarrow> loc_finalize MEM_ATTR_LATENCY NODE_VARIANT_SINGLE sy k s
     | Memkind_hi_bw_loc_finalize \<Rightarrow> loc_finalize MEM_ATTR_BANDWIDTH NODE_VARIANT_MULTIPLE sy k s
     | Memkind_hi_bw_loc_preferred_finalize \<Rightarrow> loc_finalize MEM_ATTR_BANDWIDTH NODE_VARIANT_SINGLE sy k s
     | Tbb_destroy \<Rightarrow> Some (tbb_destroy sy k s))"

section \<open>Creation\<close>

text \<open>
  The search for a slot: the name is compared with the names in the slots before the first free one.
  The result is the slot, or \<open>Inl\<close> when the name exists; without a free slot it is slot 0.
\<close>

fun find_slot :: "'w mk \<Rightarrow> string \<Rightarrow> nat \<Rightarrow> memkind_t option list \<Rightarrow> (unit + nat) option" where
  "find_slot s name i [] = Some (Inr 0)"
| "find_slot s name i (None # slots) = Some (Inr i)"
| "find_slot s name i (Some k # slots) =
    (if \<not> kind_live s k then None
     else if name = k_name (kinds s k) then Some (Inl ())
     else find_slot s name (Suc i) slots)"

abbreviation (input) sizeof_memkind :: u64 where "sizeof_memkind \<equiv> 128"

definition poorly_formed :: "memkind_ops \<Rightarrow> bool" where
  "poorly_formed ops \<longleftrightarrow>
    o_create ops = None \<or> o_destroy ops = None \<or> o_malloc ops = None \<or> o_calloc ops = None \<or>
    o_realloc ops = None \<or> o_posix_memalign ops = None \<or> o_free ops = None \<or> o_init_once ops \<noteq> None"

definition new_kind :: "memkind_t \<Rightarrow> 'w mk \<Rightarrow> 'w mk" where
  "new_kind k s =
    s\<lparr>kinds := (kinds s)(k := blank_kind\<lparr>k_partition := of_int (num_kind s)\<rparr>),
      kind_live := (kind_live s)(k := True)\<rparr>"

text \<open>\<^verbatim>\<open>jemk_free(kind)\<close>: only a live dynamic kind is a block of the allocator.\<close>

definition free_kind :: "'w sys \<Rightarrow> memkind_t \<Rightarrow> 'w mk \<Rightarrow> 'w mk option" where
  "free_kind sy k s =
    (case k of
       Dynamic p \<Rightarrow> if kind_live s k then Some (je_free sy p (s\<lparr>kind_live := (kind_live s)(k := False)\<rparr>)) else None
     | _ \<Rightarrow> None)"

definition memkind_create ::
  "'w sys \<Rightarrow> memkind_ops \<Rightarrow> string \<Rightarrow> 'w mk \<Rightarrow> ((int \<times> memkind_t option) \<times> 'w mk) option" where
  "memkind_create sy ops name s =
    (if num_kind s = int MEMKIND_MAX_KIND then Some ((MEMKIND_ERROR_TOOMANY, None), s)
     else if poorly_formed ops then Some ((MEMKIND_ERROR_BADOPS, None), s)
     else do {
       slot \<leftarrow> find_slot s name 0 (partition_map s);
       case slot of
         Inl _ \<Rightarrow> Some ((MEMKIND_ERROR_INVALID, None), s)
       | Inr id_kind \<Rightarrow>
           (let (p, s) = je_calloc sy 1 sizeof_memkind s
            in if p = NULL then Some ((MEMKIND_ERROR_MALLOC, None), s)
               else do {
                 let k = Dynamic p;
                 let s = new_kind k s;
                 create \<leftarrow> o_create ops;
                 (err, s) \<leftarrow> call_create sy create k ops name s;
                 if err \<noteq> 0
                 then do {
                   s \<leftarrow> free_kind sy k s;
                   Some ((err, Some k), s)
                 }
                 else
                   Some ((0, Some k),
                     upd_kind k (\<lambda>kd. kd\<lparr>k_init_once := True\<rparr>)
                       (s\<lparr>partition_map := (partition_map s)[id_kind := Some k], num_kind := num_kind s + 1\<rparr>))
               })
     })"

definition memkind_create_kind ::
  "'w sys \<Rightarrow> u32 \<Rightarrow> nat \<Rightarrow> u32 \<Rightarrow> bool \<Rightarrow> 'w mk \<Rightarrow> ((int \<times> memkind_t option) \<times> 'w mk) option" where
  "memkind_create_kind sy memtype_flags policy flags kind_null s =
    (if validate_memtype_bits memtype_flags \<noteq> 0 then Some ((MEMKIND_ERROR_INVALID, None), s)
     else if validate_flags_bits flags \<noteq> 0 then Some ((MEMKIND_ERROR_INVALID, None), s)
     else if validate_policy policy \<noteq> 0 then Some ((MEMKIND_ERROR_INVALID, None), s)
     else if kind_null then Some ((MEMKIND_ERROR_INVALID, None), s)
     else
       (case find (\<lambda>a. ca_memtype_flags a = memtype_flags \<and> ca_policy a = policy \<and> ca_flags a = flags)
              supported_args of
          None \<Rightarrow> Some ((MEMKIND_ERROR_INVALID, None), s)
        | Some a \<Rightarrow>
            do {
              (err, s) \<leftarrow> memkind_check_available sy (ca_kind a) s;
              Some (if err = 0 then ((MEMKIND_SUCCESS, Some (ca_kind a)), s)
                    else if policy = MEMKIND_POLICY_PREFERRED_LOCAL
                    then ((MEMKIND_SUCCESS, Some MEMKIND_DEFAULT), s)
                    else ((MEMKIND_ERROR_MEMTYPE_NOT_AVAILABLE, None), s))
            }))"

section \<open>Destruction\<close>

definition memkind_destroy_dynamic_kind_from_register ::
  "'w sys \<Rightarrow> nat \<Rightarrow> memkind_t \<Rightarrow> 'w mk \<Rightarrow> 'w mk option" where
  "memkind_destroy_dynamic_kind_from_register sy i k s =
    (if i \<ge> MEMKIND_NUM_STATIC_KINDS
     then free_kind sy k (s\<lparr>partition_map := (partition_map s)[i := None], num_kind := num_kind s - 1\<rparr>)
     else Some s)"

text \<open>The loop over the dynamic slots, from slot \<open>i\<close> on.\<close>

fun destroy_by_name :: "'w sys \<Rightarrow> memkind_t \<Rightarrow> nat \<Rightarrow> memkind_t option list \<Rightarrow> 'w mk \<Rightarrow> 'w mk option" where
  "destroy_by_name sy k i [] s = Some s"
| "destroy_by_name sy k i (None # slots) s = destroy_by_name sy k (Suc i) slots s"
| "destroy_by_name sy k i (Some j # slots) s =
    (if \<not> kind_live s j then None
     else if k_name (kinds s k) = k_name (kinds s j) then memkind_destroy_dynamic_kind_from_register sy i k s
     else destroy_by_name sy k (Suc i) slots s)"

definition memkind_destroy_kind :: "'w sys \<Rightarrow> memkind_t \<Rightarrow> 'w mk \<Rightarrow> (int \<times> 'w mk) option" where
  "memkind_destroy_kind sy k s =
    (if \<not> kind_live s k then None
     else do {
       destroy \<leftarrow> o_destroy (k_ops (kinds s k));
       (err, s) \<leftarrow> call_destroy sy destroy k s;
       s \<leftarrow> destroy_by_name sy k MEMKIND_NUM_STATIC_KINDS
             (drop MEMKIND_NUM_STATIC_KINDS (partition_map s)) s;
       Some (err, s)
     })"

fun finalize_slots :: "'w sys \<Rightarrow> nat \<Rightarrow> nat \<Rightarrow> 'w mk \<Rightarrow> (int \<times> 'w mk) option" where
  "finalize_slots sy i 0 s = Some (MEMKIND_SUCCESS, s)"
| "finalize_slots sy i (Suc n) s =
    (case partition_map s ! i of
       None \<Rightarrow> finalize_slots sy (Suc i) n s
     | Some k \<Rightarrow>
         if \<not> kind_live s k then None
         else
           (case o_finalize (k_ops (kinds s k)) of
              None \<Rightarrow> finalize_slots sy (Suc i) n s
            | Some f \<Rightarrow>
                do {
                  (err, s) \<leftarrow> call_destroy sy f k s;
                  if err \<noteq> 0 then Some (err, s)
                  else do {
                    s \<leftarrow> memkind_destroy_dynamic_kind_from_register sy i k s;
                    finalize_slots sy (Suc i) n s
                  }
                }))"

definition memkind_finalize :: "'w sys \<Rightarrow> 'w mk \<Rightarrow> (int \<times> 'w mk) option" where
  "memkind_finalize sy s =
    do {
      (err, s) \<leftarrow> finalize_slots sy 0 MEMKIND_MAX_KIND s;
      if err = 0 \<and> num_kind s \<noteq> int MEMKIND_NUM_STATIC_KINDS then None else Some (err, s)
    }"

section \<open>Loading the library\<close>

definition memkind_use_other_heap_manager :: "'w sys \<Rightarrow> 'w mk \<Rightarrow> (bool \<times> 'w mk) option" where
  "memkind_use_other_heap_manager sy s =
    (if memkind_get_env sy ''MEMKIND_HEAP_MANAGER'' = Some ''TBB''
     then do { s \<leftarrow> load_tbb_symbols sy s; Some (True, s) }
     else Some (False, s))"

fun set_partitions :: "nat \<Rightarrow> memkind_t option list \<Rightarrow> 'w mk \<Rightarrow> 'w mk option" where
  "set_partitions i [] s = Some s"
| "set_partitions i (None # slots) s = None"
| "set_partitions i (Some k # slots) s =
    set_partitions (Suc i) slots (upd_kind k (\<lambda>kd. kd\<lparr>k_partition := of_nat i\<rparr>) s)"

text \<open>\<open>None\<close> is the call of \<^verbatim>\<open>abort\<close> for a value that is no 32-bit number.\<close>

definition set_thread_limit :: "'w sys \<Rightarrow> 'w mk \<Rightarrow> 'w mk option" where
  "set_thread_limit sy s =
    (case memkind_get_env sy ''MEMKIND_BACKGROUND_THREAD_LIMIT'' of
       None \<Rightarrow> Some s
     | Some env \<Rightarrow>
         (let (thread_limit, rest, range_error) = strtoul env
          in if thread_limit > 0xffffffff \<or> rest \<noteq> [] \<or> range_error then None
             else Some (snd (memkind_arena_set_max_bg_threads sy thread_limit (s\<lparr>errno := 0\<rparr>)))))"

definition memkind_construct :: "'w sys \<Rightarrow> 'w mk \<Rightarrow> 'w mk option" where
  "memkind_construct sy s =
    (if partition_map s ! (MEMKIND_NUM_STATIC_KINDS - 1) = None \<or>
        partition_map s ! MEMKIND_NUM_STATIC_KINDS \<noteq> None then None
     else do {
       s \<leftarrow> set_partitions 0 (take MEMKIND_NUM_STATIC_KINDS (partition_map s)) s;
       (other, s) \<leftarrow> memkind_use_other_heap_manager sy s;
       s \<leftarrow> (if other then Some s else set_thread_limit sy s);
       Some (memkind_set_hog_memory (memkind_get_env sy ''MEMKIND_HOG_MEMORY'') s)
     })"

section \<open>What the calls leave alone\<close>

text \<open>
  The registry and what it says of the kinds. The set \<open>A\<close> holds the kinds under construction, whose
  names and tables may change.
\<close>

definition reg_frame :: "memkind_t set \<Rightarrow> 'w mk \<Rightarrow> 'w mk \<Rightarrow> bool" where
  "reg_frame A s s' \<longleftrightarrow>
    kind_live s' = kind_live s \<and> partition_map s' = partition_map s \<and> num_kind s' = num_kind s \<and>
    (\<forall>k. k_partition (kinds s' k) = k_partition (kinds s k)) \<and>
    (\<forall>k. k \<notin> A \<longrightarrow> k_name (kinds s' k) = k_name (kinds s k) \<and> k_ops (kinds s' k) = k_ops (kinds s k))"

lemma reg_frame_refl [simp]: "reg_frame A s s"
  by (simp add: reg_frame_def)

lemma reg_frame_trans [trans]: "reg_frame A s s' \<Longrightarrow> reg_frame A s' s'' \<Longrightarrow> reg_frame A s s''"
  by (simp add: reg_frame_def)

lemma reg_frame_mono: "reg_frame {} s s' \<Longrightarrow> reg_frame A s s'"
  by (simp add: reg_frame_def)

lemma reg_frame_upd [simp]:
  "reg_frame A s (s\<lparr>world := w\<rparr>)" "reg_frame A s (s\<lparr>errno := e\<rparr>)" "reg_frame A s (s\<lparr>numa_g := g\<rparr>)"
  "reg_frame A s (s\<lparr>tier_counters := c\<rparr>)" "reg_frame A s (s\<lparr>arena_registry_g := r\<rparr>)"
  "reg_frame A s (s\<lparr>arena_init_status := i, arena_config_once := b\<rparr>)"
  by (simp_all add: reg_frame_def)

lemma reg_frame_upd_kind:
  assumes "\<And>kd. k_partition (f kd) = k_partition kd \<and> k_name (f kd) = k_name kd \<and> k_ops (f kd) = k_ops kd"
  shows "reg_frame A s (upd_kind k f s)"
  using assms by (simp add: reg_frame_def)

text \<open>
  jemalloc does not touch the registry or the descriptions of kinds, also not through the extent hooks
  it calls, which change private data only; and it hands out only blocks that are not in use.
\<close>

definition jemalloc_keeps_registry :: "'w sys \<Rightarrow> bool" where
  "jemalloc_keeps_registry sy \<longleftrightarrow>
    (\<forall>n s. reg_frame {} s (snd (je_malloc sy n s))) \<and>
    (\<forall>m n s. reg_frame {} s (snd (je_calloc sy m n s))) \<and>
    (\<forall>p s. reg_frame {} s (je_free sy p s)) \<and>
    (\<forall>cmd arg s. reg_frame {} s (snd (je_mallctl sy cmd arg s)))"

definition blocks_are_fresh :: "'w sys \<Rightarrow> bool" where
  "blocks_are_fresh sy \<longleftrightarrow>
    (\<forall>m n s p s'. je_calloc sy m n s = (p, s') \<and> p \<noteq> NULL \<longrightarrow> \<not> kind_live s (Dynamic p))"

lemma jemalloc_frames:
  assumes "jemalloc_keeps_registry sy"
  shows "je_malloc sy n s = (p, s') \<Longrightarrow> reg_frame A s s'"
    and "je_calloc sy m n s = (p, s') \<Longrightarrow> reg_frame A s s'"
    and "reg_frame A s (je_free sy p s)"
    and "je_mallctl sy cmd arg s = (r, s') \<Longrightarrow> reg_frame A s s'"
  using assms unfolding jemalloc_keeps_registry_def by (metis reg_frame_mono snd_conv)+

lemmas frame_malloc = jemalloc_frames(1) and frame_calloc = jemalloc_frames(2)
  and frame_free = jemalloc_frames(3) and frame_mallctl = jemalloc_frames(4)

text \<open>Creating and destroying arenas changes the table of arenas and numbers of the kind.\<close>

lemma frame_create_arena:
  assumes "jemalloc_keeps_registry sy" "create_arena sy hooks muh s = (r, s')"
  shows "reg_frame A s s'"
proof (cases muh)
  case True
  obtain r1 s1 where c: "je_mallctl sy ''arenas.create'' Ctl_none s = (r1, s1)"
    by fastforce
  note f1 = frame_mallctl [OF assms(1) c, of A]
  obtain r2 s2 where h: "je_mallctl sy (arena_cmd (ucast (snd r1)) ''.extent_hooks'') (Ctl_hooks hooks) s1 = (r2, s2)"
    by fastforce
  note f2 = frame_mallctl [OF assms(1) h, of A]
  have "s' = s1 \<or> s' = s2"
    using assms(2) c h True by (auto simp: create_arena_def Let_def split: prod.splits if_splits)
  then show ?thesis
    using f1 reg_frame_trans [OF f1 f2] by blast
next
  case False
  obtain r1 s1 where c: "je_mallctl sy ''experimental.arenas_create_ext'' (Ctl_config hooks muh) s = (r1, s1)"
    by fastforce
  then have "s' = s1"
    using assms(2) False by (auto simp: create_arena_def Let_def split: prod.splits if_splits)
  then show ?thesis
    using frame_mallctl [OF assms(1) c] by simp
qed

lemma frame_register_arena:
  "register_arena k i s = Some s' \<Longrightarrow> reg_frame A s s'"
  by (auto simp: register_arena_def reg_frame_def split: if_splits)

lemma frame_create_arenas:
  assumes "jemalloc_keeps_registry sy" "create_arenas sy k hooks muh n s = Some (err, s')"
  shows "reg_frame A s s'"
  using assms(2)
proof (induction n arbitrary: s)
  case 0
  then show ?case
    by simp
next
  case (Suc n)
  obtain e i s1 where c: "create_arena sy hooks muh s = ((e, i), s1)"
    by (metis surj_pair)
  note f1 = frame_create_arena [OF assms(1) c, of A]
  show ?case
  proof (cases "e = 0")
    case True
    then obtain s2 where "register_arena k i s1 = Some s2" "create_arenas sy k hooks muh n s2 = Some (err, s')"
      using Suc.prems c by (auto simp: Option.bind_eq_Some_conv)
    then show ?thesis
      using Suc.IH f1 frame_register_arena reg_frame_trans by blast
  next
    case False
    then show ?thesis
      using Suc.prems c f1 by simp
  qed
qed

lemma frame_create_map:
  assumes "jemalloc_keeps_registry sy" "memkind_arena_create_map sy k hooks muh s = Some (err, s')"
  shows "reg_frame A s s'"
proof -
  define s1 where "s1 = arena_config_init sy s"
  have f1: "reg_frame A s s1"
    by (simp add: s1_def arena_config_init_def)
  obtain e s2 where m: "memkind_set_arena_map_len sy k s1 = (e, s2)"
    by fastforce
  then have f2: "reg_frame A s1 s2"
    by (auto simp: memkind_set_arena_map_len_def Let_def reg_frame_def
        split: if_splits option.splits get_arena_fn.splits)
  let ?s3 = "upd_kind k (\<lambda>kd. kd\<lparr>k_arena_zero := UINT_MAX\<rparr>) s2"
  have f3: "reg_frame A s2 ?s3"
    by (rule reg_frame_upd_kind) simp
  consider "s' = s1" | "s' = s2"
    | "create_arenas sy k hooks muh (unat (k_arena_map_len (kinds ?s3 k))) ?s3 = Some (err, s')"
    using assms(2) m unfolding memkind_arena_create_map_def Let_def s1_def [symmetric]
    by (auto split: if_splits)
  then show ?thesis
  proof cases
    case 3
    show ?thesis
      by (rule reg_frame_trans [OF reg_frame_trans [OF reg_frame_trans [OF f1 f2] f3]
          frame_create_arenas [OF assms(1) 3]])
  qed (use f1 reg_frame_trans [OF f1 f2] in simp_all)
qed

lemma frame_destroy_arenas:
  assumes "jemalloc_keeps_registry sy" "destroy_arenas sy i n s = Some s'"
  shows "reg_frame A s s'"
  using assms(2)
proof (induction n arbitrary: i s)
  case 0
  then show ?case
    by simp
next
  case (Suc n)
  obtain r s1 where m: "je_mallctl sy (arena_cmd i ''.destroy'') Ctl_none s = (r, s1)"
    by fastforce
  have "destroy_arenas sy (i + 1) n (s1\<lparr>arena_registry_g := (arena_registry_g s1)(i := None)\<rparr>) = Some s'"
    using Suc.prems m by (auto split: if_splits)
  from Suc.IH [OF this] show ?case
    using frame_mallctl [OF assms(1) m, of A] by (simp add: reg_frame_def)
qed

lemma frame_arena_destroy:
  assumes "jemalloc_keeps_registry sy" "memkind_arena_destroy sy k s = Some (err, s')"
  shows "reg_frame A s s'"
  using assms(2) frame_destroy_arenas [OF assms(1)]
  by (auto simp: memkind_arena_destroy_def Option.bind_eq_Some_conv split: if_splits)

lemma frame_default_create:
  "memkind_default_create k ops name s = (err, s') \<Longrightarrow> reg_frame {k} s s'"
  by (auto simp: memkind_default_create_def Let_def reg_frame_def split: if_splits)

text \<open>The creation functions of the two tables that \<^verbatim>\<open>memkind_create\<close> is used with.\<close>

definition dynamic_ops :: "memkind_ops set" where
  "dynamic_ops = {MEMKIND_PMEM_OPS, MEMKIND_FIXED_OPS}"

text \<open>Both have the same shape: a block, the name, the arenas and the pointer to the block.\<close>

lemma frame_create_body:
  assumes "jemalloc_keeps_registry sy"
    and "(let (priv, s) = je_malloc sy sz s
     in if priv = NULL then Some (MEMKIND_ERROR_MALLOC, s)
        else
          (let (r, s) = on_world (pthread_mutex_init sy) s
           in if r \<noteq> 0 then Some (MEMKIND_ERROR_RUNTIME, je_free sy priv s)
              else
                (let (err, s) = memkind_default_create k ops name s
                 in if err \<noteq> 0 then Some (err, je_free sy priv s)
                    else do {
                      (err, s) \<leftarrow> memkind_arena_create_map sy k (hooks s) False s;
                      if err \<noteq> 0 then Some (err, je_free sy priv s)
                      else Some (0, upd_kind k (\<lambda>kd. kd\<lparr>k_priv := pr priv\<rparr>) s)
                    }))) = Some (err, s')"
  shows "reg_frame {k} s s' \<and>
    (err = 0 \<longrightarrow> length name < MEMKIND_NAME_LENGTH_PRIV \<and> k_name (kinds s' k) = name \<and> k_ops (kinds s' k) = ops)"
proof -
  obtain priv s1 where m: "je_malloc sy sz s = (priv, s1)"
    by fastforce
  obtain r s2 where i: "on_world (pthread_mutex_init sy) s1 = (r, s2)"
    by fastforce
  obtain e s3 where d: "memkind_default_create k ops name s2 = (e, s3)"
    by fastforce
  have "reg_frame {k} s1 s2"
    using i by (auto simp: on_world_eq)
  then have f2: "reg_frame {k} s s2"
    by (rule reg_frame_trans [OF frame_malloc [OF assms(1) m]])
  note f3 = reg_frame_trans [OF f2 frame_default_create [OF d]]
  have nm: "length name < 64 \<and> k_name (kinds s3 k) = name \<and> k_ops (kinds s3 k) = ops" if "e = 0"
    using d that by (auto simp: memkind_default_create_def Let_def split: if_splits)
  note free = frame_free [OF assms(1), of "{k}"]
  consider "s' = s1" "err \<noteq> 0" | "s' = je_free sy priv s2" "err \<noteq> 0"
    | "s' = je_free sy priv s3" "err \<noteq> 0"
    | e4 s4 where "memkind_arena_create_map sy k (hooks s3) False s3 = Some (e4, s4)" "e = 0"
      "s' = je_free sy priv s4 \<and> err \<noteq> 0 \<or> s' = upd_kind k (\<lambda>kd. kd\<lparr>k_priv := pr priv\<rparr>) s4 \<and> err = 0"
    using assms(2) m i d by (auto simp: Option.bind_eq_Some_conv split: if_splits)
  then show ?thesis
  proof cases
    case 1
    then show ?thesis
      using frame_malloc [OF assms(1) m] by simp
  next
    case 2
    then show ?thesis
      using reg_frame_trans [OF f2 free] by simp
  next
    case 3
    then show ?thesis
      using reg_frame_trans [OF f3 free] by simp
  next
    case (4 e4 s4)
    note f4 = frame_create_map [OF assms(1) 4(1)]
    have "k_name (kinds s4 k) = name \<and> k_ops (kinds s4 k) = ops"
      using f4 [of "{}"] nm [OF 4(2)] by (simp add: reg_frame_def)
    then show ?thesis
      using 4(3) nm [OF 4(2)] reg_frame_trans [OF reg_frame_trans [OF f3 f4] free]
        reg_frame_trans [OF f3 f4]
      by (auto simp: reg_frame_def)
  qed
qed

lemma frame_call_create:
  assumes "jemalloc_keeps_registry sy" "ops \<in> dynamic_ops" "o_create ops = Some f"
    and "call_create sy f k ops name s = Some (err, s')"
  shows "reg_frame {k} s s' \<and>
    (err = 0 \<longrightarrow> length name < MEMKIND_NAME_LENGTH_PRIV \<and> k_name (kinds s' k) = name \<and> k_ops (kinds s' k) = ops)"
proof -
  have "f = Memkind_pmem_create \<or> f = Memkind_fixed_create"
    using assms(2,3) by (auto simp: dynamic_ops_def ops_defs)
  then show ?thesis
  proof
    assume f: "f = Memkind_pmem_create"
    show ?thesis
      by (rule frame_create_body [OF assms(1), where ops = ops and pr = "\<lambda>p. Priv_pmem p blank_pmem"
          and hooks = "\<lambda>s. if memkind_get_hog_memory s then pmem_extent_hooks_hog_memory else pmem_extent_hooks"])
        (rule assms(4) [unfolded f call_create_def, simplified, unfolded memkind_pmem_create_def])
  next
    assume f: "f = Memkind_fixed_create"
    show ?thesis
      by (rule frame_create_body [OF assms(1), where ops = ops and pr = "\<lambda>p. Priv_fixed p blank_fixed"
          and hooks = "\<lambda>s. fixed_extent_hooks"])
        (rule assms(4) [unfolded f call_create_def, simplified, unfolded memkind_fixed_create_def])
  qed
qed

lemma frame_call_destroy:
  assumes "jemalloc_keeps_registry sy" "ops \<in> dynamic_ops" "o_destroy ops = Some f"
    and "call_destroy sy f k s = Some (err, s')"
  shows "reg_frame A s s' \<and> err = 0"
proof -
  have f: "f = Memkind_pmem_destroy \<or> f = Memkind_fixed_destroy"
    using assms(2,3) by (auto simp: dynamic_ops_def ops_defs)
  then obtain e s1 where d: "memkind_arena_destroy sy k s = Some (e, s1)"
    using assms(4) by (auto simp: call_destroy_def memkind_pmem_destroy_def memkind_fixed_destroy_def Let_def
        Option.bind_eq_Some_conv)
  note f1 = frame_arena_destroy [OF assms(1) d]
  define s2 where "s2 = s1\<lparr>tier_counters := memtier_reset_size (unat (k_partition (kinds s1 k))) (tier_counters s1)\<rparr>"
  have f2: "reg_frame A s s2"
    unfolding s2_def by (rule reg_frame_trans [OF f1]) simp
  note free = frame_free [OF assms(1), of A]
  from f show ?thesis
  proof
    assume "f = Memkind_pmem_destroy"
    then obtain p q fd where s': "err = 0" "s' = je_free sy p (je_free sy q (s2\<lparr>world := sys_close sy fd (world s2)\<rparr>))"
      using assms(4) d unfolding s2_def
      by (auto simp: call_destroy_def memkind_pmem_destroy_def Let_def Option.bind_eq_Some_conv)
    have "reg_frame A s (s2\<lparr>world := sys_close sy fd (world s2)\<rparr>)"
      by (rule reg_frame_trans [OF f2]) simp
    then show ?thesis
      using s' reg_frame_trans [OF reg_frame_trans [OF _ free] free] by simp
  next
    assume "f = Memkind_fixed_destroy"
    then obtain p where "err = 0" "s' = je_free sy p s2"
      using assms(4) d unfolding s2_def
      by (auto simp: call_destroy_def memkind_fixed_destroy_def Let_def)
    then show ?thesis
      using reg_frame_trans [OF f2 free] by simp
  qed
qed

section \<open>The registry is consistent\<close>

fun occupied :: "memkind_t option list \<Rightarrow> memkind_t list" where
  "occupied [] = []"
| "occupied (None # slots) = occupied slots"
| "occupied (Some k # slots) = k # occupied slots"

abbreviation reg_kinds :: "'w mk \<Rightarrow> memkind_t list" where
  "reg_kinds s \<equiv> occupied (partition_map s)"

definition reg_inv :: "'w mk \<Rightarrow> bool" where
  "reg_inv s \<longleftrightarrow>
    length (partition_map s) = MEMKIND_MAX_KIND \<and>
    take MEMKIND_NUM_STATIC_KINDS (partition_map s) = map Some static_registry \<and>
    (\<forall>k. Some k \<in> set (drop MEMKIND_NUM_STATIC_KINDS (partition_map s)) \<longrightarrow>
      (\<exists>p. k = Dynamic p) \<and> k_ops (kinds s k) \<in> dynamic_ops) \<and>
    (\<forall>k \<in> set (reg_kinds s). kind_live s k) \<and> distinct (reg_kinds s) \<and>
    num_kind s = int (length (reg_kinds s))"

lemma occupied_append [simp]: "occupied (xs @ ys) = occupied xs @ occupied ys"
  by (induction xs rule: occupied.induct) auto

lemma set_occupied [simp]: "k \<in> set (occupied pm) \<longleftrightarrow> Some k \<in> set pm"
  by (induction pm rule: occupied.induct) auto

lemma length_occupied: "None \<notin> set pm \<Longrightarrow> length (occupied pm) = length pm"
  by (induction pm rule: occupied.induct) auto

lemma occupied_full: "length (occupied pm) = length pm \<Longrightarrow> None \<notin> set pm"
proof (induction pm rule: occupied.induct)
  case (2 slots)
  have "length (occupied pm) \<le> length pm" for pm
    by (induction pm rule: occupied.induct) auto
  from this [of slots] show ?case
    using 2(2) by simp
qed auto

text \<open>Filling a free slot and clearing an occupied one.\<close>

lemma occupied_fill:
  assumes "i < length pm" "pm ! i = None"
  shows "length (occupied (pm[i := Some k])) = Suc (length (occupied pm))"
    "Some j \<in> set (pm[i := Some k]) \<longleftrightarrow> j = k \<or> Some j \<in> set pm"
    "distinct (occupied pm) \<Longrightarrow> Some k \<notin> set pm \<Longrightarrow> distinct (occupied (pm[i := Some k]))"
proof -
  obtain xs ys where pm: "pm = xs @ None # ys" "length xs = i"
    using id_take_nth_drop [OF assms(1)] assms(1,2)
    by (intro that [of "take i pm" "drop (Suc i) pm"]) simp_all
  then show "length (occupied (pm[i := Some k])) = Suc (length (occupied pm))"
    "Some j \<in> set (pm[i := Some k]) \<longleftrightarrow> j = k \<or> Some j \<in> set pm"
    "distinct (occupied pm) \<Longrightarrow> Some k \<notin> set pm \<Longrightarrow> distinct (occupied (pm[i := Some k]))"
    by (auto simp: list_update_append)
qed

lemma occupied_clear:
  assumes "i < length pm" "pm ! i = Some k" "distinct (occupied pm)"
  shows "length (occupied pm) = Suc (length (occupied (pm[i := None])))" "distinct (occupied (pm[i := None]))"
    "Some j \<in> set (pm[i := None]) \<longleftrightarrow> Some j \<in> set pm \<and> j \<noteq> k"
proof -
  obtain xs ys where pm: "pm = xs @ Some k # ys" "length xs = i"
    using id_take_nth_drop [OF assms(1)] assms(1,2)
    by (intro that [of "take i pm" "drop (Suc i) pm"]) simp_all
  then show "length (occupied pm) = Suc (length (occupied (pm[i := None])))" "distinct (occupied (pm[i := None]))"
    "Some j \<in> set (pm[i := None]) \<longleftrightarrow> Some j \<in> set pm \<and> j \<noteq> k"
    using assms(3) by (auto simp: list_update_append)
qed

lemma find_slot_free:
  assumes "find_slot s name i slots = Some (Inr r)" "None \<in> set slots"
  shows "\<exists>j. r = i + j \<and> j < length slots \<and> slots ! j = None"
  using assms
proof (induction s name i slots rule: find_slot.induct)
  case (3 s name i k slots)
  then obtain j where "r = Suc i + j" "j < length slots" "slots ! j = None"
    by (auto split: if_splits)
  then show ?case
    by (intro exI [of _ "Suc j"]) simp
qed auto

lemma reg_inv_room:
  assumes "reg_inv s" "num_kind s \<noteq> int MEMKIND_MAX_KIND"
  shows "None \<in> set (partition_map s)"
  using assms length_occupied [of "partition_map s"] by (auto simp: reg_inv_def)

lemma reg_inv_static:
  assumes "reg_inv s" "i < MEMKIND_NUM_STATIC_KINDS"
  shows "partition_map s ! i = Some (static_registry ! i)"
proof -
  have "length static_registry = MEMKIND_NUM_STATIC_KINDS"
    by (simp add: static_registry_def)
  then show ?thesis
    using assms nth_take [OF assms(2), of "partition_map s"] by (simp add: reg_inv_def)
qed

lemma reg_inv_dynamic_slot:
  assumes "reg_inv s" "find_slot s name 0 (partition_map s) = Some (Inr i)" "num_kind s \<noteq> int MEMKIND_MAX_KIND"
  shows "MEMKIND_NUM_STATIC_KINDS \<le> i" "i < MEMKIND_MAX_KIND" "partition_map s ! i = None"
proof -
  show i: "i < MEMKIND_MAX_KIND" "partition_map s ! i = None"
    using find_slot_free [OF assms(2) reg_inv_room [OF assms(1,3)]] assms(1) by (auto simp: reg_inv_def)
  show "MEMKIND_NUM_STATIC_KINDS \<le> i"
    using reg_inv_static [OF assms(1), of i] i(2) by fastforce
qed

lemma reg_inv_frame:
  assumes "reg_inv s" "reg_frame {} s s'"
  shows "reg_inv s'"
  using assms by (simp add: reg_inv_def reg_frame_def)

text \<open>
  What a successful creation of \<open>k\<close> does: the kind is new, it has the name asked for and the number of
  kinds so far as its partition, and nothing changes for the other kinds.
\<close>

definition created :: "string \<Rightarrow> 'w mk \<Rightarrow> memkind_t \<Rightarrow> 'w mk \<Rightarrow> bool" where
  "created name s k s' \<longleftrightarrow>
    Some k \<notin> set (partition_map s) \<and> Some k \<in> set (partition_map s') \<and>
    kind_live s' = (kind_live s)(k := True) \<and> num_kind s' = num_kind s + 1 \<and> k_name (kinds s' k) = name \<and>
    k_partition (kinds s' k) = of_int (num_kind s) \<and>
    (\<forall>j. j \<noteq> k \<longrightarrow> (Some j \<in> set (partition_map s') \<longleftrightarrow> Some j \<in> set (partition_map s)) \<and>
      k_name (kinds s' j) = k_name (kinds s j) \<and> k_partition (kinds s' j) = k_partition (kinds s j))"

text \<open>The state in which the new kind has been initialised but not entered.\<close>

definition built :: "memkind_t \<Rightarrow> 'w mk \<Rightarrow> 'w mk \<Rightarrow> bool" where
  "built k s s2 \<longleftrightarrow>
    kind_live s2 = (kind_live s)(k := True) \<and> partition_map s2 = partition_map s \<and>
    num_kind s2 = num_kind s \<and> k_partition (kinds s2 k) = of_int (num_kind s) \<and>
    (\<forall>j. j \<noteq> k \<longrightarrow> k_name (kinds s2 j) = k_name (kinds s j) \<and> k_ops (kinds s2 j) = k_ops (kinds s j) \<and>
      k_partition (kinds s2 j) = k_partition (kinds s j))"

lemma reg_inv_discard:
  assumes "reg_inv s" "built k s s2" "\<not> kind_live s k"
  shows "reg_inv (s2\<lparr>kind_live := (kind_live s2)(k := False)\<rparr>)"
proof -
  have "Some k \<notin> set (partition_map s)"
    using assms(1,3) by (auto simp: reg_inv_def)
  then show ?thesis
    using assms unfolding reg_inv_def built_def by (auto dest: in_set_dropD)
qed

lemma reg_inv_enter:
  assumes inv: "reg_inv s" and b: "built (Dynamic p) s s2" and fresh: "\<not> kind_live s (Dynamic p)"
    and i: "MEMKIND_NUM_STATIC_KINDS \<le> i" "i < MEMKIND_MAX_KIND" "partition_map s ! i = None"
    and k: "k_ops (kinds s2 (Dynamic p)) \<in> dynamic_ops" "k_name (kinds s2 (Dynamic p)) = name"
  defines "s' \<equiv> upd_kind (Dynamic p) (\<lambda>kd. kd\<lparr>k_init_once := True\<rparr>)
    (s2\<lparr>partition_map := (partition_map s2)[i := Some (Dynamic p)], num_kind := num_kind s2 + 1\<rparr>)"
  shows "reg_inv s'" "created name s (Dynamic p) s'"
proof -
  let ?k = "Dynamic p"
  let ?pm = "(partition_map s)[i := Some ?k]"
  have new: "Some ?k \<notin> set (partition_map s)"
    using inv fresh by (auto simp: reg_inv_def)
  have len: "i < length (partition_map s)"
    using inv i(2) by (simp add: reg_inv_def)
  note fill = occupied_fill [OF len i(3), where k = ?k]
  have "drop MEMKIND_NUM_STATIC_KINDS ?pm =
      (drop MEMKIND_NUM_STATIC_KINDS (partition_map s))[i - MEMKIND_NUM_STATIC_KINDS := Some ?k]"
    using i(1) by (simp add: drop_update_swap)
  then have dyn: "set (drop MEMKIND_NUM_STATIC_KINDS ?pm) \<subseteq>
      insert (Some ?k) (set (drop MEMKIND_NUM_STATIC_KINDS (partition_map s)))"
    by (simp add: set_update_subset_insert)
  have s': "partition_map s' = ?pm" "num_kind s' = num_kind s + 1" "kind_live s' = (kind_live s)(?k := True)"
    "k_ops (kinds s' j) = k_ops (kinds s2 j)" "k_name (kinds s' j) = k_name (kinds s2 j)"
    "k_partition (kinds s' j) = k_partition (kinds s2 j)" for j
    using b by (simp_all add: s'_def built_def)
  have "take MEMKIND_NUM_STATIC_KINDS ?pm = take MEMKIND_NUM_STATIC_KINDS (partition_map s)"
    using i(1) by simp
  moreover have "(\<exists>q. j = Dynamic q) \<and> k_ops (kinds s' j) \<in> dynamic_ops"
    if "Some j \<in> set (drop MEMKIND_NUM_STATIC_KINDS ?pm)" for j
    using that dyn inv b k(1) by (cases "j = ?k") (auto simp: s' built_def reg_inv_def)
  moreover have "kind_live s' j" if "Some j \<in> set ?pm" for j
    using that fill(2) inv by (auto simp: s' reg_inv_def)
  ultimately show "reg_inv s'"
    using inv fill(1,3) new by (simp add: reg_inv_def s')
  show "created name s ?k s'"
    using new fill(2) b k(2) by (simp add: created_def s' built_def)
qed

lemma create_start:
  assumes "memkind_create sy ops name s = Some ((err, ko), s')" "ops \<in> dynamic_ops"
  obtains "s' = s" "err \<noteq> 0"
    | i p s1 where "find_slot s name 0 (partition_map s) = Some (Inr i)" "num_kind s \<noteq> int MEMKIND_MAX_KIND"
      "je_calloc sy 1 sizeof_memkind s = (p, s1)" "p = NULL" "s' = s1" "err \<noteq> 0"
    | i p s1 f e s2 where "find_slot s name 0 (partition_map s) = Some (Inr i)" "num_kind s \<noteq> int MEMKIND_MAX_KIND"
      "je_calloc sy 1 sizeof_memkind s = (p, s1)" "p \<noteq> NULL" "o_create ops = Some f"
      "call_create sy f (Dynamic p) ops name (new_kind (Dynamic p) s1) = Some (e, s2)"
      "if e \<noteq> 0 then free_kind sy (Dynamic p) s2 = Some s' \<and> err \<noteq> 0
       else err = 0 \<and> ko = Some (Dynamic p) \<and> s' = upd_kind (Dynamic p) (\<lambda>kd. kd\<lparr>k_init_once := True\<rparr>)
         (s2\<lparr>partition_map := (partition_map s2)[i := Some (Dynamic p)], num_kind := num_kind s2 + 1\<rparr>)"
proof -
  have pf: "\<not> poorly_formed ops"
    using assms(2) by (auto simp: dynamic_ops_def ops_defs poorly_formed_def)
  then obtain f where f: "o_create ops = Some f"
    by (auto simp: poorly_formed_def)
  obtain p s1 where c: "je_calloc sy 1 sizeof_memkind s = (p, s1)"
    by fastforce
  show ?thesis
  proof (cases "num_kind s = int MEMKIND_MAX_KIND \<or> (\<exists>u. find_slot s name 0 (partition_map s) = Some (Inl u))")
    case True
    then have "s' = s" "err \<noteq> 0"
      using assms(1) pf by (auto simp: memkind_create_def split: if_splits)
    then show ?thesis
      by (rule that(1))
  next
    case False
    then obtain r where "find_slot s name 0 (partition_map s) = Some r"
      using assms(1) pf by (auto simp: memkind_create_def Option.bind_eq_Some_conv)
    then obtain i where i: "find_slot s name 0 (partition_map s) = Some (Inr i)" "num_kind s \<noteq> int MEMKIND_MAX_KIND"
      using False by (cases r) auto
    show ?thesis
    proof (cases "p = NULL")
      case True
      then have "s' = s1" "err \<noteq> 0"
        using assms(1) pf i c by (simp_all add: memkind_create_def)
      then show ?thesis
        by (rule that(2) [OF i c True])
    next
      case np: False
      then obtain e s2 where e: "call_create sy f (Dynamic p) ops name (new_kind (Dynamic p) s1) = Some (e, s2)"
        using assms(1) pf i c f by (auto simp: memkind_create_def Let_def Option.bind_eq_Some_conv)
      show ?thesis
        using assms(1) pf i c f np e
        by (intro that(3) [OF i c np f e])
          (auto simp: memkind_create_def Let_def Option.bind_eq_Some_conv split: if_splits)
    qed
  qed
qed

lemma create_spec:
  assumes je: "jemalloc_keeps_registry sy" "blocks_are_fresh sy" and ops: "ops \<in> dynamic_ops" and inv: "reg_inv s"
    and call: "memkind_create sy ops name s = Some ((err, ko), s')"
  shows "reg_inv s' \<and> (err = 0 \<longrightarrow> (\<exists>k. ko = Some k \<and> created name s k s'))"
  using call ops
proof (cases rule: create_start)
  case 1
  then show ?thesis
    using inv by simp
next
  case (2 i p s1)
  then show ?thesis
    using reg_inv_frame [OF inv frame_calloc [OF je(1) 2(3)]] by simp
next
  case (3 i p s1 f e s2)
  let ?k = "Dynamic p"
  have fresh: "\<not> kind_live s ?k"
    using je(2) 3(3,4) unfolding blocks_are_fresh_def by blast
  note f2 = frame_call_create [OF je(1) ops 3(5,6)]
  have b: "built ?k s s2"
    using frame_calloc [OF je(1) 3(3), of "{}"] f2 by (auto simp: built_def reg_frame_def new_kind_def)
  show ?thesis
  proof (cases "e = 0")
    case True
    then show ?thesis
      using reg_inv_enter [OF inv b fresh reg_inv_dynamic_slot [OF inv 3(1,2)]] 3(7) f2 ops by auto
  next
    case False
    then have "s' = je_free sy p (s2\<lparr>kind_live := (kind_live s2)(?k := False)\<rparr>)" "err \<noteq> 0"
      using 3(7) b by (auto simp: free_kind_def built_def)
    then show ?thesis
      using reg_inv_frame [OF reg_inv_discard [OF inv b fresh] frame_free [OF je(1)]] by simp
  qed
qed

text \<open>The search by name finds the kind itself when no other kind has its name.\<close>

definition name_unique :: "memkind_t \<Rightarrow> 'w mk \<Rightarrow> bool" where
  "name_unique k s \<longleftrightarrow>
    (\<forall>j. Some j \<in> set (drop MEMKIND_NUM_STATIC_KINDS (partition_map s)) \<and> j \<noteq> k \<longrightarrow>
      k_name (kinds s j) \<noteq> k_name (kinds s k))"

lemma destroy_by_name_self:
  assumes "Some k \<in> set slots" "\<forall>j. Some j \<in> set slots \<longrightarrow> kind_live s j"
    and "\<forall>j. Some j \<in> set slots \<and> j \<noteq> k \<longrightarrow> k_name (kinds s j) \<noteq> k_name (kinds s k)"
  shows "\<exists>j < length slots. slots ! j = Some k \<and>
    destroy_by_name sy k i slots s = memkind_destroy_dynamic_kind_from_register sy (i + j) k s"
  using assms
proof (induction sy k i slots s rule: destroy_by_name.induct)
  case (2 sy k i slots s)
  then obtain j where "j < length slots" "slots ! j = Some k"
    "destroy_by_name sy k (Suc i) slots s = memkind_destroy_dynamic_kind_from_register sy (Suc i + j) k s"
    by auto
  then show ?case
    by (intro exI [of _ "Suc j"]) simp
next
  case (3 sy k i m slots s)
  show ?case
  proof (cases "m = k")
    case True
    then show ?thesis
      using 3(3) by (intro exI [of _ 0]) simp
  next
    case False
    then have m: "k_name (kinds s m) \<noteq> k_name (kinds s k)" "kind_live s m"
      using 3(3,4) by auto
    then obtain j where "j < length slots" "slots ! j = Some k"
      "destroy_by_name sy k (Suc i) slots s = memkind_destroy_dynamic_kind_from_register sy (Suc i + j) k s"
      using 3 False m(1) [symmetric] by auto
    then show ?thesis
      using m by (intro exI [of _ "Suc j"]) simp
  qed
qed simp

definition destroyed :: "'w mk \<Rightarrow> memkind_t \<Rightarrow> 'w mk \<Rightarrow> bool" where
  "destroyed s k s' \<longleftrightarrow>
    Some k \<notin> set (partition_map s') \<and> kind_live s' = (kind_live s)(k := False) \<and>
    num_kind s' = num_kind s - 1 \<and>
    (\<forall>j. j \<noteq> k \<longrightarrow> (Some j \<in> set (partition_map s') \<longleftrightarrow> Some j \<in> set (partition_map s)) \<and>
      k_name (kinds s' j) = k_name (kinds s j) \<and> k_ops (kinds s' j) = k_ops (kinds s j) \<and>
      k_partition (kinds s' j) = k_partition (kinds s j))"

lemma reg_inv_remove:
  assumes inv: "reg_inv s" and i: "MEMKIND_NUM_STATIC_KINDS \<le> i" "i < MEMKIND_MAX_KIND" "partition_map s ! i = Some k"
  defines "s' \<equiv> s\<lparr>partition_map := (partition_map s)[i := None], num_kind := num_kind s - 1,
    kind_live := (kind_live s)(k := False)\<rparr>"
  shows "reg_inv s'" "destroyed s k s'"
proof -
  let ?pm = "(partition_map s)[i := None]"
  have len: "i < length (partition_map s)" and dist: "distinct (reg_kinds s)"
    using inv i(2) by (simp_all add: reg_inv_def)
  note clear = occupied_clear [OF len i(3) dist]
  have "drop MEMKIND_NUM_STATIC_KINDS ?pm =
      (drop MEMKIND_NUM_STATIC_KINDS (partition_map s))[i - MEMKIND_NUM_STATIC_KINDS := None]"
    using i(1) by (simp add: drop_update_swap)
  then have dyn: "set (drop MEMKIND_NUM_STATIC_KINDS ?pm) \<subseteq>
      insert None (set (drop MEMKIND_NUM_STATIC_KINDS (partition_map s)))"
    by (simp add: set_update_subset_insert)
  have "take MEMKIND_NUM_STATIC_KINDS ?pm = take MEMKIND_NUM_STATIC_KINDS (partition_map s)"
    using i(1) by simp
  moreover have "(\<exists>q. j = Dynamic q) \<and> k_ops (kinds s j) \<in> dynamic_ops"
    if "Some j \<in> set (drop MEMKIND_NUM_STATIC_KINDS ?pm)" for j
    using that dyn inv by (auto simp: reg_inv_def)
  moreover have "\<forall>j \<in> set (occupied ?pm). j \<noteq> k \<and> kind_live s j"
    using clear(3) inv by (auto simp: reg_inv_def)
  ultimately show "reg_inv s'"
    using inv clear(1,2) by (simp add: reg_inv_def s'_def)
  show "destroyed s k s'"
    using clear(3) by (auto simp: destroyed_def s'_def)
qed

lemma destroyed_frame:
  "reg_frame {} s s1 \<Longrightarrow> destroyed s1 k s2 \<Longrightarrow> reg_frame {} s2 s' \<Longrightarrow> destroyed s k s'"
  by (simp add: reg_frame_def destroyed_def)

lemma destroy_spec:
  assumes je: "jemalloc_keeps_registry sy" and inv: "reg_inv s"
    and k: "Some k \<in> set (drop MEMKIND_NUM_STATIC_KINDS (partition_map s))" "name_unique k s"
    and call: "memkind_destroy_kind sy k s = Some (err, s')"
  shows "err = 0 \<and> reg_inv s' \<and> destroyed s k s'"
proof -
  obtain p where p: "k = Dynamic p" "k_ops (kinds s k) \<in> dynamic_ops"
    using inv k(1) by (auto simp: reg_inv_def)
  obtain f s1 where f: "o_destroy (k_ops (kinds s k)) = Some f" "call_destroy sy f k s = Some (err, s1)"
    "destroy_by_name sy k MEMKIND_NUM_STATIC_KINDS (drop MEMKIND_NUM_STATIC_KINDS (partition_map s1)) s1 = Some s'"
    using call by (auto simp: memkind_destroy_kind_def Option.bind_eq_Some_conv split: if_splits)
  note fr = frame_call_destroy [OF je p(2) f(1,2), of "{}"]
  then have inv1: "reg_inv s1"
    using reg_inv_frame [OF inv] by simp
  let ?slots = "drop MEMKIND_NUM_STATIC_KINDS (partition_map s1)"
  have pm: "partition_map s1 = partition_map s"
    using fr by (simp add: reg_frame_def)
  have "\<exists>j < length ?slots. ?slots ! j = Some k \<and>
      destroy_by_name sy k MEMKIND_NUM_STATIC_KINDS ?slots s1 =
        memkind_destroy_dynamic_kind_from_register sy (MEMKIND_NUM_STATIC_KINDS + j) k s1"
  proof (rule destroy_by_name_self)
    show "Some k \<in> set ?slots"
      using k(1) pm by simp
    show "\<forall>j. Some j \<in> set ?slots \<longrightarrow> kind_live s1 j"
      using inv1 by (auto simp: reg_inv_def dest: in_set_dropD)
    show "\<forall>j. Some j \<in> set ?slots \<and> j \<noteq> k \<longrightarrow> k_name (kinds s1 j) \<noteq> k_name (kinds s1 k)"
      using k(2) fr by (simp add: name_unique_def reg_frame_def)
  qed
  then obtain j where j: "j < length ?slots" "?slots ! j = Some k"
    "memkind_destroy_dynamic_kind_from_register sy (MEMKIND_NUM_STATIC_KINDS + j) k s1 = Some s'"
    using f(3) by auto
  then obtain i where i: "MEMKIND_NUM_STATIC_KINDS \<le> i" "i < MEMKIND_MAX_KIND" "partition_map s1 ! i = Some k"
    "memkind_destroy_dynamic_kind_from_register sy i k s1 = Some s'"
    using inv1 by (intro that [of "MEMKIND_NUM_STATIC_KINDS + j"]) (auto simp: reg_inv_def)
  let ?s2 = "s1\<lparr>partition_map := (partition_map s1)[i := None], num_kind := num_kind s1 - 1,
    kind_live := (kind_live s1)(k := False)\<rparr>"
  have s': "s' = je_free sy p ?s2"
    using i(1,4) p(1) by (auto simp: memkind_destroy_dynamic_kind_from_register_def free_kind_def split: if_splits)
  note fr2 = frame_free [OF je, of "{}" ?s2 p]
  show ?thesis
    unfolding s' using fr reg_inv_frame [OF reg_inv_remove(1) [OF inv1 i(1-3)] fr2]
      destroyed_frame [OF _ reg_inv_remove(2) [OF inv1 i(1-3)] fr2]
    by simp
qed

section \<open>Loading and running\<close>

lemma reg_inv_cong:
  assumes "partition_map s' = partition_map s" "num_kind s' = num_kind s" "kind_live s' = kind_live s"
    and "\<And>k. k_ops (kinds s' k) = k_ops (kinds s k)"
  shows "reg_inv s' \<longleftrightarrow> reg_inv s"
  using assms by (simp add: reg_inv_def)

lemma occupied_map_Some [simp]: "occupied (map Some ks) = ks"
  by (induction ks) auto

lemma occupied_replicate_None [simp]: "occupied (replicate n None) = []"
  by (induction n) auto

lemma reg_inv_init: "reg_inv (mk_init w)"
proof -
  have len: "length static_registry = MEMKIND_NUM_STATIC_KINDS" "distinct static_registry"
    by (simp_all add: static_registry_def)
  have "is_static k" if "k \<in> set static_registry" for k
    using that by (auto simp: is_static_def static_registry_def)
  then show ?thesis
    using len by (simp add: reg_inv_def mk_init_def)
qed

lemma set_partitions_inv:
  "set_partitions i slots s = Some s' \<Longrightarrow> reg_inv s' = reg_inv s"
proof (induction i slots s rule: set_partitions.induct)
  case (3 i k slots s)
  have "reg_inv (upd_kind k (\<lambda>kd. kd\<lparr>k_partition := of_nat i\<rparr>) s) = reg_inv s"
    by (rule reg_inv_cong) simp_all
  then show ?case
    using 3 by simp
qed simp_all

lemma thread_limit_inv:
  assumes "jemalloc_keeps_registry sy" "set_thread_limit sy s = Some s'" "reg_inv s"
  shows "reg_inv s'"
proof (cases "memkind_get_env sy ''MEMKIND_BACKGROUND_THREAD_LIMIT''")
  case None
  then show ?thesis
    using assms(2,3) by (simp add: set_thread_limit_def)
next
  case (Some env)
  then obtain n where s': "s' = snd (memkind_arena_set_max_bg_threads sy n (s\<lparr>errno := 0\<rparr>))"
    using assms(2) by (auto simp: set_thread_limit_def split: prod.splits if_splits)
  have e: "reg_inv (s\<lparr>errno := 0\<rparr>)"
    using assms(3) reg_inv_cong [of "s\<lparr>errno := 0\<rparr>" s] by simp
  obtain r s1 where m: "je_mallctl sy ''max_background_threads'' (Ctl_size n) (s\<lparr>errno := 0\<rparr>) = (r, s1)"
    by fastforce
  have "s' = s1 \<or> s' = s\<lparr>errno := 0\<rparr>"
    using m by (auto simp: s' memkind_arena_set_max_bg_threads_def split: prod.splits)
  then show ?thesis
    using e reg_inv_frame [OF e frame_mallctl [OF assms(1) m]] by blast
qed

lemma construct_inv:
  assumes "jemalloc_keeps_registry sy" "memkind_construct sy s = Some s'" "reg_inv s"
  shows "reg_inv s'"
proof -
  obtain s1 other s2 s3 where c: "set_partitions 0 (take MEMKIND_NUM_STATIC_KINDS (partition_map s)) s = Some s1"
    "memkind_use_other_heap_manager sy s1 = Some (other, s2)"
    "(if other then Some s2 else set_thread_limit sy s2) = Some s3"
    "s' = memkind_set_hog_memory (memkind_get_env sy ''MEMKIND_HOG_MEMORY'') s3"
    using assms(2) by (auto simp: memkind_construct_def Option.bind_eq_Some_conv split: if_splits)
  have "reg_inv s1"
    using set_partitions_inv [OF c(1)] assms(3) by simp
  then have "reg_inv s2"
    using c(2) reg_inv_cong [of s2 s1]
    by (auto simp: memkind_use_other_heap_manager_def load_tbb_symbols_def Option.bind_eq_Some_conv split: if_splits)
  then have "reg_inv s3"
    using c(3) thread_limit_inv [OF assms(1)] by (auto split: if_splits)
  then show ?thesis
    using c(4) reg_inv_cong [of s' s3] by (simp add: memkind_set_hog_memory_def)
qed

text \<open>
  A run of a process: the library is loaded, kinds are created with the two tables for dynamic kinds
  and destroyed, and anything happens in between that leaves the registry alone.
\<close>

inductive reg_run :: "'w sys \<Rightarrow> 'w mk \<Rightarrow> bool" for sy where
  loaded: "memkind_construct sy (mk_init w) = Some s \<Longrightarrow> reg_run sy s"
| create: "\<lbrakk>reg_run sy s; ops \<in> dynamic_ops; memkind_create sy ops name s = Some ((err, k), s')\<rbrakk> \<Longrightarrow> reg_run sy s'"
| destroy: "\<lbrakk>reg_run sy s; Some k \<in> set (drop MEMKIND_NUM_STATIC_KINDS (partition_map s)); name_unique k s;
    memkind_destroy_kind sy k s = Some (err, s')\<rbrakk> \<Longrightarrow> reg_run sy s'"
| other: "\<lbrakk>reg_run sy s; reg_frame {} s s'\<rbrakk> \<Longrightarrow> reg_run sy s'"

lemma reg_run_inv:
  assumes "jemalloc_keeps_registry sy" "blocks_are_fresh sy" "reg_run sy s"
  shows "reg_inv s"
  using assms(3)
proof (induction rule: reg_run.induct)
  case (loaded w s)
  then show ?case
    by (rule construct_inv [OF assms(1) _ reg_inv_init])
next
  case (create s ops name err k s')
  from create_spec [OF assms(1,2) create.hyps(2) create.IH create.hyps(3)] show ?case
    by (rule conjunct1)
next
  case (destroy s k err s')
  from destroy_spec [OF assms(1) destroy.IH destroy.hyps(2-4)] show ?case
    by simp
next
  case (other s s')
  from other.IH other.hyps(2) show ?case
    by (rule reg_inv_frame)
qed

section \<open>Properties\<close>

text \<open>
  C9. The registry stays consistent in every run of a process that loads the library, creates kinds and
  destroys kinds whose names are unique: the table has 512 slots, the first 23 hold the static kinds
  in their order, every occupied slot holds a kind that is allocated, no kind is entered twice, and
  \<^verbatim>\<open>num_kind\<close> is the number of occupied slots, so that a creation is refused with
  \<open>MEMKIND_ERROR_TOOMANY\<close> exactly when no slot is free.
\<close>

theorem registry_consistent:
  assumes "jemalloc_keeps_registry sy" "blocks_are_fresh sy" "reg_run sy s"
  shows "length (partition_map s) = 512 \<and> take 23 (partition_map s) = map Some static_registry \<and>
    (\<forall>k. Some k \<in> set (partition_map s) \<longrightarrow> kind_live s k) \<and> distinct (occupied (partition_map s)) \<and>
    num_kind s = int (length (occupied (partition_map s))) \<and>
    (num_kind s = 512 \<longleftrightarrow> None \<notin> set (partition_map s)) \<and>
    (None \<notin> set (partition_map s) \<longrightarrow>
      memkind_create sy ops name s = Some ((MEMKIND_ERROR_TOOMANY, None), s))"
proof -
  have inv: "reg_inv s"
    using assms by (rule reg_run_inv)
  have full: "num_kind s = 512 \<longleftrightarrow> None \<notin> set (partition_map s)"
  proof
    assume "num_kind s = 512"
    then have "length (occupied (partition_map s)) = length (partition_map s)"
      using inv by (simp add: reg_inv_def)
    then show "None \<notin> set (partition_map s)"
      by (rule occupied_full)
  next
    assume "None \<notin> set (partition_map s)"
    then show "num_kind s = 512"
      using reg_inv_room [OF inv] by auto
  qed
  then show ?thesis
    using inv by (auto simp: reg_inv_def memkind_create_def)
qed

text \<open>
  A system with one arena per kind, whose blocks for kinds come from three addresses, and a process
  on it that creates kinds on fixed areas.
\<close>

definition sample_calloc :: "u64 \<Rightarrow> u64 \<Rightarrow> nat mk \<Rightarrow> ptr \<times> nat mk" where
  "sample_calloc m n s =
    (if \<not> kind_live s (Dynamic 0x2000) then (0x2000, s)
     else if \<not> kind_live s (Dynamic 0x3000) then (0x3000, s) else (NULL, s))"

definition sample_heap :: "nat sys" where
  "sample_heap = sample_sys\<lparr>je_calloc := sample_calloc,
     host_of := sample_host\<lparr>getenv := (\<lambda>v. if v = ''MEMKIND_ARENA_NUM_PER_KIND'' then Some ''1'' else None)\<rparr>\<rparr>"

lemma sample_heap_ok: "jemalloc_keeps_registry sample_heap" "blocks_are_fresh sample_heap"
  by (auto simp: jemalloc_keeps_registry_def blocks_are_fresh_def sample_heap_def sample_sys_def sample_calloc_def
      sample_mallctl_def reg_frame_def split: if_splits)

lemma set_partitions_total:
  "None \<notin> set slots \<Longrightarrow> \<exists>s'. set_partitions i slots s = Some s' \<and> kind_live s' = kind_live s \<and>
    num_kind s' = num_kind s \<and> partition_map s' = partition_map s \<and> arena_init_status s' = arena_init_status s \<and>
    world s' = world s \<and> (\<forall>k. k_name (kinds s' k) = k_name (kinds s k)) \<and> (\<forall>k. k_ops (kinds s' k) = k_ops (kinds s k))"
proof (induction i slots s rule: set_partitions.induct)
  case (3 i k slots s)
  from 3(1) 3(2) show ?case
    by (auto split: if_splits)
qed auto

lemma find_slot_total:
  assumes "\<forall>k. Some k \<in> set slots \<longrightarrow> kind_live s k \<and> name \<noteq> k_name (kinds s k)" "None \<in> set slots"
  shows "\<exists>r. find_slot s name i slots = Some (Inr r)"
  using assms by (induction s name i slots rule: find_slot.induct) auto

lemma sample_load:
  "\<exists>s. reg_run sample_heap s \<and> arena_init_status s = 0 \<and> world s = 0 \<and> kind_live s = is_static \<and>
    num_kind s = 23 \<and> (\<forall>k. k_name (kinds s k) = k_name (static_kind k)) \<and>
    partition_map s = partition_map (mk_init (0 :: nat)) \<and> k_ops (kinds s MEMKIND_DEFAULT) = MEMKIND_DEFAULT_OPS"
proof -
  let ?pm = "partition_map (mk_init (0 :: nat))"
  have pm: "take 23 ?pm = map Some static_registry" "?pm ! 22 \<noteq> None" "?pm ! 23 = None"
    using reg_inv_init [of 0] by (simp_all add: reg_inv_def mk_init_def static_registry_def)
  obtain s1 where s1: "set_partitions 0 (take 23 ?pm) (mk_init (0 :: nat)) = Some s1" "kind_live s1 = is_static"
    "num_kind s1 = 23" "partition_map s1 = ?pm" "arena_init_status s1 = 0" "world s1 = 0"
    "\<forall>k. k_name (kinds s1 k) = k_name (static_kind k)" "\<forall>k. k_ops (kinds s1 k) = k_ops (static_kind k)"
    using set_partitions_total [of "take 23 ?pm" 0 "mk_init 0"] pm(1) by auto
  have "memkind_construct sample_heap (mk_init 0) = Some (memkind_set_hog_memory None s1)"
    using s1(1) pm by (simp add: memkind_construct_def memkind_use_other_heap_manager_def set_thread_limit_def
        memkind_get_env_def sample_heap_def)
  then show ?thesis
    using s1 by (intro exI [of _ "memkind_set_hog_memory None s1"])
      (auto intro: reg_run.loaded simp: memkind_set_hog_memory_def)
qed

lemma sample_create_ops:
  assumes "reg_inv s" "num_kind s \<noteq> 512" "\<forall>k. Some k \<in> set (partition_map s) \<longrightarrow> name \<noteq> k_name (kinds s k)"
    and "sample_calloc 1 128 s = (p, s)" "p \<noteq> NULL" "length name < 64" "arena_init_status s = 0" "world s < 100"
    and "ops \<in> dynamic_ops"
  shows "\<exists>s'. memkind_create sample_heap ops name s = Some ((0, Some (Dynamic p)), s') \<and>
    arena_init_status s' = 0 \<and> world s' = Suc (world s) \<and> k_ops (kinds s' (Dynamic p)) = ops \<and>
    k_arena_map_len (kinds s' (Dynamic p)) = 1 \<and> k_arena_zero (kinds s' (Dynamic p)) < 4094 \<and> (\<forall>j. j \<noteq> Dynamic p \<longrightarrow> kinds s' j = kinds s j)"
proof -
  obtain i where i: "find_slot s name 0 (partition_map s) = Some (Inr i)"
    using find_slot_total [of "partition_map s" s name 0] reg_inv_room [OF assms(1)] assms(1-3)
    by (auto simp: reg_inv_def)
  have st: "strtoul ''1'' = (1, [], False)"
    by (simp add: strtoul_def strip_sign_def digits_val_def isdigit_def isspace_def digit_val_def)
  have r: "round_pow2_up 1 = 1"
    by code_simp
  have "unat (word_of_nat (world s) :: u32) = world s"
    using assms(8) by (intro unat_of_nat_no_wrap) simp
  then have w: "(word_of_nat (world s) :: u32) < 4094"
    using assms(8) by (simp add: word_less_nat_alt)
  then have w': "(word_of_nat (world s) :: u32) < - 1"
    by (rule order.strict_trans) simp
  show ?thesis
    using assms i st r w w' unfolding dynamic_ops_def
    by (elim insertE) (simp_all add: memkind_pmem_create_def memkind_create_def poorly_formed_def ops_defs call_create_def memkind_fixed_create_def sample_heap_def
      sample_sys_def memkind_default_create_def Let_def memkind_arena_create_map_def arena_config_init_def new_kind_def
      memkind_set_arena_map_len_def memkind_get_env_def on_world_def create_arena_def register_arena_def sample_mallctl_def)
qed

lemma sample_create:
  assumes "reg_inv s" "num_kind s \<noteq> 512" "\<forall>k. Some k \<in> set (partition_map s) \<longrightarrow> name \<noteq> k_name (kinds s k)"
    and "sample_calloc 1 128 s = (p, s)" "p \<noteq> NULL" "length name < 64" "arena_init_status s = 0" "world s < 100"
  shows "\<exists>s'. memkind_create sample_heap MEMKIND_FIXED_OPS name s = Some ((0, Some (Dynamic p)), s') \<and>
    arena_init_status s' = 0 \<and> world s' = Suc (world s) \<and> k_ops (kinds s' (Dynamic p)) = MEMKIND_FIXED_OPS \<and>
    k_arena_map_len (kinds s' (Dynamic p)) = 1 \<and> k_arena_zero (kinds s' (Dynamic p)) < 4094 \<and> (\<forall>j. j \<noteq> Dynamic p \<longrightarrow> kinds s' j = kinds s j)"
  using assms by (intro sample_create_ops) (simp_all add: dynamic_ops_def)

lemma sample_calloc_first:
  "\<not> kind_live s (Dynamic 0x2000) \<Longrightarrow> sample_calloc m n s = (0x2000, s)"
  "kind_live s (Dynamic 0x2000) \<Longrightarrow> \<not> kind_live s (Dynamic 0x3000) \<Longrightarrow> sample_calloc m n s = (0x3000, s)"
  by (simp_all add: sample_calloc_def)

text \<open>Names of one character are not names of static kinds.\<close>

lemma static_names:
  "Some k \<in> set (partition_map (mk_init (0 :: nat))) \<Longrightarrow> [c] \<noteq> k_name (static_kind k) \<and> is_static k"
  by (auto simp: mk_init_def static_registry_def is_static_def)

theorem registry_consistent_witness:
  "\<exists>s. reg_run sample_heap s \<and> num_kind s = 24 \<and> num_kind s = int (length (occupied (partition_map s)))"
proof -
  obtain s where s: "reg_run sample_heap s" "arena_init_status s = 0" "world s = 0" "kind_live s = is_static"
    "num_kind s = 23" "\<forall>k. k_name (kinds s k) = k_name (static_kind k)"
    "partition_map s = partition_map (mk_init (0 :: nat))"
    using sample_load by auto
  have inv: "reg_inv s"
    by (rule reg_run_inv [OF sample_heap_ok s(1)])
  have ops: "MEMKIND_FIXED_OPS \<in> dynamic_ops"
    by (simp add: dynamic_ops_def)
  obtain s' where c: "memkind_create sample_heap MEMKIND_FIXED_OPS ''a'' s = Some ((0, Some (Dynamic 0x2000)), s')"
    using sample_create [OF inv, of "''a''" "0x2000"] s static_names
    by (auto simp: sample_calloc_def is_static_def)
  have "reg_run sample_heap s'"
    by (rule reg_run.create [OF s(1) ops c])
  moreover have "num_kind s' = 24"
    using create_spec [OF sample_heap_ok ops inv c] s(5) by (simp add: created_def)
  ultimately show ?thesis
    using registry_consistent [OF sample_heap_ok, of s'] by blast
qed

text \<open>A new kind is not static, and its slot is behind those of the static kinds.\<close>

lemma dynamic_slot:
  assumes "reg_inv s" "Some k \<notin> set (partition_map s)" "reg_inv s'" "Some k \<in> set (partition_map s')"
  shows "Some k \<in> set (drop MEMKIND_NUM_STATIC_KINDS (partition_map s'))"
proof -
  have "set (map Some static_registry) \<subseteq> set (partition_map s)"
    using assms(1) set_take_subset [of MEMKIND_NUM_STATIC_KINDS "partition_map s"] by (simp add: reg_inv_def)
  then have "Some k \<notin> set (take MEMKIND_NUM_STATIC_KINDS (partition_map s'))"
    using assms(2,3) by (auto simp: reg_inv_def)
  then show ?thesis
    using assms(4) append_take_drop_id [of MEMKIND_NUM_STATIC_KINDS "partition_map s'"]
    by (metis Un_iff set_append)
qed

text \<open>
  C34. Partition numbers are not unique. Whenever two kinds are created, the first of them is destroyed and a
  third one is created, the third kind gets the partition of the second, which is still registered:
  \<^verbatim>\<open>memkind_create\<close> numbers kinds with the current number of kinds. The allocation counters of the
  tiers are indexed by the partition, so both kinds are counted together from then on.
\<close>

theorem partitions_collide:
  assumes "jemalloc_keeps_registry sy" "blocks_are_fresh sy" "reg_run sy s0"
    and "ops1 \<in> dynamic_ops" "memkind_create sy ops1 n1 s0 = Some ((0, Some a), s1)"
    and "ops2 \<in> dynamic_ops" "memkind_create sy ops2 n2 s1 = Some ((0, Some b), s2)"
    and "name_unique a s2" "memkind_destroy_kind sy a s2 = Some (err, s3)"
    and "ops3 \<in> dynamic_ops" "memkind_create sy ops3 n3 s3 = Some ((0, Some c), s4)"
  shows "Some b \<in> set (partition_map s4) \<and> Some c \<in> set (partition_map s4) \<and> b \<noteq> c \<and>
    k_partition (kinds s4 c) = k_partition (kinds s4 b)"
proof -
  have i0: "reg_inv s0"
    using assms(1-3) by (rule reg_run_inv)
  have c1: "reg_inv s1" "created n1 s0 a s1"
    using create_spec [OF assms(1,2,4) i0 assms(5)] by auto
  have c2: "reg_inv s2" "created n2 s1 b s2"
    using create_spec [OF assms(1,2,6) c1(1) assms(7)] by auto
  have ab: "Some a \<in> set (partition_map s2)" "a \<noteq> b"
    using c1(2) c2(2) by (auto simp: created_def)
  have d: "reg_inv s3" "destroyed s2 a s3"
    using destroy_spec [OF assms(1) c2(1) dynamic_slot [OF i0 _ c2(1) ab(1)] assms(8,9)] c1(2)
    by (auto simp: created_def)
  have c3: "created n3 s3 c s4"
    using create_spec [OF assms(1,2,10) d(1) assms(11)] by auto
  have b3: "Some b \<in> set (partition_map s3)" "k_partition (kinds s3 b) = k_partition (kinds s2 b)"
    "num_kind s3 = num_kind s1"
    using c2(2) ab(2) d(2) unfolding created_def destroyed_def by simp_all
  then have "b \<noteq> c"
    using c3 by (auto simp: created_def)
  then have "Some b \<in> set (partition_map s4)" "k_partition (kinds s4 b) = k_partition (kinds s3 b)"
    using c3 b3(1) by (simp_all add: created_def)
  moreover have "Some c \<in> set (partition_map s4)" "k_partition (kinds s4 c) = of_int (num_kind s3)"
    "k_partition (kinds s2 b) = of_int (num_kind s1)"
    using c2(2) c3 by (simp_all add: created_def)
  ultimately show ?thesis
    using \<open>b \<noteq> c\<close> b3(2,3) by simp
qed

lemma sample_destroy:
  assumes "reg_inv s" "Some (Dynamic p) \<in> set (drop MEMKIND_NUM_STATIC_KINDS (partition_map s))"
    and "name_unique (Dynamic p) s" "k_ops (kinds s (Dynamic p)) = MEMKIND_FIXED_OPS"
    and "k_arena_map_len (kinds s (Dynamic p)) = 1" "k_arena_zero (kinds s (Dynamic p)) < 4094"
  shows "\<exists>s'. memkind_destroy_kind sample_heap (Dynamic p) s = Some (0, s') \<and>
    arena_init_status s' = arena_init_status s \<and> world s' = world s"
proof -
  let ?k = "Dynamic p"
  have live: "kind_live s ?k"
    using assms(1,2) by (auto simp: reg_inv_def dest: in_set_dropD)
  obtain c r where d: "call_destroy sample_heap Memkind_fixed_destroy ?k s =
      Some (0, s\<lparr>arena_registry_g := r, tier_counters := c\<rparr>)"
    using assms(5,6) by (auto simp: call_destroy_def memkind_fixed_destroy_def memkind_arena_destroy_def sample_heap_def
        sample_sys_def sample_mallctl_def arena_cmd_def)
  let ?s = "s\<lparr>arena_registry_g := r, tier_counters := c\<rparr>"
  have "\<forall>j. Some j \<in> set (drop 23 (partition_map s)) \<longrightarrow> kind_live s j"
    using assms(1) by (auto simp: reg_inv_def dest: in_set_dropD)
  then obtain j where "destroy_by_name sample_heap ?k 23 (drop 23 (partition_map s)) ?s =
      memkind_destroy_dynamic_kind_from_register sample_heap (23 + j) ?k ?s"
    using destroy_by_name_self [of ?k "drop 23 (partition_map s)" ?s sample_heap 23] assms(2,3)
    by (auto simp: name_unique_def)
  then show ?thesis
    using live d assms(4)
    by (simp add: memkind_destroy_kind_def ops_defs memkind_destroy_dynamic_kind_from_register_def free_kind_def
        sample_heap_def sample_sys_def)
qed

text \<open>A name that no kind outside of \<open>X\<close> has, after a creation and after a destruction.\<close>

definition name_free :: "string \<Rightarrow> memkind_t set \<Rightarrow> 'w mk \<Rightarrow> bool" where
  "name_free name X s \<longleftrightarrow> (\<forall>j. Some j \<in> set (partition_map s) \<and> j \<notin> X \<longrightarrow> name \<noteq> k_name (kinds s j))"

lemma created_names:
  "created nm s k s' \<Longrightarrow> name_free name X s \<Longrightarrow> k \<in> X \<or> name \<noteq> nm \<Longrightarrow> name_free name X s'"
  unfolding created_def name_free_def by metis

lemma destroyed_names: "destroyed s k s' \<Longrightarrow> name_free name X s \<Longrightarrow> name_free name X s'"
  unfolding destroyed_def name_free_def by metis

text \<open>The process after two creations.\<close>

lemma sample_two:
  obtains s s1 s2 where "reg_run sample_heap s"
    "memkind_create sample_heap MEMKIND_FIXED_OPS ''a'' s = Some ((0, Some (Dynamic 0x2000)), s1)"
    "memkind_create sample_heap MEMKIND_FIXED_OPS ''b'' s1 = Some ((0, Some (Dynamic 0x3000)), s2)"
    "reg_inv s" "created ''a'' s (Dynamic 0x2000) s1" "reg_inv s2" "created ''b'' s1 (Dynamic 0x3000) s2"
    "kind_live s = is_static" "num_kind s = 23" "\<forall>c. name_free [c] {} s" "arena_init_status s2 = 0" "world s2 = 2"
    "k_ops (kinds s2 (Dynamic 0x2000)) = MEMKIND_FIXED_OPS" "k_arena_map_len (kinds s2 (Dynamic 0x2000)) = 1"
    "k_arena_zero (kinds s2 (Dynamic 0x2000)) < 4094"
proof -
  let ?a = "Dynamic 0x2000" and ?b = "Dynamic 0x3000"
  obtain s where s: "reg_run sample_heap s" "arena_init_status s = 0" "world s = 0" "kind_live s = is_static"
    "num_kind s = 23" "\<forall>k. k_name (kinds s k) = k_name (static_kind k)"
    "partition_map s = partition_map (mk_init (0 :: nat))"
    using sample_load by auto
  note inv = reg_run_inv [OF sample_heap_ok s(1)]
  have names: "name_free [c] X s" for c X
    using s(6,7) static_names by (simp add: name_free_def)
  have ops: "MEMKIND_FIXED_OPS \<in> dynamic_ops"
    by (simp add: dynamic_ops_def)
  obtain s1 where c1: "memkind_create sample_heap MEMKIND_FIXED_OPS ''a'' s = Some ((0, Some ?a), s1)"
    "arena_init_status s1 = 0" "world s1 = 1" "k_ops (kinds s1 ?a) = MEMKIND_FIXED_OPS"
    "k_arena_map_len (kinds s1 ?a) = 1" "k_arena_zero (kinds s1 ?a) < 4094"
    using sample_create [OF inv, of "''a''" "0x2000"] names [of "CHR ''a''" "{}"] s
    by (auto simp: sample_calloc_def is_static_def name_free_def)
  have i1: "reg_inv s1" "created ''a'' s ?a s1"
    using create_spec [OF sample_heap_ok ops inv c1(1)] by simp_all
  have "name_free ''b'' {} s1"
    by (rule created_names [OF i1(2) names]) simp
  then obtain s2 where c2: "memkind_create sample_heap MEMKIND_FIXED_OPS ''b'' s1 = Some ((0, Some ?b), s2)"
    "arena_init_status s2 = 0" "world s2 = 2" "kinds s2 ?a = kinds s1 ?a"
    using sample_create [OF i1(1), of "''b''" "0x3000"] i1(2) c1(2,3) s(4,5)
    by (auto simp: sample_calloc_def is_static_def created_def name_free_def)
  show ?thesis
    using create_spec [OF sample_heap_ok ops i1(1) c2(1)] c1(4-6) c2 names
    by (intro that [OF s(1) c1(1) c2(1) inv i1(2) _ _ s(4,5)]) auto
qed

theorem partitions_collide_witness:
  "\<exists>(s :: nat mk) b c. Some b \<in> set (partition_map s) \<and> Some c \<in> set (partition_map s) \<and> b \<noteq> c \<and>
    k_partition (kinds s c) = k_partition (kinds s b)"
proof -
  let ?a = "Dynamic 0x2000" and ?b = "Dynamic 0x3000"
  obtain s s1 s2 where r: "reg_run sample_heap s"
    "memkind_create sample_heap MEMKIND_FIXED_OPS ''a'' s = Some ((0, Some ?a), s1)"
    "memkind_create sample_heap MEMKIND_FIXED_OPS ''b'' s1 = Some ((0, Some ?b), s2)"
    and i: "reg_inv s" "created ''a'' s ?a s1" "reg_inv s2" "created ''b'' s1 ?b s2"
    and s: "kind_live s = is_static" "num_kind s = 23" "\<forall>c. name_free [c] {} s" "arena_init_status s2 = 0" "world s2 = 2"
    and a: "k_ops (kinds s2 ?a) = MEMKIND_FIXED_OPS" "k_arena_map_len (kinds s2 ?a) = 1" "k_arena_zero (kinds s2 ?a) < 4094"
    by (rule sample_two)
  have ops: "MEMKIND_FIXED_OPS \<in> dynamic_ops"
    by (simp add: dynamic_ops_def)
  have a2: "Some ?a \<in> set (drop MEMKIND_NUM_STATIC_KINDS (partition_map s2))"
    using i(2,4) by (intro dynamic_slot [OF i(1) _ i(3)]) (simp_all add: created_def)
  have "name_free ''a'' {?a} s"
    using s(3) by (simp add: name_free_def)
  then have "name_free ''a'' {?a} s2"
    using i(2,4) by (intro created_names [OF i(4)] created_names [OF i(2)]) simp_all
  moreover have "k_name (kinds s2 ?a) = ''a''"
    using i(2,4) by (simp add: created_def)
  ultimately have u: "name_unique ?a s2"
    by (auto simp: name_unique_def name_free_def dest: in_set_dropD)
  obtain s3 where d: "memkind_destroy_kind sample_heap ?a s2 = Some (0, s3)"
    "arena_init_status s3 = 0" "world s3 = 2"
    using sample_destroy [OF i(3) a2 u a] s(4,5) by auto
  have i3: "reg_inv s3" "destroyed s2 ?a s3"
    using destroy_spec [OF sample_heap_ok(1) i(3) a2 u d(1)] by simp_all
  have "name_free ''c'' {} s3"
    using s(3) by (intro destroyed_names [OF i3(2)] created_names [OF i(4)] created_names [OF i(2)]) simp_all
  then obtain s4 where c4: "memkind_create sample_heap MEMKIND_FIXED_OPS ''c'' s3 = Some ((0, Some ?a), s4)"
    using sample_create [OF i3(1), of "''c''" "0x2000"] i(2,4) i3(2) d(2,3) s(1,2)
    by (auto simp: sample_calloc_def is_static_def created_def destroyed_def name_free_def)
  show ?thesis
    using partitions_collide [OF sample_heap_ok r(1) ops r(2) ops r(3) u d(1) ops c4] by blast
qed

end
