(* ===== verification/Api.thy ===== *)
theory Api
  imports Registry
begin

text \<open>
  The public functions of \<^verbatim>\<open>src/memkind.c\<close>: allocation through the operation table of a kind or, without
  a kind, through the heap manager; creation of file-backed and fixed kinds and their configuration;
  capacity, statistics and error messages.

  The lemmas show that the tables have every function the entry points call, what a new file-backed
  kind looks like, and that error messages are terminated and stay in their buffer.
\<close>

section \<open>Dispatch\<close>

text \<open>The table of a kind that has been destroyed, and a \<open>NULL\<close> entry of a table, must not be used.\<close>

definition kind_ops :: "memkind_t \<Rightarrow> 'w mk \<Rightarrow> memkind_ops option" where
  "kind_ops k s = (if kind_live s k then Some (k_ops (kinds s k)) else None)"

definition memkind_detect_kind :: "'w sys \<Rightarrow> ptr \<Rightarrow> 'w mk \<Rightarrow> (memkind_t option \<times> 'w mk) option" where
  "memkind_detect_kind sy p s = heap_manager_detect_kind sy p s"

definition memkind_malloc_usable_size :: "'w sys \<Rightarrow> memkind_t option \<Rightarrow> ptr \<Rightarrow> 'w mk \<Rightarrow> (u64 \<times> 'w mk) option" where
  "memkind_malloc_usable_size sy kind p s =
    (case kind of
       None \<Rightarrow> Some (heap_manager_malloc_usable_size sy p s)
     | Some k \<Rightarrow>
         do {
           ops \<leftarrow> kind_ops k s;
           f \<leftarrow> o_malloc_usable_size ops;
           Some (case f of
                   Memkind_default_malloc_usable_size \<Rightarrow> memkind_default_malloc_usable_size sy k p s
                 | Tbb_pool_malloc_usable_size \<Rightarrow> tbb_pool_malloc_usable_size sy k p s,
                 s)
         })"

definition memkind_malloc :: "'w sys \<Rightarrow> memkind_t \<Rightarrow> u64 \<Rightarrow> 'w mk \<Rightarrow> (ptr \<times> 'w mk) option" where
  "memkind_malloc sy k sz s =
    do {
      ops \<leftarrow> kind_ops k s;
      f \<leftarrow> o_malloc ops;
      case f of
        Memkind_default_malloc \<Rightarrow> Some (memkind_default_malloc sy k sz s)
      | Memkind_arena_malloc \<Rightarrow> memkind_arena_malloc sy k sz s
      | Tbb_pool_malloc \<Rightarrow> Some (tbb_pool_malloc sy k sz s)
    }"

definition memkind_calloc :: "'w sys \<Rightarrow> memkind_t \<Rightarrow> u64 \<Rightarrow> u64 \<Rightarrow> 'w mk \<Rightarrow> (ptr \<times> 'w mk) option" where
  "memkind_calloc sy k num sz s =
    do {
      ops \<leftarrow> kind_ops k s;
      f \<leftarrow> o_calloc ops;
      case f of
        Memkind_default_calloc \<Rightarrow> Some (memkind_default_calloc sy k num sz s)
      | Memkind_arena_calloc \<Rightarrow> memkind_arena_calloc sy k num sz s
      | Tbb_pool_calloc \<Rightarrow> Some (tbb_pool_calloc sy k num sz s)
    }"

definition memkind_posix_memalign ::
  "'w sys \<Rightarrow> memkind_t \<Rightarrow> ptr \<Rightarrow> u64 \<Rightarrow> u64 \<Rightarrow> 'w mk \<Rightarrow> ((int \<times> ptr) \<times> 'w mk) option" where
  "memkind_posix_memalign sy k memptr alignment sz s =
    do {
      ops \<leftarrow> kind_ops k s;
      f \<leftarrow> o_posix_memalign ops;
      case f of
        Memkind_default_posix_memalign \<Rightarrow> Some (memkind_default_posix_memalign sy k memptr alignment sz s)
      | Memkind_arena_posix_memalign \<Rightarrow> memkind_arena_posix_memalign sy k alignment sz s
      | Tbb_pool_posix_memalign \<Rightarrow> Some (tbb_pool_posix_memalign sy k memptr alignment sz s)
    }"

definition memkind_realloc :: "'w sys \<Rightarrow> memkind_t option \<Rightarrow> ptr \<Rightarrow> u64 \<Rightarrow> 'w mk \<Rightarrow> (ptr \<times> 'w mk) option" where
  "memkind_realloc sy kind p sz s =
    (case kind of
       None \<Rightarrow> heap_manager_realloc sy p sz s
     | Some k \<Rightarrow>
         do {
           ops \<leftarrow> kind_ops k s;
           f \<leftarrow> o_realloc ops;
           case f of
             Memkind_default_realloc \<Rightarrow> Some (memkind_default_realloc sy k p sz s)
           | Memkind_arena_realloc \<Rightarrow> memkind_arena_realloc sy k p sz s
           | Tbb_pool_realloc \<Rightarrow> Some (tbb_pool_realloc sy k p sz s)
         })"

definition memkind_free :: "'w sys \<Rightarrow> memkind_t option \<Rightarrow> ptr \<Rightarrow> 'w mk \<Rightarrow> 'w mk option" where
  "memkind_free sy kind p s =
    (case kind of
       None \<Rightarrow> heap_manager_free sy p s
     | Some k \<Rightarrow>
         do {
           ops \<leftarrow> kind_ops k s;
           f \<leftarrow> o_free ops;
           case f of
             Memkind_default_free \<Rightarrow> Some (memkind_default_free sy k p s)
           | Memkind_arena_free \<Rightarrow> memkind_arena_free sy (Some k) p s
           | Tbb_pool_free \<Rightarrow> Some (tbb_pool_free sy k p s)
         })"

definition memkind_defrag_reallocate :: "'w sys \<Rightarrow> memkind_t option \<Rightarrow> ptr \<Rightarrow> 'w mk \<Rightarrow> (ptr \<times> 'w mk) option" where
  "memkind_defrag_reallocate sy kind p s =
    (case kind of
       None \<Rightarrow> heap_manager_defrag_reallocate sy p s
     | Some k \<Rightarrow>
         do {
           ops \<leftarrow> kind_ops k s;
           f \<leftarrow> o_defrag_reallocate ops;
           case f of
             Memkind_arena_defrag_reallocate \<Rightarrow> memkind_arena_defrag_reallocate sy k p s
           | Tbb_defrag_reallocate \<Rightarrow> Some (tbb_defrag_reallocate, s)
         })"

definition memkind_update_cached_stats :: "'w sys \<Rightarrow> 'w mk \<Rightarrow> int \<times> 'w mk" where
  "memkind_update_cached_stats sy s = heap_manager_update_cached_stats sy s"

text \<open>The argument \<open>v\<close> is what \<^verbatim>\<open>*value\<close> holds before the call.\<close>

abbreviation (input) MEMKIND_STAT_TYPE_MAX_VALUE :: nat where "MEMKIND_STAT_TYPE_MAX_VALUE \<equiv> 3"

definition memkind_get_stat ::
  "'w sys \<Rightarrow> memkind_t option \<Rightarrow> nat \<Rightarrow> u64 \<Rightarrow> 'w mk \<Rightarrow> ((int \<times> u64) \<times> 'w mk) option" where
  "memkind_get_stat sy kind stat v s =
    (if stat \<ge> MEMKIND_STAT_TYPE_MAX_VALUE then Some ((MEMKIND_ERROR_INVALID, v), s)
     else
       (case kind of
          None \<Rightarrow> heap_manager_get_stat sy stat v s
        | Some k \<Rightarrow>
            do {
              ops \<leftarrow> kind_ops k s;
              f \<leftarrow> o_get_stat ops;
              Some (case f of
                      Memkind_default_get_kind_stat \<Rightarrow> memkind_default_get_kind_stat sy k stat v s
                    | Memkind_arena_get_kind_stat \<Rightarrow> memkind_arena_get_kind_stat sy k stat v s
                    | Tbb_get_kind_stat \<Rightarrow> ((tbb_get_kind_stat, v), s))
            }))"

definition memkind_check_dax_path :: "'w sys \<Rightarrow> string \<Rightarrow> 'w mk \<Rightarrow> int \<times> 'w mk" where
  "memkind_check_dax_path sy dir s = memkind_pmem_validate_dir sy dir s"

definition memkind_set_bg_threads :: "'w sys \<Rightarrow> bool \<Rightarrow> 'w mk \<Rightarrow> int \<times> 'w mk" where
  "memkind_set_bg_threads sy state s = heap_manager_set_bg_threads sy state s"

definition memkind_stats_print :: "'w sys \<Rightarrow> u32 \<Rightarrow> 'w mk \<Rightarrow> int \<times> 'w mk" where
  "memkind_stats_print sy opts s = heap_manager_stats_print sy opts s"

definition memkind_set_allow_zero_allocs :: "memkind_t \<Rightarrow> bool \<Rightarrow> 'w mk \<Rightarrow> 'w mk option" where
  "memkind_set_allow_zero_allocs k allow s =
    (if kind_live s k then Some (upd_kind k (\<lambda>kd. kd\<lparr>k_allow_zero_allocs := allow\<rparr>) s) else None)"

section \<open>File-backed and fixed kinds\<close>

text \<open>The conversion \<^verbatim>\<open>%x\<close>.\<close>

fun hex :: "nat \<Rightarrow> string" where
  "hex n = (if n < 16 then [''0123456789abcdef'' ! n] else hex (n div 16) @ [''0123456789abcdef'' ! (n mod 16)])"

declare hex.simps [simp del]

definition pmem_name :: "int \<Rightarrow> string" where
  "pmem_name fd = ''pmem'' @ (let h = hex (nat fd) in replicate (8 - length h) (CHR ''0'') @ h)"

definition fixed_name :: "ptr \<Rightarrow> string" where
  "fixed_name addr = ''fixed'' @ (if addr = NULL then ''(nil)'' else ''0x'' @ hex (unat addr))"

abbreviation (input) MEMKIND_PMEM_MIN_SIZE :: u64 where "MEMKIND_PMEM_MIN_SIZE \<equiv> 16777216"
abbreviation (input) MEMKIND_PMEM_CHUNK_SIZE :: u64 where "MEMKIND_PMEM_CHUNK_SIZE \<equiv> 2097152"

definition roundup_chunk :: "u64 \<Rightarrow> u64" where
  "roundup_chunk sz = (sz + (MEMKIND_PMEM_CHUNK_SIZE - 1)) AND NOT (MEMKIND_PMEM_CHUNK_SIZE - 1)"

text \<open>
  The fields of a new file-backed kind; the result says whether there was memory for the copy of the
  directory. The copy is not terminated: the string that the kind sees goes on with what follows the block.
\<close>

definition pmem_setup :: "'w sys \<Rightarrow> memkind_t \<Rightarrow> int \<Rightarrow> u64 \<Rightarrow> string \<Rightarrow> 'w mk \<Rightarrow> (bool \<times> 'w mk) option" where
  "pmem_setup sy k fd max_size dir s =
    do {
      d \<leftarrow> pmem_of k s;
      let s = set_pmem k (d\<lparr>pm_fd := fd, pm_offset := 0, pm_current_size := 0, pm_max_size := max_size\<rparr>) s;
      let (p, s) = je_malloc sy (of_nat (length dir) + 1) s;
      d \<leftarrow> pmem_of k s;
      let tail = cstring_at sy (p + of_nat (length dir)) (world s);
      Some (p \<noteq> NULL, set_pmem k (d\<lparr>pm_dir := (p, if p = NULL then [] else dir @ tail)\<rparr>) s)
    }"

definition close_fd :: "'w sys \<Rightarrow> int \<Rightarrow> 'w mk \<Rightarrow> 'w mk" where
  "close_fd sy fd s = (if fd \<noteq> - 1 then s\<lparr>world := sys_close sy fd (world s)\<rparr> else s)"

text \<open>\<^verbatim>\<open>memkind_create_pmem\<close>; only with the code 0 is the kind of the result valid.\<close>

definition memkind_create_pmem ::
  "'w sys \<Rightarrow> string \<Rightarrow> u64 \<Rightarrow> 'w mk \<Rightarrow> ((int \<times> memkind_t option) \<times> 'w mk) option" where
  "memkind_create_pmem sy dir max_size s =
    (if max_size \<noteq> 0 \<and> max_size < MEMKIND_PMEM_MIN_SIZE then Some ((MEMKIND_ERROR_INVALID, None), s)
     else
       (let max_size = (if max_size \<noteq> 0 then roundup_chunk max_size else max_size);
            ((err, fd), s) = memkind_pmem_create_tmpfile sy dir (- 1) s
        in if err \<noteq> 0 then Some ((err, None), close_fd sy fd s)
           else do {
             ((err, kind), s) \<leftarrow> memkind_create sy MEMKIND_PMEM_OPS (pmem_name fd) s;
             if err \<noteq> 0 then Some ((err, kind), close_fd sy fd s)
             else do {
               k \<leftarrow> kind;
               (ok, s) \<leftarrow> pmem_setup sy k fd max_size dir s;
               Some ((err, kind), if ok then s else close_fd sy fd s)
             }
           }))"

definition memkind_create_fixed ::
  "'w sys \<Rightarrow> ptr \<Rightarrow> u64 \<Rightarrow> 'w mk \<Rightarrow> ((int \<times> memkind_t option) \<times> 'w mk) option" where
  "memkind_create_fixed sy addr sz s =
    do {
      ((err, kind), s) \<leftarrow> memkind_create sy MEMKIND_FIXED_OPS (fixed_name addr) s;
      if err \<noteq> 0 then Some ((err, kind), s)
      else do {
        k \<leftarrow> kind;
        d \<leftarrow> fixed_of k s;
        Some ((MEMKIND_SUCCESS, kind), set_fixed k (d\<lparr>fx_addr := addr, fx_current := 0, fx_size := sz\<rparr>) s)
      }
    }"

text \<open>
  A configuration comes from the C library's \<^verbatim>\<open>malloc\<close>: a field that has not been set is \<open>None\<close>, and
  reading it is undefined.
\<close>

record memkind_config =
  cfg_pmem_dir :: "string option"
  cfg_pmem_size :: "u64 option"
  cfg_policy :: "nat option"

definition memkind_config_new :: "'w sys \<Rightarrow> 'w mk \<Rightarrow> memkind_config option \<times> 'w mk" where
  "memkind_config_new sy s =
    (let (ok, s) = on_world (heap_alloc (host_of sy) 24) s
     in (if ok then Some \<lparr>cfg_pmem_dir = None, cfg_pmem_size = None, cfg_policy = None\<rparr> else None, s))"

definition memkind_config_set_path :: "memkind_config \<Rightarrow> string \<Rightarrow> memkind_config" where
  "memkind_config_set_path cfg pmem_dir = cfg\<lparr>cfg_pmem_dir := Some pmem_dir\<rparr>"

definition memkind_config_set_size :: "memkind_config \<Rightarrow> u64 \<Rightarrow> memkind_config" where
  "memkind_config_set_size cfg pmem_size = cfg\<lparr>cfg_pmem_size := Some pmem_size\<rparr>"

definition memkind_config_set_memory_usage_policy :: "memkind_config \<Rightarrow> nat \<Rightarrow> memkind_config" where
  "memkind_config_set_memory_usage_policy cfg policy = cfg\<lparr>cfg_policy := Some policy\<rparr>"

definition memkind_create_pmem_with_config ::
  "'w sys \<Rightarrow> memkind_config \<Rightarrow> 'w mk \<Rightarrow> ((int \<times> memkind_t option) \<times> 'w mk) option" where
  "memkind_create_pmem_with_config sy cfg s =
    do {
      dir \<leftarrow> cfg_pmem_dir cfg;
      sz \<leftarrow> cfg_pmem_size cfg;
      ((status, kind), s) \<leftarrow> memkind_create_pmem sy dir sz s;
      if status \<noteq> 0 then Some ((status, kind), s)
      else do {
        k \<leftarrow> kind;
        ops \<leftarrow> kind_ops k s;
        f \<leftarrow> o_update_memory_usage_policy ops;
        policy \<leftarrow> cfg_policy cfg;
        let (status, s) =
          (case f of
             Memkind_arena_update_memory_usage_policy \<Rightarrow> memkind_arena_update_memory_usage_policy sy k policy s
           | Tbb_update_memory_usage_policy \<Rightarrow> (tbb_update_memory_usage_policy, s));
        Some ((status, kind), s)
      }
    }"

section \<open>Capacity\<close>

text \<open>
  The sum of the sizes of the nodes of a mask from node \<open>i\<close> on; \<open>None\<close> when the size of a node is not known.
  A \<^verbatim>\<open>ssize_t\<close> is its 64-bit pattern.
\<close>

fun sum_node_sizes :: "'w host \<Rightarrow> nat \<Rightarrow> bool list \<Rightarrow> u64 \<Rightarrow> u64 option" where
  "sum_node_sizes h i [] capacity = Some capacity"
| "sum_node_sizes h i (b # bs) capacity =
    (if \<not> b then sum_node_sizes h (Suc i) bs capacity
     else if numa_node_size64 h i = - 1 then None
     else sum_node_sizes h (Suc i) bs (capacity + of_int (numa_node_size64 h i)))"

text \<open>
  The mask that \<^verbatim>\<open>memkind_get_capacity\<close> sums up, with a flag whether it is libnuma's own mask of all
  nodes: \<open>Inl\<close> when it cannot be had, \<open>Inr None\<close> for a kind without one.
\<close>

definition capacity_mask ::
  "'w sys \<Rightarrow> memkind_t \<Rightarrow> 'w mk \<Rightarrow> ((unit + (bitmask \<times> bool) option) \<times> 'w mk) option" where
  "capacity_mask sy k s =
    (if o_get_mbind_nodemask (k_ops (kinds s k)) \<noteq> None then
       (let n = numa_num_possible_nodes (host_of sy);
            (ok, s) = on_world (numa_bitmask_alloc (host_of sy) n) s
        in if \<not> ok then Some (Inl (), s)
           else do {
             ((err, bm), s) \<leftarrow> ops_get_mbind_nodemask sy k (Some (replicate n False)) s;
             if err \<noteq> 0 then Some (Inl (), s) else Some (Inr (map_option (\<lambda>m. (m, False)) bm), s)
           })
     else if k = MEMKIND_DEFAULT then Some (Inr (Some (numa_all_nodes_ptr (host_of sy), True)), s)
     else Some (Inr None, s))"

definition hugetlb_capacity :: "'w sys \<Rightarrow> 'w mk \<Rightarrow> (u64 \<times> 'w mk) option" where
  "hugetlb_capacity sy s =
    do {
      ((err, n), c, w) \<leftarrow>
        get_nr_hugepages_cached (host_of sy) 2097152 (replicate NUMA_NUM_NODES True) (hugepages_config s) (world s);
      let s = s\<lparr>hugepages_config := c, world := w\<rparr>;
      if err \<noteq> 0 then Some (- 1, s)
      else do {
        ((err, m), c, w) \<leftarrow>
          get_nr_overcommit_hugepages_cached (host_of sy) 2097152 (hugepages_config s) (world s);
        let s = s\<lparr>hugepages_config := c, world := w\<rparr>;
        if err \<noteq> 0 then Some (- 1, s)
        else do { n \<leftarrow> n; m \<leftarrow> m; Some ((n + m) * 2097152, s) }
      }
    }"

text \<open>The second component of the result says whether libnuma's own mask of all nodes has been freed.\<close>

definition memkind_get_capacity :: "'w sys \<Rightarrow> memkind_t \<Rightarrow> 'w mk \<Rightarrow> ((u64 \<times> bool) \<times> 'w mk) option" where
  "memkind_get_capacity sy k s =
    do {
      ops \<leftarrow> kind_ops k s;
      if o_get_mbind_mode ops = Some Memkind_preferred_get_mbind_mode \<or>
         o_check_available ops = Some Memkind_hbw_hugetlb_check_available
      then Some ((- 1, False), s)
      else if numa_available (host_of sy) \<noteq> 0 then None
      else do {
        (r, s) \<leftarrow> capacity_mask sy k s;
        case r of
          Inl _ \<Rightarrow> Some ((- 1, False), s)
        | Inr (Some (m, all_nodes_ptr_used)) \<Rightarrow>
            Some (case sum_node_sizes (host_of sy) 0 m 0 of
                    None \<Rightarrow> ((- 1, all_nodes_ptr_used), s)
                  | Some capacity \<Rightarrow> ((capacity, False), s))
        | Inr None \<Rightarrow>
            if ops = MEMKIND_PMEM_OPS then do {
              d \<leftarrow> pmem_of k s;
              if pm_max_size d \<noteq> 0 then Some ((pm_max_size d, False), s)
              else
                (let (ret, f_blocks, f_frsize) = sys_statvfs sy (snd (pm_dir d)) (world s)
                 in if ret = - 1 then Some ((- 1, False), s) else Some ((f_blocks * f_frsize, False), s))
            }
            else if ops = MEMKIND_FIXED_OPS then do { d \<leftarrow> fixed_of k s; Some ((fx_size d, False), s) }
            else if k = MEMKIND_HUGETLB then do { (c, s) \<leftarrow> hugetlb_capacity sy s; Some ((c, False), s) }
            else Some ((0, False), s)
      }
    }"

section \<open>Messages\<close>

text \<open>The three numbers of the version are set by the build.\<close>

definition memkind_get_version :: "int \<Rightarrow> int \<Rightarrow> int \<Rightarrow> int" where
  "memkind_get_version major minor patch = major * 1000000 + minor * 1000 + patch"

abbreviation (input) NUL :: char where "NUL \<equiv> CHR 0x00"

definition strncpy :: "nat \<Rightarrow> string \<Rightarrow> string \<Rightarrow> string" where
  "strncpy n src dst = take n (src @ replicate n NUL) @ drop n dst"

definition snprintf :: "nat \<Rightarrow> string \<Rightarrow> string \<Rightarrow> string" where
  "snprintf n src dst = (if n = 0 then dst else let t = take (n - 1) src @ [NUL] in t @ drop (length t) dst)"

definition show_int :: "int \<Rightarrow> string" where
  "show_int i = (if i < 0 then ''-'' @ show_nat (nat (- i)) else show_nat (nat i))"

text \<open>The fixed messages, and the formatted ones for the limit of kinds and for unknown numbers.\<close>

definition error_text :: "int \<Rightarrow> string option" where
  "error_text err =
    (if err = MEMKIND_ERROR_UNAVAILABLE then Some ''<memkind> Requested memory kind is not available''
     else if err = MEMKIND_ERROR_MBIND then Some ''<memkind> Call to mbind() failed''
     else if err = MEMKIND_ERROR_MMAP then Some ''<memkind> Call to mmap() failed''
     else if err = MEMKIND_ERROR_MALLOC then Some ''<memkind> Call to malloc() failed''
     else if err = MEMKIND_ERROR_ENVIRON then Some ''<memkind> Error parsing environment variable (MEMKIND_*)''
     else if err = MEMKIND_ERROR_INVALID then Some ''<memkind> Invalid input arguments to memkind routine''
     else if err = MEMKIND_ERROR_RUNTIME then Some ''<memkind> Unspecified run-time error''
     else if err = EINVAL then Some ''<memkind> Alignment must be a power of two and larger than sizeof(void *)''
     else if err = ENOMEM then Some ''<memkind> Call to jemk_mallocx() failed''
     else if err = MEMKIND_ERROR_HUGETLB then Some ''<memkind> unable to allocate huge pages''
     else if err = MEMKIND_ERROR_BADOPS
     then Some ''<memkind> memkind_ops structure is poorly formed (missing or incorrect functions)''
     else if err = MEMKIND_ERROR_MEMTYPE_NOT_AVAILABLE then Some ''<memkind> Requested memory type is not available''
     else if err = MEMKIND_ERROR_OPERATION_FAILED then Some ''<memkind> Operation failed''
     else if err = MEMKIND_ERROR_ARENAS_CREATE then Some ''<memkind> Call to jemalloc's arenas.create () failed''
     else None)"

definition formatted_text :: "int \<Rightarrow> string" where
  "formatted_text err =
    (if err = MEMKIND_ERROR_TOOMANY
     then ''<memkind> Attempted to initialize more than maximum ('' @ show_nat MEMKIND_MAX_KIND @ '') number of kinds''
     else ''<memkind> Undefined error number: '' @ show_int err)"

text \<open>\<^verbatim>\<open>memkind_error_message\<close> on the contents of the buffer; a write outside of it is undefined.\<close>

definition memkind_error_message :: "int \<Rightarrow> string \<Rightarrow> u64 \<Rightarrow> string option" where
  "memkind_error_message err msg sz =
    (let n = unat sz
     in if length msg < n then None
        else
          (let msg = (case error_text err of
                        Some t \<Rightarrow> strncpy n t msg
                      | None \<Rightarrow> snprintf n (formatted_text err) msg)
           in Some (if sz > 0 then msg[n - 1 := NUL] else msg)))"

section \<open>The operation tables\<close>

lemma tbb_table: "table_complete ops \<Longrightarrow> table_complete (tbb_ops ops)"
  by (simp add: table_complete_def tbb_ops_def)

text \<open>
  C29. The operation tables are well formed, so that no public function calls through a \<open>NULL\<close> pointer.
  The table of every static kind has all functions that the entry points call without a test, names a
  function that picks arenas when it allocates from arenas, a policy and a node mask when it binds
  memory, and an initialiser that initialises this very kind. The same functions are there after the
  TBB heap manager has replaced its part of the table. The tables of the kinds created at run time are
  accepted by \<^verbatim>\<open>memkind_create\<close>, are complete as well, and have the policy function that
  \<^verbatim>\<open>memkind_create_pmem_with_config\<close> calls.
\<close>

theorem kind_tables_well_formed:
  "list_all (\<lambda>k. let ops = k_ops (static_kind k) in
      table_complete ops \<and> table_wired ops \<and> map_option init_once_kind (o_init_once ops) = Some k \<and>
      table_complete (tbb_ops ops)) static_registry \<and>
    list_all (\<lambda>ops. \<not> poorly_formed ops \<and> table_complete ops \<and> table_wired ops \<and> o_init_once ops = None \<and>
      o_mmap ops \<noteq> None) [MEMKIND_PMEM_OPS, MEMKIND_FIXED_OPS] \<and>
    o_update_memory_usage_policy MEMKIND_PMEM_OPS = Some Memkind_arena_update_memory_usage_policy"
proof -
  have "table_complete (k_ops (static_kind k)) \<and> table_wired (k_ops (static_kind k)) \<and>
      map_option init_once_kind (o_init_once (k_ops (static_kind k))) = Some k" if "k \<in> set static_registry" for k
    using that static_table_complete static_table_wired static_init_once_own by (simp add: static_registry_set)
  then have "list_all (\<lambda>k. let ops = k_ops (static_kind k) in
      table_complete ops \<and> table_wired ops \<and> map_option init_once_kind (o_init_once ops) = Some k \<and>
      table_complete (tbb_ops ops)) static_registry"
    by (simp add: list_all_iff Let_def tbb_table)
  then show ?thesis
    by (simp add: poorly_formed_def table_complete_def table_wired_def MEMKIND_PMEM_OPS_def MEMKIND_FIXED_OPS_def
        no_ops_def)
qed

section \<open>Error messages\<close>

definition error_message :: "int \<Rightarrow> string" where
  "error_message err = (case error_text err of Some t \<Rightarrow> t | None \<Rightarrow> formatted_text err)"

lemma show_nat_no_nul: "NUL \<notin> set (show_nat n)"
  using show_nat_digits [of n] by (auto simp: isdigit_def)

lemma error_message_no_nul: "NUL \<notin> set (error_message err)"
proof (cases "error_text err")
  case None
  then show ?thesis
    by (simp add: error_message_def formatted_text_def show_int_def show_nat_no_nul)
next
  case (Some t)
  then show ?thesis
    by (auto simp: error_message_def error_text_def split: if_splits)
qed

lemma takeWhile_terminated:
  "NUL \<notin> set t \<Longrightarrow> takeWhile (\<lambda>c. c \<noteq> NUL) (t @ NUL # rest) = t"
  by (induction t) auto

lemma nul_head: "\<exists>rest. (NUL # xs)[j := NUL] = NUL # rest" "\<exists>rest. replicate j NUL @ NUL # xs = NUL # rest"
  by (cases j; simp)+

lemma strncpy_terminated:
  assumes "n \<le> length dst" "0 < n"
  shows "\<exists>rest. (strncpy n t dst)[n - 1 := NUL] = take (n - 1) t @ NUL # rest \<and>
    drop n ((strncpy n t dst)[n - 1 := NUL]) = drop n dst \<and> length (strncpy n t dst) = length dst"
proof -
  let ?c = "take n (t @ replicate n NUL)"
  have len: "length ?c = n"
    by simp
  have "?c = take (n - 1) (t @ replicate n NUL) @ [(t @ replicate n NUL) ! (n - 1)]"
    using assms take_Suc_conv_app_nth [of "n - 1" "t @ replicate n NUL"] by simp
  then have c: "?c[n - 1 := NUL] = take (n - 1) (t @ replicate n NUL) @ [NUL]"
    by (metis len length_append_singleton diff_Suc_1 list_update_length)
  have "n - 1 < length ?c"
    using assms(2) len by linarith
  then have "(strncpy n t dst)[n - 1 := NUL] = (take (n - 1) (t @ replicate n NUL) @ [NUL]) @ drop n dst"
    unfolding strncpy_def by (simp only: list_update_append1 c)
  then have "(strncpy n t dst)[n - 1 := NUL] = take (n - 1) (t @ replicate n NUL) @ NUL # drop n dst"
    by simp
  moreover have "take (n - 1) (t @ replicate n NUL) = take (n - 1) t @ replicate (n - 1 - length t) NUL"
    by simp
  ultimately have "(strncpy n t dst)[n - 1 := NUL] =
      take (n - 1) t @ replicate (n - 1 - length t) NUL @ NUL # drop n dst"
    by simp
  moreover have "\<exists>rest. replicate (n - 1 - length t) NUL @ NUL # drop n dst = NUL # rest"
    by (rule nul_head)
  moreover have "drop n ((strncpy n t dst)[n - 1 := NUL]) = drop n dst" "length (strncpy n t dst) = length dst"
    using assms by (simp_all add: strncpy_def drop_update_cancel)
  ultimately show ?thesis
    by metis
qed

lemma snprintf_terminated:
  assumes "n \<le> length dst" "0 < n"
  shows "\<exists>rest. (snprintf n t dst)[n - 1 := NUL] = take (n - 1) t @ NUL # rest \<and>
    drop n ((snprintf n t dst)[n - 1 := NUL]) = drop n dst \<and> length (snprintf n t dst) = length dst"
proof -
  let ?t = "take (n - 1) t"
  have s: "snprintf n t dst = ?t @ NUL # drop (Suc (length ?t)) dst"
    using assms(2) by (simp add: snprintf_def Let_def)
  have le: "length ?t \<le> n - 1" "Suc (length ?t) \<le> n"
    using assms(2) by auto
  then have "(snprintf n t dst)[n - 1 := NUL] = ?t @ (NUL # drop (Suc (length ?t)) dst)[n - 1 - length ?t := NUL]"
    unfolding s by (simp add: list_update_append)
  moreover have "\<exists>rest. (NUL # drop (Suc (length ?t)) dst)[n - 1 - length ?t := NUL] = NUL # rest"
    by (rule nul_head)
  moreover have "drop n (snprintf n t dst) = drop n dst" "length (snprintf n t dst) = length dst"
    unfolding s using le assms by (auto simp: drop_Cons')
  ultimately show ?thesis
    using assms(2) by (metis diff_less drop_update_cancel zero_less_one)
qed

text \<open>
  \<^verbatim>\<open>memkind_error_message\<close> is safe for every error number and every buffer that is as large as the caller
  says: it writes nothing behind the given size, the buffer then holds a terminated string, and the
  string is the message cut off to the size of the buffer minus one.
\<close>

theorem error_message_terminated:
  assumes "0 < sz" "unat sz \<le> length msg"
  shows "\<exists>out. memkind_error_message err msg sz = Some out \<and> length out = length msg \<and>
    drop (unat sz) out = drop (unat sz) msg \<and>
    takeWhile (\<lambda>c. c \<noteq> NUL) out = take (unat sz - 1) (error_message err)"
proof -
  let ?n = "unat sz"
  have n: "0 < ?n"
    using assms(1) by (simp add: word_less_nat_alt)
  have nul: "NUL \<notin> set (take (?n - 1) (error_message err))"
    using error_message_no_nul by (metis in_set_takeD)
  let ?m = "case error_text err of Some t \<Rightarrow> strncpy ?n t msg | None \<Rightarrow> snprintf ?n (formatted_text err) msg"
  have "\<exists>rest. ?m[?n - 1 := NUL] = take (?n - 1) (error_message err) @ NUL # rest \<and>
      drop ?n (?m[?n - 1 := NUL]) = drop ?n msg \<and> length ?m = length msg"
  proof (cases "error_text err")
    case None
    then show ?thesis
      using snprintf_terminated [OF assms(2) n, of "formatted_text err"] by (simp only: error_message_def option.case)
  next
    case (Some t)
    then show ?thesis
      using strncpy_terminated [OF assms(2) n, of t] by (simp only: error_message_def option.case)
  qed
  moreover have "memkind_error_message err msg sz = Some (?m[?n - 1 := NUL])"
    using assms by (simp add: memkind_error_message_def Let_def not_less split: option.split)
  ultimately show ?thesis
    using takeWhile_terminated [OF nul] by auto
qed

theorem error_message_terminated_witness:
  "\<exists>out. memkind_error_message (- 21) (replicate 24 CHR ''x'') 20 = Some out \<and> length out = 24 \<and>
    drop 20 out = replicate 4 CHR ''x'' \<and> takeWhile (\<lambda>c. c \<noteq> NUL) out = ''<memkind> Operation''"
  using error_message_terminated [of 20 "replicate 24 CHR ''x''" "- 21"]
  by (simp add: error_message_def error_text_def)

section \<open>A new file-backed kind\<close>

text \<open>jemalloc's own allocations do not change the library.\<close>

definition internal_malloc_frame :: "'w sys \<Rightarrow> bool" where
  "internal_malloc_frame sy \<longleftrightarrow> (\<forall>n s. same_lib s (snd (je_malloc sy n s)))"

lemma roundup_chunk_spec:
  "unat (roundup_chunk sz) =
    (if unat sz > 2 ^ 64 - 2 ^ 21 then 0 else (unat sz + (2 ^ 21 - 1)) div 2 ^ 21 * 2 ^ 21)"
proof -
  let ?t = "sz + (MEMKIND_PMEM_CHUNK_SIZE - 1)"
  have mask: "MEMKIND_PMEM_CHUNK_SIZE - 1 = (2 ^ 21 - 1 :: u64)"
    by simp
  have r: "unat (roundup_chunk sz) = unat ?t div 2 ^ 21 * 2 ^ 21"
    unfolding roundup_chunk_def mask by (simp only: and_not_pow2_minus_one minus_mod_eq_div_mult)
  have "unat (MEMKIND_PMEM_CHUNK_SIZE - 1) = 2 ^ 21 - 1" "LENGTH(64) = 64"
    by simp_all
  then have t: "unat ?t = (unat sz + (2 ^ 21 - 1)) mod 2 ^ 64"
    by (simp only: unat_word_ariths(1))
  have lt: "unat sz < 2 ^ 64"
    using unsigned_less [of sz, where 'a = nat] by simp
  show ?thesis
  proof (cases "unat sz > 2 ^ 64 - 2 ^ 21")
    case True
    then have ge: "2 ^ 64 \<le> unat sz + (2 ^ 21 - 1)"
      by simp
    have "a + (c - 1) - m < c" if "a < m" "0 < c" for a c m :: nat
      using that by linarith
    from this [OF lt, of "2 ^ 21"] have less: "unat sz + (2 ^ 21 - 1) - 2 ^ 64 < 2 ^ 21"
      by simp
    moreover have "(unat sz + (2 ^ 21 - 1)) mod 2 ^ 64 = unat sz + (2 ^ 21 - 1) - 2 ^ 64"
      using less_trans [OF less] by (simp only: le_mod_geq [OF ge]) simp
    ultimately show ?thesis
      using True by (simp only: r t if_True div_less mult_zero_left)
  next
    case False
    then have "(unat sz + (2 ^ 21 - 1)) mod 2 ^ 64 = unat sz + (2 ^ 21 - 1)"
      by (intro mod_less) auto
    then show ?thesis
      using False by (simp only: r t if_False)
  qed
qed

lemma pmem_setup_fields:
  assumes "internal_malloc_frame sy" "pmem_setup sy k fd max_size dir s = Some (ok, s')"
  shows "\<exists>d. pmem_of k s' = Some d \<and> pm_offset d = 0 \<and> pm_current_size d = 0 \<and> pm_max_size d = max_size"
proof -
  obtain d where d: "pmem_of k s = Some d"
    using assms(2) by (auto simp: pmem_setup_def Option.bind_eq_Some_conv)
  let ?d = "d\<lparr>pm_fd := fd, pm_offset := 0, pm_current_size := 0, pm_max_size := max_size\<rparr>"
  obtain p s1 where m: "je_malloc sy (of_nat (length dir) + 1) (set_pmem k ?d s) = (p, s1)"
    by fastforce
  have "same_lib (set_pmem k ?d s) s1"
    using assms(1) m unfolding internal_malloc_frame_def by (metis snd_conv)
  then have "kinds s1 = kinds (set_pmem k ?d s)"
    by (simp add: same_lib_sel)
  then have "pmem_of k s1 = Some ?d"
    by (simp add: pmem_of_def set_pmem_def)
  then show ?thesis
    using assms(2) d m by (auto simp: pmem_setup_def Let_def)
qed

text \<open>
  C33. A file-backed kind that \<^verbatim>\<open>memkind_create_pmem\<close> has created starts with an empty file, and its limit is
  the requested size rounded up to whole chunks of 2 MB; 0 stands for no limit. The rounding wraps
  around: for a size within the last chunk of the address range the limit becomes 0, so that the largest
  requests create kinds without a limit.
\<close>

theorem create_pmem_limit:
  assumes "internal_malloc_frame sy" and "memkind_create_pmem sy dir sz s = Some ((0, Some k), s')"
  shows "\<exists>d. pmem_of k s' = Some d \<and> pm_offset d = 0 \<and> pm_current_size d = 0 \<and>
    unat (pm_max_size d) =
      (if sz = 0 \<or> unat sz > 2 ^ 64 - 2 ^ 21 then 0 else (unat sz + (2 ^ 21 - 1)) div 2 ^ 21 * 2 ^ 21)"
proof -
  let ?max = "if sz \<noteq> 0 then roundup_chunk sz else sz"
  obtain fd s2 ok s3 where p: "pmem_setup sy k fd ?max dir s2 = Some (ok, s3)" "s' = (if ok then s3 else close_fd sy fd s3)"
    using assms(2) by (auto simp: memkind_create_pmem_def Let_def Option.bind_eq_Some_conv split: prod.splits if_splits)
  obtain d where "pmem_of k s3 = Some d" "pm_offset d = 0" "pm_current_size d = 0" "pm_max_size d = ?max"
    using pmem_setup_fields [OF assms(1) p(1)] by blast
  moreover have "pmem_of k s' = pmem_of k s3"
    using p(2) by (simp add: close_fd_def)
  ultimately show ?thesis
    by (auto simp: roundup_chunk_spec)
qed

lemma sample_pmem_name: "pmem_name 5 = ''pmem00000005''"
  by (simp add: pmem_name_def hex.simps Let_def eval_nat_numeral)

text \<open>A creation leaves the kind with private data, and the setup of the sample system then succeeds.\<close>

lemma pmem_create_priv:
  assumes "memkind_pmem_create sy k ops name s = Some (0, s')"
  shows "\<exists>d. pmem_of k s' = Some d"
proof -
  obtain priv s1 where 1: "je_malloc sy 80 s = (priv, s1)"
    by fastforce
  obtain r s2 where 2: "on_world (pthread_mutex_init sy) s1 = (r, s2)"
    by fastforce
  obtain err s3 where 3: "memkind_default_create k ops name s2 = (err, s3)"
    by fastforce
  have ok: "priv \<noteq> NULL" "r = 0" "err = 0"
    using assms 1 2 3 by (auto simp: memkind_pmem_create_def split: if_splits)
  let ?m = "memkind_arena_create_map sy k
    (if memkind_get_hog_memory s3 then pmem_extent_hooks_hog_memory else pmem_extent_hooks) False s3"
  obtain e s4 where 4: "?m = Some (e, s4)"
    using assms 1 2 3 ok by (cases ?m) (auto simp: memkind_pmem_create_def)
  then have "e = 0"
    using assms 1 2 3 ok by (cases "e = 0") (simp_all add: memkind_pmem_create_def)
  then have "s' = upd_kind k (\<lambda>kd. kd\<lparr>k_priv := Priv_pmem priv blank_pmem\<rparr>) s4"
    using assms 1 2 3 4 ok by (simp add: memkind_pmem_create_def)
  then show ?thesis
    by (simp add: pmem_of_def)
qed

lemma create_pmem_priv:
  assumes "memkind_create sy MEMKIND_PMEM_OPS name s = Some ((0, Some k), s')"
  shows "\<exists>d. pmem_of k s' = Some d"
proof -
  have ops: "MEMKIND_PMEM_OPS \<in> dynamic_ops"
    by (simp add: dynamic_ops_def)
  from assms ops show ?thesis
  proof (cases rule: create_start)
    case (3 i p s1 f e s2)
    have f: "f = Memkind_pmem_create"
      using 3(5) by (simp add: MEMKIND_PMEM_OPS_def no_ops_def)
    have e: "e = 0" "k = Dynamic p"
      using 3(7) by (simp_all split: if_splits)
    have "\<exists>d. pmem_of k s2 = Some d"
      using 3(6) unfolding f e by (intro pmem_create_priv) (simp add: call_create_def)
    then show ?thesis
      using 3(7) e by (auto simp: pmem_of_def)
  qed simp_all
qed

lemma sample_setup:
  "pmem_of k s = Some d \<Longrightarrow> \<exists>s'. pmem_setup sample_heap k fd m dir s = Some (True, s')"
  by (simp add: pmem_setup_def sample_heap_def sample_sys_def)

theorem create_pmem_limit_witness:
  "\<exists>s s' d. memkind_create_pmem sample_heap ''/d'' 0x1000001 s = Some ((0, Some (Dynamic 0x2000)), s') \<and>
    pmem_of (Dynamic 0x2000) s' = Some d \<and> pm_current_size d = 0 \<and> unat (pm_max_size d) = 18874368"
proof -
  obtain s where s: "reg_run sample_heap s" "arena_init_status s = 0" "world s = 0" "kind_live s = is_static"
    "num_kind s = 23" "\<forall>k. k_name (kinds s k) = k_name (static_kind k)"
    "partition_map s = partition_map (mk_init (0 :: nat))"
    using sample_load by auto
  have "memkind_pmem_create_tmpfile sample_heap ''/d'' (- 1) s = ((0, 5), s)"
    by (simp add: memkind_pmem_create_tmpfile_def on_world_def sample_heap_def sample_sys_def)
  moreover obtain s1 where c: "memkind_create sample_heap MEMKIND_PMEM_OPS (pmem_name 5) s =
      Some ((0, Some (Dynamic 0x2000)), s1)"
  proof -
    have "pmem_name 5 \<noteq> k_name (kinds s k)" if "Some k \<in> set (partition_map s)" for k
      using that s(6,7) by (auto simp: sample_pmem_name mk_init_def static_registry_def)
    then show thesis
      using that sample_create_ops [OF reg_run_inv [OF sample_heap_ok s(1)], of "pmem_name 5" "0x2000" MEMKIND_PMEM_OPS] s(2-5)
      by (auto simp: sample_pmem_name sample_calloc_def is_static_def dynamic_ops_def)
  qed
  ultimately obtain s' where "memkind_create_pmem sample_heap ''/d'' 0x1000001 s = Some ((0, Some (Dynamic 0x2000)), s')"
    using create_pmem_priv [OF c] sample_setup [of "Dynamic 0x2000" s1 _ 5 "roundup_chunk 0x1000001" "''/d''"]
    by (auto simp: memkind_create_pmem_def)
  moreover have "internal_malloc_frame sample_heap"
    by (simp add: internal_malloc_frame_def sample_heap_def sample_sys_def same_lib_def)
  ultimately show ?thesis
    using create_pmem_limit [of sample_heap "''/d''" "0x1000001" s "Dynamic 0x2000" s'] by auto
qed

end
