(* ===== verification/Float32.thy ===== *)
theory Float32
  imports Complex_Main Prelude
begin

text \<open>
  The C type \<^verbatim>\<open>float\<close>: numbers of IEEE 754 single precision. A finite number is its rational value;
  every operation rounds the exact result to the nearest representable number, ties to even, with a
  24-bit significand, subnormal numbers below \<open>2\<^sup>-\<^sup>1\<^sup>2\<^sup>6\<close> and an overflow to infinity at \<open>2\<^sup>1\<^sup>2\<^sup>8\<close>. The
  sign of a zero is not kept: the sources never divide by a negative zero.

  The lemmas bound what rounding does by powers of two, which is what the thresholds between tiers
  need.
\<close>

section \<open>Rounding\<close>

function bit_len :: "int \<Rightarrow> nat" where
  "bit_len n = (if n \<le> 0 then 0 else Suc (bit_len (n div 2)))"
  by pat_completeness auto
termination
  by (relation "measure nat") auto

declare bit_len.simps [simp del]

definition pow2 :: "int \<Rightarrow> rat" where
  "pow2 e = (if 0 \<le> e then 2 ^ nat e else 1 / 2 ^ nat (- e))"

text \<open>The exponent of a positive number: \<open>2\<^sup>e\<close> is the largest power of two that is not above it.\<close>

definition expo :: "rat \<Rightarrow> int" where
  "expo x =
    (let (a, b) = quotient_of x; d = int (bit_len a) - int (bit_len b)
     in if pow2 d \<le> x then d else d - 1)"

definition round_half_even :: "rat \<Rightarrow> int" where
  "round_half_even x =
    (let f = \<lfloor>x\<rfloor>; r = x - of_int f
     in if r < 1 / 2 then f else if r > 1 / 2 then f + 1 else if even f then f else f + 1)"

text \<open>The distance of the representable numbers around a positive number.\<close>

definition quantum :: "rat \<Rightarrow> int" where
  "quantum x = max (expo x - 23) (- 149)"

definition round_pos :: "rat \<Rightarrow> rat" where
  "round_pos x = of_int (round_half_even (x / pow2 (quantum x))) * pow2 (quantum x)"

datatype float32 = Fin rat | PInf | NInf | NaN

definition round32 :: "rat \<Rightarrow> float32" where
  "round32 x =
    (if x = 0 then Fin 0
     else if x > 0 then (let y = round_pos x in if y \<ge> pow2 128 then PInf else Fin y)
     else (let y = round_pos (- x) in if y \<ge> pow2 128 then NInf else Fin (- y)))"

section \<open>Operations\<close>

definition float_of_size :: "u64 \<Rightarrow> float32" where
  "float_of_size n = round32 (of_int (uint n))"

definition float_of_unsigned :: "u32 \<Rightarrow> float32" where
  "float_of_unsigned n = round32 (of_int (uint n))"

definition inf_of :: "rat \<Rightarrow> float32" where
  "inf_of x = (if x = 0 then NaN else if x > 0 then PInf else NInf)"

fun fneg :: "float32 \<Rightarrow> float32" where
  "fneg (Fin x) = Fin (- x)"
| "fneg PInf = NInf"
| "fneg NInf = PInf"
| "fneg NaN = NaN"

fun fmul :: "float32 \<Rightarrow> float32 \<Rightarrow> float32" where
  "fmul (Fin x) (Fin y) = round32 (x * y)"
| "fmul NaN y = NaN"
| "fmul x NaN = NaN"
| "fmul PInf (Fin y) = inf_of y"
| "fmul (Fin x) PInf = inf_of x"
| "fmul NInf (Fin y) = inf_of (- y)"
| "fmul (Fin x) NInf = inf_of (- x)"
| "fmul PInf y = y"
| "fmul NInf y = fneg y"

fun fdiv :: "float32 \<Rightarrow> float32 \<Rightarrow> float32" where
  "fdiv (Fin x) (Fin y) = (if y = 0 then inf_of x else round32 (x / y))"
| "fdiv NaN y = NaN"
| "fdiv x NaN = NaN"
| "fdiv (Fin x) y = Fin 0"
| "fdiv PInf (Fin y) = (if y \<ge> 0 then PInf else NInf)"
| "fdiv NInf (Fin y) = (if y \<ge> 0 then NInf else PInf)"
| "fdiv x y = NaN"

fun fsub :: "float32 \<Rightarrow> float32 \<Rightarrow> float32" where
  "fsub (Fin x) (Fin y) = round32 (x - y)"
| "fsub NaN y = NaN"
| "fsub x NaN = NaN"
| "fsub (Fin x) y = fneg y"
| "fsub x (Fin y) = x"
| "fsub x y = (if x = y then NaN else x)"

fun fless :: "float32 \<Rightarrow> float32 \<Rightarrow> bool" where
  "fless (Fin x) (Fin y) \<longleftrightarrow> x < y"
| "fless (Fin x) PInf \<longleftrightarrow> True"
| "fless NInf (Fin y) \<longleftrightarrow> True"
| "fless NInf PInf \<longleftrightarrow> True"
| "fless _ _ \<longleftrightarrow> False"

fun fabs :: "float32 \<Rightarrow> float32" where
  "fabs (Fin x) = Fin \<bar>x\<bar>"
| "fabs NaN = NaN"
| "fabs _ = PInf"

fun ceilf :: "float32 \<Rightarrow> float32" where
  "ceilf (Fin x) = Fin (of_int \<lceil>x\<rceil>)"
| "ceilf y = y"

text \<open>The conversion to \<^verbatim>\<open>size_t\<close>, undefined for numbers outside of its range.\<close>

fun size_of_float :: "float32 \<Rightarrow> u64 option" where
  "size_of_float (Fin x) = (if - 1 < x \<and> x < 2 ^ 64 then Some (of_int (if x < 0 then 0 else \<lfloor>x\<rfloor>)) else None)"
| "size_of_float _ = None"

section \<open>Bounds by powers of two\<close>

lemma bit_len_bounds: "0 < n \<Longrightarrow> 0 < bit_len n \<and> 2 ^ (bit_len n - 1) \<le> n \<and> n < 2 ^ bit_len n"
proof (induction n rule: bit_len.induct)
  case (1 n)
  show ?case
  proof (cases "n div 2 > 0")
    case True
    with 1 have IH: "0 < bit_len (n div 2)" "2 ^ (bit_len (n div 2) - 1) \<le> n div 2" "n div 2 < 2 ^ bit_len (n div 2)"
      by auto
    have l: "bit_len n = Suc (bit_len (n div 2))"
      using 1(2) by (subst bit_len.simps) simp
    have "(2 :: int) ^ bit_len (n div 2) = 2 * 2 ^ (bit_len (n div 2) - 1)"
      using IH(1) by (simp flip: power_Suc)
    moreover have "n = 2 * (n div 2) + n mod 2" "0 \<le> n mod 2" "n mod 2 < 2"
      by simp_all
    ultimately show ?thesis
      using IH unfolding l by (simp only: diff_Suc_1 power_Suc) linarith
  next
    case False
    then have "n = 1"
      using 1(2) by simp
    then show ?thesis
      by (simp add: bit_len.simps)
  qed
qed

lemma pow2_pos [simp]: "0 < pow2 e"
  by (simp add: pow2_def)

lemma pow2_neq_0 [simp]: "pow2 e \<noteq> 0"
  using pow2_pos [of e] by linarith

lemma pow2_nat: "pow2 (int n) = 2 ^ n"
  by (simp add: pow2_def)

lemma pow2_powi: "pow2 e = 2 powi e"
  by (simp add: pow2_def power_int_def power_one_over)

lemma pow2_add: "pow2 (a + b) = pow2 a * pow2 b"
  by (simp add: pow2_powi power_int_add)

lemma pow2_diff: "pow2 (a - b) = pow2 a / pow2 b"
  by (simp add: pow2_powi power_int_diff)

lemma pow2_mono: "a \<le> b \<longleftrightarrow> pow2 a \<le> pow2 b"
  using power_int_increasing [of a b "2 :: rat"] power_int_strict_increasing [of b a "2 :: rat"]
  by (fastforce simp: pow2_powi)

lemma pow2_int: "0 \<le> e \<Longrightarrow> \<exists>n. pow2 e = of_int n"
  by (intro exI [of _ "2 ^ nat e"]) (simp add: pow2_def)

lemma expo_le: "0 < x \<Longrightarrow> pow2 (expo x) \<le> x"
proof -
  assume x: "0 < x"
  obtain a b where q: "quotient_of x = (a, b)"
    by fastforce
  then have b: "0 < b" "x = of_int a / of_int b"
    using quotient_of_denom_pos quotient_of_div by blast+
  then have a: "0 < a"
    using x by (simp add: zero_less_divide_iff)
  let ?d = "int (bit_len a) - int (bit_len b)"
  have "pow2 (?d - 1) = 2 ^ (bit_len a - 1) / 2 ^ bit_len b"
  proof -
    have "?d - 1 = int (bit_len a - 1) - int (bit_len b)"
      using bit_len_bounds [OF a] by simp
    then have "pow2 (?d - 1) = pow2 (int (bit_len a - 1) - int (bit_len b))"
      by (rule arg_cong)
    then show ?thesis
      unfolding pow2_diff [of "int (bit_len a - 1)"] pow2_nat .
  qed
  also have "\<dots> \<le> of_int a / of_int b"
  proof (rule frac_le)
    have "of_int (2 ^ (bit_len a - 1)) \<le> (of_int a :: rat)" "of_int b \<le> (of_int (2 ^ bit_len b) :: rat)"
      using bit_len_bounds [OF a] bit_len_bounds [OF b(1)] by (simp_all only: of_int_le_iff less_imp_le)
    then show "2 ^ (bit_len a - 1) \<le> (of_int a :: rat)" "of_int b \<le> (2 ^ bit_len b :: rat)"
      by simp_all
  qed (use a b in simp_all)
  finally show ?thesis
    using q b(2) by (simp add: expo_def Let_def)
qed

lemma round_half_even_le: "x \<le> of_int n \<Longrightarrow> round_half_even x \<le> n"
proof -
  assume le: "x \<le> of_int n"
  then have f: "\<lfloor>x\<rfloor> \<le> n"
    by (simp add: floor_le_iff)
  show ?thesis
  proof (cases "\<lfloor>x\<rfloor> = n")
    case True
    then have "x = of_int n"
      using le of_int_floor_le [of x] by simp
    then show ?thesis
      by (simp add: round_half_even_def)
  next
    case False
    with f have "\<lfloor>x\<rfloor> + 1 \<le> n"
      by simp
    then show ?thesis
      by (simp add: round_half_even_def Let_def)
  qed
qed

lemma round_half_even_nonneg: "0 \<le> x \<Longrightarrow> 0 \<le> round_half_even x"
  by (simp add: round_half_even_def Let_def)

lemma round_pos_nonneg: "0 < x \<Longrightarrow> 0 \<le> round_pos x"
  by (simp add: round_pos_def round_half_even_nonneg order_less_imp_le)

text \<open>Rounding stays below a power of two, as these are representable.\<close>

lemma round_pos_le:
  assumes "0 < x" "x \<le> pow2 k" "- 149 \<le> k"
  shows "round_pos x \<le> pow2 k"
proof -
  have "pow2 (expo x) \<le> pow2 k"
    using expo_le [OF assms(1)] assms(2) by simp
  then have "quantum x \<le> k"
    using assms(3) by (simp add: quantum_def flip: pow2_mono)
  then obtain n where n: "pow2 (k - quantum x) = of_int n"
    using pow2_int [of "k - quantum x"] by auto
  have "x / pow2 (quantum x) \<le> of_int n"
    unfolding n [symmetric] pow2_diff by (intro divide_right_mono) (simp_all add: assms(2) less_imp_le)
  then have "round_half_even (x / pow2 (quantum x)) \<le> n"
    by (rule round_half_even_le)
  then have "round_pos x \<le> of_int n * pow2 (quantum x)"
    by (simp add: round_pos_def)
  also have "\<dots> = pow2 k"
    by (simp add: pow2_diff flip: n)
  finally show ?thesis .
qed

lemma round32_le:
  assumes "0 \<le> x" "x \<le> pow2 k" "- 149 \<le> k" "k < 128"
  shows "\<exists>y. round32 x = Fin y \<and> 0 \<le> y \<and> y \<le> pow2 k"
proof (cases "x = 0")
  case False
  then have x: "0 < x"
    using assms(1) by simp
  have le: "round_pos x \<le> pow2 k"
    using x assms(2,3) by (rule round_pos_le)
  moreover have "\<not> pow2 128 \<le> pow2 k"
    using assms(4) by (simp flip: pow2_mono)
  ultimately have "\<not> pow2 128 \<le> round_pos x"
    by linarith
  then show ?thesis
    using x le round_pos_nonneg [OF x] by (simp add: round32_def Let_def)
qed (simp add: round32_def less_imp_le)

end
