(* ===== verification/Scan.thy ===== *)
theory Scan
  imports Libc
begin

text \<open>
  The reading functions of the C library that the configuration of tiers is parsed with: tokens
  (\<^verbatim>\<open>strtok_r\<close>), numbers in any base (\<^verbatim>\<open>strtoul\<close> with base 0) and the conversions \<^verbatim>\<open>%d\<close>, \<^verbatim>\<open>%s\<close> and \<^verbatim>\<open>%[...]\<close> of
  \<^verbatim>\<open>sscanf\<close>.

  The lemmas show that what is left after a token is shorter, so that loops over tokens end, and that
  printed numbers are read back.
\<close>

section \<open>Tokens\<close>

text \<open>A call of \<^verbatim>\<open>strtok_r\<close> on a string: the token, or \<open>None\<close> for \<open>NULL\<close>, and what the saved pointer refers to.\<close>

definition strtok :: "char \<Rightarrow> string \<Rightarrow> string option \<times> string" where
  "strtok delim s =
    (let s = dropWhile (\<lambda>c. c = delim) s; t = takeWhile (\<lambda>c. c \<noteq> delim) s
     in if s = [] then (None, []) else (Some t, drop (Suc (length t)) s))"

section \<open>Numbers\<close>

definition xdigit_val :: "char \<Rightarrow> nat option" where
  "xdigit_val c =
    (let n = of_char c :: nat
     in if 48 \<le> n \<and> n \<le> 57 then Some (n - 48)
        else if 97 \<le> n \<and> n \<le> 102 then Some (n - 87)
        else if 65 \<le> n \<and> n \<le> 70 then Some (n - 55)
        else None)"

definition digit_in :: "nat \<Rightarrow> char \<Rightarrow> bool" where
  "digit_in base c = (case xdigit_val c of Some d \<Rightarrow> d < base | None \<Rightarrow> False)"

definition num_val :: "nat \<Rightarrow> string \<Rightarrow> int" where
  "num_val base ds = foldl (\<lambda>acc c. int base * acc + int (the (xdigit_val c))) 0 ds"

text \<open>The base that the prefix of a number selects, and the digits after the prefix.\<close>

definition base_prefix :: "string \<Rightarrow> nat \<times> string" where
  "base_prefix s =
    (case s of
       c # d # e # rest \<Rightarrow>
         if c = CHR ''0'' \<and> (d = CHR ''x'' \<or> d = CHR ''X'') \<and> digit_in 16 e then (16, e # rest)
         else if c = CHR ''0'' then (8, s) else (10, s)
     | c # rest \<Rightarrow> if c = CHR ''0'' then (8, s) else (10, s)
     | [] \<Rightarrow> (10, s))"

text \<open>
  \<^verbatim>\<open>strtoul(s, &end, 0)\<close>: the value, whether a number was found at all, and whether it is out of range.
\<close>

definition strtoul0 :: "string \<Rightarrow> u64 \<times> bool \<times> bool" where
  "strtoul0 s =
    (let (neg, body) = strip_sign (dropWhile isspace s);
         (base, body) = base_prefix body;
         ds = takeWhile (digit_in base) body;
         v = num_val base ds
     in if ds = [] then (0, False, False)
        else if v \<ge> 18446744073709551616 then (SIZE_MAX, True, True)
        else (if neg then - of_int v else of_int v, True, False))"

section \<open>Conversions of sscanf\<close>

text \<open>\<^verbatim>\<open>%d\<close>: the number and the rest.\<close>

definition scan_int :: "string \<Rightarrow> (int \<times> string) option" where
  "scan_int s =
    (let (neg, body) = strip_sign (dropWhile isspace s);
         ds = takeWhile isdigit body; v = int (digits_val ds)
     in if ds = [] then None else Some (if neg then - v else v, dropWhile isdigit body))"

text \<open>\<^verbatim>\<open>%ns\<close>: at most \<open>n\<close> characters up to the next space, after leading spaces.\<close>

definition scan_word :: "nat \<Rightarrow> string \<Rightarrow> string option" where
  "scan_word n s =
    (let t = take n (takeWhile (\<lambda>c. \<not> isspace c) (dropWhile isspace s)) in if t = [] then None else Some t)"

text \<open>\<^verbatim>\<open>%n[...]\<close>: at most \<open>n\<close> characters of a set, and the rest.\<close>

definition scan_set :: "nat \<Rightarrow> (char \<Rightarrow> bool) \<Rightarrow> string \<Rightarrow> (string \<times> string) option" where
  "scan_set n f s = (let t = take n (takeWhile f s) in if t = [] then None else Some (t, drop (length t) s))"

section \<open>Lemmas\<close>

lemma strtok_shorter: "strtok d s = (Some t, rest) \<Longrightarrow> length rest < length s"
proof -
  assume a: "strtok d s = (Some t, rest)"
  let ?s = "dropWhile (\<lambda>c. c = d) s"
  have "?s \<noteq> []" "rest = drop (Suc (length (takeWhile (\<lambda>c. c \<noteq> d) ?s))) ?s"
    using a by (auto simp: strtok_def Let_def split: if_splits)
  then show ?thesis
    using length_dropWhile_le [of "\<lambda>c. c = d" s] by (cases ?s) auto
qed

lemma strtok_rest_le: "strtok d s = (t, rest) \<Longrightarrow> length rest \<le> length s"
  using strtok_shorter [of d s] by (cases t) (auto simp: strtok_def Let_def split: if_splits)

text \<open>A token that the delimiter, or the end of the string, closes.\<close>

lemma strtok_token:
  assumes "t \<noteq> []" "d \<notin> set t"
  shows "strtok d (t @ d # rest) = (Some t, rest)" "strtok d t = (Some t, [])"
proof -
  have hd: "dropWhile (\<lambda>c. c = d) (t @ xs) = t @ xs" for xs
    using assms by (cases t) auto
  have tw: "takeWhile (\<lambda>c. c \<noteq> d) (t @ d # rest) = t" "takeWhile (\<lambda>c. c \<noteq> d) t = t"
    using assms(2) by (induction t) auto
  show "strtok d (t @ d # rest) = (Some t, rest)"
    using hd [of "d # rest"] tw assms(1) by (simp add: strtok_def Let_def)
  show "strtok d t = (Some t, [])"
    using hd [of "[]"] assms(1) by (simp add: strtok_def Let_def tw)
qed

lemma xdigit_digit: "isdigit c \<Longrightarrow> xdigit_val c = Some (digit_val c)"
  by (simp add: isdigit_def xdigit_val_def digit_val_def Let_def)

lemma digit_in_10: "digit_in 10 c \<longleftrightarrow> isdigit c"
  by (auto simp: digit_in_def isdigit_def xdigit_val_def Let_def)

lemma num_val_10: "\<forall>c \<in> set ds. isdigit c \<Longrightarrow> num_val 10 ds = int (digits_val ds)"
proof (induction ds rule: rev_induct)
  case (snoc c ds)
  then show ?case
    by (simp add: num_val_def digits_val_def xdigit_digit)
qed (simp add: num_val_def digits_val_def)

text \<open>A printed number at the head of a string, as the conversions see it.\<close>

lemma show_nat_head:
  assumes "rest = [] \<or> \<not> isdigit (hd rest)"
  shows "strip_sign (dropWhile isspace (show_nat n @ rest)) = (False, show_nat n @ rest)"
    "takeWhile isdigit (show_nat n @ rest) = show_nat n" "dropWhile isdigit (show_nat n @ rest) = rest"
proof -
  obtain c cs where s: "show_nat n = c # cs"
    using show_nat_nonempty by (cases "show_nat n") auto
  have c: "isdigit c"
    using show_nat_digits [of n] s by auto
  show "strip_sign (dropWhile isspace (show_nat n @ rest)) = (False, show_nat n @ rest)"
    using c isdigit_not_space isdigit_not_sign by (auto simp: s strip_sign_def)
  show "takeWhile isdigit (show_nat n @ rest) = show_nat n" "dropWhile isdigit (show_nat n @ rest) = rest"
    using show_nat_digits [of n] assms by (cases rest; simp add: takeWhile_append2 takeWhile_eq_all_conv)+
qed

lemma scan_int_show:
  assumes "rest = [] \<or> \<not> isdigit (hd rest)"
  shows "scan_int (show_nat n @ rest) = Some (int n, rest)"
  by (simp add: scan_int_def Let_def show_nat_head [OF assms] digits_val_show show_nat_nonempty)

end
