(* ===== verification/Memtier.thy ===== *)
theory Memtier
  imports Api Float32 Scan
begin

text \<open>
  Memory tiers (\<^verbatim>\<open>src/memkind_memtier.c\<close>): builders and the memory they construct, the two policies that
  choose a kind for a size, the adaptation of the thresholds between tiers, the setting of builder
  parameters by name, and the allocation functions that count what every kind holds.

  The lemmas show that the thresholds keep their order and bounds, that the dynamic policy then picks
  the tier whose range contains the size, and that the counters follow allocations and releases.
\<close>

section \<open>Structures\<close>

text \<open>
  A structure of the C program is kept with the addresses of its blocks; \<^verbatim>\<open>cfg_size\<close> is the length of the
  list of tiers, and the list of thresholds holds the entries that have been set.
\<close>

record memtier_tier_cfg =
  tc_kind :: memkind_t
  tc_kind_ratio :: float32

record memtier_threshold_cfg =
  th_val :: u64
  th_min :: u64
  th_max :: u64
  th_exp_norm_ratio :: float32
  th_current_ratio_diff :: float32

datatype memtier_policy_t = MEMTIER_POLICY_STATIC_RATIO | MEMTIER_POLICY_DYNAMIC_THRESHOLD | MEMTIER_POLICY_MAX_VALUE

text \<open>The three function pointers of a builder are set together: they are kept as the policy.\<close>

record memtier_builder =
  b_at :: ptr
  b_cfg :: "memtier_tier_cfg list"
  b_cfg_at :: ptr
  b_thres :: "memtier_threshold_cfg list"
  b_thres_at :: ptr
  b_check_cnt :: u32
  b_trigger :: float32
  b_degree :: float32
  b_policy :: memtier_policy_t

datatype get_kind_fn =
    Memtier_single_get_kind
  | Memtier_policy_static_ratio_get_kind
  | Memtier_policy_dynamic_threshold_get_kind

datatype update_cfg_fn =
    Memtier_policy_static_ratio_update_config
  | Memtier_policy_dynamic_threshold_update_config

record memtier_memory =
  mm_at :: ptr
  mm_cfg :: "memtier_tier_cfg list"
  mm_cfg_at :: ptr
  mm_thres :: "memtier_threshold_cfg list"
  mm_thres_at :: ptr
  mm_thres_check_cnt :: u32
  mm_thres_init_check_cnt :: u32
  mm_thres_trigger :: float32
  mm_thres_degree :: float32
  mm_get_kind :: get_kind_fn
  mm_update_cfg :: update_cfg_fn

definition THRESHOLD_TRIGGER :: float32 where "THRESHOLD_TRIGGER = round32 (2 / 100)"
definition THRESHOLD_DEGREE :: float32 where "THRESHOLD_DEGREE = round32 (15 / 100)"

abbreviation (input) THRESHOLD_CHECK_CNT :: u32 where "THRESHOLD_CHECK_CNT \<equiv> 20"
abbreviation (input) THRESHOLD_STEP :: u32 where "THRESHOLD_STEP \<equiv> 1024"

section \<open>Counters\<close>

text \<open>The structure of a destroyed kind must not be read.\<close>

definition kind_partition :: "memkind_t \<Rightarrow> 'w mk \<Rightarrow> nat option" where
  "kind_partition k s = (if kind_live s k then Some (unat (k_partition (kinds s k))) else None)"

definition count_alloc :: "'w sys \<Rightarrow> memkind_t \<Rightarrow> u64 \<Rightarrow> 'w mk \<Rightarrow> 'w mk option" where
  "count_alloc sy k n s =
    do {
      i \<leftarrow> kind_partition k s;
      Some (s\<lparr>tier_counters := increment_alloc_size (self_of sy s) i n (tier_counters s)\<rparr>)
    }"

definition count_free :: "'w sys \<Rightarrow> memkind_t \<Rightarrow> u64 \<Rightarrow> 'w mk \<Rightarrow> 'w mk option" where
  "count_free sy k n s =
    do {
      i \<leftarrow> kind_partition k s;
      Some (s\<lparr>tier_counters := decrement_alloc_size (self_of sy s) i n (tier_counters s)\<rparr>)
    }"

definition global_size :: "memkind_t \<Rightarrow> 'w mk \<Rightarrow> u64 option" where
  "global_size k s = map_option (g_alloc_size (tier_counters s)) (kind_partition k s)"

text \<open>The loop over the buckets: every bucket is taken and added up.\<close>

definition drain_bucket :: "nat \<Rightarrow> nat \<Rightarrow> u64 \<times> alloc_counters \<Rightarrow> u64 \<times> alloc_counters" where
  "drain_bucket kind_id bucket_id =
    (\<lambda>(size_all, c). (size_all + t_alloc_size c kind_id bucket_id, set_bucket kind_id bucket_id 0 c))"

definition memtier_kind_allocated_size :: "memkind_t \<Rightarrow> 'w mk \<Rightarrow> (u64 \<times> 'w mk) option" where
  "memtier_kind_allocated_size k s =
    do {
      i \<leftarrow> kind_partition k s;
      let (size_all, c) = fold (drain_bucket i) [0..<THREAD_BUCKETS] (0, tier_counters s);
      let size_ret = g_alloc_size c i;
      Some (size_ret + size_all, s\<lparr>tier_counters := add_global i size_all c\<rparr>)
    }"

section \<open>Policies\<close>

definition memtier_single_get_kind :: "memtier_memory \<Rightarrow> memkind_t option" where
  "memtier_single_get_kind memory = (case mm_cfg memory of [] \<Rightarrow> None | t # _ \<Rightarrow> Some (tc_kind t))"

text \<open>The loop over the tiers from tier \<open>i\<close> on.\<close>

fun static_ratio_loop :: "'w mk \<Rightarrow> u64 \<Rightarrow> nat \<Rightarrow> memtier_tier_cfg list \<Rightarrow> nat \<Rightarrow> nat option" where
  "static_ratio_loop s size_0 i [] dest_tier = Some dest_tier"
| "static_ratio_loop s size_0 i (t # ts) dest_tier =
    do {
      size_tier \<leftarrow> global_size (tc_kind t) s;
      static_ratio_loop s size_0 (Suc i) ts
        (if fless (fmul (float_of_size size_tier) (tc_kind_ratio t)) (float_of_size size_0) then i else dest_tier)
    }"

definition memtier_policy_static_ratio_get_kind :: "memtier_memory \<Rightarrow> 'w mk \<Rightarrow> memkind_t option" where
  "memtier_policy_static_ratio_get_kind memory s =
    (case mm_cfg memory of
       [] \<Rightarrow> None
     | t # ts \<Rightarrow>
         do {
           size_0 \<leftarrow> global_size (tc_kind t) s;
           dest_tier \<leftarrow> static_ratio_loop s size_0 1 ts 0;
           Some (tc_kind (mm_cfg memory ! dest_tier))
         })"

fun threshold_index :: "u64 \<Rightarrow> memtier_threshold_cfg list \<Rightarrow> nat" where
  "threshold_index sz [] = 0"
| "threshold_index sz (th # ths) = (if sz < th_val th then 0 else Suc (threshold_index sz ths))"

definition memtier_policy_dynamic_threshold_get_kind :: "memtier_memory \<Rightarrow> u64 \<Rightarrow> memkind_t option" where
  "memtier_policy_dynamic_threshold_get_kind memory sz =
    (let i = threshold_index sz (take (length (mm_cfg memory) - 1) (mm_thres memory))
     in if i < length (mm_cfg memory) then Some (tc_kind (mm_cfg memory ! i)) else None)"

definition memtier_get_kind :: "memtier_memory \<Rightarrow> u64 \<Rightarrow> 'w mk \<Rightarrow> memkind_t option" where
  "memtier_get_kind memory sz s =
    (case mm_get_kind memory of
       Memtier_single_get_kind \<Rightarrow> memtier_single_get_kind memory
     | Memtier_policy_static_ratio_get_kind \<Rightarrow> memtier_policy_static_ratio_get_kind memory s
     | Memtier_policy_dynamic_threshold_get_kind \<Rightarrow> memtier_policy_dynamic_threshold_get_kind memory sz)"

section \<open>Adapting the thresholds\<close>

definition change_threshold :: "float32 \<Rightarrow> bool \<Rightarrow> memtier_threshold_cfg \<Rightarrow> memtier_threshold_cfg option" where
  "change_threshold degree higher th =
    do {
      threshold \<leftarrow> size_of_float (ceilf (fmul (float_of_size (th_val th)) degree));
      Some (if higher
            then (let higher_threshold = th_val th + threshold
                  in if higher_threshold \<le> th_max th then th\<lparr>th_val := higher_threshold\<rparr> else th)
            else (let lower_threshold = th_val th - threshold
                  in if lower_threshold \<ge> th_min th then th\<lparr>th_val := lower_threshold\<rparr> else th))
    }"

definition update_threshold ::
  "float32 \<Rightarrow> float32 \<Rightarrow> u64 \<Rightarrow> u64 \<Rightarrow> memtier_threshold_cfg \<Rightarrow> memtier_threshold_cfg option" where
  "update_threshold trigger degree prev_alloc_size next_alloc_size th =
    (if prev_alloc_size > 0 then
       (let current_ratio = fdiv (float_of_size next_alloc_size) (float_of_size prev_alloc_size);
            prev_ratio_diff = th_current_ratio_diff th;
            ratio_diff = fabs (fsub current_ratio (th_exp_norm_ratio th));
            th = th\<lparr>th_current_ratio_diff := ratio_diff\<rparr>
        in if fless ratio_diff trigger \<or> fless ratio_diff prev_ratio_diff then Some th
           else change_threshold degree (fless (th_exp_norm_ratio th) current_ratio) th)
     else change_threshold degree True th)"

fun update_thresholds ::
  "'w mk \<Rightarrow> float32 \<Rightarrow> float32 \<Rightarrow> memtier_tier_cfg list \<Rightarrow> memtier_threshold_cfg list \<Rightarrow> memtier_threshold_cfg list option" where
  "update_thresholds s trigger degree (t # t' # ts) (th # ths) =
    do {
      prev_alloc_size \<leftarrow> global_size (tc_kind t) s;
      next_alloc_size \<leftarrow> global_size (tc_kind t') s;
      th \<leftarrow> update_threshold trigger degree prev_alloc_size next_alloc_size th;
      ths \<leftarrow> update_thresholds s trigger degree (t' # ts) ths;
      Some (th # ths)
    }"
| "update_thresholds s trigger degree _ ths = Some ths"

definition memtier_policy_dynamic_threshold_update_config :: "memtier_memory \<Rightarrow> 'w mk \<Rightarrow> memtier_memory option" where
  "memtier_policy_dynamic_threshold_update_config memory s =
    (let cnt = mm_thres_check_cnt memory - 1
     in if cnt > 0 then Some (memory\<lparr>mm_thres_check_cnt := cnt\<rparr>)
        else do {
          ths \<leftarrow> update_thresholds s (mm_thres_trigger memory) (mm_thres_degree memory) (mm_cfg memory) (mm_thres memory);
          Some (memory\<lparr>mm_thres := ths, mm_thres_check_cnt := mm_thres_init_check_cnt memory\<rparr>)
        })"

definition memtier_update_cfg :: "memtier_memory \<Rightarrow> 'w mk \<Rightarrow> memtier_memory option" where
  "memtier_update_cfg memory s =
    (case mm_update_cfg memory of
       Memtier_policy_static_ratio_update_config \<Rightarrow> Some memory
     | Memtier_policy_dynamic_threshold_update_config \<Rightarrow> memtier_policy_dynamic_threshold_update_config memory s)"

section \<open>Construction\<close>

abbreviation (input) sizeof_memtier_memory :: u64 where "sizeof_memtier_memory \<equiv> 56"
abbreviation (input) sizeof_memtier_tier_cfg :: u64 where "sizeof_memtier_tier_cfg \<equiv> 16"
abbreviation (input) sizeof_memtier_threshold_cfg :: u64 where "sizeof_memtier_threshold_cfg \<equiv> 32"
abbreviation (input) sizeof_memtier_builder :: u64 where "sizeof_memtier_builder \<equiv> 64"

text \<open>The blank structure: the tiers are filled by the caller, and fields of the other policy are not used.\<close>

definition memtier_memory_init :: "'w sys \<Rightarrow> nat \<Rightarrow> bool \<Rightarrow> 'w mk \<Rightarrow> memtier_memory option \<times> 'w mk" where
  "memtier_memory_init sy tier_size is_dynamic_threshold s =
    (if tier_size = 0 then (None, s)
     else
       (let (p, s) = je_malloc sy sizeof_memtier_memory s
        in if p = NULL then (None, s)
           else
             (let (c, s) = je_calloc sy (of_nat tier_size) sizeof_memtier_tier_cfg s
              in if c = NULL then (None, je_free sy p s)
                 else
                   (Some \<lparr>mm_at = p, mm_cfg = [], mm_cfg_at = c, mm_thres = [], mm_thres_at = NULL,
                      mm_thres_check_cnt = THRESHOLD_CHECK_CNT, mm_thres_init_check_cnt = 0,
                      mm_thres_trigger = Fin 0, mm_thres_degree = Fin 0,
                      mm_get_kind =
                        (if is_dynamic_threshold then Memtier_policy_dynamic_threshold_get_kind
                         else if tier_size = 1 then Memtier_single_get_kind
                         else Memtier_policy_static_ratio_get_kind),
                      mm_update_cfg =
                        (if is_dynamic_threshold then Memtier_policy_dynamic_threshold_update_config
                         else Memtier_policy_static_ratio_update_config)\<rparr>, s))))"

fun set_allow_zero_allocs :: "'w sys \<Rightarrow> memtier_tier_cfg list \<Rightarrow> 'w mk \<Rightarrow> 'w mk option" where
  "set_allow_zero_allocs sy [] s = Some s"
| "set_allow_zero_allocs sy (t # ts) s =
    do {
      s \<leftarrow> memkind_set_allow_zero_allocs (tc_kind t) (libc_malloc_zero sy) s;
      set_allow_zero_allocs sy ts s
    }"

text \<open>The tiers of the memory: the ratio of the first tier to the others.\<close>

definition normalized_tiers :: "memtier_tier_cfg list \<Rightarrow> memtier_tier_cfg list" where
  "normalized_tiers cfg =
    (case cfg of
       [] \<Rightarrow> []
     | t # ts \<Rightarrow>
         t\<lparr>tc_kind_ratio := Fin 1\<rparr> #
         map (\<lambda>u. u\<lparr>tc_kind_ratio := fdiv (tc_kind_ratio t) (tc_kind_ratio u)\<rparr>) ts)"

definition builder_static_create_memory ::
  "'w sys \<Rightarrow> memtier_builder \<Rightarrow> 'w mk \<Rightarrow> (memtier_memory option \<times> 'w mk) option" where
  "builder_static_create_memory sy builder s =
    (let (memory, s) = memtier_memory_init sy (length (b_cfg builder)) False s
     in case memory of
          None \<Rightarrow> Some (None, s)
        | Some memory \<Rightarrow>
            do {
              let memory = memory\<lparr>mm_cfg := normalized_tiers (b_cfg builder)\<rparr>;
              s \<leftarrow> set_allow_zero_allocs sy (mm_cfg memory) s;
              Some (Some memory, s)
            })"

fun expected_ratios :: "memtier_tier_cfg list \<Rightarrow> float32 list" where
  "expected_ratios (t # t' # ts) = fdiv (tc_kind_ratio t') (tc_kind_ratio t) # expected_ratios (t' # ts)"
| "expected_ratios _ = []"

text \<open>The validation of the thresholds, with the maximum of the threshold before.\<close>

fun thresholds_valid :: "u64 option \<Rightarrow> memtier_threshold_cfg list \<Rightarrow> bool" where
  "thresholds_valid prev [] \<longleftrightarrow> True"
| "thresholds_valid prev (th # ths) \<longleftrightarrow>
    \<not> th_min th > th_val th \<and> \<not> th_val th > th_max th \<and>
    (case prev of None \<Rightarrow> True | Some m \<Rightarrow> \<not> m > th_min th) \<and>
    thresholds_valid (Some (th_max th)) ths"

definition builder_thresholds :: "memtier_builder \<Rightarrow> memtier_threshold_cfg list" where
  "builder_thresholds builder =
    map2 (\<lambda>th r. th\<lparr>th_exp_norm_ratio := r, th_current_ratio_diff := Fin 0\<rparr>)
      (b_thres builder) (expected_ratios (b_cfg builder))"

definition free_memory :: "'w sys \<Rightarrow> memtier_memory \<Rightarrow> 'w mk \<Rightarrow> 'w mk" where
  "free_memory sy memory s = je_free sy (mm_at memory) (je_free sy (mm_cfg_at memory) (je_free sy (mm_thres_at memory) s))"

definition builder_dynamic_create_memory ::
  "'w sys \<Rightarrow> memtier_builder \<Rightarrow> 'w mk \<Rightarrow> (memtier_memory option \<times> 'w mk) option" where
  "builder_dynamic_create_memory sy builder s =
    (let n = length (b_cfg builder)
     in if n < 2 then Some (None, s)
        else
          (let (p, s) = je_calloc sy (of_nat (n - 1)) sizeof_memtier_threshold_cfg s
           in if p = NULL then Some (None, s)
              else
                (let (memory, s) = memtier_memory_init sy n True s
                 in case memory of
                      None \<Rightarrow> Some (None, je_free sy p s)
                    | Some memory \<Rightarrow>
                        (let memory = memory\<lparr>mm_thres_init_check_cnt := b_check_cnt builder,
                               mm_thres_check_cnt := b_check_cnt builder, mm_thres_trigger := b_trigger builder,
                               mm_thres_degree := b_degree builder, mm_thres_at := p,
                               mm_thres := builder_thresholds builder\<rparr>
                         in if \<not> thresholds_valid None (mm_thres memory) \<or>
                               fless (mm_thres_degree memory) (Fin 0) \<or> fless (mm_thres_trigger memory) (Fin 0)
                            then Some (None, free_memory sy memory s)
                            else do {
                              let memory = memory\<lparr>mm_cfg := normalized_tiers (b_cfg builder)\<rparr>;
                              s \<leftarrow> set_allow_zero_allocs sy (mm_cfg memory) s;
                              Some (Some memory, s)
                            }))))"

section \<open>Builders\<close>

text \<open>
  The entry for the threshold before a new tier. The products with 0.5 and 1.5 are exact in double
  precision; the one for \<^verbatim>\<open>val\<close> is a product of 32-bit numbers.
\<close>

definition default_threshold :: "nat \<Rightarrow> memtier_threshold_cfg" where
  "default_threshold th_indx =
    \<lparr>th_val = ucast (THRESHOLD_STEP * of_nat (Suc th_indx)),
     th_min = of_nat (1024 * th_indx + 512), th_max = of_nat (1024 * th_indx + 1536 - 1),
     th_exp_norm_ratio = Fin 0, th_current_ratio_diff = Fin 0\<rparr>"

definition builder_dynamic_update :: "'w sys \<Rightarrow> memtier_builder \<Rightarrow> 'w mk \<Rightarrow> (int \<times> memtier_builder) \<times> 'w mk" where
  "builder_dynamic_update sy builder s =
    (let n = length (b_cfg builder)
     in if n < 1 then ((0, builder), s)
        else
          (let (p, s) = je_realloc sy (b_thres_at builder) (sizeof_memtier_threshold_cfg * of_nat (n + 1)) s
           in if p = NULL then ((- 1, builder), s)
              else
                ((0, builder\<lparr>b_thres_at := p, b_thres := take (n - 1) (b_thres builder) @ [default_threshold (n - 1)]\<rparr>),
                 s)))"

definition memtier_builder_new :: "'w sys \<Rightarrow> memtier_policy_t \<Rightarrow> 'w mk \<Rightarrow> memtier_builder option \<times> 'w mk" where
  "memtier_builder_new sy policy s =
    (let (p, s) = je_calloc sy 1 sizeof_memtier_builder s;
         b = \<lparr>b_at = p, b_cfg = [], b_cfg_at = NULL, b_thres = [], b_thres_at = NULL,
              b_check_cnt = 0, b_trigger = Fin 0, b_degree = Fin 0, b_policy = policy\<rparr>
     in if p = NULL then (None, s)
        else
          (case policy of
             MEMTIER_POLICY_STATIC_RATIO \<Rightarrow> (Some b, s)
           | MEMTIER_POLICY_DYNAMIC_THRESHOLD \<Rightarrow>
               (Some (b\<lparr>b_check_cnt := THRESHOLD_CHECK_CNT, b_trigger := THRESHOLD_TRIGGER,
                        b_degree := THRESHOLD_DEGREE\<rparr>), s)
           | MEMTIER_POLICY_MAX_VALUE \<Rightarrow> (None, je_free sy p s)))"

text \<open>Deleting a builder prints it first, which reads the names of its kinds.\<close>

definition memtier_builder_delete :: "'w sys \<Rightarrow> memtier_builder \<Rightarrow> 'w mk \<Rightarrow> 'w mk option" where
  "memtier_builder_delete sy builder s =
    (if list_all (\<lambda>t. kind_live s (tc_kind t)) (b_cfg builder)
     then Some (je_free sy (b_at builder) (je_free sy (b_cfg_at builder) (je_free sy (b_thres_at builder) s)))
     else None)"

definition memtier_builder_add_tier ::
  "'w sys \<Rightarrow> memtier_builder \<Rightarrow> memkind_t option \<Rightarrow> u32 \<Rightarrow> 'w mk \<Rightarrow> (int \<times> memtier_builder) \<times> 'w mk" where
  "memtier_builder_add_tier sy builder kind kind_ratio s =
    (case kind of
       None \<Rightarrow> ((- 1, builder), s)
     | Some k \<Rightarrow>
         if list_ex (\<lambda>t. tc_kind t = k) (b_cfg builder) then ((- 1, builder), s)
         else
           (let ((r, builder), s) =
                  (if b_policy builder = MEMTIER_POLICY_DYNAMIC_THRESHOLD then builder_dynamic_update sy builder s
                   else ((0, builder), s))
            in if r \<noteq> 0 then ((- 1, builder), s)
               else
                 (let (p, s) =
                        je_realloc sy (b_cfg_at builder)
                          (sizeof_memtier_tier_cfg * of_nat (length (b_cfg builder) + 1)) s
                  in if p = NULL then ((- 1, builder), s)
                     else
                       ((0, builder\<lparr>b_cfg_at := p,
                           b_cfg := b_cfg builder @ [\<lparr>tc_kind = k, tc_kind_ratio = float_of_unsigned kind_ratio\<rparr>]\<rparr>),
                        s))))"

definition memtier_builder_construct_memtier_memory ::
  "'w sys \<Rightarrow> memtier_builder \<Rightarrow> 'w mk \<Rightarrow> (memtier_memory option \<times> 'w mk) option" where
  "memtier_builder_construct_memtier_memory sy builder s =
    (if b_policy builder = MEMTIER_POLICY_DYNAMIC_THRESHOLD then builder_dynamic_create_memory sy builder s
     else builder_static_create_memory sy builder s)"

text \<open>
  Deleting a memory prints it first: the names of its kinds are read, and asking for the allocated
  sizes drains the buckets.
\<close>

fun print_memtier_memory :: "memtier_tier_cfg list \<Rightarrow> 'w mk \<Rightarrow> 'w mk option" where
  "print_memtier_memory [] s = Some s"
| "print_memtier_memory (t # ts) s =
    do {
      (_, s) \<leftarrow> memtier_kind_allocated_size (tc_kind t) s;
      print_memtier_memory ts s
    }"

definition memtier_delete_memtier_memory :: "'w sys \<Rightarrow> memtier_memory \<Rightarrow> 'w mk \<Rightarrow> 'w mk option" where
  "memtier_delete_memtier_memory sy memory s =
    do {
      s \<leftarrow> print_memtier_memory (mm_cfg memory) s;
      Some (free_memory sy memory s)
    }"

section \<open>Parameters by name\<close>

text \<open>The value a parameter is set to is read through a pointer: what it is as each of the three types.\<close>

record ctl_val =
  val_size :: u64
  val_unsigned :: u32
  val_float :: float32

text \<open>
  The index in brackets: the number and the count of characters read, which stays as it was when the
  closing bracket is missing. A number that is no \<^verbatim>\<open>int\<close> is undefined.
\<close>

definition scan_index :: "string \<Rightarrow> nat \<Rightarrow> (int \<times> nat) option" where
  "scan_index query chr_read =
    (case query of
       c # q \<Rightarrow>
         if c = CHR ''['' then
           (case scan_int q of
              None \<Rightarrow> Some (- 1, chr_read)
            | Some (i, rest) \<Rightarrow>
                if \<not> (- 2147483648 \<le> i \<and> i \<le> INT_MAX) then None
                else
                  (case rest of
                     d # rest' \<Rightarrow> Some (i, if d = CHR '']'' then length query - length rest' else chr_read)
                   | [] \<Rightarrow> Some (i, chr_read)))
         else Some (- 1, chr_read)
     | [] \<Rightarrow> Some (- 1, chr_read))"

definition set_threshold :: "string \<Rightarrow> nat \<Rightarrow> u64 \<Rightarrow> memtier_builder \<Rightarrow> int \<times> memtier_builder" where
  "set_threshold query i v builder =
    (case query of
       c # q \<Rightarrow>
         (let th = b_thres builder ! i; word = (if c = CHR ''.'' then scan_word 255 q else None)
          in if word = Some ''val'' then (0, builder\<lparr>b_thres := (b_thres builder)[i := th\<lparr>th_val := v\<rparr>]\<rparr>)
             else if word = Some ''min'' then (0, builder\<lparr>b_thres := (b_thres builder)[i := th\<lparr>th_min := v\<rparr>]\<rparr>)
             else if word = Some ''max'' then (0, builder\<lparr>b_thres := (b_thres builder)[i := th\<lparr>th_max := v\<rparr>]\<rparr>)
             else (- 1, builder))
     | [] \<Rightarrow> (- 1, builder))"

text \<open>
  \<^verbatim>\<open>builder_dynamic_ctl_set\<close>. Without any character after the prefix the name that is compared next has
  not been set, and a position behind the end of the name must not be read: both are undefined.
\<close>

definition dynamic_prefix :: string where "dynamic_prefix = ''policy.dynamic_threshold.''"

definition builder_dynamic_ctl_set ::
  "memtier_builder \<Rightarrow> string \<Rightarrow> ctl_val \<Rightarrow> (int \<times> memtier_builder) option" where
  "builder_dynamic_ctl_set builder name v =
    (if take (length dynamic_prefix) name \<noteq> dynamic_prefix then Some (- 1, builder)
     else
       (let query = drop (length dynamic_prefix) name
        in if query = [] then None
           else
             (case scan_set 255 (\<lambda>c. c \<noteq> CHR ''['') query of
                None \<Rightarrow> Some (- 1, builder)
              | Some (param, query) \<Rightarrow>
                  if param = ''thresholds'' then do {
                    (th_indx, chr_read) \<leftarrow> scan_index query (length param);
                    if th_indx < 0 \<or> \<not> chr_read < 256 then Some (- 1, builder)
                    else if nat th_indx + 1 \<ge> length (b_cfg builder) then Some (- 1, builder)
                    else if length query < chr_read then None
                    else Some (set_threshold (drop chr_read query) (nat th_indx) (val_size v) builder)
                  }
                  else if param = ''check_cnt'' then Some (0, builder\<lparr>b_check_cnt := val_unsigned v\<rparr>)
                  else if param = ''trigger'' then Some (0, builder\<lparr>b_trigger := val_float v\<rparr>)
                  else if param = ''degree'' then Some (0, builder\<lparr>b_degree := val_float v\<rparr>)
                  else Some (- 1, builder))))"

definition memtier_ctl_set :: "memtier_builder \<Rightarrow> string \<Rightarrow> ctl_val \<Rightarrow> (int \<times> memtier_builder) option" where
  "memtier_ctl_set builder name v =
    (if b_policy builder = MEMTIER_POLICY_DYNAMIC_THRESHOLD then builder_dynamic_ctl_set builder name v
     else Some (- 1, builder))"

section \<open>Allocation\<close>

definition memtier_kind_malloc :: "'w sys \<Rightarrow> memkind_t \<Rightarrow> u64 \<Rightarrow> 'w mk \<Rightarrow> (ptr \<times> 'w mk) option" where
  "memtier_kind_malloc sy k sz s =
    do {
      (p, s) \<leftarrow> memkind_malloc sy k sz s;
      s \<leftarrow> count_alloc sy k (je_malloc_usable_size sy p s) s;
      Some (p, s)
    }"

definition memtier_malloc ::
  "'w sys \<Rightarrow> memtier_memory \<Rightarrow> u64 \<Rightarrow> 'w mk \<Rightarrow> (ptr \<times> memtier_memory \<times> 'w mk) option" where
  "memtier_malloc sy memory sz s =
    do {
      k \<leftarrow> memtier_get_kind memory sz s;
      (p, s) \<leftarrow> memtier_kind_malloc sy k sz s;
      memory \<leftarrow> memtier_update_cfg memory s;
      Some (p, memory, s)
    }"

definition memtier_kind_calloc :: "'w sys \<Rightarrow> memkind_t \<Rightarrow> u64 \<Rightarrow> u64 \<Rightarrow> 'w mk \<Rightarrow> (ptr \<times> 'w mk) option" where
  "memtier_kind_calloc sy k num sz s =
    do {
      (p, s) \<leftarrow> memkind_calloc sy k num sz s;
      s \<leftarrow> count_alloc sy k (je_malloc_usable_size sy p s) s;
      Some (p, s)
    }"

definition memtier_calloc ::
  "'w sys \<Rightarrow> memtier_memory \<Rightarrow> u64 \<Rightarrow> u64 \<Rightarrow> 'w mk \<Rightarrow> (ptr \<times> memtier_memory \<times> 'w mk) option" where
  "memtier_calloc sy memory num sz s =
    do {
      k \<leftarrow> memtier_get_kind memory sz s;
      (p, s) \<leftarrow> memtier_kind_calloc sy k num sz s;
      memory \<leftarrow> memtier_update_cfg memory s;
      Some (p, memory, s)
    }"

text \<open>A \<open>NULL\<close> kind is dereferenced.\<close>

definition memtier_kind_realloc ::
  "'w sys \<Rightarrow> memkind_t option \<Rightarrow> ptr \<Rightarrow> u64 \<Rightarrow> 'w mk \<Rightarrow> (ptr \<times> 'w mk) option" where
  "memtier_kind_realloc sy kind p sz s =
    do {
      k \<leftarrow> kind;
      if sz = 0 \<and> p \<noteq> NULL then do {
        s \<leftarrow> count_free sy k (je_malloc_usable_size sy p s) s;
        s \<leftarrow> memkind_free sy (Some k) p s;
        Some (NULL, s)
      }
      else if p = NULL then memtier_kind_malloc sy k sz s
      else do {
        s \<leftarrow> count_free sy k (je_malloc_usable_size sy p s) s;
        (n_ptr, s) \<leftarrow> memkind_realloc sy (Some k) p sz s;
        s \<leftarrow> count_alloc sy k (je_malloc_usable_size sy n_ptr s) s;
        Some (n_ptr, s)
      }
    }"

definition memtier_realloc ::
  "'w sys \<Rightarrow> memtier_memory \<Rightarrow> ptr \<Rightarrow> u64 \<Rightarrow> 'w mk \<Rightarrow> (ptr \<times> memtier_memory \<times> 'w mk) option" where
  "memtier_realloc sy memory p sz s =
    do {
      (p, s) \<leftarrow>
        (if p \<noteq> NULL then do {
           (kind, s) \<leftarrow> memkind_detect_kind sy p s;
           memtier_kind_realloc sy kind p sz s
         }
         else do {
           k \<leftarrow> memtier_get_kind memory sz s;
           memtier_kind_malloc sy k sz s
         });
      memory \<leftarrow> memtier_update_cfg memory s;
      Some (p, memory, s)
    }"

definition memtier_kind_posix_memalign ::
  "'w sys \<Rightarrow> memkind_t \<Rightarrow> ptr \<Rightarrow> u64 \<Rightarrow> u64 \<Rightarrow> 'w mk \<Rightarrow> ((int \<times> ptr) \<times> 'w mk) option" where
  "memtier_kind_posix_memalign sy k memptr alignment sz s =
    do {
      ((res, p), s) \<leftarrow> memkind_posix_memalign sy k memptr alignment sz s;
      s \<leftarrow> count_alloc sy k (je_malloc_usable_size sy p s) s;
      Some ((res, p), s)
    }"

definition memtier_posix_memalign ::
  "'w sys \<Rightarrow> memtier_memory \<Rightarrow> ptr \<Rightarrow> u64 \<Rightarrow> u64 \<Rightarrow> 'w mk \<Rightarrow> ((int \<times> ptr) \<times> memtier_memory \<times> 'w mk) option" where
  "memtier_posix_memalign sy memory memptr alignment sz s =
    do {
      k \<leftarrow> memtier_get_kind memory sz s;
      (r, s) \<leftarrow> memtier_kind_posix_memalign sy k memptr alignment sz s;
      memory \<leftarrow> memtier_update_cfg memory s;
      Some (r, memory, s)
    }"

definition memtier_usable_size :: "'w sys \<Rightarrow> ptr \<Rightarrow> 'w mk \<Rightarrow> u64" where
  "memtier_usable_size sy p s = je_malloc_usable_size sy p s"

definition memtier_kind_free :: "'w sys \<Rightarrow> memkind_t option \<Rightarrow> ptr \<Rightarrow> 'w mk \<Rightarrow> 'w mk option" where
  "memtier_kind_free sy kind p s =
    do {
      (kind, s) \<leftarrow> (case kind of Some k \<Rightarrow> Some (Some k, s) | None \<Rightarrow> memkind_detect_kind sy p s);
      case kind of
        None \<Rightarrow> Some s
      | Some k \<Rightarrow>
          do {
            s \<leftarrow> count_free sy k (je_malloc_usable_size sy p s) s;
            memkind_free sy (Some k) p s
          }
    }"

section \<open>Thresholds\<close>

text \<open>A change by at most half of a threshold is computed without overflow, in spite of the rounding.\<close>

lemma float_of_size_le:
  assumes "0 < v"
  obtains k y where "0 \<le> k" "k < 64" "pow2 k \<le> of_int (uint v)" "float_of_size v = Fin y" "0 \<le> y" "y \<le> pow2 (k + 1)"
proof -
  have v: "0 < uint v"
    using assms by (simp add: word_less_def)
  obtain m where m: "bit_len (uint v) = Suc m"
    using bit_len_bounds [OF v] by (cases "bit_len (uint v)") auto
  then have b: "2 ^ m \<le> uint v" "uint v < 2 ^ Suc m"
    using bit_len_bounds [OF v] by simp_all
  have "(2 :: int) ^ m < 2 ^ 64"
    by (rule le_less_trans [OF b(1)]) (use uint_lt2p [of v] in simp)
  then have l: "m < 64"
    by (rule power_less_imp_less_exp [rotated]) simp
  have "of_int (2 ^ m) \<le> (of_int (uint v) :: rat)" "of_int (uint v) \<le> (of_int (2 ^ Suc m) :: rat)"
    using b by (simp_all only: of_int_le_iff less_imp_le)
  moreover have "pow2 (int m) = of_int (2 ^ m)" "pow2 (int m + 1) = of_int (2 ^ Suc m)"
    by (simp_all only: pow2_add pow2_nat) (simp_all add: pow2_def)
  ultimately have p: "pow2 (int m) \<le> of_int (uint v)" "of_int (uint v) \<le> pow2 (int m + 1)"
    by (simp_all only:)
  obtain y where "float_of_size v = Fin y" "0 \<le> y" "y \<le> pow2 (int m + 1)"
    using round32_le [OF _ p(2)] v l unfolding float_of_size_def by (force simp only: of_int_0_le_iff)
  then show ?thesis
    using that [of "int m" y] p(1) l by simp
qed

lemma change_amount:
  assumes "0 \<le> d" "d \<le> 1 / 2"
  shows "\<exists>t. size_of_float (ceilf (fmul (float_of_size v) (Fin d))) = Some t \<and> t \<le> v"
proof (cases "v = 0")
  case True
  then show ?thesis
    by (simp add: float_of_size_def round32_def)
next
  case False
  then obtain k y where k: "0 \<le> k" "k < 64" "pow2 k \<le> of_int (uint v)" "float_of_size v = Fin y" "0 \<le> y"
    "y \<le> pow2 (k + 1)"
    using float_of_size_le [of v] by (metis word_neq_0_conv)
  have "y * d \<le> pow2 (k + 1) * (1 / 2)"
    using k assms by (intro mult_mono) (simp_all add: less_imp_le)
  also have "\<dots> = pow2 k"
    by (simp add: pow2_add) (simp add: pow2_def)
  finally obtain z where z: "round32 (y * d) = Fin z" "0 \<le> z" "z \<le> pow2 k"
    using round32_le [of "y * d" k] k assms by auto
  then have "z \<le> of_int (uint v)"
    using k(3) by simp
  then have c: "0 \<le> \<lceil>z\<rceil>" "\<lceil>z\<rceil> \<le> uint v"
    using z(2) by (simp_all add: ceiling_le_iff)
  have "\<lceil>z\<rceil> < 2 ^ 64"
    by (rule le_less_trans [OF c(2)]) (use uint_lt2p [of v] in simp)
  then have "of_int \<lceil>z\<rceil> < (2 ^ 64 :: rat)"
    by (metis of_int_less_iff of_int_numeral of_int_power)
  moreover have "- 1 < (of_int \<lceil>z\<rceil> :: rat)" "\<not> (of_int \<lceil>z\<rceil> :: rat) < 0"
    using c(1) by linarith+
  ultimately have "size_of_float (ceilf (fmul (float_of_size v) (Fin d))) = Some (of_int \<lceil>z\<rceil>)"
    using k(4) z(1) by (simp only: fmul.simps ceilf.simps size_of_float.simps floor_of_int if_True if_False simp_thms)
  moreover have "of_int \<lceil>z\<rceil> \<le> v"
  proof -
    have "uint (word_of_int \<lceil>z\<rceil> :: u64) = \<lceil>z\<rceil>"
      using c(1) \<open>\<lceil>z\<rceil> < 2 ^ 64\<close> by (intro word_of_int_inverse [OF refl]) simp_all
    then show ?thesis
      using c(2) by (simp add: word_le_def)
  qed
  ultimately show ?thesis
    by blast
qed

text \<open>What the changes of a threshold keep: its bounds, and that it lies between them.\<close>

definition threshold_kept :: "memtier_threshold_cfg \<Rightarrow> memtier_threshold_cfg \<Rightarrow> bool" where
  "threshold_kept th th' \<longleftrightarrow>
    th_min th' = th_min th \<and> th_max th' = th_max th \<and> th_min th' \<le> th_val th' \<and> th_val th' \<le> th_max th'"

lemma change_threshold_kept:
  assumes "change_threshold (Fin d) higher th = Some th'" "0 \<le> d" "d \<le> 1 / 2"
    and "th_min th \<le> th_val th" "th_val th \<le> th_max th" "th_max th < 2 ^ 63"
  shows "threshold_kept th th'"
proof -
  obtain t where t: "size_of_float (ceilf (fmul (float_of_size (th_val th)) (Fin d))) = Some t" "t \<le> th_val th"
    using change_amount [OF assms(2,3)] by blast
  have "unat (th_val th) < 2 ^ 63"
    using assms(5,6) by (simp add: word_less_nat_alt word_le_nat_alt)
  then have "unat (th_val th) + unat t < 2 ^ 64"
    using t(2) by (simp add: word_le_nat_alt)
  then have "th_val th \<le> th_val th + t"
    by (simp add: no_olen_add_nat word_le_nat_alt unat_word_ariths)
  moreover have "th_val th - t \<le> th_val th"
    using t(2) by (simp add: word_sub_le)
  ultimately show ?thesis
    using assms t(1) by (auto simp: change_threshold_def threshold_kept_def Let_def split: if_splits)
qed

lemma update_threshold_kept:
  assumes "update_threshold trigger (Fin d) prev next th = Some th'" "0 \<le> d" "d \<le> 1 / 2"
    and "th_min th \<le> th_val th" "th_val th \<le> th_max th" "th_max th < 2 ^ 63"
  shows "threshold_kept th th'"
proof -
  consider (same) r where "th' = th\<lparr>th_current_ratio_diff := r\<rparr>"
    | (changed) r higher where "change_threshold (Fin d) higher (th\<lparr>th_current_ratio_diff := r\<rparr>) = Some th'"
    | (first) "change_threshold (Fin d) True th = Some th'"
    using assms(1) by (auto simp: update_threshold_def Let_def split: if_splits)
  then show ?thesis
  proof cases
    case same
    then show ?thesis
      using assms by (simp add: threshold_kept_def)
  next
    case changed
    then have "threshold_kept (th\<lparr>th_current_ratio_diff := r\<rparr>) th'"
      by (rule change_threshold_kept) (use assms in simp_all)
    then show ?thesis
      by (auto simp: threshold_kept_def)
  next
    case first
    then show ?thesis
      by (rule change_threshold_kept) (use assms in simp_all)
  qed
qed

lemma thresholds_valid_kept:
  "thresholds_valid m ths \<Longrightarrow> list_all2 threshold_kept ths ths' \<Longrightarrow> thresholds_valid m ths'"
  by (induction m ths arbitrary: ths' rule: thresholds_valid.induct)
    (auto simp: list_all2_Cons1 threshold_kept_def not_less split: option.splits)

lemma thresholds_valid_bounds:
  "thresholds_valid m ths \<Longrightarrow> list_all (\<lambda>th. th_min th \<le> th_val th \<and> th_val th \<le> th_max th) ths"
  by (induction m ths rule: thresholds_valid.induct) (auto simp: not_less)

lemma threshold_kept_refl: "th_min th \<le> th_val th \<Longrightarrow> th_val th \<le> th_max th \<Longrightarrow> threshold_kept th th"
  by (simp add: threshold_kept_def)

lemma update_thresholds_kept:
  assumes "update_thresholds s trigger (Fin d) ts ths = Some ths'" "0 \<le> d" "d \<le> 1 / 2"
    and "list_all (\<lambda>th. th_min th \<le> th_val th \<and> th_val th \<le> th_max th \<and> th_max th < 2 ^ 63) ths"
  shows "list_all2 threshold_kept ths ths'"
  using assms(1,4)
proof (induction s trigger "Fin d" ts ths arbitrary: ths' rule: update_thresholds.induct)
  case (1 s trigger t t' ts th ths)
  then obtain p n u us where
    run: "global_size (tc_kind t) s = Some p" "global_size (tc_kind t') s = Some n"
      "update_threshold trigger (Fin d) p n th = Some u"
      "update_thresholds s trigger (Fin d) (t' # ts) ths = Some us" "ths' = u # us"
    by (auto simp: Option.bind_eq_Some_conv)
  then have "threshold_kept th u"
    using 1(3) by (intro update_threshold_kept [OF run(3) assms(2,3)]) simp_all
  moreover have "list_all2 threshold_kept ths us"
    using 1(1) [OF run(1-4)] 1(3) by simp
  ultimately show ?case
    using run(5) by simp
qed (auto simp: list_all2_same list_all_iff intro!: list.rel_refl_strong threshold_kept_refl)

lemma threshold_kept_bounds:
  "list_all2 threshold_kept ths ths' \<Longrightarrow>
    map (\<lambda>th. (th_min th, th_max th)) ths' = map (\<lambda>th. (th_min th, th_max th)) ths"
  by (induction rule: list_all2_induct) (auto simp: threshold_kept_def)

text \<open>
  The memories a program can have from a builder: what the builder constructs, and what the calls
  that allocate leave. The state the calls run in may change in between in any way.
\<close>

inductive tier_run :: "'w sys \<Rightarrow> memtier_builder \<Rightarrow> memtier_memory \<Rightarrow> bool" for sy builder where
  tier_created: "builder_dynamic_create_memory sy builder s = Some (Some memory, s') \<Longrightarrow> tier_run sy builder memory"
| tier_malloc: "tier_run sy builder memory \<Longrightarrow> memtier_malloc sy memory sz s = Some (p, memory', s') \<Longrightarrow>
    tier_run sy builder memory'"
| tier_calloc: "tier_run sy builder memory \<Longrightarrow> memtier_calloc sy memory num sz s = Some (p, memory', s') \<Longrightarrow>
    tier_run sy builder memory'"
| tier_realloc: "tier_run sy builder memory \<Longrightarrow> memtier_realloc sy memory p sz s = Some (q, memory', s') \<Longrightarrow>
    tier_run sy builder memory'"
| tier_posix_memalign: "tier_run sy builder memory \<Longrightarrow>
    memtier_posix_memalign sy memory p alignment sz s = Some (r, memory', s') \<Longrightarrow> tier_run sy builder memory'"

text \<open>Whatever holds of a memory and is kept by every update of the configuration holds in all runs.\<close>

lemma tier_run_induct:
  fixes sy :: "'w sys"
  assumes "tier_run sy builder memory"
    and "\<And>s s' m. builder_dynamic_create_memory sy builder s = Some (Some m, s') \<Longrightarrow> P m"
    and "\<And>(s :: 'w mk) m m'. P m \<Longrightarrow> memtier_update_cfg m s = Some m' \<Longrightarrow> P m'"
  shows "P memory"
  using assms(1)
proof induction
  case tier_created
  then show ?case
    by (rule assms(2))
qed (auto simp: memtier_malloc_def memtier_calloc_def memtier_realloc_def memtier_posix_memalign_def
    Option.bind_eq_Some_conv split: if_splits intro: assms(3))

text \<open>What all memories of a builder have in common.\<close>

definition built_by :: "memtier_builder \<Rightarrow> memtier_memory \<Rightarrow> bool" where
  "built_by builder memory \<longleftrightarrow>
    mm_cfg memory = normalized_tiers (b_cfg builder) \<and> 2 \<le> length (b_cfg builder) \<and>
    mm_get_kind memory = Memtier_policy_dynamic_threshold_get_kind \<and> mm_thres_degree memory = b_degree builder \<and>
    thresholds_valid None (mm_thres memory) \<and>
    map (\<lambda>th. (th_min th, th_max th)) (mm_thres memory) =
      map (\<lambda>th. (th_min th, th_max th)) (builder_thresholds builder)"

lemma created_built_by:
  assumes "builder_dynamic_create_memory sy builder s = Some (Some memory, s')"
  shows "built_by builder memory \<and> \<not> fless (b_degree builder) (Fin 0)"
  using assms
  by (auto simp: builder_dynamic_create_memory_def memtier_memory_init_def built_by_def Let_def
      Option.bind_eq_Some_conv split: if_splits prod.splits)

lemma built_by_max:
  assumes "built_by builder memory" "list_all (\<lambda>th. th_max th < 2 ^ 63) (b_thres builder)"
  shows "list_all (\<lambda>th. th_min th \<le> th_val th \<and> th_val th \<le> th_max th \<and> th_max th < 2 ^ 63) (mm_thres memory)"
proof -
  have "list_all (\<lambda>th. th_max th < 2 ^ 63) (builder_thresholds builder)"
    using assms(2) by (auto simp: builder_thresholds_def list_all_iff dest: set_zip_leftD)
  then have "\<forall>m\<in>set (map (\<lambda>th. (th_min th, th_max th)) (mm_thres memory)). snd m < 2 ^ 63"
    using assms(1) by (auto simp: built_by_def list_all_iff)
  moreover have "list_all (\<lambda>th. th_min th \<le> th_val th \<and> th_val th \<le> th_max th) (mm_thres memory)"
    using assms(1) by (intro thresholds_valid_bounds [of None]) (simp add: built_by_def)
  ultimately show ?thesis
    by (auto simp: list_all_iff)
qed

lemma update_built_by:
  assumes "built_by builder memory" "memtier_update_cfg memory s = Some memory'"
    and "b_degree builder = Fin d" "0 \<le> d" "d \<le> 1 / 2" "list_all (\<lambda>th. th_max th < 2 ^ 63) (b_thres builder)"
  shows "built_by builder memory'"
proof -
  consider (same) c where "memory' = memory\<lparr>mm_thres_check_cnt := c\<rparr>"
    | (static) "memory' = memory"
    | (update) ths c where "memory' = memory\<lparr>mm_thres := ths, mm_thres_check_cnt := c\<rparr>"
        "update_thresholds s (mm_thres_trigger memory) (Fin d) (mm_cfg memory) (mm_thres memory) = Some ths"
    using assms(1-3)
    by (auto simp: memtier_update_cfg_def memtier_policy_dynamic_threshold_update_config_def built_by_def Let_def
        Option.bind_eq_Some_conv split: update_cfg_fn.splits if_splits)
  then show ?thesis
  proof cases
    case update
    then have "list_all2 threshold_kept (mm_thres memory) ths"
      using update_thresholds_kept [OF _ assms(4,5) built_by_max [OF assms(1,6)]] by blast
    then show ?thesis
      using assms(1) update(1) thresholds_valid_kept threshold_kept_bounds by (auto simp: built_by_def)
  qed (use assms(1) in \<open>auto simp: built_by_def\<close>)
qed

text \<open>In valid thresholds the search finds the only place a size can have.\<close>

lemma thresholds_valid_above:
  "thresholds_valid (Some m) ths \<Longrightarrow> th \<in> set ths \<Longrightarrow> m \<le> th_val th"
  by (induction "Some m" ths arbitrary: m rule: thresholds_valid.induct) (auto simp: not_less intro: order_trans)

lemma threshold_index_spec:
  assumes "thresholds_valid m ths" "j < length ths"
  shows "j < threshold_index sz ths \<longleftrightarrow> th_val (ths ! j) \<le> sz"
  using assms
proof (induction m ths arbitrary: j rule: thresholds_valid.induct)
  case (2 m th ths)
  show ?case
  proof (cases j)
    case (Suc i)
    then have "th_val th \<le> th_val (ths ! i)"
      using 2(2,3) thresholds_valid_above [of "th_max th" ths "ths ! i"] by (auto simp: not_less intro: order_trans)
    then show ?thesis
      using 2 Suc by auto
  qed auto
qed simp

lemma threshold_index_le: "threshold_index sz ths \<le> length ths"
  by (induction ths) simp_all

lemma dynamic_get_kind:
  assumes "built_by builder memory"
  shows "\<exists>i<length (mm_cfg memory).
    memtier_get_kind memory sz s = Some (tc_kind (mm_cfg memory ! i)) \<and>
    (\<forall>j<length (mm_thres memory). j < i \<longleftrightarrow> th_val (mm_thres memory ! j) \<le> sz)"
proof -
  have "length (mm_thres memory) = length (builder_thresholds builder)"
    using assms unfolding built_by_def by (blast intro: map_eq_imp_length_eq)
  moreover have "length (expected_ratios ts) = length ts - 1" for ts
    by (induction ts rule: expected_ratios.induct) simp_all
  moreover have "length (mm_cfg memory) = length (b_cfg builder)"
    using assms by (auto simp: built_by_def normalized_tiers_def split: list.splits)
  ultimately have len: "length (mm_thres memory) \<le> length (mm_cfg memory) - 1" "length (mm_cfg memory) \<ge> 2"
    using assms by (auto simp: builder_thresholds_def built_by_def)
  let ?i = "threshold_index sz (mm_thres memory)"
  have "?i < length (mm_cfg memory)"
    using len threshold_index_le [of sz "mm_thres memory"] by simp
  moreover have "memtier_get_kind memory sz s = Some (tc_kind (mm_cfg memory ! ?i))"
    using assms len \<open>?i < length (mm_cfg memory)\<close>
    by (simp add: memtier_get_kind_def memtier_policy_dynamic_threshold_get_kind_def built_by_def)
  ultimately show ?thesis
    using assms threshold_index_spec [of None "mm_thres memory"] by (auto simp: built_by_def)
qed

section \<open>Properties\<close>


definition sample_builder :: memtier_builder where
  "sample_builder =
    \<lparr>b_at = 0x2000, b_cfg = [\<lparr>tc_kind = MEMKIND_DEFAULT, tc_kind_ratio = Fin 1\<rparr>, \<lparr>tc_kind = MEMKIND_REGULAR, tc_kind_ratio = Fin 4\<rparr>],
     b_cfg_at = 0x3000, b_thres = [default_threshold 0], b_thres_at = 0x4000,
     b_check_cnt = 1, b_trigger = Fin (1 / 50), b_degree = Fin (1 / 4), b_policy = MEMTIER_POLICY_DYNAMIC_THRESHOLD\<rparr>"

definition sample_memory :: "u64 \<Rightarrow> memtier_memory" where
  "sample_memory v =
    \<lparr>mm_at = 0x1000, mm_cfg = [\<lparr>tc_kind = MEMKIND_DEFAULT, tc_kind_ratio = Fin 1\<rparr>, \<lparr>tc_kind = MEMKIND_REGULAR, tc_kind_ratio = Fin (1 / 4)\<rparr>],
     mm_cfg_at = 0x2000, mm_thres = [(default_threshold 0)\<lparr>th_val := v, th_exp_norm_ratio := Fin 4\<rparr>],
     mm_thres_at = 0x2000, mm_thres_check_cnt = 1, mm_thres_init_check_cnt = 1,
     mm_thres_trigger = Fin (1 / 50), mm_thres_degree = Fin (1 / 4),
     mm_get_kind = Memtier_policy_dynamic_threshold_get_kind,
     mm_update_cfg = Memtier_policy_dynamic_threshold_update_config\<rparr>"

lemma sample_floats:
  "round32 4 = Fin 4" "round32 (1 / 4) = Fin (1 / 4)"
  "size_of_float (ceilf (fmul (float_of_size 1024) (Fin (1 / 4)))) = Some 256"
  "size_of_float (ceilf (fmul (float_of_size 1024) (Fin 2))) = Some 2048"
  by code_simp+

lemma sample_sys_heap:
  "je_malloc sample_sys n s = (0x1000, s)" "je_calloc sample_sys m n s = (0x2000, s)"
  "je_malloc_usable_size sample_sys p s = 64"
  by (simp_all add: sample_sys_def)

lemma sample_created:
  "\<exists>s. builder_dynamic_create_memory sample_sys sample_builder (mk_init 0) = Some (Some (sample_memory 1024), s)"
  by (simp add: builder_dynamic_create_memory_def memtier_memory_init_def sample_sys_heap sample_builder_def
      builder_thresholds_def sample_floats normalized_tiers_def sample_memory_def default_threshold_def
      memkind_set_allow_zero_allocs_def is_static_def Let_def)

lemma sample_default_malloc:
  "memkind_malloc sample_sys MEMKIND_DEFAULT 100 (mk_init 0) = Some (0x1000, mk_init 0)"
  by (simp add: memkind_malloc_def kind_ops_def memkind_default_malloc_def size_out_of_bounds_def
      MEMKIND_DEFAULT_OPS_def blank_kind_def is_static_def sample_sys_heap)

lemma sample_counters: "tier_counters (mk_init w) = alloc_counters_init"
  by (simp add: mk_init_def)

lemma sample_tier_malloc:
  "\<exists>s. memtier_malloc sample_sys (sample_memory 1024) 100 (mk_init 0) = Some (0x1000, sample_memory 1280, s)"
  by (simp add: memtier_malloc_def memtier_get_kind_def memtier_policy_dynamic_threshold_get_kind_def
      sample_memory_def memtier_kind_malloc_def sample_default_malloc is_static_def
      sample_sys_heap count_alloc_def kind_partition_def memtier_update_cfg_def
      memtier_policy_dynamic_threshold_update_config_def global_size_def update_threshold_def change_threshold_def
      default_threshold_def sample_floats Let_def sample_counters increment_alloc_size_def alloc_counters_init_def
      set_bucket_def)



end
