(* ===== verification/Ctl.thy ===== *)
theory Ctl
  imports Memtier
begin

text \<open>
  The configuration of the tiering library (\<^verbatim>\<open>tiering/ctl.c\<close>): the strings in \<^verbatim>\<open>MEMKIND_MEM_TIERS\<close> and
  \<^verbatim>\<open>MEMKIND_MEM_THRESHOLDS\<close> are cut into queries, parameters and values, kinds on file systems are created
  and registered, and a memory is built from the tiers.

  The lemmas show that a threshold written in decimal is the one that the builder gets, by way of a
  parameter name that is printed and parsed again, and what happens to the registered kinds when the memory is
  destroyed.
\<close>

section \<open>State\<close>

text \<open>
  The globals of the tiering library next to the state of memkind; the registry of kinds is kept with
  the address of its array.
\<close>

record 'w tiering =
  fs_dax_kinds :: "memkind_t option list"
  fs_dax_at :: ptr
  current_memory :: "memtier_memory option"
  destructed :: bool
  lib :: "'w mk"

definition on_lib :: "('w mk \<Rightarrow> ('r \<times> 'w mk) option) \<Rightarrow> 'w tiering \<Rightarrow> ('r \<times> 'w tiering) option" where
  "on_lib f t = map_option (\<lambda>(r, s). (r, t\<lparr>lib := s\<rparr>)) (f (lib t))"

abbreviation (input) sizeof_pointer :: u64 where "sizeof_pointer \<equiv> 8"

definition ctl_add_pmem_kind_to_fs_dax_reg ::
  "'w sys \<Rightarrow> memkind_t option \<Rightarrow> 'w tiering \<Rightarrow> (int \<times> 'w tiering) option" where
  "ctl_add_pmem_kind_to_fs_dax_reg sy kind t =
    do {
      (new_kinds, t) \<leftarrow>
        on_lib (memkind_realloc sy (Some MEMKIND_DEFAULT) (fs_dax_at t)
          (sizeof_pointer * of_nat (length (fs_dax_kinds t) + 1))) t;
      if new_kinds = NULL then Some (- 1, t)
      else Some (0, t\<lparr>fs_dax_at := new_kinds, fs_dax_kinds := fs_dax_kinds t @ [kind]\<rparr>)
    }"

text \<open>Destroying a \<open>NULL\<close> kind dereferences it. The registry itself is not cleared.\<close>

fun destroy_kinds :: "'w sys \<Rightarrow> memkind_t option list \<Rightarrow> 'w mk \<Rightarrow> 'w mk option" where
  "destroy_kinds sy [] s = Some s"
| "destroy_kinds sy (kind # ks) s =
    do {
      k \<leftarrow> kind;
      (_, s) \<leftarrow> memkind_destroy_kind sy k s;
      destroy_kinds sy ks s
    }"

definition ctl_destroy_fs_dax_reg :: "'w sys \<Rightarrow> 'w tiering \<Rightarrow> 'w tiering option" where
  "ctl_destroy_fs_dax_reg sy t =
    do {
      s \<leftarrow> destroy_kinds sy (fs_dax_kinds t) (lib t);
      s \<leftarrow> memkind_free sy (Some MEMKIND_DEFAULT) (fs_dax_at t) s;
      Some (t\<lparr>lib := s\<rparr>)
    }"

section \<open>Values\<close>

text \<open>The parsers return \<open>None\<close> for the result \<^verbatim>\<open>-1\<close>; they leave \<open>errno\<close> as it was.\<close>

definition ctl_parse_u :: "string \<Rightarrow> u32 option" where
  "ctl_parse_u str =
    (if take 1 str = ''-'' then None
     else
       (let (val_ul, converted, range) = strtoul0 str
        in if \<not> converted \<or> range \<or> val_ul > 0xffffffff then None else Some (ucast val_ul)))"

definition ctl_parse_size_t :: "string \<Rightarrow> u64 option" where
  "ctl_parse_size_t str =
    (if take 1 str = ''-'' then None
     else
       (let (val_ul, converted, range) = strtoul0 str
        in if \<not> converted \<or> range then None else Some val_ul))"

definition suffixes :: "(string \<times> u64) list" where
  "suffixes = [(''K'', 2 ^ 10), (''M'', 2 ^ 20), (''G'', 2 ^ 30)]"

text \<open>
  The string is what the pointer refers to that \<^verbatim>\<open>strtok_r\<close> continues from: a \<open>NULL\<close> pointer there is
  dereferenced, which is the outer \<open>None\<close>.
\<close>

definition ctl_parse_size :: "string option \<Rightarrow> u64 option option" where
  "ctl_parse_size sptr =
    do {
      str \<leftarrow> sptr;
      Some (case fst (strtok CHR '':'' str) of
              None \<Rightarrow> None
            | Some size_str \<Rightarrow>
                if take 1 size_str = ''-'' then None
                else
                  (case scan_set 31 isdigit size_str of
                     None \<Rightarrow> None
                   | Some (sz, rest) \<Rightarrow>
                       do {
                         v \<leftarrow> ctl_parse_size_t sz;
                         case scan_word 2 rest of
                           None \<Rightarrow> Some v
                         | Some u \<Rightarrow>
                             do {
                               mag \<leftarrow> map_of suffixes u;
                               if SIZE_MAX div mag \<ge> v then Some (v * mag) else None
                             }
                       }))
    }"

definition ctl_parse_policy :: "string \<Rightarrow> memtier_policy_t option" where
  "ctl_parse_policy qbuf =
    (if qbuf = ''STATIC_RATIO'' then Some MEMTIER_POLICY_STATIC_RATIO
     else if qbuf = ''DYNAMIC_THRESHOLD'' then Some MEMTIER_POLICY_DYNAMIC_THRESHOLD
     else None)"

definition ctl_parse_ratio :: "string option \<Rightarrow> u32 option option" where
  "ctl_parse_ratio sptr =
    do {
      str \<leftarrow> sptr;
      Some (do {
        ratio_str \<leftarrow> fst (strtok CHR '':'' str);
        dest \<leftarrow> ctl_parse_u ratio_str;
        if dest = 0 then None else Some dest
      })
    }"

section \<open>Tiers\<close>

text \<open>The local variables of \<^verbatim>\<open>ctl_parse_tier_query\<close> and the values behind its result pointers.\<close>

record tier_query =
  q_kind :: "memkind_t option"
  q_ratio :: u32
  q_is_fsdax :: bool
  q_fsdax_path :: "string option"
  q_fsdax_size_str :: "string option"
  q_ratio_str :: "string option"
  q_kind_set :: bool
  q_fsdax_path_set :: bool
  q_fsdax_size_set :: bool
  q_ratio_set :: bool

definition blank_query :: tier_query where
  "blank_query =
    \<lparr>q_kind = None, q_ratio = 0, q_is_fsdax = False, q_fsdax_path = None, q_fsdax_size_str = None,
     q_ratio_str = None, q_kind_set = False, q_fsdax_path_set = False, q_fsdax_size_set = False,
     q_ratio_set = False\<rparr>"

text \<open>
  The branches for the four parameters: what is left of the string, and the variables, or \<open>None\<close> for a
  return with \<^verbatim>\<open>-1\<close>.
\<close>

definition set_kind ::
  "'w sys \<Rightarrow> string \<Rightarrow> tier_query \<Rightarrow> 'w tiering \<Rightarrow> ((string \<times> tier_query) option \<times> 'w tiering) option" where
  "set_kind sy sptr q t =
    (if q_kind_set q then Some (None, t)
     else
       (case strtok CHR '','' sptr of
          (None, _) \<Rightarrow> Some (None, t)
        | (Some kind_name, sptr) \<Rightarrow>
            if kind_name = ''DRAM'' then
              Some (Some (sptr, q\<lparr>q_kind := Some MEMKIND_DEFAULT, q_kind_set := True\<rparr>), t)
            else if kind_name = ''KMEM_DAX'' then do {
              (p, t) \<leftarrow> on_lib (memkind_malloc sy MEMKIND_DAX_KMEM 32) t;
              if p = NULL then Some (None, t)
              else do {
                s \<leftarrow> memkind_free sy (Some MEMKIND_DAX_KMEM) p (lib t);
                Some (Some (sptr, q\<lparr>q_kind := Some MEMKIND_DAX_KMEM, q_kind_set := True\<rparr>), t\<lparr>lib := s\<rparr>)
              }
            }
            else if kind_name = ''FS_DAX'' then
              Some (Some (sptr, q\<lparr>q_is_fsdax := True, q_kind_set := True\<rparr>), t)
            else Some (None, t)))"

definition set_path :: "string \<Rightarrow> tier_query \<Rightarrow> (string \<times> tier_query) option" where
  "set_path sptr q =
    (if q_fsdax_path_set q then None
     else
       (case strtok CHR '','' sptr of
          (None, _) \<Rightarrow> None
        | (Some fsdax_path, sptr) \<Rightarrow> Some (sptr, q\<lparr>q_fsdax_path := Some fsdax_path, q_fsdax_path_set := True\<rparr>)))"

definition set_size_limit :: "string \<Rightarrow> tier_query \<Rightarrow> (string \<times> tier_query) option" where
  "set_size_limit sptr q =
    (if q_fsdax_size_set q then None
     else
       (let (fsdax_size_str, sptr) = strtok CHR '','' sptr
        in Some (sptr, q\<lparr>q_fsdax_size_str := fsdax_size_str, q_fsdax_size_set := True\<rparr>)))"

definition set_ratio :: "string \<Rightarrow> tier_query \<Rightarrow> (string \<times> tier_query) option option" where
  "set_ratio sptr q =
    (if q_ratio_set q then Some None
     else
       (let (ratio_str, sptr) = strtok CHR '','' sptr
        in map_option
             (map_option (\<lambda>r. (sptr, q\<lparr>q_ratio := r, q_ratio_str := ratio_str, q_ratio_set := True\<rparr>)))
             (ctl_parse_ratio ratio_str)))"

definition tier_param ::
  "'w sys \<Rightarrow> string \<Rightarrow> string \<Rightarrow> tier_query \<Rightarrow> 'w tiering \<Rightarrow> ((string \<times> tier_query) option \<times> 'w tiering) option" where
  "tier_param sy param_str sptr q t =
    (if param_str = ''KIND'' then set_kind sy sptr q t
     else if param_str = ''PATH'' then Some (set_path sptr q, t)
     else if param_str = ''PMEM_SIZE_LIMIT'' then Some (set_size_limit sptr q, t)
     else if param_str = ''RATIO'' then map_option (\<lambda>r. (r, t)) (set_ratio sptr q)
     else Some (None, t))"

lemma tier_param_rest:
  assumes "tier_param sy param sptr q t = Some (Some (rest, q'), t')"
  shows "length rest \<le> length sptr"
  using assms
  by (auto simp: tier_param_def set_kind_def set_path_def set_size_limit_def set_ratio_def Option.bind_eq_Some_conv
      split: if_splits option.splits prod.splits dest: strtok_rest_le)

text \<open>The loop over the parameters ends, since every token shortens the string.\<close>

function tier_loop ::
  "'w sys \<Rightarrow> string \<Rightarrow> tier_query \<Rightarrow> 'w tiering \<Rightarrow> ((string \<times> tier_query) option \<times> 'w tiering) option" where
  "tier_loop sy sptr q t =
    (case strtok CHR '':'' sptr of
       (None, sptr) \<Rightarrow> Some (Some (sptr, q), t)
     | (Some param_str, sptr) \<Rightarrow>
         do {
           (r, t) \<leftarrow> tier_param sy param_str sptr q t;
           case r of
             None \<Rightarrow> Some (None, t)
           | Some (sptr, q) \<Rightarrow> tier_loop sy sptr q t
         })"
  by pat_completeness auto
termination
proof (relation "measure (\<lambda>(sy, sptr, q, t). length sptr)", goal_cases)
  case (2 sy sptr q t tok sptr1 param pq r t' rq sptr2 q2)
  then have "strtok CHR '':'' sptr = (Some param, sptr1)" "tier_param sy param sptr1 q t = Some (Some (sptr2, q2), t')"
    by simp_all
  then have "length sptr1 < length sptr" "length sptr2 \<le> length sptr1"
    by (blast dest: strtok_shorter tier_param_rest)+
  then show ?case
    by simp
qed simp

declare tier_loop.simps [simp del]

text \<open>
  The branch for kinds on file systems. A limit below the minimum leaves the kind \<open>NULL\<close>, and it is
  registered all the same.
\<close>

definition fsdax_kind :: "'w sys \<Rightarrow> tier_query \<Rightarrow> 'w tiering \<Rightarrow> ((int \<times> tier_query) \<times> 'w tiering) option" where
  "fsdax_kind sy q t =
    (case q_fsdax_path q of
       None \<Rightarrow> Some ((- 1, q), t)
     | Some fsdax_path \<Rightarrow>
         do {
           (ret, t) \<leftarrow> on_lib (\<lambda>s. Some (memkind_check_dax_path sy fsdax_path s)) t;
           lim \<leftarrow> (if q_fsdax_size_set q then ctl_parse_size (q_fsdax_size_str q) else Some (Some 0));
           case lim of
             None \<Rightarrow> Some ((- 1, q), t)
           | Some fsdax_max_size \<Rightarrow>
               do {
                 let ret = (if q_fsdax_size_set q then 0 else ret);
                 ((ret, kind), t) \<leftarrow>
                   (if fsdax_max_size = 0 \<or> fsdax_max_size \<ge> MEMKIND_PMEM_MIN_SIZE
                    then on_lib (memkind_create_pmem sy fsdax_path fsdax_max_size) t
                    else Some ((ret, q_kind q), t));
                 if ret \<noteq> 0 then Some ((- 1, q), t)
                 else do {
                   (r, t) \<leftarrow> ctl_add_pmem_kind_to_fs_dax_reg sy kind t;
                   Some ((if r \<noteq> 0 then - 1 else 0, q\<lparr>q_kind := kind\<rparr>), t)
                 }
               }
         })"

text \<open>
  The result, the kind and the ratio, which are only used when the result is 0. A missing kind is not
  noticed: the test is on the address of the variable.
\<close>

definition ctl_parse_tier_query ::
  "'w sys \<Rightarrow> string option \<Rightarrow> 'w tiering \<Rightarrow> ((int \<times> memkind_t option \<times> u32) \<times> 'w tiering) option" where
  "ctl_parse_tier_query sy qbuf t =
    do {
      str \<leftarrow> qbuf;
      (r, t) \<leftarrow> tier_loop sy str blank_query t;
      case r of
        None \<Rightarrow> Some ((- 1, None, 0), t)
      | Some (sptr, q) \<Rightarrow>
          if q_ratio_str q = None then Some ((- 1, q_kind q, q_ratio q), t)
          else do {
            ((ret, q), t) \<leftarrow>
              (if q_is_fsdax q then fsdax_kind sy q t
               else Some ((if q_fsdax_path_set q \<or> q_fsdax_size_set q then - 1 else 0, q), t));
            if ret \<noteq> 0 then Some ((- 1, q_kind q, q_ratio q), t)
            else if fst (strtok CHR '':'' sptr) \<noteq> None then Some ((- 1, q_kind q, q_ratio q), t)
            else Some ((0, q_kind q, q_ratio q), t)
          }
    }"

section \<open>Thresholds\<close>

definition thr_name :: "nat \<Rightarrow> nat \<Rightarrow> string" where
  "thr_name ctl_id th_id =
    ''policy.dynamic_threshold.thresholds['' @ show_nat th_id @
    [''].val'', ''].min'', ''].max''] ! ctl_id"

text \<open>
  The options seen so far are a set of bits. The value is passed by its address, and only ever read as
  a \<^verbatim>\<open>size_t\<close> by the parameters named here.
\<close>

definition ctl_set_thr_cfg ::
  "string \<Rightarrow> nat \<Rightarrow> nat \<Rightarrow> u32 \<Rightarrow> memtier_builder \<Rightarrow> ((int \<times> string \<times> u32) \<times> memtier_builder) option" where
  "ctl_set_thr_cfg sptr ctl_id th_id ctl_opts builder =
    (if bit ctl_opts ctl_id then Some ((- 1, sptr, ctl_opts), builder)
     else
       (let (val_str, sptr) = strtok CHR '','' sptr
        in do {
          r \<leftarrow> ctl_parse_size val_str;
          case r of
            None \<Rightarrow> Some ((- 1, sptr, ctl_opts), builder)
          | Some v \<Rightarrow>
              do {
                (ret, builder) \<leftarrow>
                  memtier_ctl_set builder (thr_name ctl_id th_id)
                    \<lparr>val_size = v, val_unsigned = ucast v, val_float = NaN\<rparr>;
                Some ((ret, sptr, set_bit ctl_id ctl_opts), builder)
              }
        }))"

definition thr_id :: "string \<Rightarrow> nat option" where
  "thr_id param_str =
    (if param_str = ''INIT_VAL'' then Some 0
     else if param_str = ''MIN_VAL'' then Some 1
     else if param_str = ''MAX_VAL'' then Some 2
     else None)"

lemma ctl_set_thr_cfg_rest:
  assumes "ctl_set_thr_cfg sptr ctl_id th_id opts b = Some ((ret, rest, opts'), b')"
  shows "length rest \<le> length sptr"
  using assms
  by (auto simp: ctl_set_thr_cfg_def Option.bind_eq_Some_conv split: if_splits option.splits prod.splits
      dest: strtok_rest_le)

function threshold_loop ::
  "string \<Rightarrow> nat \<Rightarrow> u32 \<Rightarrow> memtier_builder \<Rightarrow> (int \<times> memtier_builder) option" where
  "threshold_loop sptr th_id ctl_opts builder =
    (case strtok CHR '':'' sptr of
       (None, _) \<Rightarrow> Some (0, builder)
     | (Some param_str, sptr) \<Rightarrow>
         (case thr_id param_str of
            None \<Rightarrow> Some (- 1, builder)
          | Some ctl_id \<Rightarrow>
              do {
                ((ret, sptr, ctl_opts), builder) \<leftarrow> ctl_set_thr_cfg sptr ctl_id th_id ctl_opts builder;
                if ret \<noteq> 0 then Some (- 1, builder) else threshold_loop sptr th_id ctl_opts builder
              }))"
  by pat_completeness auto
termination
proof (relation "measure (\<lambda>(sptr, th_id, opts, b). length sptr)", goal_cases)
  case (2 sptr th_id opts b tok sptr1 param ctl_id r r1 b' ret r2 sptr2 opts')
  then have "strtok CHR '':'' sptr = (Some param, sptr1)"
    "ctl_set_thr_cfg sptr1 ctl_id th_id opts b = Some ((ret, sptr2, opts'), b')"
    by simp_all
  then have "length sptr1 < length sptr" "length sptr2 \<le> length sptr1"
    by (blast dest: strtok_shorter ctl_set_thr_cfg_rest)+
  then show ?case
    by simp
qed simp

declare threshold_loop.simps [simp del]

definition ctl_parse_threshold_query ::
  "string option \<Rightarrow> nat \<Rightarrow> memtier_builder \<Rightarrow> (int \<times> memtier_builder) option" where
  "ctl_parse_threshold_query qbuf threshold_id builder =
    do {
      str \<leftarrow> qbuf;
      if fst (strtok CHR '':'' str) = None then Some (- 1, builder)
      else threshold_loop str threshold_id 0 builder
    }"

section \<open>The memory from the environment\<close>

abbreviation (input) MAX_ENV_STRING :: nat where "MAX_ENV_STRING \<equiv> 1024"

definition query_count :: "string \<Rightarrow> nat" where
  "query_count str = 1 + length (filter (\<lambda>c. c = CHR '';'') str)"

text \<open>
  The loop over the tiers, from the query \<open>qbuf\<close> on: the tiers, the next query and what is left, or
  \<open>None\<close> when a query is refused.
\<close>

fun tier_queries ::
  "'w sys \<Rightarrow> nat \<Rightarrow> string option \<Rightarrow> string \<Rightarrow> 'w tiering \<Rightarrow>
    (((memkind_t option \<times> u32) list \<times> string option \<times> string) option \<times> 'w tiering) option" where
  "tier_queries sy 0 qbuf sptr t = Some (Some ([], qbuf, sptr), t)"
| "tier_queries sy (Suc n) qbuf sptr t =
    do {
      ((ret, kind, ratio), t) \<leftarrow> ctl_parse_tier_query sy qbuf t;
      if ret \<noteq> 0 then Some (None, t)
      else do {
        let (qbuf, sptr) = strtok CHR '';'' sptr;
        (r, t) \<leftarrow> tier_queries sy n qbuf sptr t;
        Some (map_option (\<lambda>(cfg, rest). ((kind, ratio) # cfg, rest)) r, t)
      }
    }"

definition parse_policy_query :: "string option \<Rightarrow> string \<Rightarrow> memtier_policy_t option" where
  "parse_policy_query qbuf sptr =
    (let (qbuf, sptr) = strtok CHR '':'' (case qbuf of Some q \<Rightarrow> q | None \<Rightarrow> sptr)
     in if qbuf = Some ''POLICY'' then ctl_parse_policy sptr else None)"

fun add_tiers ::
  "'w sys \<Rightarrow> (memkind_t option \<times> u32) list \<Rightarrow> memtier_builder \<Rightarrow> 'w mk \<Rightarrow> (bool \<times> memtier_builder) \<times> 'w mk" where
  "add_tiers sy [] builder s = ((True, builder), s)"
| "add_tiers sy ((kind, ratio) # cfg) builder s =
    (let ((ret, builder), s) = memtier_builder_add_tier sy builder kind ratio s
     in if ret \<noteq> 0 then ((False, builder), s) else add_tiers sy cfg builder s)"

fun threshold_queries ::
  "nat \<Rightarrow> nat \<Rightarrow> string option \<Rightarrow> string \<Rightarrow> memtier_builder \<Rightarrow> (bool \<times> memtier_builder) option" where
  "threshold_queries 0 i qbuf sptr builder = Some (True, builder)"
| "threshold_queries (Suc n) i qbuf sptr builder =
    do {
      (ret, builder) \<leftarrow> ctl_parse_threshold_query qbuf i builder;
      if ret \<noteq> 0 then Some (False, builder)
      else (let (qbuf, sptr) = strtok CHR '';'' sptr in threshold_queries n (Suc i) qbuf sptr builder)
    }"

definition set_thresholds ::
  "'w sys \<Rightarrow> nat \<Rightarrow> memtier_policy_t \<Rightarrow> memtier_builder \<Rightarrow> (bool \<times> memtier_builder) option" where
  "set_thresholds sy tier_count policy builder =
    (case memkind_get_env sy ''MEMKIND_MEM_THRESHOLDS'' of
       None \<Rightarrow> Some (True, builder)
     | Some thresholds_var_string \<Rightarrow>
         (let str = take (MAX_ENV_STRING - 1) thresholds_var_string; thresholds_count = query_count str
          in if policy \<noteq> MEMTIER_POLICY_DYNAMIC_THRESHOLD then Some (False, builder)
             else if thresholds_count \<ge> tier_count then Some (False, builder)
             else
               (let (qbuf, sptr) = strtok CHR '';'' str
                in if qbuf = None then Some (False, builder)
                   else threshold_queries thresholds_count 0 qbuf sptr builder)))"

text \<open>The part between the parsing of the tiers and the cleanup: the memory, after the builder has been deleted.\<close>

definition build_memory ::
  "'w sys \<Rightarrow> (memkind_t option \<times> u32) list \<Rightarrow> memtier_policy_t \<Rightarrow> 'w mk \<Rightarrow> (memtier_memory option \<times> 'w mk) option" where
  "build_memory sy cfg policy s =
    (let (b, s) = memtier_builder_new sy policy s
     in case b of
          None \<Rightarrow> Some (None, s)
        | Some builder \<Rightarrow>
            (let ((ok, builder), s) = add_tiers sy cfg builder s
             in do {
               (ok, builder) \<leftarrow> (if ok then set_thresholds sy (length cfg) policy builder else Some (False, builder));
               (memory, s) \<leftarrow>
                 (if ok then memtier_builder_construct_memtier_memory sy builder s else Some (None, s));
               s \<leftarrow> memtier_builder_delete sy builder s;
               Some (memory, s)
             }))"

definition ctl_create_tier_memory_from_env ::
  "'w sys \<Rightarrow> string \<Rightarrow> 'w tiering \<Rightarrow> (memtier_memory option \<times> 'w tiering) option" where
  "ctl_create_tier_memory_from_env sy env_var_string t =
    (let str = take (MAX_ENV_STRING - 1) env_var_string;
         tier_count = query_count str - 1;
         (qbuf, sptr) = strtok CHR '';'' str
     in if qbuf = None then Some (None, t)
        else if query_count str < 2 then Some (None, t)
        else do {
          (r, t) \<leftarrow> tier_queries sy tier_count qbuf sptr t;
          (memory, t) \<leftarrow>
            (case r of
               None \<Rightarrow> Some (None, t)
             | Some (cfg, qbuf, sptr) \<Rightarrow>
                 (case parse_policy_query qbuf sptr of
                    None \<Rightarrow> Some (None, t)
                  | Some policy \<Rightarrow> on_lib (build_memory sy cfg policy) t));
          if memory = None then do {
            t \<leftarrow> ctl_destroy_fs_dax_reg sy t;
            Some (None, t)
          }
          else Some (memory, t)
        })"

definition ctl_destroy_tier_memory :: "'w sys \<Rightarrow> memtier_memory \<Rightarrow> 'w tiering \<Rightarrow> 'w tiering option" where
  "ctl_destroy_tier_memory sy memory t =
    do {
      t \<leftarrow> ctl_destroy_fs_dax_reg sy t;
      s \<leftarrow> memtier_delete_memtier_memory sy memory (lib t);
      Some (t\<lparr>lib := s\<rparr>)
    }"

section \<open>Reading back what is written in decimal\<close>

lemma show_nat_no: "\<not> isdigit c \<Longrightarrow> c \<notin> set (show_nat n)"
  using show_nat_digits by blast

lemma show_nat_lead: "show_nat n = c # cs \<Longrightarrow> c = CHR ''0'' \<Longrightarrow> cs = []"
proof (induction n arbitrary: c cs rule: show_nat.induct)
  case (1 n)
  show ?case
  proof (cases "n < 10")
    case True
    then show ?thesis
      using 1(2) by (subst (asm) show_nat.simps) simp
  next
    case False
    obtain d ds where d: "show_nat (n div 10) = d # ds"
      using show_nat_nonempty by (cases "show_nat (n div 10)") auto
    then have "d = CHR ''0''"
      using 1(2,3) False by (subst (asm) show_nat.simps) simp
    then have "show_nat (n div 10) = ''0''"
      using 1(1) [OF False d] d by simp
    then have "n div 10 = 0"
      using digits_val_show [of "n div 10"] by (simp add: digits_val_def digit_val_def)
    then show ?thesis
      using False by simp
  qed
qed

lemma strtoul0_show:
  assumes "n < 2 ^ 64"
  shows "strtoul0 (show_nat n) = (of_nat n, True, False)"
proof -
  obtain c cs where s: "show_nat n = c # cs"
    using show_nat_nonempty by (cases "show_nat n") auto
  have c: "\<forall>d\<in>set (c # cs). isdigit d"
    using show_nat_digits [of n] s by simp
  have pre: "dropWhile isspace (c # cs) = c # cs" "strip_sign (c # cs) = (False, c # cs)"
    using c isdigit_not_space isdigit_not_sign by (auto simp: strip_sign_def)
  show ?thesis
  proof (cases "c = CHR ''0''")
    case True
    then have "show_nat n = ''0''"
      using show_nat_lead [OF s] s by simp
    moreover from this have "n = 0"
      using digits_val_show [of n] by (simp add: digits_val_def digit_val_def)
    moreover have "strtoul0 ''0'' = (0, True, False)"
      by code_simp
    ultimately show ?thesis
      by simp
  next
    case False
    then have "base_prefix (c # cs) = (10, c # cs)"
      by (simp add: base_prefix_def split: list.split)
    moreover have "takeWhile (digit_in 10) (c # cs) = c # cs"
      using c by (simp add: takeWhile_eq_all_conv digit_in_10)
    moreover have "num_val 10 (c # cs) = int n"
      using num_val_10 [OF c] digits_val_show [of n] s by simp
    moreover have "\<not> 18446744073709551616 \<le> int n"
      using assms by simp
    ultimately show ?thesis
      unfolding s strtoul0_def pre Let_def by simp
  qed
qed

lemma show_nat_length: "n < 10 ^ Suc k \<Longrightarrow> length (show_nat n) \<le> Suc k"
proof (induction k arbitrary: n)
  case 0
  then show ?case
    by (subst show_nat.simps) simp
next
  case (Suc k)
  then have "n div 10 < 10 ^ Suc k"
    by (intro less_mult_imp_div_less) (simp add: mult.commute)
  then show ?case
    using Suc(1) [of "n div 10"] by (subst show_nat.simps) simp
qed

lemma ctl_parse_size_show:
  assumes "n < 2 ^ 64"
  shows "ctl_parse_size (Some (show_nat n)) = Some (Some (of_nat n))"
proof -
  have "CHR '':'' \<notin> set (show_nat n)" "CHR ''-'' \<notin> set (show_nat n)"
    by (rule show_nat_no, simp add: isdigit_def)+
  then have tok: "strtok CHR '':'' (show_nat n) = (Some (show_nat n), [])" "take 1 (show_nat n) \<noteq> ''-''"
    using strtok_token(2) [OF show_nat_nonempty] by (simp, cases "show_nat n") auto
  have "length (show_nat n) \<le> Suc 19"
    using assms by (intro show_nat_length less_le_trans [OF assms]) simp
  then have "scan_set 31 isdigit (show_nat n) = Some (show_nat n, [])"
    using show_nat_digits [of n] by (simp add: scan_set_def takeWhile_eq_all_conv [THEN iffD2] show_nat_nonempty Let_def)
  then show ?thesis
    using tok strtoul0_show [OF assms] by (simp add: ctl_parse_size_def ctl_parse_size_t_def scan_word_def)
qed

text \<open>The name that is printed for a threshold selects the entry of that threshold.\<close>

definition thr_update :: "nat \<Rightarrow> u64 \<Rightarrow> memtier_threshold_cfg \<Rightarrow> memtier_threshold_cfg" where
  "thr_update ctl_id v th =
    (if ctl_id = 0 then th\<lparr>th_val := v\<rparr> else if ctl_id = 1 then th\<lparr>th_min := v\<rparr> else th\<lparr>th_max := v\<rparr>)"

lemma scan_index_show:
  assumes "i < 2 ^ 31"
  shows "scan_index (CHR ''['' # show_nat i @ CHR '']'' # w) n = Some (int i, length (show_nat i) + 2)"
proof -
  have "scan_int (show_nat i @ CHR '']'' # w) = Some (int i, CHR '']'' # w)"
    by (rule scan_int_show) (simp add: isdigit_def)
  then show ?thesis
    using assms by (simp add: scan_index_def)
qed

lemma thr_name_set:
  assumes "ctl_id < 3" "Suc i < length (b_cfg b)" "i < 2 ^ 31" "b_policy b = MEMTIER_POLICY_DYNAMIC_THRESHOLD"
  shows "memtier_ctl_set b (thr_name ctl_id i) v =
    Some (0, b\<lparr>b_thres := (b_thres b)[i := thr_update ctl_id (val_size v) (b_thres b ! i)]\<rparr>)"
proof -
  define w where "w = [''val'', ''min'', ''max''] ! ctl_id"
  define query where "query = CHR ''['' # show_nat i @ CHR '']'' # CHR ''.'' # w"
  have w: "w = ''val'' \<and> ctl_id = 0 \<or> w = ''min'' \<and> ctl_id = 1 \<or> w = ''max'' \<and> ctl_id = 2"
    using assms(1) by (auto simp: w_def less_Suc_eq numeral_3_eq_3)
  define full where "full = ''thresholds'' @ query"
  have name: "thr_name ctl_id i = dynamic_prefix @ full" "full \<noteq> []"
    using w by (auto simp: thr_name_def dynamic_prefix_def query_def full_def)
  have scan: "scan_set 255 (\<lambda>c. c \<noteq> CHR ''['') full = Some (''thresholds'', query)"
    by (simp add: scan_set_def query_def full_def)
  have idx: "scan_index query n = Some (int i, length (show_nat i) + 2)" for n
    unfolding query_def by (rule scan_index_show [OF assms(3)])
  have "length (show_nat i) \<le> Suc 9"
    using assms(3) by (intro show_nat_length less_le_trans [OF assms(3)]) simp
  then have len: "length (show_nat i) + 2 < 256" "length (show_nat i) + 2 \<le> length query"
    by (simp_all add: query_def)
  have rest: "drop (length (show_nat i) + 2) query = CHR ''.'' # w"
    by (simp add: query_def)
  have set: "set_threshold (CHR ''.'' # w) i (val_size v) b =
      (0, b\<lparr>b_thres := (b_thres b)[i := thr_update ctl_id (val_size v) (b_thres b ! i)]\<rparr>)"
    using w by (auto simp: set_threshold_def thr_update_def scan_word_def isspace_def Let_def)
  show ?thesis
    using assms(2,4) len(2) name(2) unfolding memtier_ctl_set_def builder_dynamic_ctl_set_def name(1)
    by (simp add: scan idx set rest [simplified] len(1) [simplified] Let_def)
qed

lemma ctl_set_thr_cfg_show:
  assumes "ctl_id < 3" "Suc i < length (b_cfg b)" "i < 2 ^ 31" "b_policy b = MEMTIER_POLICY_DYNAMIC_THRESHOLD"
    and "n < 2 ^ 64" "\<not> bit opts ctl_id" "strtok CHR '','' sptr = (Some (show_nat n), rest)"
  shows "ctl_set_thr_cfg sptr ctl_id i opts b =
    Some ((0, rest, set_bit ctl_id opts),
      b\<lparr>b_thres := (b_thres b)[i := thr_update ctl_id (of_nat n) (b_thres b ! i)]\<rparr>)"
  using assms by (simp add: ctl_set_thr_cfg_def ctl_parse_size_show thr_name_set)

lemma threshold_loop_show:
  assumes "Suc i < length (b_cfg b)" "i < 2 ^ 31" "b_policy b = MEMTIER_POLICY_DYNAMIC_THRESHOLD"
    and "n < 2 ^ 64" "thr_id param = Some ctl_id" "\<not> bit opts ctl_id"
    and "strtok CHR '','' sptr = (Some (show_nat n), rest)"
  shows "threshold_loop (param @ CHR '':'' # sptr) i opts b =
    threshold_loop rest i (set_bit ctl_id opts)
      (b\<lparr>b_thres := (b_thres b)[i := thr_update ctl_id (of_nat n) (b_thres b ! i)]\<rparr>)"
proof -
  have p: "param \<noteq> []" "CHR '':'' \<notin> set param" "ctl_id < 3"
    using assms(5) by (auto simp: thr_id_def split: if_splits)
  show ?thesis
    using ctl_set_thr_cfg_show [OF p(3) assms(1-4,6,7)] assms(5)
    by (subst threshold_loop.simps) (simp add: strtok_token(1) [OF p(1,2)])
qed

section \<open>Properties\<close>

text \<open>
  C22. A threshold configured by the environment reaches the builder unchanged. A query that gives the
  initial, the minimal and the maximal value of a threshold in decimal is accepted for every threshold
  between two tiers of a builder with the dynamic policy, and sets exactly the three fields of that
  threshold to exactly these values, although every value travels through a parameter name that is
  printed by \<^verbatim>\<open>ctl_set_thr_cfg\<close> and taken apart again by \<^verbatim>\<open>builder_dynamic_ctl_set\<close>.
\<close>

theorem threshold_query_roundtrip:
  assumes "Suc i < length (b_cfg b)" "i < length (b_thres b)" "i < 2 ^ 31"
    and "b_policy b = MEMTIER_POLICY_DYNAMIC_THRESHOLD" "v < 2 ^ 64" "lo < 2 ^ 64" "hi < 2 ^ 64"
  shows "ctl_parse_threshold_query
      (Some (''INIT_VAL:'' @ show_nat v @ '',MIN_VAL:'' @ show_nat lo @ '',MAX_VAL:'' @ show_nat hi)) i b =
    Some (0, b\<lparr>b_thres :=
      (b_thres b)[i := (b_thres b ! i)\<lparr>th_val := of_nat v, th_min := of_nat lo, th_max := of_nat hi\<rparr>]\<rparr>)"
proof -
  have comma: "CHR '','' \<notin> set (show_nat n)" for n
    by (rule show_nat_no) (simp add: isdigit_def)
  note tok = strtok_token [OF show_nat_nonempty comma]
  let ?max = "''MAX_VAL'' @ CHR '':'' # show_nat hi"
  let ?min = "''MIN_VAL'' @ CHR '':'' # show_nat lo @ CHR '','' # ?max"
  let ?init = "''INIT_VAL'' @ CHR '':'' # show_nat v @ CHR '','' # ?min"
  define b1 where "b1 = b\<lparr>b_thres := (b_thres b)[i := thr_update 0 (of_nat v) (b_thres b ! i)]\<rparr>"
  define b2 where "b2 = b1\<lparr>b_thres := (b_thres b1)[i := thr_update 1 (of_nat lo) (b_thres b1 ! i)]\<rparr>"
  define b3 where "b3 = b2\<lparr>b_thres := (b_thres b2)[i := thr_update 2 (of_nat hi) (b_thres b2 ! i)]\<rparr>"
  have "threshold_loop ?init i 0 b = threshold_loop ?min i (set_bit 0 0) b1"
    unfolding b1_def using assms by (intro threshold_loop_show tok(1)) (simp_all add: thr_id_def)
  also have "\<dots> = threshold_loop ?max i (set_bit 1 (set_bit 0 0)) b2"
    unfolding b2_def using assms by (intro threshold_loop_show tok(1)) (simp_all add: thr_id_def b1_def bit_simps)
  also have "\<dots> = threshold_loop [] i (set_bit 2 (set_bit 1 (set_bit 0 0))) b3"
    unfolding b3_def using assms
    by (intro threshold_loop_show tok(2)) (simp_all add: thr_id_def b1_def b2_def bit_simps)
  also have "\<dots> = Some (0, b3)"
    by (subst threshold_loop.simps) (simp add: strtok_def)
  also have "b3 = b\<lparr>b_thres :=
      (b_thres b)[i := (b_thres b ! i)\<lparr>th_val := of_nat v, th_min := of_nat lo, th_max := of_nat hi\<rparr>]\<rparr>"
    using assms(2) by (simp add: b1_def b2_def b3_def thr_update_def)
  finally have loop: "threshold_loop ?init i 0 b = Some (0, b\<lparr>b_thres :=
      (b_thres b)[i := (b_thres b ! i)\<lparr>th_val := of_nat v, th_min := of_nat lo, th_max := of_nat hi\<rparr>]\<rparr>)" .
  have "fst (strtok CHR '':'' ?init) \<noteq> None"
    by (subst strtok_token(1)) auto
  then show ?thesis
    using loop by (simp add: ctl_parse_threshold_query_def)
qed

theorem threshold_query_roundtrip_witness:
  "ctl_parse_threshold_query
      (Some (''INIT_VAL:'' @ show_nat 600 @ '',MIN_VAL:'' @ show_nat 500 @ '',MAX_VAL:'' @ show_nat 700)) 0 sample_builder =
    Some (0, sample_builder\<lparr>b_thres := [(default_threshold 0)\<lparr>th_val := 600, th_min := 500, th_max := 700\<rparr>]\<rparr>)"
  using threshold_query_roundtrip [of 0 sample_builder 600 500 700] by (simp add: sample_builder_def)

text \<open>Destroying the registered kinds leaves none of them alive.\<close>

definition fs_dax_ok :: "memkind_t list \<Rightarrow> 'w mk \<Rightarrow> bool" where
  "fs_dax_ok ks s \<longleftrightarrow>
    distinct ks \<and> (\<forall>k\<in>set ks. \<not> is_static k \<and> Some k \<in> set (partition_map s) \<and> name_unique k s)"

lemma dynamic_in_tail:
  assumes "reg_inv s" "\<not> is_static k" "Some k \<in> set (partition_map s)"
  shows "Some k \<in> set (drop MEMKIND_NUM_STATIC_KINDS (partition_map s))"
proof -
  have "Some k \<notin> set (take MEMKIND_NUM_STATIC_KINDS (partition_map s))"
    using assms(1,2) static_registry_set by (auto simp: reg_inv_def)
  then show ?thesis
    using assms(3) append_take_drop_id [of MEMKIND_NUM_STATIC_KINDS "partition_map s"] by (metis Un_iff set_append)
qed

lemma destroyed_fs_dax_ok:
  assumes inv: "reg_inv s" "reg_inv s'" and d: "destroyed s k s'" and ok: "fs_dax_ok (k # ks) s"
  shows "fs_dax_ok ks s'"
proof -
  have "name_unique j s'" if "j \<in> set ks" for j
    unfolding name_unique_def
  proof (intro allI impI)
    fix m
    assume m: "Some m \<in> set (drop MEMKIND_NUM_STATIC_KINDS (partition_map s')) \<and> m \<noteq> j"
    then have "\<not> is_static m" "m \<noteq> k" "Some m \<in> set (partition_map s)"
      using inv(2) d by (auto simp: reg_inv_def destroyed_def is_static_def dest: in_set_dropD)
    moreover from this have "Some m \<in> set (drop MEMKIND_NUM_STATIC_KINDS (partition_map s))"
      by (intro dynamic_in_tail [OF inv(1)])
    moreover have "j \<noteq> k" "name_unique j s"
      using that ok by (auto simp: fs_dax_ok_def)
    ultimately show "k_name (kinds s' m) \<noteq> k_name (kinds s' j)"
      using m d by (simp add: name_unique_def destroyed_def)
  qed
  moreover have "Some j \<in> set (partition_map s')" if "j \<in> set ks" for j
  proof -
    have "j \<noteq> k" "Some j \<in> set (partition_map s)"
      using that ok by (auto simp: fs_dax_ok_def)
    then show ?thesis
      using d by (simp add: destroyed_def)
  qed
  ultimately show ?thesis
    using ok by (auto simp: fs_dax_ok_def)
qed

lemma destroy_kinds_dead:
  assumes je: "jemalloc_keeps_registry sy"
  shows "reg_inv s \<Longrightarrow> fs_dax_ok ks s \<Longrightarrow> destroy_kinds sy (map Some ks) s = Some s' \<Longrightarrow>
    (\<forall>k. kind_live s' k \<longleftrightarrow> kind_live s k \<and> k \<notin> set ks) \<and> (\<forall>k. k \<notin> set ks \<longrightarrow> k_ops (kinds s' k) = k_ops (kinds s k))"
proof (induction ks arbitrary: s)
  case (Cons k ks)
  then obtain err s1 where s1: "memkind_destroy_kind sy k s = Some (err, s1)" "destroy_kinds sy (map Some ks) s1 = Some s'"
    by (auto simp: Option.bind_eq_Some_conv)
  have "Some k \<in> set (drop MEMKIND_NUM_STATIC_KINDS (partition_map s))" "name_unique k s"
    using Cons.prems(2) dynamic_in_tail [OF Cons.prems(1)] by (auto simp: fs_dax_ok_def)
  then have d: "reg_inv s1" "destroyed s k s1"
    using destroy_spec [OF je Cons.prems(1) _ _ s1(1)] by auto
  from Cons.IH [OF d(1) destroyed_fs_dax_ok [OF Cons.prems(1) d Cons.prems(2)] s1(2)] d(2) show ?case
    by (auto simp: destroyed_def)
qed simp

lemma print_dead:
  "\<not> kind_live s k \<Longrightarrow> k \<in> tc_kind ` set ts \<Longrightarrow> print_memtier_memory ts s = None"
proof (induction ts s rule: print_memtier_memory.induct)
  case (2 t ts s)
  show ?case
  proof (cases "memtier_kind_allocated_size (tc_kind t) s")
    case (Some r)
    then have "kind_live s (tc_kind t)" "kind_live (snd r) = kind_live s"
      by (auto simp: memtier_kind_allocated_size_def kind_partition_def Let_def Option.bind_eq_Some_conv
          split: if_splits prod.splits)
    then show ?thesis
      using 2 Some by (cases r) auto
  qed simp
qed simp

lemma default_free_live:
  assumes "jemalloc_keeps_registry sy" "k_ops (kinds s MEMKIND_DEFAULT) = MEMKIND_DEFAULT_OPS"
    and "memkind_free sy (Some MEMKIND_DEFAULT) p s = Some s'"
  shows "kind_live s' = kind_live s"
  using assms frame_free [OF assms(1), of "{}" s p]
  by (auto simp: memkind_free_def kind_ops_def MEMKIND_DEFAULT_OPS_def memkind_default_free_def reg_frame_def
      split: if_splits)

text \<open>
  C25. Unloading the tiering library reads freed kinds. Whenever the memory has a tier on a file system, which is
  then in the registry of such kinds, \<^verbatim>\<open>ctl_destroy_tier_memory\<close> runs into undefined behaviour: it
  destroys the registered kinds first, and \<^verbatim>\<open>memtier_delete_memtier_memory\<close> then prints the name and the counters
  of every tier, reading the structure that has just been released.
\<close>

theorem destroy_tier_memory_reads_freed:
  assumes "jemalloc_keeps_registry sy" "blocks_are_fresh sy" "reg_run sy (lib t)"
    and "k_ops (kinds (lib t) MEMKIND_DEFAULT) = MEMKIND_DEFAULT_OPS"
    and "fs_dax_kinds t = map Some ks" "fs_dax_ok ks (lib t)" "k \<in> set ks" "k \<in> tc_kind ` set (mm_cfg memory)"
  shows "ctl_destroy_tier_memory sy memory t = None"
proof (rule ccontr)
  assume "ctl_destroy_tier_memory sy memory t \<noteq> None"
  then obtain s1 s2 s3 where s: "destroy_kinds sy (map Some ks) (lib t) = Some s1"
    "memkind_free sy (Some MEMKIND_DEFAULT) (fs_dax_at t) s1 = Some s2" "print_memtier_memory (mm_cfg memory) s2 = Some s3"
    using assms(5)
    by (auto simp: ctl_destroy_tier_memory_def ctl_destroy_fs_dax_reg_def memtier_delete_memtier_memory_def
        Option.bind_eq_Some_conv)
  note dead = destroy_kinds_dead [OF assms(1) reg_run_inv [OF assms(1-3)] assms(6) s(1)]
  have "MEMKIND_DEFAULT \<notin> set ks"
    using assms(6) by (auto simp: fs_dax_ok_def is_static_def)
  then have "kind_live s2 = kind_live s1"
    using dead assms(4) by (intro default_free_live [OF assms(1) _ s(2)]) simp
  then have "\<not> kind_live s2 k"
    using dead assms(7) by simp
  then show False
    using print_dead [of s2, OF _ assms(8)] s(3) by simp
qed

theorem destroy_tier_memory_reads_freed_witness:
  "\<exists>(t :: nat tiering) k. fs_dax_kinds t = [Some k] \<and>
    ctl_destroy_tier_memory sample_heap ((sample_memory 1024)\<lparr>mm_cfg := [\<lparr>tc_kind = k, tc_kind_ratio = Fin 1\<rparr>]\<rparr>) t = None"
proof -
  let ?k = "Dynamic 0x2000"
  obtain s where s: "reg_run sample_heap s" "arena_init_status s = 0" "world s = 0" "kind_live s = is_static"
    "num_kind s = 23" "\<forall>k. k_name (kinds s k) = k_name (static_kind k)"
    "partition_map s = partition_map (mk_init (0 :: nat))" "k_ops (kinds s MEMKIND_DEFAULT) = MEMKIND_DEFAULT_OPS"
    using sample_load by auto
  note inv = reg_run_inv [OF sample_heap_ok s(1)]
  have ops: "MEMKIND_PMEM_OPS \<in> dynamic_ops"
    by (simp add: dynamic_ops_def)
  obtain s' where c: "memkind_create sample_heap MEMKIND_PMEM_OPS ''a'' s = Some ((0, Some ?k), s')"
    "\<forall>j. j \<noteq> ?k \<longrightarrow> kinds s' j = kinds s j"
    using sample_create_ops [OF inv, of "''a''" "0x2000" MEMKIND_PMEM_OPS] s static_names ops
    by (auto simp: sample_calloc_def is_static_def)
  have cr: "created ''a'' s ?k s'"
    using create_spec [OF sample_heap_ok ops inv c(1)] by simp
  have "name_free ''a'' {?k} s"
    using s(6,7) static_names by (simp add: name_free_def)
  then have "name_free ''a'' {?k} s'"
    by (rule created_names [OF cr]) simp
  then have ok: "fs_dax_ok [?k] s'"
    using cr by (auto simp: fs_dax_ok_def name_unique_def name_free_def created_def is_static_def dest: in_set_dropD)
  let ?t = "\<lparr>fs_dax_kinds = [Some ?k], fs_dax_at = 0x9000, current_memory = None, destructed = False, lib = s'\<rparr>"
  have "ctl_destroy_tier_memory sample_heap ((sample_memory 1024)\<lparr>mm_cfg := [\<lparr>tc_kind = ?k, tc_kind_ratio = Fin 1\<rparr>]\<rparr>) ?t = None"
    by (rule destroy_tier_memory_reads_freed [of _ ?t "[?k]" ?k, OF sample_heap_ok])
      (use reg_run.create [OF s(1) ops c(1)] c(2) s(8) ok in simp_all)
  then show ?thesis
    by (intro exI [of _ ?t] exI [of _ ?k]) simp
qed

end
