(* ===== verification/Tiering.thy ===== *)
theory Tiering
  imports Ctl
begin

text \<open>
  The tiering library (\<^verbatim>\<open>tiering/memtier.c\<close>), which replaces the allocation functions of the C library by
  those of a memory that is configured in the environment when the library is loaded, and its log level
  (\<^verbatim>\<open>tiering/memtier_log.c\<close>), which ends the process when it is not valid.

  The lemmas show what the replaced functions do at the two ends of the life of the library and for
  \<open>NULL\<close> pointers.
\<close>

section \<open>The replaced functions\<close>

definition on_memory ::
  "(memtier_memory \<Rightarrow> 'w mk \<Rightarrow> ('r \<times> memtier_memory \<times> 'w mk) option) \<Rightarrow> memtier_memory \<Rightarrow> 'w tiering \<Rightarrow>
    ('r \<times> 'w tiering) option" where
  "on_memory f memory t =
    map_option (\<lambda>(r, memory, s). (r, t\<lparr>current_memory := Some memory, lib := s\<rparr>)) (f memory (lib t))"

definition malloc :: "'w sys \<Rightarrow> u64 \<Rightarrow> 'w tiering \<Rightarrow> (ptr \<times> 'w tiering) option" where
  "malloc sy sz t =
    (case current_memory t of
       Some memory \<Rightarrow> on_memory (\<lambda>m. memtier_malloc sy m sz) memory t
     | None \<Rightarrow> if \<not> destructed t then on_lib (memkind_malloc sy MEMKIND_DEFAULT sz) t else Some (NULL, t))"

definition calloc :: "'w sys \<Rightarrow> u64 \<Rightarrow> u64 \<Rightarrow> 'w tiering \<Rightarrow> (ptr \<times> 'w tiering) option" where
  "calloc sy num sz t =
    (case current_memory t of
       Some memory \<Rightarrow> on_memory (\<lambda>m. memtier_calloc sy m num sz) memory t
     | None \<Rightarrow> if \<not> destructed t then on_lib (memkind_calloc sy MEMKIND_DEFAULT num sz) t else Some (NULL, t))"

definition realloc :: "'w sys \<Rightarrow> ptr \<Rightarrow> u64 \<Rightarrow> 'w tiering \<Rightarrow> (ptr \<times> 'w tiering) option" where
  "realloc sy p sz t =
    (case current_memory t of
       Some memory \<Rightarrow> on_memory (\<lambda>m. memtier_realloc sy m p sz) memory t
     | None \<Rightarrow> if \<not> destructed t then on_lib (memkind_realloc sy (Some MEMKIND_DEFAULT) p sz) t else Some (NULL, t))"

text \<open>The second component of the result is what \<^verbatim>\<open>*memptr\<close> holds afterwards.\<close>

definition posix_memalign :: "'w sys \<Rightarrow> ptr \<Rightarrow> u64 \<Rightarrow> u64 \<Rightarrow> 'w tiering \<Rightarrow> ((int \<times> ptr) \<times> 'w tiering) option" where
  "posix_memalign sy memptr alignment sz t =
    (case current_memory t of
       Some memory \<Rightarrow> on_memory (\<lambda>m. memtier_posix_memalign sy m memptr alignment sz) memory t
     | None \<Rightarrow>
         if \<not> destructed t then on_lib (memkind_posix_memalign sy MEMKIND_DEFAULT memptr alignment sz) t
         else Some ((0, memptr), t))"

definition free :: "'w sys \<Rightarrow> ptr \<Rightarrow> 'w tiering \<Rightarrow> 'w tiering option" where
  "free sy p t =
    (case current_memory t of
       Some memory \<Rightarrow> map_option snd (on_memory (\<lambda>m. memtier_realloc sy m p 0) memory t)
     | None \<Rightarrow>
         if \<not> destructed t then map_option (\<lambda>s. t\<lparr>lib := s\<rparr>) (memkind_free sy (Some MEMKIND_DEFAULT) p (lib t))
         else Some t)"

definition malloc_usable_size :: "'w sys \<Rightarrow> ptr \<Rightarrow> 'w tiering \<Rightarrow> u64" where
  "malloc_usable_size sy p t = memtier_usable_size sy p (lib t)"

definition mt_malloc :: "'w sys \<Rightarrow> u64 \<Rightarrow> 'w tiering \<Rightarrow> (ptr \<times> 'w tiering) option" where
  "mt_malloc sy sz t = malloc sy sz t"

definition mt_calloc :: "'w sys \<Rightarrow> u64 \<Rightarrow> u64 \<Rightarrow> 'w tiering \<Rightarrow> (ptr \<times> 'w tiering) option" where
  "mt_calloc sy num sz t = calloc sy num sz t"

definition mt_realloc :: "'w sys \<Rightarrow> ptr \<Rightarrow> u64 \<Rightarrow> 'w tiering \<Rightarrow> (ptr \<times> 'w tiering) option" where
  "mt_realloc sy p sz t = realloc sy p sz t"

definition mt_free :: "'w sys \<Rightarrow> ptr \<Rightarrow> 'w tiering \<Rightarrow> 'w tiering option" where
  "mt_free sy p t = free sy p t"

definition mt_posix_memalign :: "'w sys \<Rightarrow> ptr \<Rightarrow> u64 \<Rightarrow> u64 \<Rightarrow> 'w tiering \<Rightarrow> ((int \<times> ptr) \<times> 'w tiering) option" where
  "mt_posix_memalign sy memptr alignment sz t = posix_memalign sy memptr alignment sz t"

definition mt_malloc_usable_size :: "'w sys \<Rightarrow> ptr \<Rightarrow> 'w tiering \<Rightarrow> u64" where
  "mt_malloc_usable_size sy p t = malloc_usable_size sy p t"

section \<open>Loading and unloading\<close>

text \<open>The log level is cut to 32 bits before it is compared.\<close>

definition log_init_once :: "'w sys \<Rightarrow> 'w mk \<Rightarrow> 'w mk option" where
  "log_init_once sy s =
    (case memkind_get_env sy ''MEMKIND_MEM_TIERING_LOG_LEVEL'' of
       None \<Rightarrow> Some s
     | Some log_level_env \<Rightarrow>
         (let (level, rest, range) = strtoul log_level_env; log_level = ucast level :: u32
          in if log_level \<ge> 3 \<or> rest \<noteq> [] \<or> range then None else Some (s\<lparr>errno := 0\<rparr>)))"

definition memtier_init :: "'w sys \<Rightarrow> 'w tiering \<Rightarrow> 'w tiering option" where
  "memtier_init sy t =
    do {
      s \<leftarrow> log_init_once sy (lib t);
      env_var \<leftarrow> memkind_get_env sy ''MEMKIND_MEM_TIERS'';
      (memory, t) \<leftarrow> ctl_create_tier_memory_from_env sy env_var (t\<lparr>lib := s\<rparr>);
      m \<leftarrow> memory;
      Some (t\<lparr>current_memory := Some m\<rparr>)
    }"

text \<open>Without a memory the pointer is dereferenced.\<close>

definition memtier_fini :: "'w sys \<Rightarrow> 'w tiering \<Rightarrow> 'w tiering option" where
  "memtier_fini sy t =
    do {
      memory \<leftarrow> current_memory t;
      t \<leftarrow> ctl_destroy_tier_memory sy memory t;
      Some (t\<lparr>current_memory := None, destructed := True\<rparr>)
    }"

section \<open>Properties\<close>

text \<open>
  C27. Releasing \<open>NULL\<close> is not without effect. While the library is loaded, \<^verbatim>\<open>free\<close> is \<^verbatim>\<open>memtier_realloc\<close> with size
  zero, which allocates for a \<open>NULL\<close> pointer: \<^verbatim>\<open>free(NULL)\<close> leaves the state that \<^verbatim>\<open>malloc(0)\<close> leaves, and
  the block is lost. The standard requires \<^verbatim>\<open>free(NULL)\<close> to do nothing.
\<close>

theorem free_null_allocates:
  assumes "current_memory t = Some memory"
  shows "free sy NULL t = map_option snd (malloc sy 0 t)"
  using assms
  by (simp add: free_def malloc_def on_memory_def memtier_realloc_def memtier_malloc_def option.map_comp)

text \<open>The memory of two tiers, with its kinds prepared as the builder prepares them; the lost block is counted.\<close>

theorem free_null_allocates_witness:
  "\<exists>t t' :: nat tiering. current_memory t = Some (sample_memory 1024) \<and> free sample_sys NULL t = Some t' \<and>
    counter_total (tier_counters (lib t)) 0 = 0 \<and> counter_total (tier_counters (lib t')) 0 = 64"
proof -
  define s where "s = upd_kind MEMKIND_DEFAULT (\<lambda>kd. kd\<lparr>k_allow_zero_allocs := True\<rparr>) (mk_init (0 :: nat))"
  have s: "kind_live s = is_static" "tier_counters s = alloc_counters_init"
    "kinds s = static_kind(MEMKIND_DEFAULT := (static_kind MEMKIND_DEFAULT)\<lparr>k_allow_zero_allocs := True\<rparr>)"
    by (simp_all add: s_def upd_kind_def sample_counters)
  let ?t = "\<lparr>fs_dax_kinds = [], fs_dax_at = NULL, current_memory = Some (sample_memory 1024), destructed = False, lib = s\<rparr>"
  let ?c = "increment_alloc_size (self_of sample_sys s) 0 64 alloc_counters_init"
  have m: "memkind_malloc sample_sys MEMKIND_DEFAULT 0 s = Some (0x1000, s)"
    by (simp add: memkind_malloc_def kind_ops_def memkind_default_malloc_def MEMKIND_DEFAULT_OPS_def
        blank_kind_def is_static_def sample_sys_heap s)
  have "\<exists>memory'. malloc sample_sys 0 ?t = Some (0x1000, ?t\<lparr>current_memory := Some memory', lib := s\<lparr>tier_counters := ?c\<rparr>\<rparr>)"
    by (simp add: malloc_def on_memory_def memtier_malloc_def memtier_get_kind_def
        memtier_policy_dynamic_threshold_get_kind_def sample_memory_def memtier_kind_malloc_def m is_static_def
        sample_sys_heap count_alloc_def kind_partition_def memtier_update_cfg_def blank_kind_def
        memtier_policy_dynamic_threshold_update_config_def global_size_def update_threshold_def change_threshold_def
        default_threshold_def sample_floats Let_def s increment_alloc_size_def alloc_counters_init_def
        set_bucket_def add_global_def)
  then obtain memory' where "free sample_sys NULL ?t = Some (?t\<lparr>current_memory := Some memory', lib := s\<lparr>tier_counters := ?c\<rparr>\<rparr>)"
    using free_null_allocates [of ?t "sample_memory 1024" sample_sys] by auto
  moreover have "counter_total ?c 0 = 64" "counter_total (tier_counters s) 0 = 0"
    by (simp_all add: increment_total s(2)) (simp_all add: counter_total_def alloc_counters_init_def)
  ultimately show ?thesis
    by (intro exI [of _ ?t] exI [of _ "?t\<lparr>current_memory := Some memory', lib := s\<lparr>tier_counters := ?c\<rparr>\<rparr>"] conjI) simp_all
qed

end
