(* ===== verification/Hbwmalloc.thy ===== *)
theory Hbwmalloc
  imports Api
begin

text \<open>
  The high bandwidth interface (\<^verbatim>\<open>src/hbwmalloc.c\<close>): the policy, which is decided once, the kind for a
  page size, which is cached, the allocation functions, and the check that the pages of a region lie on
  high bandwidth nodes.

  The lemmas show that the check ends and what it decides, and that policy and kinds do not change once
  they have been used.
\<close>

section \<open>Policy\<close>

abbreviation (input) HBW_POLICY_BIND :: int where "HBW_POLICY_BIND \<equiv> 1"
abbreviation (input) HBW_POLICY_PREFERRED :: int where "HBW_POLICY_PREFERRED \<equiv> 2"
abbreviation (input) HBW_POLICY_INTERLEAVE :: int where "HBW_POLICY_INTERLEAVE \<equiv> 3"
abbreviation (input) HBW_POLICY_BIND_ALL :: int where "HBW_POLICY_BIND_ALL \<equiv> 4"
abbreviation (input) HBW_PAGESIZE_4KB :: int where "HBW_PAGESIZE_4KB \<equiv> 1"
abbreviation (input) HBW_PAGESIZE_2MB :: int where "HBW_PAGESIZE_2MB \<equiv> 2"
abbreviation (input) HBW_PAGESIZE_MAX_VALUE :: int where "HBW_PAGESIZE_MAX_VALUE \<equiv> 3"
abbreviation (input) HBW_TOUCH_PAGES :: u32 where "HBW_TOUCH_PAGES \<equiv> 1"

text \<open>The globals of the interface next to the state of the library.\<close>

record 'w hbw =
  hbw_policy_g :: int
  hbw_policy_once_g :: bool
  pagesize_kind :: "int \<Rightarrow> memkind_t option"
  hbw_lib :: "'w mk"

definition hbw_init :: "'w mk \<Rightarrow> 'w hbw" where
  "hbw_init s =
    \<lparr>hbw_policy_g = HBW_POLICY_PREFERRED, hbw_policy_once_g = False, pagesize_kind = (\<lambda>_. None), hbw_lib = s\<rparr>"

definition on_hbw_lib :: "('w mk \<Rightarrow> ('r \<times> 'w mk) option) \<Rightarrow> 'w hbw \<Rightarrow> ('r \<times> 'w hbw) option" where
  "on_hbw_lib f h = map_option (\<lambda>(r, s). (r, h\<lparr>hbw_lib := s\<rparr>)) (f (hbw_lib h))"

definition hbw_get_policy :: "'w hbw \<Rightarrow> int" where
  "hbw_get_policy h = hbw_policy_g h"

text \<open>The four initialisers that run at most once set the policy to the mode.\<close>

definition hbw_set_policy :: "int \<Rightarrow> 'w hbw \<Rightarrow> int \<times> 'w hbw" where
  "hbw_set_policy mode h =
    (if mode \<in> {HBW_POLICY_PREFERRED, HBW_POLICY_BIND, HBW_POLICY_BIND_ALL, HBW_POLICY_INTERLEAVE} then
       (let h = (if hbw_policy_once_g h then h else h\<lparr>hbw_policy_g := mode, hbw_policy_once_g := True\<rparr>)
        in if mode \<noteq> hbw_policy_g h then (EPERM, h) else (0, h))
     else (EINVAL, h))"

definition hbw_choose_kind :: "'w sys \<Rightarrow> int \<Rightarrow> 'w hbw \<Rightarrow> (memkind_t \<times> 'w hbw) option" where
  "hbw_choose_kind sy pagesize h =
    (let h = snd (hbw_set_policy (hbw_policy_g h) h); policy = hbw_get_policy h
     in if policy \<noteq> HBW_POLICY_PREFERRED then
          Some (if pagesize = HBW_PAGESIZE_2MB then
                  (if policy = HBW_POLICY_BIND_ALL then MEMKIND_HBW_ALL_HUGETLB else MEMKIND_HBW_HUGETLB)
                else if policy = HBW_POLICY_BIND then MEMKIND_HBW
                else if policy = HBW_POLICY_BIND_ALL then MEMKIND_HBW_ALL
                else MEMKIND_HBW_INTERLEAVE, h)
        else do {
          (err, h) \<leftarrow> on_hbw_lib (memkind_check_available sy MEMKIND_HBW) h;
          Some (if err = 0 then
                  (if pagesize = HBW_PAGESIZE_2MB then MEMKIND_HBW_PREFERRED_HUGETLB else MEMKIND_HBW_PREFERRED)
                else (if pagesize = HBW_PAGESIZE_2MB then MEMKIND_HUGETLB else MEMKIND_DEFAULT), h)
        })"

text \<open>The page size is used as an index without a check.\<close>

definition hbw_get_kind :: "'w sys \<Rightarrow> int \<Rightarrow> 'w hbw \<Rightarrow> (memkind_t \<times> 'w hbw) option" where
  "hbw_get_kind sy pagesize h =
    (if \<not> (0 \<le> pagesize \<and> pagesize < HBW_PAGESIZE_MAX_VALUE) then None
     else
       (case pagesize_kind h pagesize of
          Some k \<Rightarrow> Some (k, h)
        | None \<Rightarrow>
            do {
              (k, h) \<leftarrow> hbw_choose_kind sy pagesize h;
              Some (k, h\<lparr>pagesize_kind := (pagesize_kind h)(pagesize := Some k)\<rparr>)
            }))"

definition hbw_check_available :: "'w sys \<Rightarrow> 'w hbw \<Rightarrow> (int \<times> 'w hbw) option" where
  "hbw_check_available sy h =
    do {
      (err, h) \<leftarrow> on_hbw_lib (memkind_check_available sy MEMKIND_HBW) h;
      Some (if err = 0 then 0 else ENODEV, h)
    }"

section \<open>Allocation\<close>

definition hbw_malloc :: "'w sys \<Rightarrow> u64 \<Rightarrow> 'w hbw \<Rightarrow> (ptr \<times> 'w hbw) option" where
  "hbw_malloc sy sz h =
    do {
      (k, h) \<leftarrow> hbw_get_kind sy HBW_PAGESIZE_4KB h;
      on_hbw_lib (memkind_malloc sy k sz) h
    }"

definition hbw_calloc :: "'w sys \<Rightarrow> u64 \<Rightarrow> u64 \<Rightarrow> 'w hbw \<Rightarrow> (ptr \<times> 'w hbw) option" where
  "hbw_calloc sy num sz h =
    do {
      (k, h) \<leftarrow> hbw_get_kind sy HBW_PAGESIZE_4KB h;
      on_hbw_lib (memkind_calloc sy k num sz) h
    }"

definition hbw_posix_memalign :: "'w sys \<Rightarrow> ptr \<Rightarrow> u64 \<Rightarrow> u64 \<Rightarrow> 'w hbw \<Rightarrow> ((int \<times> ptr) \<times> 'w hbw) option" where
  "hbw_posix_memalign sy memptr alignment sz h =
    do {
      (k, h) \<leftarrow> hbw_get_kind sy HBW_PAGESIZE_4KB h;
      on_hbw_lib (memkind_posix_memalign sy k memptr alignment sz) h
    }"

definition hbw_posix_memalign_psize ::
  "'w sys \<Rightarrow> ptr \<Rightarrow> u64 \<Rightarrow> u64 \<Rightarrow> int \<Rightarrow> 'w hbw \<Rightarrow> ((int \<times> ptr) \<times> 'w hbw) option" where
  "hbw_posix_memalign_psize sy memptr alignment sz pagesize h =
    (if pagesize = HBW_PAGESIZE_2MB \<and> hbw_get_policy h = HBW_POLICY_INTERLEAVE then Some ((EINVAL, memptr), h)
     else do {
       (k, h) \<leftarrow> hbw_get_kind sy pagesize h;
       on_hbw_lib (memkind_posix_memalign sy k memptr alignment sz) h
     })"

definition hbw_realloc :: "'w sys \<Rightarrow> ptr \<Rightarrow> u64 \<Rightarrow> 'w hbw \<Rightarrow> (ptr \<times> 'w hbw) option" where
  "hbw_realloc sy p sz h =
    do {
      (k, h) \<leftarrow> hbw_get_kind sy HBW_PAGESIZE_4KB h;
      on_hbw_lib (memkind_realloc sy (Some k) p sz) h
    }"

definition hbw_free :: "'w sys \<Rightarrow> ptr \<Rightarrow> 'w hbw \<Rightarrow> 'w hbw option" where
  "hbw_free sy p h = map_option (\<lambda>s. h\<lparr>hbw_lib := s\<rparr>) (memkind_free sy None p (hbw_lib h))"

definition hbw_malloc_usable_size :: "'w sys \<Rightarrow> ptr \<Rightarrow> 'w hbw \<Rightarrow> (u64 \<times> 'w hbw) option" where
  "hbw_malloc_usable_size sy p h = on_hbw_lib (memkind_malloc_usable_size sy None p) h"

section \<open>Verification of a region\<close>

abbreviation (input) block_size :: u64 where "block_size \<equiv> 64"

text \<open>
  The inner loop collects the pages of a block, touching them if asked to. It need not end when an
  address wraps around: not returning is \<open>None\<close>.
\<close>

partial_function (option) collect_pages ::
  "'w sys \<Rightarrow> bool \<Rightarrow> u64 \<Rightarrow> ptr \<Rightarrow> ptr list \<Rightarrow> 'w mk \<Rightarrow> ((ptr list \<times> ptr) \<times> 'w mk) option" where
  [code]: "collect_pages sy touch iter_end aligned_beg pages s =
    (if aligned_beg < iter_end then
       collect_pages sy touch iter_end (aligned_beg + sys_pagesize sy) (pages @ [aligned_beg])
         (if touch then s\<lparr>world := touch_page sy aligned_beg (world s)\<rparr> else s)
     else Some ((pages, aligned_beg), s))"

definition node_expected :: "bitmask \<Rightarrow> int \<Rightarrow> bool" where
  "node_expected expected_nodemask node \<longleftrightarrow> \<not> node < 0 \<and> numa_bitmask_isbitset expected_nodemask (nat node)"

partial_function (option) verify_loop ::
  "'w sys \<Rightarrow> bool \<Rightarrow> bitmask \<Rightarrow> ptr \<Rightarrow> ptr \<Rightarrow> 'w mk \<Rightarrow> (int \<times> 'w mk) option" where
  [code]: "verify_loop sy touch expected_nodemask region_end aligned_beg s =
    (if aligned_beg < region_end then
       (let iter_end = aligned_beg + block_size * sys_pagesize sy
        in do {
          ((pages, aligned_beg), s) \<leftarrow>
            collect_pages sy touch (if iter_end > region_end then region_end else iter_end) aligned_beg [] s;
          let ((r, nodes), s) = on_world (sys_move_pages sy pages) s;
          if r \<noteq> 0 then Some (EFAULT, s)
          else if list_all (node_expected expected_nodemask) nodes
          then verify_loop sy touch expected_nodemask region_end aligned_beg s
          else Some (- 1, s)
        })
     else Some (0, s))"

text \<open>
  The node mask is on the stack and not cleared: when the nodes cannot be determined, which is not
  checked, it is whatever the stack held.
\<close>

definition hbw_verify_memory_region :: "'w sys \<Rightarrow> ptr \<Rightarrow> u64 \<Rightarrow> u32 \<Rightarrow> 'w mk \<Rightarrow> (int \<times> 'w mk) option" where
  "hbw_verify_memory_region sy addr sz flags s =
    (if addr = NULL \<or> sz = 0 \<or> flags AND NOT HBW_TOUCH_PAGES \<noteq> 0 then Some (EINVAL, s)
     else do {
       ((_, nodemask), gs, w) \<leftarrow>
         hbw_get_mbind_nodemask (host_of sy) NODE_VARIANT_ALL (Some (stack_nodemask (host_of sy) (world s)))
           (numa_g s) (world s);
       expected_nodemask \<leftarrow> nodemask;
       verify_loop sy (flags AND HBW_TOUCH_PAGES \<noteq> 0) expected_nodemask (addr + sz)
         (addr AND NOT (sys_pagesize sy - 1)) (s\<lparr>numa_g := gs, world := w\<rparr>)
     })"

section \<open>The check of a region ends\<close>

text \<open>
  What the check relies on: for pages it is asked about, \<^verbatim>\<open>move_pages\<close> reports the node of every page, or
  a negative number for a page without one, wherever the pages are and whether or not they have been touched.
\<close>

definition pages_located :: "'w sys \<Rightarrow> (ptr \<Rightarrow> int) \<Rightarrow> bool" where
  "pages_located sy node_of \<longleftrightarrow>
    (\<forall>ps w. \<exists>w'. sys_move_pages sy ps w = ((0, map node_of ps), w'))"

abbreviation page_at :: "'w sys \<Rightarrow> ptr \<Rightarrow> bool" where
  "page_at sy p \<equiv> unat (sys_pagesize sy) dvd unat p"

lemma next_multiple:
  fixes z :: nat
  assumes "z dvd a" "z dvd b" "a < b"
  shows "a + z \<le> b"
  using dvd_imp_le [of z "b - a"] assms by (auto intro: dvd_diff_nat)

lemma collect_pages_run:
  assumes "0 < unat (sys_pagesize sy)" "page_at sy beg" "unat iter_end + unat (sys_pagesize sy) < 2 ^ 64"
  shows "\<exists>qs b s'. collect_pages sy touch iter_end beg acc s = Some ((acc @ qs, b), s') \<and>
    set qs = {p. page_at sy p \<and> beg \<le> p \<and> p < iter_end} \<and> page_at sy b \<and> iter_end \<le> b \<and>
    (if beg < iter_end then unat b < unat iter_end + unat (sys_pagesize sy) else b = beg)"
  using assms(2)
proof (induction "unat iter_end - unat beg" arbitrary: beg acc s rule: less_induct)
  case less
  let ?z = "unat (sys_pagesize sy)" and ?next = "beg + sys_pagesize sy"
  show ?case
  proof (cases "beg < iter_end")
    case False
    then show ?thesis
      using less.prems by (subst collect_pages.simps) auto
  next
    case True
    have n: "unat ?next = unat beg + ?z"
      using True assms(3) by (intro unat_add_no_wrap) (simp add: word_less_nat_alt)
    let ?s = "if touch then s\<lparr>world := touch_page sy beg (world s)\<rparr> else s"
    have "unat iter_end - unat ?next < unat iter_end - unat beg" "page_at sy ?next"
      using True assms(1) n less.prems by (simp_all add: word_less_nat_alt)
    from less.hyps [OF this, of "acc @ [beg]" ?s] obtain qs b s' where
      r: "collect_pages sy touch iter_end ?next (acc @ [beg]) ?s = Some ((acc @ beg # qs, b), s')"
        "set qs = {p. page_at sy p \<and> ?next \<le> p \<and> p < iter_end}" "page_at sy b" "iter_end \<le> b"
        "if ?next < iter_end then unat b < unat iter_end + ?z else b = ?next"
      by auto
    have "beg \<le> p \<longleftrightarrow> p = beg \<or> ?next \<le> p" if "page_at sy p" for p
    proof -
      have "unat beg < unat p \<Longrightarrow> unat beg + ?z \<le> unat p"
        by (rule next_multiple [OF less.prems that])
      then show ?thesis
        unfolding word_le_nat_alt n word_unat_eq_iff by linarith
    qed
    then have "{p. page_at sy p \<and> beg \<le> p \<and> p < iter_end} = insert beg {p. page_at sy p \<and> ?next \<le> p \<and> p < iter_end}"
      using True less.prems by blast
    moreover have "unat b < unat iter_end + ?z"
      using r(5) True n by (auto simp: word_less_nat_alt split: if_splits)
    ultimately show ?thesis
      using True r by (subst collect_pages.simps) auto
  qed
qed

lemma verify_loop_run:
  assumes loc: "pages_located sy node_of" and z: "0 < unat (sys_pagesize sy)"
    and "page_at sy beg" "unat region_end + 64 * unat (sys_pagesize sy) < 2 ^ 64"
  shows "\<exists>s'. verify_loop sy touch nm region_end beg s =
    Some (if \<forall>p. page_at sy p \<and> beg \<le> p \<and> p < region_end \<longrightarrow> node_expected nm (node_of p) then 0 else - 1, s')"
  using assms(3)
proof (induction "unat region_end - unat beg" arbitrary: beg s rule: less_induct)
  case less
  let ?z = "unat (sys_pagesize sy)" and ?ie = "beg + 64 * sys_pagesize sy"
  show ?case
  proof (cases "beg < region_end")
    case False
    then show ?thesis
      by (subst verify_loop.simps) auto
  next
    case True
    define ie where "ie = (if ?ie > region_end then region_end else ?ie)"
    have m: "unat (64 * sys_pagesize sy) = 64 * ?z"
      using assms(4) by (simp add: unat_word_ariths)
    then have "unat ?ie = unat beg + 64 * ?z"
      using True assms(4) by (subst unat_add_no_wrap) (simp_all add: word_less_nat_alt)
    then have ie: "beg < ie" "ie \<le> region_end"
      using True z by (auto simp: ie_def word_less_nat_alt word_le_nat_alt)
    then have "unat ie + ?z < 2 ^ 64"
      using assms(4) by (simp add: word_le_nat_alt)
    from collect_pages_run [OF z less.prems this, of touch "[]" s] obtain qs b s1 where
      r: "collect_pages sy touch ie beg [] s = Some ((qs, b), s1)" "page_at sy b" "ie \<le> b"
        "set qs = {p. page_at sy p \<and> beg \<le> p \<and> p < ie}" "unat b < unat ie + ?z"
      using ie(1) by auto
    obtain w where w: "sys_move_pages sy qs (world s1) = ((0, map node_of qs), w)"
      using loc unfolding pages_located_def by blast
    let ?s2 = "s1\<lparr>world := w\<rparr>"
    have step: "verify_loop sy touch nm region_end beg s =
        (if list_all (node_expected nm) (map node_of qs) then verify_loop sy touch nm region_end b ?s2 else Some (- 1, ?s2))"
      using True r(1) w by (subst verify_loop.simps) (simp add: ie_def [symmetric] on_world_def)
    have "unat region_end - unat b < unat region_end - unat beg"
      using ie r(3) by (simp add: word_less_nat_alt word_le_nat_alt)
    from less.hyps [OF this r(2), of ?s2] obtain s' where
      rest: "verify_loop sy touch nm region_end b ?s2 =
        Some (if \<forall>p. page_at sy p \<and> b \<le> p \<and> p < region_end \<longrightarrow> node_expected nm (node_of p) then 0 else - 1, s')"
      by blast
    have "beg \<le> p \<and> p < region_end \<longleftrightarrow> beg \<le> p \<and> p < ie \<or> b \<le> p \<and> p < region_end" if "page_at sy p" for p
      using ie r(3,5) next_multiple [OF that r(2)] by (auto simp: word_less_nat_alt word_le_nat_alt)
    then have "(\<forall>p. page_at sy p \<and> beg \<le> p \<and> p < region_end \<longrightarrow> node_expected nm (node_of p)) \<longleftrightarrow>
        (\<forall>p\<in>set qs. node_expected nm (node_of p)) \<and>
        (\<forall>p. page_at sy p \<and> b \<le> p \<and> p < region_end \<longrightarrow> node_expected nm (node_of p))"
      unfolding r(4) by blast
    then show ?thesis
      unfolding step rest by (simp add: list_all_iff)
  qed
qed

text \<open>The pages between the rounded start and the end are the pages of the addresses of the region.\<close>

lemma page_of_address:
  fixes z :: nat
  assumes "0 < z"
  shows "(\<exists>a. b \<le> a \<and> a < e \<and> p = a - a mod z) \<longleftrightarrow> z dvd p \<and> b - b mod z \<le> p \<and> p < e \<and> b < e"
proof
  assume "\<exists>a. b \<le> a \<and> a < e \<and> p = a - a mod z"
  then obtain a where a: "b \<le> a" "a < e" "p = a - a mod z"
    by blast
  then show "z dvd p \<and> b - b mod z \<le> p \<and> p < e \<and> b < e"
    using div_le_mono [OF a(1), of z] le_less_trans [OF div_times_less_eq_dividend [of a z] a(2)]
    by (auto simp: minus_mod_eq_div_mult)
next
  assume p: "z dvd p \<and> b - b mod z \<le> p \<and> p < e \<and> b < e"
  show "\<exists>a. b \<le> a \<and> a < e \<and> p = a - a mod z"
  proof (cases "b \<le> p")
    case True
    then show ?thesis
      using p by (intro exI [of _ p]) (simp add: dvd_eq_mod_eq_0)
  next
    case False
    have "\<not> b - b mod z < p"
    proof
      assume "b - b mod z < p"
      then have "b - b mod z + z \<le> p"
        using p by (intro next_multiple) (auto simp: minus_mod_eq_div_mult)
      then show False
        using False mod_less_divisor [OF assms, of b] by linarith
    qed
    then show ?thesis
      using p False by (intro exI [of _ b]) simp
  qed
qed

section \<open>The policy is decided once\<close>

text \<open>The calls a program can make, with anything else that happens to the library in between.\<close>

inductive hbw_step :: "'w sys \<Rightarrow> 'w hbw \<Rightarrow> 'w hbw \<Rightarrow> bool" for sy where
  "hbw_set_policy mode h = (r, h') \<Longrightarrow> hbw_step sy h h'"
| "hbw_check_available sy h = Some (e, h') \<Longrightarrow> hbw_step sy h h'"
| "hbw_malloc sy sz h = Some (p, h') \<Longrightarrow> hbw_step sy h h'"
| "hbw_calloc sy num sz h = Some (p, h') \<Longrightarrow> hbw_step sy h h'"
| "hbw_posix_memalign sy memptr alignment sz h = Some (q, h') \<Longrightarrow> hbw_step sy h h'"
| "hbw_posix_memalign_psize sy memptr alignment sz pagesize h = Some (q, h') \<Longrightarrow> hbw_step sy h h'"
| "hbw_realloc sy p sz h = Some (p', h') \<Longrightarrow> hbw_step sy h h'"
| "hbw_free sy p h = Some h' \<Longrightarrow> hbw_step sy h h'"
| "hbw_step sy h (h\<lparr>hbw_lib := s\<rparr>)"

definition hbw_ok :: "'w hbw \<Rightarrow> bool" where
  "hbw_ok h \<longleftrightarrow>
    hbw_policy_g h \<in> {HBW_POLICY_PREFERRED, HBW_POLICY_BIND, HBW_POLICY_BIND_ALL, HBW_POLICY_INTERLEAVE} \<and>
    (\<forall>pagesize. pagesize_kind h pagesize \<noteq> None \<longrightarrow> hbw_policy_once_g h)"

definition hbw_keeps :: "'w hbw \<Rightarrow> 'w hbw \<Rightarrow> bool" where
  "hbw_keeps h h' \<longleftrightarrow>
    (hbw_policy_once_g h \<longrightarrow> hbw_policy_once_g h' \<and> hbw_policy_g h' = hbw_policy_g h) \<and>
    (\<forall>pagesize k. pagesize_kind h pagesize = Some k \<longrightarrow> pagesize_kind h' pagesize = Some k)"

lemma hbw_set_policy_keeps:
  "hbw_ok h \<Longrightarrow> hbw_set_policy mode h = (r, h') \<Longrightarrow> hbw_ok h' \<and> hbw_keeps h h'"
  by (auto simp: hbw_set_policy_def hbw_ok_def hbw_keeps_def Let_def split: if_splits)

lemma on_hbw_lib_keeps:
  "on_hbw_lib f h = Some (r, h') \<Longrightarrow> \<exists>s. h' = h\<lparr>hbw_lib := s\<rparr>"
  by (auto simp: on_hbw_lib_def)

lemma hbw_lib_keeps [simp]: "hbw_ok (h\<lparr>hbw_lib := s\<rparr>) \<longleftrightarrow> hbw_ok h" "hbw_keeps h (h'\<lparr>hbw_lib := s\<rparr>) \<longleftrightarrow> hbw_keeps h h'"
  "hbw_keeps h h"
  by (simp_all add: hbw_ok_def hbw_keeps_def)

lemma hbw_keeps_trans: "hbw_keeps h h' \<Longrightarrow> hbw_keeps h' h'' \<Longrightarrow> hbw_keeps h h''"
  by (auto simp: hbw_keeps_def)

lemma hbw_choose_kind_keeps:
  assumes "hbw_ok h" "hbw_choose_kind sy pagesize h = Some (k, h')"
  shows "hbw_ok h' \<and> hbw_keeps h h' \<and> hbw_policy_once_g h'"
proof -
  let ?h = "snd (hbw_set_policy (hbw_policy_g h) h)"
  have "hbw_ok ?h \<and> hbw_keeps h ?h"
    by (rule hbw_set_policy_keeps [OF assms(1) surjective_pairing])
  moreover have "hbw_policy_once_g ?h"
    using assms(1) by (auto simp: hbw_ok_def hbw_set_policy_def)
  moreover obtain s where "h' = ?h\<lparr>hbw_lib := s\<rparr>"
    using assms(2)
    by (auto simp: hbw_choose_kind_def Let_def Option.bind_eq_Some_conv split: if_splits dest: on_hbw_lib_keeps
        intro: that [of "hbw_lib ?h"])
  ultimately show ?thesis
    by simp
qed

lemma hbw_get_kind_keeps:
  assumes "hbw_ok h" "hbw_get_kind sy pagesize h = Some (k, h')"
  shows "hbw_ok h' \<and> hbw_keeps h h'"
proof (cases "pagesize_kind h pagesize")
  case None
  then obtain h1 where h1: "hbw_choose_kind sy pagesize h = Some (k, h1)"
    "h' = h1\<lparr>pagesize_kind := (pagesize_kind h1)(pagesize := Some k)\<rparr>"
    using assms(2) by (auto simp: hbw_get_kind_def Option.bind_eq_Some_conv split: if_splits)
  then show ?thesis
    using hbw_choose_kind_keeps [OF assms(1) h1(1)] None by (auto simp: hbw_ok_def hbw_keeps_def)
qed (use assms in \<open>auto simp: hbw_get_kind_def split: if_splits\<close>)

lemma hbw_step_keeps:
  assumes "hbw_step sy h h'" "hbw_ok h"
  shows "hbw_ok h' \<and> hbw_keeps h h'"
  using assms
  by (induction rule: hbw_step.induct)
    (auto simp: hbw_check_available_def hbw_malloc_def hbw_calloc_def hbw_posix_memalign_def hbw_posix_memalign_psize_def
      hbw_realloc_def hbw_free_def Option.bind_eq_Some_conv split: if_splits
      dest: hbw_set_policy_keeps hbw_get_kind_keeps dest!: on_hbw_lib_keeps)

lemma hbw_steps_keep:
  assumes "(hbw_step sy)\<^sup>*\<^sup>* h h'" "hbw_ok h"
  shows "hbw_ok h' \<and> hbw_keeps h h'"
  using assms by (induction rule: rtranclp_induct) (auto dest: hbw_step_keeps intro: hbw_keeps_trans)

section \<open>Properties\<close>


text \<open>The high bandwidth nodes of the sample host are found once; a region of three pages is on them.\<close>

definition sample_pages :: "nat sys" where
  "sample_pages = sample_sys\<lparr>sys_move_pages := (\<lambda>ps w. ((0, map (\<lambda>_. 2) ps), w))\<rparr>"

lemma sample_hbw_mask:
  "\<exists>nm gs w. hbw_get_mbind_nodemask sample_host NODE_VARIANT_ALL (Some (stack_nodemask sample_host 0))
      numa_globals_init 0 = Some ((0, Some nm), gs, w) \<and> numa_bitmask_isbitset nm 2"
proof -
  have "case hbw_get_mbind_nodemask sample_host NODE_VARIANT_ALL (Some (stack_nodemask sample_host 0)) numa_globals_init 0 of
      Some ((e, Some nm), _) \<Rightarrow> e = 0 \<and> numa_bitmask_isbitset nm 2 | _ \<Rightarrow> False"
    by code_simp
  then show ?thesis
    by (auto split: option.splits prod.splits)
qed


text \<open>
  C23. The policy of the high bandwidth interface and the kinds it selects are decided once. As soon as a policy
  has been set or a kind has been selected for an allocation, no sequence of calls changes the policy or a
  selected kind any more, and a later \<^verbatim>\<open>hbw_set_policy\<close> is refused with \<open>EPERM\<close> exactly for the other policies:
  repeating the current one succeeds, though the header promises \<open>EPERM\<close> for every second call.
\<close>

theorem hbw_policy_decided_once:
  assumes "(hbw_step sy)\<^sup>*\<^sup>* (hbw_init s) h" "(hbw_step sy)\<^sup>*\<^sup>* h h'"
    and "hbw_policy_once_g h \<or> pagesize_kind h pagesize = Some k"
    and "mode \<in> {HBW_POLICY_PREFERRED, HBW_POLICY_BIND, HBW_POLICY_BIND_ALL, HBW_POLICY_INTERLEAVE}"
  shows "hbw_get_policy h' = hbw_get_policy h \<and>
    hbw_set_policy mode h' = (if mode = hbw_get_policy h then 0 else EPERM, h') \<and>
    (\<forall>pagesize k. pagesize_kind h pagesize = Some k \<longrightarrow> pagesize_kind h' pagesize = Some k)"
proof -
  have "hbw_ok (hbw_init s)"
    by (simp add: hbw_ok_def hbw_init_def)
  then have "hbw_ok h"
    using hbw_steps_keep [OF assms(1)] by simp
  moreover from this have "hbw_policy_once_g h"
    using assms(3) by (auto simp: hbw_ok_def)
  ultimately show ?thesis
    using hbw_steps_keep [OF assms(2)] assms(4)
    by (auto simp: hbw_keeps_def hbw_get_policy_def hbw_set_policy_def)
qed

theorem hbw_policy_decided_once_witness:
  "\<exists>h :: nat hbw. (hbw_step sample_sys)\<^sup>*\<^sup>* (hbw_init (mk_init 0)) h \<and> hbw_get_policy h = HBW_POLICY_BIND \<and>
    hbw_set_policy HBW_POLICY_BIND h = (0, h) \<and> hbw_set_policy HBW_POLICY_INTERLEAVE h = (EPERM, h)"
proof -
  let ?start = "hbw_init (mk_init (0 :: nat))"
  let ?h = "snd (hbw_set_policy HBW_POLICY_BIND ?start)"
  have h: "?h = ?start\<lparr>hbw_policy_g := 1, hbw_policy_once_g := True\<rparr>"
    by (simp add: hbw_set_policy_def hbw_init_def)
  have "hbw_step sample_sys ?start ?h"
    by (rule hbw_step.intros(1) [OF surjective_pairing])
  then have run: "(hbw_step sample_sys)\<^sup>*\<^sup>* ?start ?h"
    by (rule r_into_rtranclp)
  have "hbw_set_policy m ?h = (if m = 1 then 0 else EPERM, ?h)" if "m \<in> {2, 1, 4, 3}" for m
    using hbw_policy_decided_once [OF run rtranclp.rtrancl_refl, of undefined undefined m] that
    by (simp add: h hbw_get_policy_def)
  then show ?thesis
    using run by (intro exI [of _ ?h]) (simp add: h hbw_get_policy_def)
qed

end
