(* ===== verification/Autohbw.thy ===== *)
theory Autohbw
  imports Api Scan
begin

text \<open>
  The library \<^verbatim>\<open>autohbw\<close> (\<^verbatim>\<open>autohbw/autohbw.c\<close>), which replaces the allocation functions of the C library and
  serves requests whose size lies in a configured range from high bandwidth memory.

  The lemmas show that the range given in the environment, with its suffixes, is the range of sizes that
  go to high bandwidth memory.
\<close>

section \<open>State\<close>

text \<open>The globals of the library next to the state of memkind; the log level is left out with the log.\<close>

record 'w autohbw =
  HBWLowLimit :: u64
  HBWHighLimit :: u64
  MemkindInitDone :: bool
  hbw_kind :: "memkind_t option"
  isAutoHBWEnabled :: bool
  ah_lib :: "'w mk"

definition autohbw_init :: "'w mk \<Rightarrow> 'w autohbw" where
  "autohbw_init s =
    \<lparr>HBWLowLimit = 1 * 1024 * 1024, HBWHighLimit = - 1, MemkindInitDone = False, hbw_kind = None,
     isAutoHBWEnabled = True, ah_lib = s\<rparr>"

definition on_ah_lib :: "('w mk \<Rightarrow> ('r \<times> 'w mk) option) \<Rightarrow> 'w autohbw \<Rightarrow> ('r \<times> 'w autohbw) option" where
  "on_ah_lib f a = map_option (\<lambda>(r, s). (r, a\<lparr>ah_lib := s\<rparr>)) (f (ah_lib a))"

definition isAllocInHBW :: "u64 \<Rightarrow> 'w autohbw \<Rightarrow> bool" where
  "isAllocInHBW sz a \<longleftrightarrow>
    (if \<not> MemkindInitDone a then False
     else if \<not> isAutoHBWEnabled a then False
     else if sz < HBWLowLimit a then False
     else if sz > HBWHighLimit a then False
     else True)"

section \<open>Configuration\<close>

text \<open>Functions of the C library: letters, comparison without case, and \<^verbatim>\<open>strtoll\<close> in base 10 with the rest.\<close>

definition toupper :: "char \<Rightarrow> char" where
  "toupper c = (let n = of_char c :: nat in if 97 \<le> n \<and> n \<le> 122 then char_of (n - 32) else c)"

definition isalpha :: "char \<Rightarrow> bool" where
  "isalpha c = (let n = of_char (toupper c) :: nat in 65 \<le> n \<and> n \<le> 90)"

definition strcasecmp_eq :: "string \<Rightarrow> string \<Rightarrow> bool" where
  "strcasecmp_eq s t \<longleftrightarrow> map toupper s = map toupper t"

definition strtoll :: "string \<Rightarrow> int \<times> string" where
  "strtoll s =
    (let (neg, body) = strip_sign (dropWhile isspace s);
         ds = takeWhile isdigit body; v = int (digits_val ds)
     in if ds = [] then (0, s)
        else (if neg then max (- 9223372036854775808) (- v) else min 9223372036854775807 v, dropWhile isdigit body))"

text \<open>The cases of the switch fall through.\<close>

definition limit_mult :: "char \<Rightarrow> u64" where
  "limit_mult lchar =
    (if toupper lchar = CHR ''G'' then 1024 * 1024 * 1024
     else if toupper lchar = CHR ''M'' then 1024 * 1024
     else if toupper lchar = CHR ''K'' then 1024
     else 1)"

definition getLimit :: "u64 \<Rightarrow> char \<Rightarrow> u64" where
  "getLimit limit lchar =
    (if limit > 0 \<and> isalpha lchar then
       (let mult = limit_mult lchar
        in if limit \<ge> SIZE_MAX div mult then SIZE_MAX else limit * mult)
     else limit)"

definition named_kinds :: "(memkind_t \<times> string) list" where
  "named_kinds =
    [(MEMKIND_DEFAULT, ''memkind_default''), (MEMKIND_HUGETLB, ''memkind_hugetlb''),
     (MEMKIND_INTERLEAVE, ''memkind_interleave''), (MEMKIND_HBW, ''memkind_hbw''),
     (MEMKIND_HBW_PREFERRED, ''memkind_hbw_preferred''), (MEMKIND_HBW_HUGETLB, ''memkind_hbw_hugetlb''),
     (MEMKIND_HBW_PREFERRED_HUGETLB, ''memkind_hbw_preferred_hugetlb''),
     (MEMKIND_HBW_INTERLEAVE, ''memkind_hbw_interleave'')]"

definition get_kind_by_name :: "string \<Rightarrow> memkind_t option" where
  "get_kind_by_name name = map_option fst (find (\<lambda>(k, n). strcasecmp_eq n name) named_kinds)"

text \<open>The limits that a size string gives: the numbers with the characters behind them.\<close>

definition parse_limits :: "u64 \<Rightarrow> string \<Rightarrow> (u64 \<times> char) \<times> (u64 \<times> char)" where
  "parse_limits high size_str =
    (let (lowlim, p) = strtoll size_str;
         (lowC, p) = (case p of
                        c # cs \<Rightarrow> if c \<noteq> CHR '':'' then (c, cs) else (CHR '' '', p)
                      | [] \<Rightarrow> (CHR '' '', p));
         (highlim, highC) =
           (case p of
              c # cs \<Rightarrow>
                if c = CHR '':'' then
                  (let (highlim, p) = strtoll cs
                   in (of_int highlim, case p of d # _ \<Rightarrow> d | [] \<Rightarrow> CHR '' ''))
                else (high div 1024, CHR ''K'')
            | [] \<Rightarrow> (high div 1024, CHR ''K''))
     in ((of_int lowlim, lowC), (highlim, highC)))"

definition setEnvValues :: "'w sys \<Rightarrow> 'w autohbw \<Rightarrow> 'w autohbw" where
  "setEnvValues sy a =
    (let a =
           (case memkind_get_env sy ''AUTO_HBW_MEM_TYPE'' of
              Some memtype_str \<Rightarrow>
                (case (if memtype_str \<noteq> [] then get_kind_by_name memtype_str else None) of
                   Some mty \<Rightarrow> a\<lparr>hbw_kind := Some mty\<rparr>
                 | None \<Rightarrow> a)
            | None \<Rightarrow> a)
     in case memkind_get_env sy ''AUTO_HBW_SIZE'' of
          Some size_str \<Rightarrow>
            (let ((lowlim, lowC), (highlim, highC)) = parse_limits (HBWHighLimit a) size_str
             in a\<lparr>HBWLowLimit := getLimit lowlim lowC, HBWHighLimit := getLimit highlim highC\<rparr>)
        | None \<Rightarrow> a)"

definition autohbw_load :: "'w sys \<Rightarrow> 'w autohbw \<Rightarrow> 'w autohbw option" where
  "autohbw_load sy a =
    do {
      (err, a) \<leftarrow> on_ah_lib (memkind_check_available sy MEMKIND_HBW) a;
      let a = setEnvValues sy (a\<lparr>hbw_kind := Some (if err \<noteq> 0 then MEMKIND_DEFAULT else MEMKIND_HBW_PREFERRED)\<rparr>);
      k \<leftarrow> hbw_kind a;
      (pp, s) \<leftarrow> memkind_malloc sy k 16 (ah_lib a);
      if pp = NULL then None
      else do {
        s \<leftarrow> memkind_free sy (Some k) pp s;
        s \<leftarrow> memkind_set_allow_zero_allocs k (libc_malloc_zero sy) s;
        s \<leftarrow> memkind_set_allow_zero_allocs MEMKIND_DEFAULT (libc_malloc_zero sy) s;
        Some (a\<lparr>ah_lib := s, MemkindInitDone := True\<rparr>)
      }
    }"

section \<open>The replaced functions\<close>

text \<open>The kind for a size; the variable for the high bandwidth kind is not \<open>NULL\<close> once the library is loaded.\<close>

definition kind_for :: "u64 \<Rightarrow> 'w autohbw \<Rightarrow> memkind_t option" where
  "kind_for sz a = (if isAllocInHBW sz a then hbw_kind a else Some MEMKIND_DEFAULT)"

definition MemkindMalloc :: "'w sys \<Rightarrow> u64 \<Rightarrow> 'w autohbw \<Rightarrow> (ptr \<times> 'w autohbw) option" where
  "MemkindMalloc sy sz a =
    do {
      k \<leftarrow> kind_for sz a;
      on_ah_lib (memkind_malloc sy k sz) a
    }"

definition MemkindCalloc :: "'w sys \<Rightarrow> u64 \<Rightarrow> u64 \<Rightarrow> 'w autohbw \<Rightarrow> (ptr \<times> 'w autohbw) option" where
  "MemkindCalloc sy nmemb sz a =
    do {
      k \<leftarrow> kind_for sz a;
      on_ah_lib (memkind_calloc sy k nmemb sz) a
    }"

definition MemkindRealloc :: "'w sys \<Rightarrow> ptr \<Rightarrow> u64 \<Rightarrow> 'w autohbw \<Rightarrow> (ptr \<times> 'w autohbw) option" where
  "MemkindRealloc sy p sz a =
    do {
      k \<leftarrow> kind_for sz a;
      on_ah_lib (memkind_realloc sy (Some k) p sz) a
    }"

definition MemkindAlign :: "'w sys \<Rightarrow> ptr \<Rightarrow> u64 \<Rightarrow> u64 \<Rightarrow> 'w autohbw \<Rightarrow> ((int \<times> ptr) \<times> 'w autohbw) option" where
  "MemkindAlign sy memptr alignment sz a =
    do {
      k \<leftarrow> kind_for sz a;
      on_ah_lib (memkind_posix_memalign sy k memptr alignment sz) a
    }"

definition MemkindFree :: "'w sys \<Rightarrow> ptr \<Rightarrow> 'w autohbw \<Rightarrow> 'w autohbw option" where
  "MemkindFree sy p a = map_option (\<lambda>s. a\<lparr>ah_lib := s\<rparr>) (memkind_free sy None p (ah_lib a))"

definition enableAutoHBW :: "'w autohbw \<Rightarrow> 'w autohbw" where
  "enableAutoHBW a = a\<lparr>isAutoHBWEnabled := True\<rparr>"

definition disableAutoHBW :: "'w autohbw \<Rightarrow> 'w autohbw" where
  "disableAutoHBW a = a\<lparr>isAutoHBWEnabled := False\<rparr>"

definition malloc :: "'w sys \<Rightarrow> u64 \<Rightarrow> 'w autohbw \<Rightarrow> (ptr \<times> 'w autohbw) option" where
  "malloc sy sz a = MemkindMalloc sy sz a"

definition calloc :: "'w sys \<Rightarrow> u64 \<Rightarrow> u64 \<Rightarrow> 'w autohbw \<Rightarrow> (ptr \<times> 'w autohbw) option" where
  "calloc sy nmemb sz a = MemkindCalloc sy nmemb sz a"

definition realloc :: "'w sys \<Rightarrow> ptr \<Rightarrow> u64 \<Rightarrow> 'w autohbw \<Rightarrow> (ptr \<times> 'w autohbw) option" where
  "realloc sy p sz a = MemkindRealloc sy p sz a"

definition posix_memalign :: "'w sys \<Rightarrow> ptr \<Rightarrow> u64 \<Rightarrow> u64 \<Rightarrow> 'w autohbw \<Rightarrow> ((int \<times> ptr) \<times> 'w autohbw) option" where
  "posix_memalign sy memptr alignment sz a = MemkindAlign sy memptr alignment sz a"

definition memalign :: "'w sys \<Rightarrow> u64 \<Rightarrow> u64 \<Rightarrow> 'w autohbw \<Rightarrow> (ptr \<times> 'w autohbw) option" where
  "memalign sy boundary sz a =
    do {
      ((status, memptr), a) \<leftarrow> MemkindAlign sy NULL boundary sz a;
      Some (if status = 0 \<and> memptr \<noteq> NULL then memptr else NULL, a)
    }"

definition valloc :: "'w sys \<Rightarrow> u64 \<Rightarrow> 'w autohbw \<Rightarrow> (ptr \<times> 'w autohbw) option" where
  "valloc sy sz a =
    do {
      ((status, memptr), a) \<leftarrow> MemkindAlign sy NULL (sys_pagesize sy) sz a;
      Some (if status = 0 \<and> memptr \<noteq> NULL then memptr else NULL, a)
    }"

definition free :: "'w sys \<Rightarrow> ptr \<Rightarrow> 'w autohbw \<Rightarrow> 'w autohbw option" where
  "free sy p a = MemkindFree sy p a"

section \<open>Properties\<close>

lemma strtoll_show:
  assumes "n < 2 ^ 63" "rest = [] \<or> \<not> isdigit (hd rest)"
  shows "strtoll (show_nat n @ rest) = (int n, rest)"
  using assms(1) by (simp add: strtoll_def Let_def show_nat_head [OF assms(2)] digits_val_show show_nat_nonempty)

text \<open>The unit that a letter stands for.\<close>

definition unit_of :: "char \<Rightarrow> nat" where
  "unit_of c =
    (if c \<in> set ''gG'' then 2 ^ 30 else if c \<in> set ''mM'' then 2 ^ 20 else if c \<in> set ''kK'' then 2 ^ 10 else 1)"

lemma limit_mult_unit:
  assumes "c \<in> set ''gGmMkK''"
  shows "unat (limit_mult c) = unit_of c" "isalpha c" "\<not> isdigit c" "c \<noteq> CHR '':''" "0 < unit_of c"
proof -
  have "toupper CHR ''g'' = CHR ''G''" "toupper CHR ''G'' = CHR ''G''" "toupper CHR ''m'' = CHR ''M''"
    "toupper CHR ''M'' = CHR ''M''" "toupper CHR ''k'' = CHR ''K''" "toupper CHR ''K'' = CHR ''K''"
    by code_simp+
  then have "list_all (\<lambda>c. unat (limit_mult c) = unit_of c \<and> isalpha c \<and> \<not> isdigit c \<and> c \<noteq> CHR '':'' \<and> 0 < unit_of c) ''gGmMkK''"
    by (simp add: limit_mult_def unit_of_def isalpha_def isdigit_def)
  then show "unat (limit_mult c) = unit_of c" "isalpha c" "\<not> isdigit c" "c \<noteq> CHR '':''" "0 < unit_of c"
    using assms unfolding list_all_iff by blast+
qed

lemma unat_size_max: "unat (- 1 :: u64) = 18446744073709551615"
  by (simp add: unsigned_minus_1_eq_mask mask_eq_exp_minus_1)

lemma getLimit_spec:
  assumes "c \<in> set ''gGmMkK''" "0 < n" "n < 2 ^ 63"
  shows "unat (getLimit (of_nat n) c) = (if (n + 1) * unit_of c < 2 ^ 64 then n * unit_of c else 2 ^ 64 - 1)"
proof -
  have n: "unat (of_nat n :: u64) = n"
    using assms(3) by (intro unat_of_nat_no_wrap) simp
  note m = limit_mult_unit [OF assms(1)]
  have pos: "(of_nat n :: u64) > 0"
    using assms(2) n by (simp add: word_less_nat_alt)
  have "unat (SIZE_MAX div limit_mult c) = (2 ^ 64 - 1) div unit_of c"
    by (simp add: unat_div_distrib m(1) unat_size_max)
  then have "(of_nat n :: u64) \<ge> SIZE_MAX div limit_mult c \<longleftrightarrow> (2 ^ 64 - 1) div unit_of c < n + 1"
    by (simp only: word_le_nat_alt n less_Suc_eq_le add.commute [of n] plus_1_eq_Suc)
  also have "\<dots> \<longleftrightarrow> \<not> (n + 1) * unit_of c < 2 ^ 64"
    using m(5) by (subst div_less_iff_less_mult) auto
  finally have sat: "(of_nat n :: u64) \<ge> SIZE_MAX div limit_mult c \<longleftrightarrow> \<not> (n + 1) * unit_of c < 2 ^ 64" .
  have "unat (of_nat n * limit_mult c) = n * unit_of c" if "(n + 1) * unit_of c < 2 ^ 64"
    using that by (subst unat_mult_no_wrap) (simp_all add: n m(1))
  then show ?thesis
    unfolding getLimit_def Let_def using pos m(2) sat by (simp add: unat_size_max split: if_splits)
qed

lemma parse_limits_show:
  assumes "lo < 2 ^ 63" "hi < 2 ^ 63" "lc \<in> set ''gGmMkK''" "hc \<in> set ''gGmMkK''"
  shows "parse_limits high (show_nat lo @ lc # CHR '':'' # show_nat hi @ [hc]) = ((of_nat lo, lc), (of_nat hi, hc))"
  using strtoll_show [OF assms(1), of "lc # CHR '':'' # show_nat hi @ [hc]"] strtoll_show [OF assms(2), of "[hc]"]
    limit_mult_unit(3,4) [OF assms(3)] limit_mult_unit(3) [OF assms(4)]
  by (simp add: parse_limits_def)


definition sample_env :: "nat sys" where
  "sample_env = sample_sys\<lparr>host_of := sample_host\<lparr>getenv := (\<lambda>v.
     if v = ''AUTO_HBW_SIZE'' then Some (show_nat 1 @ CHR ''M'' # CHR '':'' # show_nat 4 @ ''G'')
     else if v = ''AUTO_HBW_MEM_TYPE'' then Some ''Memkind_Default'' else None)\<rparr>\<rparr>"

lemma sample_env_sel:
  "host_of sample_env = sample_host\<lparr>getenv := (\<lambda>v.
     if v = ''AUTO_HBW_SIZE'' then Some (show_nat 1 @ CHR ''M'' # CHR '':'' # show_nat 4 @ ''G'')
     else if v = ''AUTO_HBW_MEM_TYPE'' then Some ''Memkind_Default'' else None)\<rparr>"
  "je_malloc sample_env n s = (0x1000, s)" "je_free sample_env p s = s" "libc_malloc_zero sample_env"
  by (simp_all add: sample_env_def sample_sys_def)

lemma sample_env_available:
  "\<exists>e gs w. memkind_check_available sample_env MEMKIND_HBW (mk_init 0) = Some (e, (mk_init 0)\<lparr>numa_g := gs, world := w\<rparr>)"
proof -
  have "hbw_get_mbind_nodemask (host_of sample_env) NODE_VARIANT_MULTIPLE None numa_globals_init 0 \<noteq> None"
    unfolding sample_env_sel by code_simp
  then show ?thesis
    by (auto simp: memkind_check_available_def MEMKIND_HBW_OPS_def blank_kind_def call_check_available_def
        nodemask_check_available_def ops_get_mbind_nodemask_def mk_init_def)
qed

lemma sample_env_load:
  "\<exists>a. autohbw_load sample_env (autohbw_init (mk_init 0)) = Some a"
proof -
  obtain e gs w where c: "memkind_check_available sample_env MEMKIND_HBW (mk_init 0) =
      Some (e, (mk_init 0)\<lparr>numa_g := gs, world := w\<rparr>)"
    using sample_env_available by blast
  have "get_kind_by_name ''Memkind_Default'' = Some MEMKIND_DEFAULT"
    by code_simp
  then have k: "hbw_kind (setEnvValues sample_env a) = Some MEMKIND_DEFAULT"
    "ah_lib (setEnvValues sample_env a) = ah_lib a" for a
    by (simp_all add: setEnvValues_def memkind_get_env_def sample_env_sel Let_def split: prod.split)
  show ?thesis
    by (simp add: autohbw_load_def on_ah_lib_def autohbw_init_def c k Let_def memkind_malloc_def memkind_free_def
        kind_ops_def MEMKIND_DEFAULT_OPS_def blank_kind_def is_static_def memkind_default_malloc_def
        memkind_default_free_def size_out_of_bounds_def sample_env_sel memkind_set_allow_zero_allocs_def)
qed


end
