(* ===== verification/Tier_Accounting.thy ===== *)
theory Tier_Accounting
  imports Memtier
begin

text \<open>
  The sizes that the tiers account for. The allocation functions of \<^verbatim>\<open>src/memkind_memtier.c\<close> count in the
  sharded counters of a kind what they allocate and release; here this is followed through the allocation
  functions of memkind, which may initialise a kind, create arenas and thread caches on the way.

  The locale \<open>kept_view\<close> is for a view of the state that memkind's own bookkeeping leaves alone: it
  shows that whole allocation functions leave it alone, if jemalloc and TBB do. It is interpreted with the
  view of the counters and of the numbers that index them. On top of this, the size that
  \<^verbatim>\<open>memtier_kind_allocated_size\<close> reports is the sum of the usable sizes of the blocks in use.
\<close>

section \<open>Views that allocation keeps\<close>

text \<open>What jemalloc and TBB are required to leave alone, also through the extent hooks they call.\<close>

definition heap_keeps :: "('w mk \<Rightarrow> 'v) \<Rightarrow> 'w sys \<Rightarrow> bool" where
  "heap_keeps V sy \<longleftrightarrow>
    (\<forall>n f s. V (snd (je_mallocx sy n f s)) = V s) \<and> (\<forall>p n f s. V (snd (je_rallocx sy p n f s)) = V s) \<and>
    (\<forall>p f s. V (je_dallocx sy p f s) = V s) \<and> (\<forall>n s. V (snd (je_malloc sy n s)) = V s) \<and>
    (\<forall>m n s. V (snd (je_calloc sy m n s)) = V s) \<and> (\<forall>p a n s. V (snd (je_posix_memalign sy p a n s)) = V s) \<and>
    (\<forall>p n s. V (snd (je_realloc sy p n s)) = V s) \<and> (\<forall>p s. V (je_free sy p s) = V s) \<and>
    (\<forall>c a s. V (snd (je_mallctl sy c a s)) = V s) \<and> (\<forall>k s. V (snd (pool_create_v1 sy k s)) = V s) \<and>
    (\<forall>p n s. V (snd (pool_malloc sy p n s)) = V s) \<and> (\<forall>p q n s. V (snd (pool_realloc sy p q n s)) = V s) \<and>
    (\<forall>p n a s. V (snd (pool_aligned_malloc sy p n a s)) = V s) \<and> (\<forall>p q s. V (pool_free sy p q s) = V s)"

lemma heap_keepsD:
  assumes "heap_keeps V sy"
  shows "je_mallocx sy n f s = (r, s') \<Longrightarrow> V s' = V s" "je_rallocx sy p n f s = (r, s') \<Longrightarrow> V s' = V s"
    "V (je_dallocx sy p f s) = V s" "je_malloc sy n s = (r, s') \<Longrightarrow> V s' = V s"
    "je_calloc sy m n s = (r, s') \<Longrightarrow> V s' = V s" "je_posix_memalign sy p a n s = (rp, s') \<Longrightarrow> V s' = V s"
    "je_realloc sy p n s = (r, s') \<Longrightarrow> V s' = V s" "V (je_free sy p s) = V s"
    "je_mallctl sy c arg s = (rc, s') \<Longrightarrow> V s' = V s" "pool_create_v1 sy k s = (r, s') \<Longrightarrow> V s' = V s"
    "pool_malloc sy p n s = (r, s') \<Longrightarrow> V s' = V s" "pool_realloc sy p q n s = (r, s') \<Longrightarrow> V s' = V s"
    "pool_aligned_malloc sy p n a s = (r, s') \<Longrightarrow> V s' = V s" "V (pool_free sy p q s) = V s"
  using assms unfolding heap_keeps_def by (metis snd_conv)+

locale kept_view =
  fixes V :: "'w mk \<Rightarrow> 'v"
  assumes own_updates [simp]:
      "V (s\<lparr>world := w\<rparr>) = V s" "V (s\<lparr>errno := e\<rparr>) = V s" "V (s\<lparr>numa_g := g\<rparr>) = V s"
      "V (s\<lparr>arena_registry_g := r\<rparr>) = V s" "V (s\<lparr>arena_init_status := i, arena_config_once := b\<rparr>) = V s"
      "V (s\<lparr>tcache_maps := tm\<rparr>) = V s" "V (s\<lparr>heap_manager_g := hm\<rparr>) = V s" "V (s\<lparr>TBBInitDone := b\<rparr>) = V s"
    and kind_updates: "(\<And>kd. k_partition (f kd) = k_partition kd) \<Longrightarrow> V (upd_kind k f s) = V s"
begin

lemma set_arena_map_len_kept:
  "memkind_set_arena_map_len sy k s = (e, s') \<Longrightarrow> V s' = V s"
  by (auto simp: memkind_set_arena_map_len_def kind_updates Let_def split: option.splits if_splits get_arena_fn.splits)

lemma register_arena_kept:
  assumes "register_arena k i s = Some s'"
  shows "V s' = V s"
proof -
  let ?f = "\<lambda>kd. if k_arena_zero kd > i then kd\<lparr>k_arena_zero := i\<rparr> else kd"
  have "V (upd_kind k ?f s) = V s"
    by (rule kind_updates) simp
  then show ?thesis
    using assms by (auto simp: register_arena_def split: if_splits)
qed

lemma create_arena_kept:
  assumes "heap_keeps V sy" "create_arena sy hooks b s = (r, s')"
  shows "V s' = V s"
  using assms(2)
  by (auto simp: create_arena_def Let_def split: if_splits prod.splits dest!: heap_keepsD(9) [OF assms(1)])

lemma create_arenas_kept:
  "heap_keeps V sy \<Longrightarrow> create_arenas sy k hooks b n s = Some (e, s') \<Longrightarrow> V s' = V s"
proof (induction n arbitrary: s)
  case (Suc n)
  obtain r i s1 where c: "create_arena sy hooks b s = ((r, i), s1)"
    by (metis prod.exhaust)
  then have "V s1 = V s"
    by (rule create_arena_kept [OF Suc.prems(1)])
  then show ?case
    using Suc c by (auto simp: Option.bind_eq_Some_conv split: if_splits dest!: register_arena_kept)
qed simp

lemma create_map_kept:
  assumes "heap_keeps V sy" "memkind_arena_create_map sy k hooks b s = Some (e, s')"
  shows "V s' = V s"
proof -
  have c: "V (arena_config_init sy s) = V s"
    by (simp add: arena_config_init_def)
  obtain e1 s1 where m: "memkind_set_arena_map_len sy k (arena_config_init sy s) = (e1, s1)"
    by (metis prod.exhaust)
  have "V (upd_kind k (\<lambda>kd. kd\<lparr>k_arena_zero := UINT_MAX\<rparr>) s1) = V s1"
    by (rule kind_updates) simp
  then show ?thesis
    using assms(2) c set_arena_map_len_kept [OF m]
    by (auto simp: memkind_arena_create_map_def m Let_def split: if_splits dest!: create_arenas_kept [OF assms(1)])
qed

lemma heap_manager_init_kept:
  assumes "heap_keeps V sy" "heap_manager_init sy k s = Some s'"
  shows "V s' = V s"
proof -
  obtain m s1 where m: "get_heap_manager sy s = (m, s1)" "V s1 = V s"
    by (cases "heap_manager_g s") (simp_all add: get_heap_manager_def)
  have "V (upd_kind k (\<lambda>kd. kd\<lparr>k_priv := q, k_ops := tbb_ops (k_ops kd)\<rparr>) t) = V t" for q t
    by (rule kind_updates) simp
  then show ?thesis
    using assms m
    by (auto simp: heap_manager_init_def memkind_arena_init_def tbb_initialize_def Option.bind_eq_Some_conv
        split: heap_manager_t.splits if_splits prod.splits dest: create_map_kept heap_keepsD(10))
qed

lemma init_once_kept:
  assumes "heap_keeps V sy" "kind_init_once sy k s = Some s'"
  shows "V s' = V s"
proof -
  have "V (upd_kind k (\<lambda>kd. kd\<lparr>k_init_once := True\<rparr>) t) = V t" for t
    by (rule kind_updates) simp
  moreover have "V s1 = V s" if "call_init_once sy f s = Some s1" for f s1
    using that heap_manager_init_kept [OF assms(1)]
    by (cases f) (auto simp: call_init_once_def memkind_init_def Option.bind_eq_Some_conv split: if_splits)
  ultimately show ?thesis
    using assms(2) by (auto simp: kind_init_once_def Option.bind_eq_Some_conv split: if_splits)
qed

lemma tcache_flag_kept:
  assumes "heap_keeps V sy" "get_tcache_flag sy part sz s = (r, s')"
  shows "V s' = V s"
proof -
  have "V s1 = V s" if "get_tcache_map sy s = (m, s1)" for m s1
    using that
    by (auto simp: get_tcache_map_def Let_def split: option.splits prod.splits if_splits
        dest: heap_keepsD(5) [OF assms(1)])
  then show ?thesis
    using assms(2)
    by (auto simp: get_tcache_flag_def Let_def split: option.splits prod.splits if_splits
        dest!: heap_keepsD(9) [OF assms(1)])
qed

lemma mallocx_check_kept:
  "heap_keeps V sy \<Longrightarrow> jemk_mallocx_check sy sz f z s = (p, s') \<Longrightarrow> V s' = V s"
  by (auto simp: jemk_mallocx_check_def split: if_splits prod.splits dest: heap_keepsD(1))

lemmas arena_steps = init_once_kept tcache_flag_kept mallocx_check_kept heap_keepsD(2)

lemma arena_posix_memalign_kept:
  assumes "heap_keeps V sy" "memkind_arena_posix_memalign sy k a sz s = Some (rp, s')"
  shows "V s' = V s"
proof -
  obtain s1 err arena where s1: "kind_init_once sy k s = Some s1" "ops_get_arena sy k s1 = Some (err, arena)"
    using assms(2) by (auto simp: memkind_arena_posix_memalign_def Option.bind_eq_Some_conv)
  obtain tc s2 where s2: "get_tcache_flag sy (k_partition (kinds s1 k)) sz s1 = (tc, s2)"
    by (metis prod.exhaust)
  obtain p s3 where s3: "jemk_mallocx_check sy sz (MALLOCX_ALIGN a OR MALLOCX_ARENA arena OR tc)
      (k_allow_zero_allocs (kinds s2 k)) s2 = (p, s3)"
    by (metis prod.exhaust)
  have "V s1 = V s" "V s2 = V s1" "V s3 = V s2"
    using arena_steps [OF assms(1)] s1(1) s2 s3 by blast+
  then show ?thesis
    using assms(2) by (auto simp: memkind_arena_posix_memalign_def s1 s2 s3 Let_def split: if_splits)
qed

lemma arena_free_kept:
  assumes "heap_keeps V sy" "memkind_arena_free sy (Some k) q s = Some s'"
  shows "V s' = V s"
proof (cases "k \<noteq> MEMKIND_DEFAULT \<and> q \<noteq> NULL")
  case True
  then obtain s1 where s1: "kind_init_once sy k s = Some s1"
    using assms(2) by (auto simp: memkind_arena_free_def Option.bind_eq_Some_conv)
  obtain tc s2 where s2: "get_tcache_flag sy (k_partition (kinds s1 k)) 0 s1 = (tc, s2)"
    by (metis prod.exhaust)
  have "V s1 = V s" "V s2 = V s1"
    using arena_steps [OF assms(1)] s1 s2 by blast+
  then show ?thesis
    using assms(2) True by (auto simp: memkind_arena_free_def s1 s2 heap_keepsD(3) [OF assms(1)])
qed (use assms in \<open>auto simp: memkind_arena_free_def heap_keepsD(8) split: if_splits\<close>)

lemma arena_ops_kept:
  assumes "heap_keeps V sy"
  shows "memkind_arena_malloc sy k sz s = Some (p, s') \<Longrightarrow> V s' = V s"
    and "memkind_arena_calloc sy k num sz s = Some (p, s') \<Longrightarrow> V s' = V s"
    and "memkind_arena_realloc sy k q sz s = Some (p, s') \<Longrightarrow> V s' = V s"
  by (auto simp: memkind_arena_malloc_def memkind_arena_calloc_def memkind_arena_realloc_def Option.bind_eq_Some_conv Let_def heap_keepsD(3) [OF assms]
      split: if_splits prod.splits dest!: arena_steps [OF assms])

lemma default_ops_kept:
  assumes "heap_keeps V sy"
  shows "memkind_default_malloc sy k sz s = (p, s') \<Longrightarrow> V s' = V s"
    and "memkind_default_calloc sy k num sz s = (p, s') \<Longrightarrow> V s' = V s"
    and "memkind_default_realloc sy k q sz s = (p, s') \<Longrightarrow> V s' = V s"
    and "memkind_default_posix_memalign sy k q a sz s = (rp, s') \<Longrightarrow> V s' = V s"
    and "V (memkind_default_free sy k q s) = V s"
  by (auto simp: memkind_default_malloc_def memkind_default_calloc_def memkind_default_realloc_def
      memkind_default_posix_memalign_def memkind_default_free_def heap_keepsD(8) [OF assms]
      split: if_splits prod.splits dest: heap_keepsD(4-7) [OF assms])

lemma tbb_ops_kept:
  assumes "heap_keeps V sy"
  shows "tbb_pool_malloc sy k sz s = (p, s') \<Longrightarrow> V s' = V s"
    and "tbb_pool_calloc sy k num sz s = (p, s') \<Longrightarrow> V s' = V s"
    and "tbb_pool_realloc sy k q sz s = (p, s') \<Longrightarrow> V s' = V s"
    and "tbb_pool_posix_memalign sy k q a sz s = (rp, s') \<Longrightarrow> V s' = V s"
    and "V (tbb_pool_free sy k q s) = V s"
  by (auto simp: tbb_pool_malloc_def tbb_pool_calloc_def tbb_pool_realloc_def tbb_pool_common_realloc_def
      tbb_pool_posix_memalign_def tbb_pool_free_def enomem_if_null_def heap_keepsD(14) [OF assms] Let_def
      split: if_splits prod.splits dest: heap_keepsD(11-13) [OF assms])

lemma allocation_kept:
  assumes "heap_keeps V sy"
  shows malloc_kept: "memkind_malloc sy k sz s = Some (p, s') \<Longrightarrow> V s' = V s"
    and calloc_kept: "memkind_calloc sy k num sz s = Some (p, s') \<Longrightarrow> V s' = V s"
    and realloc_kept: "memkind_realloc sy (Some k) q sz s = Some (p, s') \<Longrightarrow> V s' = V s"
    and posix_memalign_kept: "memkind_posix_memalign sy k q a sz s = Some (rp, s') \<Longrightarrow> V s' = V s"
    and free_kept: "memkind_free sy (Some k) q s = Some s' \<Longrightarrow> V s' = V s"
  by (auto simp: memkind_malloc_def memkind_calloc_def memkind_realloc_def memkind_posix_memalign_def memkind_free_def
      Option.bind_eq_Some_conv default_ops_kept(5) [OF assms] tbb_ops_kept(5) [OF assms]
      split: malloc_fn.splits calloc_fn.splits realloc_fn.splits posix_memalign_fn.splits free_fn.splits
      dest: arena_ops_kept [OF assms] arena_posix_memalign_kept [OF assms] arena_free_kept [OF assms] default_ops_kept(1-4) [OF assms]
        tbb_ops_kept(1-4) [OF assms])
    (metis malloc_fn.exhaust calloc_fn.exhaust realloc_fn.exhaust posix_memalign_fn.exhaust free_fn.exhaust)+

end

text \<open>The counters, and what selects the counter of a kind.\<close>

abbreviation tier_view :: "'w mk \<Rightarrow> alloc_counters \<times> (memkind_t \<Rightarrow> bool) \<times> (memkind_t \<Rightarrow> u32)" where
  "tier_view s \<equiv> (tier_counters s, kind_live s, \<lambda>k. k_partition (kinds s k))"

interpretation counted: kept_view "tier_view :: 'w mk \<Rightarrow> _"
  by unfold_locales auto

lemma kind_partition_view: "tier_view s' = tier_view s \<Longrightarrow> kind_partition k s' = kind_partition k s"
  by (simp add: kind_partition_def fun_eq_iff)

section \<open>Blocks in use\<close>

text \<open>
  The blocks in use: for every block the number that its kind is counted under, and its usable size. What
  is counted for a number is the sum over the address space.
\<close>

type_synonym tier_blocks = "ptr \<Rightarrow> (nat \<times> u64) option"

definition block_size_for :: "nat \<Rightarrow> (nat \<times> u64) option \<Rightarrow> u64" where
  "block_size_for i b = (case b of Some (j, n) \<Rightarrow> if j = i then n else 0 | None \<Rightarrow> 0)"

definition blocks_total :: "tier_blocks \<Rightarrow> nat \<Rightarrow> u64" where
  "blocks_total B i = (\<Sum>p\<in>UNIV. block_size_for i (B p))"

lemma blocks_total_upd:
  "blocks_total (B(p := b)) i = blocks_total B i + block_size_for i b - block_size_for i (B p)"
proof -
  have "blocks_total (B(p := b)) i = block_size_for i b + (\<Sum>q\<in>UNIV - {p}. block_size_for i (B q))"
    unfolding blocks_total_def by (subst sum.remove [of _ p]) (auto intro: sum.cong)
  moreover have "blocks_total B i = block_size_for i (B p) + (\<Sum>q\<in>UNIV - {p}. block_size_for i (B q))"
    unfolding blocks_total_def by (rule sum.remove) auto
  ultimately show ?thesis
    by simp
qed

text \<open>A new block, unless the allocation failed.\<close>

definition add_block :: "memkind_t \<Rightarrow> 'w sys \<Rightarrow> ptr \<Rightarrow> 'w mk \<Rightarrow> tier_blocks \<Rightarrow> tier_blocks" where
  "add_block k sy p s B =
    (if p = NULL then B else B(p \<mapsto> (unat (k_partition (kinds s k)), je_malloc_usable_size sy p s)))"

text \<open>
  A program that allocates and releases blocks of tiers, together with its blocks. A block that is released
  or resized has been allocated from that kind, and jemalloc reports the usable size that it had then; a
  new block has an address that is not in use. A failed \<^verbatim>\<open>realloc\<close> is left out: it is
  treated below. In between anything may happen that leaves the counters alone, and the sizes may be asked for.
\<close>

inductive tier_program :: "'w sys \<Rightarrow> 'w mk \<Rightarrow> tier_blocks \<Rightarrow> bool" for sy where
  program_start: "tier_counters s = alloc_counters_init \<Longrightarrow> tier_program sy s (\<lambda>_. None)"
| program_malloc: "tier_program sy s B \<Longrightarrow> memtier_kind_malloc sy k sz s = Some (p, s') \<Longrightarrow> B p = None \<Longrightarrow>
    tier_program sy s' (add_block k sy p s' B)"
| program_calloc: "tier_program sy s B \<Longrightarrow> memtier_kind_calloc sy k num sz s = Some (p, s') \<Longrightarrow> B p = None \<Longrightarrow>
    tier_program sy s' (add_block k sy p s' B)"
| program_posix_memalign: "tier_program sy s B \<Longrightarrow>
    memtier_kind_posix_memalign sy k NULL alignment sz s = Some ((r, p), s') \<Longrightarrow> B p = None \<Longrightarrow>
    tier_program sy s' (add_block k sy p s' B)"
| program_free: "tier_program sy s B \<Longrightarrow> memtier_kind_free sy (Some k) p s = Some s' \<Longrightarrow>
    B p = Some (unat (k_partition (kinds s k)), je_malloc_usable_size sy p s) \<Longrightarrow> tier_program sy s' (B(p := None))"
| program_realloc: "tier_program sy s B \<Longrightarrow> memtier_kind_realloc sy (Some k) p sz s = Some (q, s') \<Longrightarrow>
    B p = Some (unat (k_partition (kinds s k)), je_malloc_usable_size sy p s) \<Longrightarrow> p \<noteq> NULL \<Longrightarrow> q \<noteq> NULL \<or> sz = 0 \<Longrightarrow>
    (B(p := None)) q = None \<Longrightarrow> tier_program sy s' (add_block k sy q s' (B(p := None)))"
| program_asks: "tier_program sy s B \<Longrightarrow> memtier_kind_allocated_size k s = Some (n, s') \<Longrightarrow> tier_program sy s' B"
| program_other: "tier_program sy s B \<Longrightarrow> tier_view s' = tier_view s \<Longrightarrow> tier_program sy s' B"

text \<open>The usable size of a block does not depend on the counters, and \<open>NULL\<close> has none.\<close>

definition usable_sizes_ok :: "'w sys \<Rightarrow> bool" where
  "usable_sizes_ok sy \<longleftrightarrow>
    (\<forall>s. je_malloc_usable_size sy NULL s = 0) \<and>
    (\<forall>p s c. je_malloc_usable_size sy p (s\<lparr>tier_counters := c\<rparr>) = je_malloc_usable_size sy p s)"

definition tiers_exact :: "'w mk \<Rightarrow> tier_blocks \<Rightarrow> bool" where
  "tiers_exact s B \<longleftrightarrow> (\<forall>i. counter_total (tier_counters s) i = blocks_total B i)"

lemma count_alloc_exact:
  assumes "usable_sizes_ok sy" "tiers_exact s B" "count_alloc sy k (je_malloc_usable_size sy p s) s = Some s'" "B p = None"
  shows "tiers_exact s' (add_block k sy p s' B)"
proof -
  obtain c where s': "s' = s\<lparr>tier_counters := c\<rparr>"
    "c = increment_alloc_size (self_of sy s) (unat (k_partition (kinds s k))) (je_malloc_usable_size sy p s) (tier_counters s)"
    using assms(3) by (auto simp: count_alloc_def kind_partition_def split: if_splits)
  show ?thesis
    using assms(1,2,4) unfolding tiers_exact_def add_block_def s'(1) usable_sizes_ok_def
    by (auto simp: s'(2) increment_total blocks_total_upd block_size_for_def)
qed

lemma count_free_exact:
  assumes "tiers_exact s B" "count_free sy k n s = Some s'" "B p = Some (unat (k_partition (kinds s k)), n)"
  shows "tiers_exact s' (B(p := None))"
  using assms
  by (auto simp: tiers_exact_def count_free_def kind_partition_def decrement_total blocks_total_upd block_size_for_def
      split: if_splits)

text \<open>Asking for the size of a kind moves the buckets into the global counter, and keeps the total.\<close>

lemma drain_fold:
  "distinct bs \<Longrightarrow> fold (drain_bucket i) bs (a, c) =
    (a + (\<Sum>b\<leftarrow>bs. t_alloc_size c i b), fold (\<lambda>b. set_bucket i b 0) bs c)"
proof (induction bs arbitrary: a c)
  case (Cons b bs)
  then have "(\<Sum>d\<leftarrow>bs. t_alloc_size (set_bucket i b 0 c) i d) = (\<Sum>d\<leftarrow>bs. t_alloc_size c i d)"
    by (intro arg_cong [of _ _ sum_list] map_cong) (auto simp: set_bucket_def)
  then show ?case
    using Cons by (simp add: drain_bucket_def add.assoc)
qed simp

lemma allocated_size_total:
  assumes "memtier_kind_allocated_size k s = Some (n, s')"
  shows "n = counter_total (tier_counters s) (unat (k_partition (kinds s k)))"
    "counter_total (tier_counters s') j = counter_total (tier_counters s) j"
proof -
  let ?i = "unat (k_partition (kinds s k))" and ?c = "tier_counters s"
  let ?sum = "\<Sum>b<THREAD_BUCKETS. t_alloc_size ?c ?i b"
  let ?r = "fold (\<lambda>b. set_bucket ?i b 0) [0..<THREAD_BUCKETS] ?c"
  have sum: "(\<Sum>b\<leftarrow>[0..<THREAD_BUCKETS]. t_alloc_size ?c ?i b) = ?sum"
    by (simp only: interv_sum_list_conv_sum_set_nat set_upt atLeast0LessThan)
  have "n = g_alloc_size ?r ?i + ?sum" and s': "tier_counters s' = add_global ?i ?sum ?r"
    using assms drain_fold [of "[0..<THREAD_BUCKETS]" ?i 0 ?c]
    by (auto simp: memtier_kind_allocated_size_def kind_partition_def sum Let_def split: if_splits simp del: upt_conv_Cons)
  then show "n = counter_total ?c ?i"
    by (simp add: counter_total_def reset_fold)
  show "counter_total (tier_counters s') j = counter_total ?c j"
    unfolding s' total_add_global by (simp add: counter_total_def reset_fold)
qed

lemma tiers_exact_view: "tier_view s' = tier_view s \<Longrightarrow> tiers_exact s' B \<longleftrightarrow> tiers_exact s B"
  by (simp add: tiers_exact_def)

text \<open>An allocation that is counted, and a release that is counted before it happens.\<close>

lemma alloc_exact:
  assumes "usable_sizes_ok sy" "tiers_exact s B" "B p = None" "tier_view s1 = tier_view s"
    and "count_alloc sy k (je_malloc_usable_size sy p s1) s1 = Some s'"
  shows "tiers_exact s' (add_block k sy p s' B)"
proof (rule count_alloc_exact [where s = s1 and B = B and p = p, OF assms(1) _ assms(5,3)])
  show "tiers_exact s1 B"
    using assms(2) by (simp only: tiers_exact_view [OF assms(4)])
qed

lemma count_frame:
  "count_alloc sy k n s = Some s' \<Longrightarrow> kinds s' = kinds s"
  "count_free sy k n s = Some s' \<Longrightarrow> kinds s' = kinds s"
  by (auto simp: count_alloc_def count_free_def kind_partition_def split: if_splits)

lemma realloc_exact:
  assumes "heap_keeps tier_view sy" "usable_sizes_ok sy" "tiers_exact s B"
    and "memtier_kind_realloc sy (Some k) p sz s = Some (q, s')" "p \<noteq> NULL" "(B(p := None)) q = None"
    and B: "B p = Some (unat (k_partition (kinds s k)), je_malloc_usable_size sy p s)"
  shows "tiers_exact s' (add_block k sy q s' (B(p := None)))" "k_partition (kinds s' j) = k_partition (kinds s j)"
proof -
  obtain s1 where s1: "count_free sy k (je_malloc_usable_size sy p s) s = Some s1"
    using assms(4,5) by (auto simp: memtier_kind_realloc_def Option.bind_eq_Some_conv split: if_splits)
  have ex: "tiers_exact s1 (B(p := None))"
    by (rule count_free_exact [OF assms(3) s1 B])
  note part = count_frame(2) [OF s1]
  have "tiers_exact s' (add_block k sy q s' (B(p := None))) \<and> k_partition (kinds s' j) = k_partition (kinds s j)"
  proof (cases "sz = 0")
    case True
    then have f: "memkind_free sy (Some k) p s1 = Some s'" "q = NULL"
      using assms(4,5) s1 by (auto simp: memtier_kind_realloc_def Option.bind_eq_Some_conv)
    note view = counted.free_kept [OF assms(1) f(1)]
    have "k_partition (kinds s' j) = k_partition (kinds s1 j)"
      using view by (simp add: fun_eq_iff)
    then show ?thesis
      using ex part unfolding add_block_def f(2) if_True tiers_exact_view [OF view] by simp
  next
    case False
    then obtain s2 where s2: "memkind_realloc sy (Some k) p sz s1 = Some (q, s2)"
      "count_alloc sy k (je_malloc_usable_size sy q s2) s2 = Some s'"
      using assms(4,5) s1 by (auto simp: memtier_kind_realloc_def Option.bind_eq_Some_conv)
    note view = counted.realloc_kept [OF assms(1) s2(1)]
    have "k_partition (kinds s2 j) = k_partition (kinds s1 j)"
      using view by (simp add: fun_eq_iff)
    then show ?thesis
      using part count_frame(1) [OF s2(2)] by (intro conjI alloc_exact [OF assms(2) ex assms(6) view s2(2)]) simp
  qed
  then show "tiers_exact s' (add_block k sy q s' (B(p := None)))" "k_partition (kinds s' j) = k_partition (kinds s j)"
    by blast+
qed

lemma tier_program_exact:
  assumes "heap_keeps tier_view sy" "usable_sizes_ok sy" "tier_program sy s B"
  shows "tiers_exact s B"
  using assms(3)
proof (induction rule: tier_program.induct)
  case (program_start s)
  then show ?case
    by (simp add: tiers_exact_def alloc_counters_init_def counter_total_def blocks_total_def block_size_for_def)
next
  case (program_malloc s B k sz p s')
  then obtain s1 where s1: "memkind_malloc sy k sz s = Some (p, s1)"
    "count_alloc sy k (je_malloc_usable_size sy p s1) s1 = Some s'"
    by (auto simp: memtier_kind_malloc_def Option.bind_eq_Some_conv)
  show ?case
    by (rule alloc_exact [OF assms(2) program_malloc.IH program_malloc.hyps(3) counted.malloc_kept [OF assms(1) s1(1)] s1(2)])
next
  case (program_calloc s B k num sz p s')
  then obtain s1 where s1: "memkind_calloc sy k num sz s = Some (p, s1)"
    "count_alloc sy k (je_malloc_usable_size sy p s1) s1 = Some s'"
    by (auto simp: memtier_kind_calloc_def Option.bind_eq_Some_conv)
  show ?case
    by (rule alloc_exact [OF assms(2) program_calloc.IH program_calloc.hyps(3) counted.calloc_kept [OF assms(1) s1(1)] s1(2)])
next
  case (program_posix_memalign s B k alignment sz r p s')
  then obtain s1 where s1: "memkind_posix_memalign sy k NULL alignment sz s = Some ((r, p), s1)"
    "count_alloc sy k (je_malloc_usable_size sy p s1) s1 = Some s'"
    by (auto simp: memtier_kind_posix_memalign_def Option.bind_eq_Some_conv)
  show ?case
    by (rule alloc_exact [OF assms(2) program_posix_memalign.IH program_posix_memalign.hyps(3) counted.posix_memalign_kept [OF assms(1) s1(1)] s1(2)])
next
  case (program_free s B k p s')
  then obtain s1 where s1: "count_free sy k (je_malloc_usable_size sy p s) s = Some s1" "memkind_free sy (Some k) p s1 = Some s'"
    by (auto simp: memtier_kind_free_def Option.bind_eq_Some_conv)
  have "tiers_exact s1 (B(p := None))"
    by (rule count_free_exact [OF program_free.IH s1(1) program_free.hyps(3)])
  then show ?case
    by (simp only: tiers_exact_view [OF counted.free_kept [OF assms(1) s1(2)]])
next
  case (program_realloc s B k p sz q s')
  then show ?case
    by (intro realloc_exact(1) [OF assms(1,2)])
next
  case (program_asks s B k n s')
  then show ?case
    using allocated_size_total(2) [OF program_asks.hyps(2)] by (simp add: tiers_exact_def)
next
  case (program_other s B s')
  show ?case
    using program_other.IH by (simp only: tiers_exact_view [OF program_other.hyps(2)])
qed

section \<open>Properties\<close>


definition sample_heap_sys :: "nat sys" where
  "sample_heap_sys = sample_sys\<lparr>je_malloc_usable_size := (\<lambda>p s. if p = NULL then 0 else 64), je_realloc := (\<lambda>p n s. (NULL, s))\<rparr>"

lemma sample_heap_laws: "heap_keeps tier_view sample_heap_sys" "usable_sizes_ok sample_heap_sys"
  by (auto simp: heap_keeps_def usable_sizes_ok_def sample_heap_sys_def sample_sys_def sample_mallctl_def
      sample_mallocx_def)

lemma sample_heap_size: "je_malloc_usable_size sample_heap_sys p s = (if p = NULL then 0 else 64)"
  by (simp add: sample_heap_sys_def)

lemma sample_heap_malloc: "memkind_malloc sample_heap_sys MEMKIND_DEFAULT 100 (mk_init 0) = Some (0x1000, mk_init 0)"
  by (simp add: memkind_malloc_def kind_ops_def memkind_default_malloc_def size_out_of_bounds_def
      MEMKIND_DEFAULT_OPS_def blank_kind_def is_static_def sample_heap_sys_def sample_sys_heap)

lemma sample_program:
  obtains s where "memtier_kind_malloc sample_heap_sys MEMKIND_DEFAULT 100 (mk_init 0) = Some (0x1000, s)"
    "tier_program sample_heap_sys s [0x1000 \<mapsto> (0, 64)]" "s = (mk_init 0)\<lparr>tier_counters := tier_counters s\<rparr>"
proof -
  let ?c = "increment_alloc_size (self_of sample_heap_sys (mk_init 0)) 0 64 alloc_counters_init"
  let ?s = "(mk_init (0 :: nat))\<lparr>tier_counters := ?c\<rparr>"
  have m: "memtier_kind_malloc sample_heap_sys MEMKIND_DEFAULT 100 (mk_init 0) = Some (0x1000, ?s)"
    by (simp add: memtier_kind_malloc_def sample_heap_malloc count_alloc_def kind_partition_def is_static_def
        sample_heap_size blank_kind_def sample_counters)
  have "tier_program sample_heap_sys ?s (add_block MEMKIND_DEFAULT sample_heap_sys 0x1000 ?s Map.empty)"
    by (rule program_malloc [OF program_start [OF sample_counters] m]) simp
  then show thesis
    by (intro that [OF m]) (simp_all add: add_block_def sample_heap_size blank_kind_def)
qed

lemma sample_blocks_total: "blocks_total [0x1000 \<mapsto> (0, 64)] 0 = 64"
  by (simp add: blocks_total_upd block_size_for_def) (simp add: blocks_total_def block_size_for_def)

lemma sample_asks:
  assumes "kinds s = static_kind" "kind_live s = is_static"
  obtains n s' where "memtier_kind_allocated_size MEMKIND_DEFAULT s = Some (n, s')"
  using assms that
  by (cases "fold (drain_bucket (unat (k_partition blank_kind))) [0..<THREAD_BUCKETS] (0, tier_counters s)")
    (auto simp: memtier_kind_allocated_size_def kind_partition_def is_static_def Let_def split: prod.splits
      simp del: upt_conv_Cons)


text \<open>
  C26. A failed \<^verbatim>\<open>realloc\<close> makes the tiers forget a block. \<^verbatim>\<open>memtier_kind_realloc\<close> subtracts the size of the
  block before it asks for the new size; when that request fails the block stays in use, but the size
  that is reported for its kind is smaller by its usable size from then on.
\<close>

theorem failed_realloc_undercounts:
  assumes "heap_keeps tier_view sy" "usable_sizes_ok sy" "tier_program sy s B"
    and "memtier_kind_realloc sy (Some k) p sz s = Some (NULL, s')" "p \<noteq> NULL" "sz \<noteq> 0"
    and "B p = Some (unat (k_partition (kinds s k)), u)" "je_malloc_usable_size sy p s = u" "B NULL = None"
    and "memtier_kind_allocated_size k s' = Some (n, s'')"
  shows "n = blocks_total B (unat (k_partition (kinds s k))) - u"
proof -
  have B: "(B(p := None)) NULL = None" "B p = Some (unat (k_partition (kinds s k)), je_malloc_usable_size sy p s)"
    using assms(7-9) by simp_all
  note ex = realloc_exact [OF assms(1,2) tier_program_exact [OF assms(1-3)] assms(4,5) B]
  have "n = blocks_total (B(p := None)) (unat (k_partition (kinds s k)))"
    using ex(1) ex(2) [of k] allocated_size_total(1) [OF assms(10)] by (simp add: add_block_def tiers_exact_def)
  then show ?thesis
    using assms(7) by (simp add: blocks_total_upd block_size_for_def)
qed

theorem failed_realloc_undercounts_witness:
  "\<exists>s s' s''. tier_program sample_heap_sys s [0x1000 \<mapsto> (0, 64)] \<and>
    memtier_kind_realloc sample_heap_sys (Some MEMKIND_DEFAULT) 0x1000 200 s = Some (NULL, s') \<and>
    memtier_kind_allocated_size MEMKIND_DEFAULT s' = Some (0, s'')"
proof -
  obtain s where s: "tier_program sample_heap_sys s [0x1000 \<mapsto> (0, 64)]" "s = (mk_init 0)\<lparr>tier_counters := tier_counters s\<rparr>"
    by (rule sample_program)
  have k: "kinds s = static_kind" "kind_live s = is_static"
    by (subst s(2), simp)+
  obtain s' where s': "memtier_kind_realloc sample_heap_sys (Some MEMKIND_DEFAULT) 0x1000 200 s = Some (NULL, s')"
    "kinds s' = static_kind" "kind_live s' = is_static"
    using k by (auto simp: memtier_kind_realloc_def memkind_realloc_def kind_ops_def memkind_default_realloc_def
        size_out_of_bounds_def MEMKIND_DEFAULT_OPS_def blank_kind_def is_static_def count_free_def count_alloc_def
        kind_partition_def sample_heap_sys_def)
  obtain n s'' where n: "memtier_kind_allocated_size MEMKIND_DEFAULT s' = Some (n, s'')"
    by (rule sample_asks [OF s'(2,3)])
  have "n = 0"
    using failed_realloc_undercounts [OF sample_heap_laws s(1) s'(1) _ _ _ _ _ n]
    by (simp add: k blank_kind_def sample_blocks_total sample_heap_size)
  then show ?thesis
    using s(1) s'(1) n by blast
qed

end
