(* ===== verification/Size_Classes.thy ===== *)
theory Size_Classes
  imports Bit_Util
begin

text \<open>
  The size classes of jemalloc: their construction when the allocator starts (\<^verbatim>\<open>jemalloc/src/sc.c\<close>, with the constants
  of \<^verbatim>\<open>sc.h\<close>), for x86-64 with pages of 4 KB.

  Sizes are 64-bit words; indices, logarithms and counts are natural numbers, since they stay below 256. Assertions are
  not part of the model, as they are compiled out.

  The lemmas show that the construction ends, for the parameters of the build, and what it returns: a closed
  form of each of the 232 classes, with the counts that the assertions at its end compare.
\<close>

section \<open>Constants\<close>

abbreviation (input) LG_SIZEOF_PTR :: nat where "LG_SIZEOF_PTR \<equiv> 3"
abbreviation (input) LG_QUANTUM :: nat where "LG_QUANTUM \<equiv> 4"
abbreviation (input) LG_PAGE :: nat where "LG_PAGE \<equiv> 12"
abbreviation (input) PAGE :: u64 where "PAGE \<equiv> 4096"
abbreviation (input) SC_LG_NGROUP :: nat where "SC_LG_NGROUP \<equiv> 2"
abbreviation (input) SC_LG_TINY_MIN :: nat where "SC_LG_TINY_MIN \<equiv> 3"
abbreviation (input) SC_LG_MAX_LOOKUP :: nat where "SC_LG_MAX_LOOKUP \<equiv> 12"
abbreviation (input) SC_NGROUP :: nat where "SC_NGROUP \<equiv> 2 ^ SC_LG_NGROUP"

definition SC_NTINY :: nat where
  "SC_NTINY = LG_QUANTUM - SC_LG_TINY_MIN"

definition SC_LG_TINY_MAXCLASS :: nat where
  "SC_LG_TINY_MAXCLASS = LG_QUANTUM - 1"

definition SC_LG_BASE_MAX :: nat where
  "SC_LG_BASE_MAX = 2 ^ LG_SIZEOF_PTR * 8 - 2"

definition SC_NSIZES :: nat where
  "SC_NSIZES = SC_NTINY + SC_NGROUP + (SC_NGROUP * (SC_LG_BASE_MAX - (LG_QUANTUM + SC_LG_NGROUP) + 1) - 1)"

definition SC_NPSIZES :: nat where
  "SC_NPSIZES = SC_NGROUP + (SC_LG_BASE_MAX - (LG_PAGE + SC_LG_NGROUP)) * SC_NGROUP + SC_NGROUP - 1"

definition SC_NBINS :: nat where
  "SC_NBINS = SC_NTINY + SC_NGROUP + SC_NGROUP * (LG_PAGE + SC_LG_NGROUP - (LG_QUANTUM + SC_LG_NGROUP)) - 1"

definition SC_LOOKUP_MAXCLASS :: u64 where
  "SC_LOOKUP_MAXCLASS = push_bit SC_LG_MAX_LOOKUP 1"

definition SC_SMALL_MAXCLASS :: u64 where
  "SC_SMALL_MAXCLASS = push_bit (LG_PAGE + SC_LG_NGROUP - 1) 1 + of_nat (SC_NGROUP - 1) * push_bit (LG_PAGE - 1) 1"

definition SC_LARGE_MINCLASS :: u64 where
  "SC_LARGE_MINCLASS = push_bit (LG_PAGE + SC_LG_NGROUP) 1"

definition SC_LARGE_MAXCLASS :: u64 where
  "SC_LARGE_MAXCLASS = push_bit SC_LG_BASE_MAX 1 + of_nat (SC_NGROUP - 1) * push_bit (SC_LG_BASE_MAX - SC_LG_NGROUP) 1"

section \<open>Construction of the classes\<close>

record sc_t =
  sc_index :: nat
  sc_lg_base :: nat
  sc_lg_delta :: nat
  sc_ndelta :: nat
  sc_psz :: bool
  sc_bin :: bool
  sc_pgs :: nat
  sc_lg_delta_lookup :: nat

text \<open>The array holds the classes built so far; its length is the variable \<^verbatim>\<open>index\<close> of the construction.\<close>

record sc_data_t =
  ntiny :: nat
  nlbins :: nat
  nbins :: nat
  nsizes :: nat
  lg_ceil_nsizes :: nat
  npsizes :: nat
  lg_tiny_maxclass :: int
  lookup_maxclass :: u64
  small_maxclass :: u64
  lg_large_minclass :: nat
  large_minclass :: u64
  large_maxclass :: u64
  sc_initialized :: bool
  sc_array :: "sc_t list"

definition reg_size_compute :: "nat \<Rightarrow> nat \<Rightarrow> nat \<Rightarrow> u64" where
  "reg_size_compute lg_base lg_delta ndelta = push_bit lg_base 1 + push_bit lg_delta (of_nat ndelta)"

text \<open>The loop may run forever in principle: it ends at a common multiple of the sizes.\<close>

partial_function (option) slab_loop :: "u64 \<Rightarrow> u64 \<Rightarrow> u64 \<Rightarrow> u64 \<Rightarrow> u64 option" where
  [code]: "slab_loop page reg_size try_slab_size try_nregs =
    (let perfect_slab_size = try_slab_size; perfect_nregs = try_nregs;
         try_slab_size = try_slab_size + page; try_nregs = try_slab_size div reg_size
     in if perfect_slab_size = perfect_nregs * reg_size then Some perfect_slab_size
        else slab_loop page reg_size try_slab_size try_nregs)"

definition slab_size :: "nat \<Rightarrow> nat \<Rightarrow> nat \<Rightarrow> nat \<Rightarrow> nat option" where
  "slab_size lg_page lg_base lg_delta ndelta =
    (let page = push_bit lg_page 1; reg_size = reg_size_compute lg_base lg_delta ndelta
     in map_option (\<lambda>perfect_slab_size. unat (perfect_slab_size div page))
          (slab_loop page reg_size page (page div reg_size)))"

definition size_class :: "nat \<Rightarrow> nat \<Rightarrow> nat \<Rightarrow> nat \<Rightarrow> nat \<Rightarrow> nat \<Rightarrow> nat \<Rightarrow> sc_t option" where
  "size_class lg_max_lookup lg_page lg_ngroup index lg_base lg_delta ndelta =
    (let sz = reg_size_compute lg_base lg_delta ndelta; bin = sz < push_bit (lg_page + lg_ngroup) 1
     in do {
       pgs \<leftarrow> (if bin then slab_size lg_page lg_base lg_delta ndelta else Some 0);
       Some \<lparr>sc_index = index, sc_lg_base = lg_base, sc_lg_delta = lg_delta, sc_ndelta = ndelta,
             sc_psz = sz mod push_bit lg_page 1 = 0, sc_bin = bin, sc_pgs = pgs,
             sc_lg_delta_lookup = (if sz \<le> push_bit lg_max_lookup 1 then lg_delta else 0)\<rparr>
     })"

text \<open>A new class is stored, and counted if it is a multiple of a page or a class of slabs.\<close>

definition add_class :: "sc_t \<Rightarrow> sc_data_t \<Rightarrow> sc_data_t" where
  "add_class c d =
    d\<lparr>sc_array := sc_array d @ [c], npsizes := npsizes d + of_bool (sc_psz c), nbins := nbins d + of_bool (sc_bin c)\<rparr>"

text \<open>The tiny classes; the loop returns the logarithms of base and delta that it ends with.\<close>

function tiny_classes ::
  "nat \<Rightarrow> nat \<Rightarrow> nat \<Rightarrow> nat \<Rightarrow> nat \<Rightarrow> nat \<Rightarrow> sc_data_t \<Rightarrow> ((nat \<times> nat) \<times> sc_data_t) option" where
  "tiny_classes lg_quantum lg_max_lookup lg_page lg_ngroup lg_base lg_delta d =
    (if lg_base < lg_quantum then
       do {
         c \<leftarrow> size_class lg_max_lookup lg_page lg_ngroup (length (sc_array d)) lg_base lg_delta 0;
         let d = (if sc_lg_delta_lookup c \<noteq> 0 then d\<lparr>nlbins := length (sc_array d) + 1\<rparr> else d);
         tiny_classes lg_quantum lg_max_lookup lg_page lg_ngroup (lg_base + 1) lg_base
           ((add_class c d)\<lparr>ntiny := ntiny d + 1, lg_tiny_maxclass := int lg_base\<rparr>)
       }
     else Some ((lg_base, lg_delta), d))"
  by pat_completeness auto
termination
  by (relation "measure (\<lambda>(q, l, p, g, lg_base, lg_delta, d). q - lg_base)") auto

text \<open>The first class behind the tiny ones, if there are any: the variables and the multiplier for the next class.\<close>

definition first_class ::
  "nat \<Rightarrow> nat \<Rightarrow> nat \<Rightarrow> nat \<Rightarrow> nat \<Rightarrow> sc_data_t \<Rightarrow> ((nat \<times> nat) \<times> sc_data_t) option" where
  "first_class lg_max_lookup lg_page lg_ngroup lg_base lg_delta d =
    (if ntiny d \<noteq> 0 then
       do {
         c \<leftarrow> size_class lg_max_lookup lg_page lg_ngroup (length (sc_array d)) (lg_base - 1) lg_delta 1;
         Some ((lg_delta + 1, 1), add_class c d)
       }
     else Some ((lg_delta, 0), d))"

function pseudo_group ::
  "nat \<Rightarrow> nat \<Rightarrow> nat \<Rightarrow> nat \<Rightarrow> nat \<Rightarrow> nat \<Rightarrow> sc_data_t \<Rightarrow> sc_data_t option" where
  "pseudo_group lg_max_lookup lg_page lg_ngroup lg_base lg_delta ndelta d =
    (if ndelta < 2 ^ lg_ngroup then
       do {
         c \<leftarrow> size_class lg_max_lookup lg_page lg_ngroup (length (sc_array d)) lg_base lg_delta ndelta;
         pseudo_group lg_max_lookup lg_page lg_ngroup lg_base lg_delta (ndelta + 1) (add_class c d)
       }
     else Some d)"
  by pat_completeness auto
termination
  by (relation "measure (\<lambda>(l, p, g, lg_base, lg_delta, ndelta, d). 2 ^ g - ndelta)") auto

text \<open>One class of a regular group.\<close>

definition group_class :: "nat \<Rightarrow> nat \<Rightarrow> nat \<Rightarrow> nat \<Rightarrow> sc_t \<Rightarrow> sc_data_t \<Rightarrow> sc_data_t" where
  "group_class lg_ngroup lg_base lg_delta ndelta c d =
    (let sz = push_bit lg_base 1 + push_bit lg_delta (of_nat ndelta);
         d = (if sc_lg_delta_lookup c \<noteq> 0 then d\<lparr>nlbins := length (sc_array d) + 1, lookup_maxclass := sz\<rparr> else d);
         d = (if sc_bin c then
                d\<lparr>small_maxclass := sz, lg_large_minclass := (if lg_ngroup > 0 then lg_base + 1 else lg_base + 2)\<rparr>
              else d)
     in (add_class c d)\<lparr>large_maxclass := sz\<rparr>)"

function regular_group ::
  "nat \<Rightarrow> nat \<Rightarrow> nat \<Rightarrow> nat \<Rightarrow> nat \<Rightarrow> nat \<Rightarrow> nat \<Rightarrow> sc_data_t \<Rightarrow> sc_data_t option" where
  "regular_group lg_max_lookup lg_page lg_ngroup ndelta_limit lg_base lg_delta ndelta d =
    (if ndelta \<le> ndelta_limit then
       do {
         c \<leftarrow> size_class lg_max_lookup lg_page lg_ngroup (length (sc_array d)) lg_base lg_delta ndelta;
         regular_group lg_max_lookup lg_page lg_ngroup ndelta_limit lg_base lg_delta (ndelta + 1)
           (group_class lg_ngroup lg_base lg_delta ndelta c d)
       }
     else Some d)"
  by pat_completeness auto
termination
  by (relation "measure (\<lambda>(l, p, g, lim, lg_base, lg_delta, ndelta, d). Suc lim - ndelta)") auto

function regular_groups ::
  "nat \<Rightarrow> nat \<Rightarrow> nat \<Rightarrow> nat \<Rightarrow> nat \<Rightarrow> nat \<Rightarrow> sc_data_t \<Rightarrow> sc_data_t option" where
  "regular_groups ptr_bits lg_max_lookup lg_page lg_ngroup lg_base lg_delta d =
    (if lg_base < ptr_bits - 1 then
       do {
         d \<leftarrow> regular_group lg_max_lookup lg_page lg_ngroup
                (if lg_base = ptr_bits - 2 then 2 ^ lg_ngroup - 1 else 2 ^ lg_ngroup) lg_base lg_delta 1 d;
         regular_groups ptr_bits lg_max_lookup lg_page lg_ngroup (lg_base + 1) (lg_delta + 1) d
       }
     else Some d)"
  by pat_completeness auto
termination
  by (relation "measure (\<lambda>(b, l, p, g, lg_base, lg_delta, d). b - lg_base)") auto

declare tiny_classes.simps [simp del] pseudo_group.simps [simp del] regular_group.simps [simp del]
  regular_groups.simps [simp del]

definition size_classes :: "nat \<Rightarrow> nat \<Rightarrow> nat \<Rightarrow> nat \<Rightarrow> nat \<Rightarrow> nat \<Rightarrow> sc_data_t option" where
  "size_classes lg_ptr_size lg_quantum lg_tiny_min lg_max_lookup lg_page lg_ngroup =
    do {
      let d = \<lparr>ntiny = 0, nlbins = 0, nbins = 0, nsizes = 0, lg_ceil_nsizes = 0, npsizes = 0,
               lg_tiny_maxclass = - 1, lookup_maxclass = 0, small_maxclass = 0, lg_large_minclass = 0,
               large_minclass = 0, large_maxclass = 0, sc_initialized = False, sc_array = []\<rparr>;
      ((lg_base, lg_delta), d) \<leftarrow> tiny_classes lg_quantum lg_max_lookup lg_page lg_ngroup lg_tiny_min lg_tiny_min d;
      ((lg_delta, ndelta), d) \<leftarrow> first_class lg_max_lookup lg_page lg_ngroup lg_base lg_delta d;
      d \<leftarrow> pseudo_group lg_max_lookup lg_page lg_ngroup lg_base lg_delta ndelta d;
      d \<leftarrow> regular_groups (2 ^ lg_ptr_size * 8) lg_max_lookup lg_page lg_ngroup (lg_base + lg_ngroup) lg_delta d;
      Some (d\<lparr>nsizes := length (sc_array d), lg_ceil_nsizes := lg_ceil (of_nat (length (sc_array d))),
              large_minclass := push_bit (lg_large_minclass d) 1\<rparr>)
    }"

definition sc_data_init :: "sc_data_t option" where
  "sc_data_init =
    map_option (\<lambda>d. d\<lparr>sc_initialized := True\<rparr>)
      (size_classes LG_SIZEOF_PTR LG_QUANTUM SC_LG_TINY_MIN SC_LG_MAX_LOOKUP LG_PAGE SC_LG_NGROUP)"

text \<open>The number of pages of a slab may be set by an option, within the limits of a slab.\<close>

abbreviation (input) BITMAP_MAXBITS :: u64 where "BITMAP_MAXBITS \<equiv> 512"

definition sc_data_update_sc_slab_size :: "sc_t \<Rightarrow> u64 \<Rightarrow> u64 \<Rightarrow> sc_t" where
  "sc_data_update_sc_slab_size c reg_size pgs_guess =
    (let min_pgs = reg_size div PAGE + (if reg_size mod PAGE \<noteq> 0 then 1 else 0);
         max_pgs = BITMAP_MAXBITS * reg_size div PAGE
     in c\<lparr>sc_pgs := unat (if pgs_guess < min_pgs then min_pgs else if pgs_guess > max_pgs then max_pgs else pgs_guess)\<rparr>)"

fun update_slabs :: "u64 \<Rightarrow> u64 \<Rightarrow> u64 \<Rightarrow> sc_t list \<Rightarrow> sc_t list" where
  "update_slabs range_begin range_end pgs [] = []"
| "update_slabs range_begin range_end pgs (c # cs) =
    (if \<not> sc_bin c then c # cs
     else
       (let reg_size = reg_size_compute (sc_lg_base c) (sc_lg_delta c) (sc_ndelta c)
        in (if range_begin \<le> reg_size \<and> reg_size \<le> range_end then sc_data_update_sc_slab_size c reg_size pgs else c) #
           update_slabs range_begin range_end pgs cs))"

definition sc_data_update_slab_size :: "sc_data_t \<Rightarrow> u64 \<Rightarrow> u64 \<Rightarrow> u64 \<Rightarrow> sc_data_t" where
  "sc_data_update_slab_size data range_begin range_end pgs =
    data\<lparr>sc_array := update_slabs range_begin range_end pgs (sc_array data)\<rparr>"

definition sc_boot :: "sc_data_t option" where
  "sc_boot = sc_data_init"

section \<open>The classes in closed form\<close>

definition class_at :: "nat \<Rightarrow> sc_t" where
  "class_at i =
    \<lparr>sc_index = i, sc_lg_base = (if i < 2 then 3 else if i < 5 then 4 else 6 + (i - 5) div 4),
     sc_lg_delta = (if i < 2 then 3 else if i < 5 then 4 else 4 + (i - 5) div 4),
     sc_ndelta = (if i < 2 then i else if i < 5 then i - 1 else (i - 5) mod 4 + 1),
     sc_psz = (i \<in> {28, 32, 34} \<or> 36 \<le> i), sc_bin = (i < 36),
     sc_pgs = (if 36 \<le> i then 0 else if i < 5 then [1, 1, 1, 3, 1] ! i else if i = 32 then 2 else [5, 3, 7, 1] ! ((i - 5) mod 4)),
     sc_lg_delta_lookup = (if 29 \<le> i then 0 else if i < 2 then 3 else if i < 5 then 4 else 4 + (i - 5) div 4)\<rparr>"

text \<open>The data after \<open>k\<close> of the first eight regular groups.\<close>

definition stage :: "nat \<Rightarrow> sc_data_t" where
  "stage k =
    \<lparr>ntiny = 1, nlbins = (if k = 0 then 1 else min 29 (5 + 4 * k)), nbins = min 36 (5 + 4 * k), nsizes = 0,
     lg_ceil_nsizes = 0, npsizes = [0, 0, 0, 0, 0, 0, 1, 2, 4] ! k, lg_tiny_maxclass = 3,
     lookup_maxclass = (if k = 0 then 0 else push_bit (min 12 (6 + k)) 1),
     small_maxclass = (if k = 0 then 0 else if k = 8 then 14336 else push_bit (6 + k) 1),
     lg_large_minclass = (if k = 0 then 0 else 6 + k), large_minclass = 0,
     large_maxclass = (if k = 0 then 0 else push_bit (6 + k) 1), sc_initialized = False,
     sc_array = map class_at [0..<5 + 4 * k]\<rparr>"

lemma stage_step: "k < 8 \<Longrightarrow> regular_group 12 12 2 4 (6 + k) (4 + k) 1 (stage k) = Some (stage (Suc k))"
proof -
  have "list_all (\<lambda>k. regular_group 12 12 2 4 (6 + k) (4 + k) 1 (stage k) = Some (stage (Suc k))) [0..<8]"
    by code_simp
  then show "k < 8 \<Longrightarrow> regular_group 12 12 2 4 (6 + k) (4 + k) 1 (stage k) = Some (stage (Suc k))"
    by (simp only: list_all_iff set_upt atLeastLessThan_iff) simp
qed

lemma first_stage:
  "do {
     ((lg_base, lg_delta), d) \<leftarrow> tiny_classes 4 12 12 2 3 3
       \<lparr>ntiny = 0, nlbins = 0, nbins = 0, nsizes = 0, lg_ceil_nsizes = 0, npsizes = 0,
        lg_tiny_maxclass = - 1, lookup_maxclass = 0, small_maxclass = 0, lg_large_minclass = 0,
        large_minclass = 0, large_maxclass = 0, sc_initialized = False, sc_array = []\<rparr>;
     ((lg_delta, ndelta), d) \<leftarrow> first_class 12 12 2 lg_base lg_delta d;
     d \<leftarrow> pseudo_group 12 12 2 lg_base lg_delta ndelta d;
     Some (lg_base, lg_delta, d)
   } = Some (4, 4, stage 0)"
  by code_simp

lemma regular_groups_small:
  "k \<le> 8 \<Longrightarrow> regular_groups 64 12 12 2 6 4 (stage 0) = regular_groups 64 12 12 2 (6 + k) (4 + k) (stage k)"
proof (induction k)
  case (Suc k)
  then have "regular_groups 64 12 12 2 (6 + k) (4 + k) (stage k) =
      regular_groups 64 12 12 2 (6 + Suc k) (4 + Suc k) (stage (Suc k))"
    using stage_step [of k] by (subst regular_groups.simps) simp
  then show ?case
    using Suc by simp
qed simp

text \<open>The groups from four pages on: all classes are multiples of a page, and none is a class of slabs.\<close>

lemma unat_reg_size:
  assumes "lg_base < 64" "lg_delta < 64" "2 ^ lg_base + n * 2 ^ lg_delta < (2 :: nat) ^ 64"
  shows "unat (reg_size_compute lg_base lg_delta n) = 2 ^ lg_base + n * 2 ^ lg_delta"
proof -
  have "reg_size_compute lg_base lg_delta n = of_nat (2 ^ lg_base + n * 2 ^ lg_delta)"
    by (simp add: reg_size_compute_def push_bit_eq_mult)
  then show ?thesis
    using assms(3) unat_of_nat_no_wrap [of "2 ^ lg_base + n * 2 ^ lg_delta", where 'a = 64] by simp
qed

lemma large_bound:
  assumes "e \<le> 48" "n \<le> 4" "e = 48 \<Longrightarrow> n \<le> 3"
  shows "(4 + n) * 2 ^ e \<le> 7 * (2 :: nat) ^ 48"
proof (cases "e = 48")
  case False
  then have "(2 :: nat) ^ e \<le> 2 ^ 47"
    using assms(1) by (intro power_increasing) auto
  moreover have "4 + n \<le> 8"
    using assms(2) by simp
  ultimately have "(4 + n) * 2 ^ e \<le> 8 * (2 :: nat) ^ 47"
    by (rule mult_le_mono [rotated])
  then show ?thesis
    by simp
qed (use assms in simp)

lemma large_size_class:
  assumes "14 \<le> b" "b \<le> 62" "1 \<le> n" "n \<le> 4" "b = 62 \<Longrightarrow> n \<le> 3"
  shows "size_class 12 12 2 i b (b - 2) n =
    Some \<lparr>sc_index = i, sc_lg_base = b, sc_lg_delta = b - 2, sc_ndelta = n, sc_psz = True, sc_bin = False, sc_pgs = 0,
          sc_lg_delta_lookup = 0\<rparr>"
proof -
  obtain e where b: "b = 14 + e"
    using assms(1) le_Suc_ex by blast
  let ?n = "2 ^ b + n * 2 ^ (b - 2) :: nat" and ?sz = "reg_size_compute b (b - 2) n"
  have eq: "?n = (4 + n) * 2 ^ e * 2 ^ 12"
    by (simp add: b power_add algebra_simps)
  have "(4 + n) * 2 ^ e \<le> 7 * (2 :: nat) ^ 48"
    using assms(2,4,5) b by (intro large_bound) auto
  then have "?n \<le> 7 * 2 ^ 48 * 2 ^ 12"
    unfolding eq by (rule mult_le_mono1)
  also have "\<dots> < 2 ^ 64"
    by simp
  finally have less: "?n < 2 ^ 64" .
  then have u: "unat ?sz = ?n"
    using assms(2) by (intro unat_reg_size) auto
  have "4 * 1 * 2 ^ 12 \<le> (4 + n) * (2 :: nat) ^ e * 2 ^ 12"
    by (intro mult_le_mono) auto
  then have "16384 \<le> unat ?sz"
    unfolding u eq by (rule order_trans [rotated]) simp
  moreover have "unat ?sz mod 4096 = 0"
    unfolding u eq by simp
  then have "?sz mod 4096 = 0"
    by (simp add: word_unat_eq_iff unat_mod)
  ultimately show ?thesis
    by (simp add: size_class_def Let_def word_less_nat_alt word_le_nat_alt)
qed

text \<open>The records of these classes, as the closed form has them.\<close>

lemma class_at_large:
  assumes "14 \<le> b" "1 \<le> n" "n \<le> 4" "i = 37 + 4 * (b - 14) + (n - 1)"
  shows "class_at i =
    \<lparr>sc_index = i, sc_lg_base = b, sc_lg_delta = b - 2, sc_ndelta = n, sc_psz = True, sc_bin = False, sc_pgs = 0,
     sc_lg_delta_lookup = 0\<rparr>"
proof -
  obtain m where m: "n = Suc m" "m < 4"
    using assms(2,3) by (cases n) auto
  have "i - 5 = m + (b - 6) * 4" "37 \<le> i"
    using assms(1,4) m by auto
  then have "(i - 5) div 4 = b - 6" "(i - 5) mod 4 = m"
    using m(2) by simp_all
  then show ?thesis
    using assms(1) m(1) \<open>37 \<le> i\<close> by (simp add: class_at_def)
qed

definition large_stage :: "nat \<Rightarrow> sc_data_t" where
  "large_stage i =
    (stage 8)\<lparr>npsizes := 4 + (i - 37),
              large_maxclass := (let c = class_at (i - 1) in reg_size_compute (sc_lg_base c) (sc_lg_delta c) (sc_ndelta c)),
              sc_array := map class_at [0..<i]\<rparr>"

lemma large_stage_length [simp]: "length (sc_array (large_stage i)) = i"
  by (simp add: large_stage_def)

lemma large_stage_step:
  assumes "14 \<le> b" "b \<le> 62" "1 \<le> n" "n \<le> 4" "b = 62 \<Longrightarrow> n \<le> 3" "i = 37 + 4 * (b - 14) + (n - 1)"
  shows "size_class 12 12 2 i b (b - 2) n = Some (class_at i)"
    "group_class 2 b (b - 2) n (class_at i) (large_stage i) = large_stage (Suc i)"
proof -
  note c = class_at_large [OF assms(1,3,4,6)]
  show "size_class 12 12 2 i b (b - 2) n = Some (class_at i)"
    using large_size_class [OF assms(1-5)] c by simp
  have "37 \<le> i"
    using assms(6) by simp
  then have "Suc i - 37 = Suc (i - 37)"
    by simp
  then show "group_class 2 b (b - 2) n (class_at i) (large_stage i) = large_stage (Suc i)"
    by (simp add: group_class_def large_stage_def add_class_def reg_size_compute_def Let_def c)
qed

lemma large_group:
  assumes "14 \<le> b" "b \<le> 62" "lim \<le> 4" "b = 62 \<Longrightarrow> lim \<le> 3" "n \<le> lim + 1" "1 \<le> n"
  shows "regular_group 12 12 2 lim b (b - 2) n (large_stage (37 + 4 * (b - 14) + (n - 1))) =
    Some (large_stage (37 + 4 * (b - 14) + lim))"
  using assms(5,6)
proof (induction "lim + 1 - n" arbitrary: n)
  case 0
  then have "n = lim + 1"
    by simp
  then show ?case
    by (subst regular_group.simps) simp
next
  case (Suc m)
  then have n: "n \<le> lim" "m = lim + 1 - Suc n"
    by auto
  obtain i where i: "i = 37 + 4 * (b - 14) + (n - 1)" "Suc i = 37 + 4 * (b - 14) + (Suc n - 1)"
    using Suc.prems by simp
  have "1 \<le> n" "n \<le> 4" "b = 62 \<Longrightarrow> n \<le> 3"
    using Suc.prems n(1) assms(3,4) by auto
  note step = large_stage_step [OF assms(1,2) this i(1)]
  have "regular_group 12 12 2 lim b (b - 2) n (large_stage i) = regular_group 12 12 2 lim b (b - 2) (Suc n) (large_stage (Suc i))"
    using step Suc.prems n assms(3,4) by (subst regular_group.simps) simp
  then show ?case
    using Suc.hyps(1) [OF n(2)] n(1) unfolding i(1) [symmetric] i(2) [symmetric] by simp
qed

lemma large_groups:
  assumes "14 \<le> b" "b \<le> 62"
  shows "regular_groups 64 12 12 2 b (b - 2) (large_stage (37 + 4 * (b - 14))) = Some (large_stage 232)"
  using assms
proof (induction "62 - b" arbitrary: b)
  case 0
  then have b: "b = 62"
    by simp
  have "regular_group 12 12 2 3 62 60 1 (large_stage 229) = Some (large_stage 232)"
    using large_group [of 62 3 1] by simp
  then show ?case
    unfolding b by (subst regular_groups.simps) (simp, subst regular_groups.simps, simp)
next
  case (Suc m)
  then have b: "m = 62 - Suc b" "b < 62" "Suc b - 2 = Suc (b - 2)"
    by auto
  have "37 + 4 * (Suc b - 14) = 41 + 4 * (b - 14)"
    using Suc.prems by simp
  then have "regular_group 12 12 2 4 b (b - 2) 1 (large_stage (37 + 4 * (b - 14))) = Some (large_stage (37 + 4 * (Suc b - 14)))"
    using large_group [of b 4 1] Suc.prems b(2) by (simp only:) simp
  then show ?case
    using Suc.hyps(1) [OF b(1)] Suc.prems b by (subst regular_groups.simps) simp
qed

text \<open>
  The construction ends, and its result has the counts of the macros: what the assertions at the end of
  \<^verbatim>\<open>size_classes\<close> check.
\<close>

definition sc_data :: sc_data_t where
  "sc_data =
    \<lparr>ntiny = SC_NTINY, nlbins = 29, nbins = SC_NBINS, nsizes = SC_NSIZES, lg_ceil_nsizes = 8, npsizes = SC_NPSIZES,
     lg_tiny_maxclass = int SC_LG_TINY_MAXCLASS, lookup_maxclass = SC_LOOKUP_MAXCLASS,
     small_maxclass = SC_SMALL_MAXCLASS, lg_large_minclass = LG_PAGE + SC_LG_NGROUP,
     large_minclass = SC_LARGE_MINCLASS, large_maxclass = SC_LARGE_MAXCLASS, sc_initialized = True,
     sc_array = map class_at [0..<SC_NSIZES]\<rparr>"

lemma sc_constants:
  "SC_NTINY = 1" "SC_LG_TINY_MAXCLASS = 3" "SC_LG_BASE_MAX = 62" "SC_NSIZES = 232" "SC_NPSIZES = 199" "SC_NBINS = 36"
  "SC_LOOKUP_MAXCLASS = 4096" "SC_SMALL_MAXCLASS = 14336" "SC_LARGE_MINCLASS = 16384"
  "SC_LARGE_MAXCLASS = 8070450532247928832"
  by (simp_all add: SC_NTINY_def SC_LG_TINY_MAXCLASS_def SC_LG_BASE_MAX_def SC_NSIZES_def SC_NPSIZES_def SC_NBINS_def
      SC_LOOKUP_MAXCLASS_def SC_SMALL_MAXCLASS_def SC_LARGE_MINCLASS_def SC_LARGE_MAXCLASS_def)

lemma sc_data_init_eq: "sc_data_init = Some sc_data"
proof -
  have s8: "stage 8 = large_stage 37"
    by code_simp
  have l8: "lg_ceil 232 = 8"
    by code_simp
  have last: "class_at 231 = \<lparr>sc_index = 231, sc_lg_base = 62, sc_lg_delta = 60, sc_ndelta = 3, sc_psz = True,
      sc_bin = False, sc_pgs = 0, sc_lg_delta_lookup = 0\<rparr>"
    using class_at_large [of 62 3 231] by simp
  have "regular_groups 64 12 12 2 6 4 (stage 0) = Some (large_stage 232)"
    using regular_groups_small [of 8] large_groups [of 14] by (simp add: s8)
  then have "size_classes 3 4 3 12 12 2 =
      Some ((large_stage 232)\<lparr>nsizes := 232, lg_ceil_nsizes := 8, large_minclass := push_bit (lg_large_minclass (large_stage 232)) 1\<rparr>)"
    using first_stage
    by (auto simp: size_classes_def Let_def Option.bind_eq_Some_conv l8 split: prod.splits)
  then show ?thesis
    by (simp add: sc_data_init_def sc_data_def large_stage_def stage_def sc_constants last reg_size_compute_def
        del: upt_conv_Cons)
qed

section \<open>Properties\<close>

text \<open>What a class of slabs needs: its regions fill the pages of a slab exactly, and they are not too many for its bitmap.\<close>

definition slab_class_ok :: "sc_t \<Rightarrow> bool" where
  "slab_class_ok c =
    (let sz = unat (reg_size_compute (sc_lg_base c) (sc_lg_delta c) (sc_ndelta c)); n = sc_pgs c * unat PAGE
     in sc_bin c \<and> 0 < sc_pgs c \<and> 0 < sz \<and> sz dvd n \<and> n div sz \<le> unat BITMAP_MAXBITS)"

text \<open>
  C16. The size classes are built as the rest of the allocator expects them. The construction at start ends, the loop that
  looks for the size of a slab included; the numbers of classes, of classes of slabs and of classes of pages and
  the limits that it computes are those of the macros of \<^verbatim>\<open>sc.h\<close>, the classes behind the last class of slabs
  have none, and for every class of slabs the regions fill the slab without a rest and are at most 512, the
  number of bits in the bitmap of a slab.
\<close>

theorem size_classes_constructed:
  "\<exists>d. sc_data_init = Some d \<and> sc_initialized d \<and> length (sc_array d) = SC_NSIZES \<and> nsizes d = SC_NSIZES \<and>
    ntiny d = SC_NTINY \<and> nbins d = SC_NBINS \<and> npsizes d = SC_NPSIZES \<and> lookup_maxclass d = SC_LOOKUP_MAXCLASS \<and>
    small_maxclass d = SC_SMALL_MAXCLASS \<and> large_minclass d = SC_LARGE_MINCLASS \<and>
    large_maxclass d = SC_LARGE_MAXCLASS \<and> list_all slab_class_ok (take SC_NBINS (sc_array d)) \<and>
    list_all (\<lambda>c. \<not> sc_bin c \<and> sc_pgs c = 0) (drop SC_NBINS (sc_array d))"
proof -
  have "list_all slab_class_ok (map class_at [0..<36])"
    by (simp add: slab_class_ok_def class_at_def reg_size_compute_def Let_def upt_rec)
  moreover have "list_all (\<lambda>c. \<not> sc_bin c \<and> sc_pgs c = 0) (map class_at [36..<232])"
    by (auto simp: list_all_iff class_at_def)
  ultimately show ?thesis
    by (simp add: sc_data_init_eq sc_data_def sc_constants take_map drop_map del: upt_conv_Cons)
qed

end
