(* ===== verification/Sizes.thy ===== *)
theory Sizes
  imports Size_Classes
begin

text \<open>
  The functions of jemalloc between sizes, size classes and page sizes
  (\<^verbatim>\<open>jemalloc/include/jemalloc/internal/sz.h\<close>) and the tables they read (\<^verbatim>\<open>jemalloc/src/sz.c\<close>). Each
  function has a version that computes and one that looks up; a chain of functions that only pass on the
  result of a lookup, next to an assertion, is one definition here.

  The lemmas show that both versions agree, that the index of a size is that of the smallest class which is large
  enough, and what an aligned request is rounded up to.
\<close>

section \<open>Tables\<close>

record sz_tabs =
  sz_pind2sz_tab :: "u64 list"
  sz_index2size_tab :: "u64 list"
  sz_size2index_tab :: "nat list"
  sz_large_pad :: u64

definition class_size :: "sc_t \<Rightarrow> u64" where
  "class_size c = push_bit (sc_lg_base c) 1 + push_bit (sc_lg_delta c) (of_nat (sc_ndelta c))"

text \<open>The second loop writes to the same entry until its counter has passed the last one.\<close>

definition sz_boot_pind2sz_tab :: "sc_data_t \<Rightarrow> u64 list" where
  "sz_boot_pind2sz_tab data =
    (let (tab, pind) =
           fold (\<lambda>c (tab, pind). if sc_psz c then (tab[pind := class_size c], pind + 1) else (tab, pind))
             (take SC_NSIZES (sc_array data)) (replicate (SC_NPSIZES + 1) 0, 0)
     in if pind \<le> SC_NPSIZES then tab[pind := large_maxclass data + PAGE] else tab)"

definition sz_boot_index2size_tab :: "sc_data_t \<Rightarrow> u64 list" where
  "sz_boot_index2size_tab data = map class_size (take SC_NSIZES (sc_array data))"

text \<open>The entries filled so far; their number is the variable \<^verbatim>\<open>dst_ind\<close>. An entry has 8 bits.\<close>

definition sz_boot_size2index_tab :: "sc_data_t \<Rightarrow> nat list" where
  "sz_boot_size2index_tab data =
    (let dst_max = unat (drop_bit SC_LG_TINY_MIN SC_LOOKUP_MAXCLASS) + 1
     in fold (\<lambda>sc_ind tab.
                (let sz = class_size (sc_array data ! sc_ind);
                     max_ind = unat (drop_bit SC_LG_TINY_MIN (sz + push_bit SC_LG_TINY_MIN 1 - 1))
                 in tab @ replicate (min (Suc max_ind) dst_max - length tab) (sc_ind mod 256)))
          [0..<SC_NSIZES] [])"

definition sz_boot :: "sc_data_t \<Rightarrow> bool \<Rightarrow> sz_tabs" where
  "sz_boot data cache_oblivious =
    \<lparr>sz_pind2sz_tab = sz_boot_pind2sz_tab data, sz_index2size_tab = sz_boot_index2size_tab data,
     sz_size2index_tab = sz_boot_size2index_tab data, sz_large_pad = (if cache_oblivious then PAGE else 0)\<rparr>"

section \<open>Page sizes\<close>

definition sz_psz2ind :: "u64 \<Rightarrow> nat" where
  "sz_psz2ind psz =
    (if psz > SC_LARGE_MAXCLASS then SC_NPSIZES
     else
       (let x = lg_ceil psz;
            off_to_first_ps_rg = (if x < SC_LG_NGROUP + LG_PAGE then 0 else x - (SC_LG_NGROUP + LG_PAGE));
            lg_delta = (if off_to_first_ps_rg = 0 then LG_PAGE else LG_PAGE + (off_to_first_ps_rg - 1));
            rg_inner_off = unat (drop_bit lg_delta (psz - 1) AND of_nat (SC_NGROUP - 1));
            base_ind = push_bit SC_LG_NGROUP off_to_first_ps_rg
        in base_ind + rg_inner_off))"

definition sz_pind2sz_compute :: "nat \<Rightarrow> u64" where
  "sz_pind2sz_compute pind =
    (if pind = SC_NPSIZES then SC_LARGE_MAXCLASS + PAGE
     else
       (let grp = drop_bit SC_LG_NGROUP pind; m = pind AND (2 ^ SC_LG_NGROUP - 1);
            grp_size_mask = NOT (of_bool (grp \<noteq> 0) - 1);
            grp_size = push_bit grp (push_bit (LG_PAGE + (SC_LG_NGROUP - 1)) 1) AND grp_size_mask;
            shift = (if grp = 0 then 1 else grp); lg_delta = shift + (LG_PAGE - 1);
            mod_size = push_bit lg_delta (of_nat (m + 1))
        in grp_size + mod_size))"

definition sz_pind2sz :: "sz_tabs \<Rightarrow> nat \<Rightarrow> u64" where
  "sz_pind2sz t pind = sz_pind2sz_tab t ! pind"

definition sz_psz2u :: "u64 \<Rightarrow> u64" where
  "sz_psz2u psz =
    (if psz > SC_LARGE_MAXCLASS then SC_LARGE_MAXCLASS + PAGE
     else
       (let x = lg_floor (push_bit 1 psz - 1);
            lg_delta = (if x < SC_LG_NGROUP + LG_PAGE + 1 then LG_PAGE else x - SC_LG_NGROUP - 1);
            delta_mask = push_bit lg_delta 1 - 1
        in (psz + delta_mask) AND NOT delta_mask))"

definition sz_psz_quantize_floor :: "sz_tabs \<Rightarrow> u64 \<Rightarrow> u64" where
  "sz_psz_quantize_floor t sz =
    (let pind = sz_psz2ind (sz - sz_large_pad t + 1)
     in if pind = 0 then sz else sz_pind2sz t (pind - 1) + sz_large_pad t)"

definition sz_psz_quantize_ceil :: "sz_tabs \<Rightarrow> u64 \<Rightarrow> u64" where
  "sz_psz_quantize_ceil t sz =
    (let ret = sz_psz_quantize_floor t sz
     in if ret < sz then sz_pind2sz t (sz_psz2ind (ret - sz_large_pad t + 1)) + sz_large_pad t else ret)"

section \<open>Size classes\<close>

definition sz_size2index_compute :: "u64 \<Rightarrow> nat" where
  "sz_size2index_compute sz =
    (if sz > SC_LARGE_MAXCLASS then SC_NSIZES
     else if sz = 0 then 0
     else if sz \<le> push_bit SC_LG_TINY_MAXCLASS 1 then
       (let lg_tmin = SC_LG_TINY_MAXCLASS - SC_NTINY + 1; lg_ceil = lg_floor (pow2_ceil_u64 sz)
        in if lg_ceil < lg_tmin then 0 else lg_ceil - lg_tmin)
     else
       (let x = lg_floor (push_bit 1 sz - 1);
            shift = (if x < SC_LG_NGROUP + LG_QUANTUM then 0 else x - (SC_LG_NGROUP + LG_QUANTUM));
            grp = push_bit SC_LG_NGROUP shift;
            lg_delta = (if x < SC_LG_NGROUP + LG_QUANTUM + 1 then LG_QUANTUM else x - SC_LG_NGROUP - 1);
            delta_inverse_mask = push_bit lg_delta (- 1);
            m = unat (drop_bit lg_delta ((sz - 1) AND delta_inverse_mask) AND (push_bit SC_LG_NGROUP 1 - 1))
        in SC_NTINY + grp + m))"

definition sz_size2index_lookup :: "sz_tabs \<Rightarrow> u64 \<Rightarrow> nat" where
  "sz_size2index_lookup t sz =
    sz_size2index_tab t ! unat (drop_bit SC_LG_TINY_MIN (sz + push_bit SC_LG_TINY_MIN 1 - 1))"

definition sz_size2index :: "sz_tabs \<Rightarrow> u64 \<Rightarrow> nat" where
  "sz_size2index t sz =
    (if sz \<le> SC_LOOKUP_MAXCLASS then sz_size2index_lookup t sz else sz_size2index_compute sz)"

definition sz_index2size_compute :: "nat \<Rightarrow> u64" where
  "sz_index2size_compute index =
    (if index < SC_NTINY then push_bit (SC_LG_TINY_MAXCLASS - SC_NTINY + 1 + index) 1
     else
       (let reduced_index = index - SC_NTINY; grp = drop_bit SC_LG_NGROUP reduced_index;
            m = reduced_index AND (2 ^ SC_LG_NGROUP - 1);
            grp_size_mask = NOT (of_bool (grp \<noteq> 0) - 1);
            grp_size = push_bit grp (push_bit (LG_QUANTUM + (SC_LG_NGROUP - 1)) 1) AND grp_size_mask;
            shift = (if grp = 0 then 1 else grp); lg_delta = shift + (LG_QUANTUM - 1);
            mod_size = push_bit lg_delta (of_nat (m + 1))
        in grp_size + mod_size))"

definition sz_index2size :: "sz_tabs \<Rightarrow> nat \<Rightarrow> u64" where
  "sz_index2size t index = sz_index2size_tab t ! index"

definition sz_size2index_usize_fastpath :: "sz_tabs \<Rightarrow> u64 \<Rightarrow> nat \<times> u64" where
  "sz_size2index_usize_fastpath t sz =
    (let ind = sz_size2index_lookup t sz in (ind, sz_index2size t ind))"

definition sz_s2u_compute :: "u64 \<Rightarrow> u64" where
  "sz_s2u_compute sz =
    (if sz > SC_LARGE_MAXCLASS then 0
     else
       (let sz = (if sz = 0 then sz + 1 else sz)
        in if sz \<le> push_bit SC_LG_TINY_MAXCLASS 1 then
             (let lg_tmin = SC_LG_TINY_MAXCLASS - SC_NTINY + 1; lg_ceil = lg_floor (pow2_ceil_u64 sz)
              in if lg_ceil < lg_tmin then push_bit lg_tmin 1 else push_bit lg_ceil 1)
           else
             (let x = lg_floor (push_bit 1 sz - 1);
                  lg_delta = (if x < SC_LG_NGROUP + LG_QUANTUM + 1 then LG_QUANTUM else x - SC_LG_NGROUP - 1);
                  delta_mask = push_bit lg_delta 1 - 1
              in (sz + delta_mask) AND NOT delta_mask)))"

definition sz_s2u_lookup :: "sz_tabs \<Rightarrow> u64 \<Rightarrow> u64" where
  "sz_s2u_lookup t sz = sz_index2size t (sz_size2index_lookup t sz)"

definition sz_s2u :: "sz_tabs \<Rightarrow> u64 \<Rightarrow> u64" where
  "sz_s2u t sz = (if sz \<le> SC_LOOKUP_MAXCLASS then sz_s2u_lookup t sz else sz_s2u_compute sz)"

definition ALIGNMENT_CEILING :: "u64 \<Rightarrow> u64 \<Rightarrow> u64" where
  "ALIGNMENT_CEILING s alignment = (s + (alignment - 1)) AND (NOT alignment + 1)"

definition sz_sa2u :: "sz_tabs \<Rightarrow> u64 \<Rightarrow> u64 \<Rightarrow> u64" where
  "sz_sa2u t sz alignment =
    (let small = (if sz \<le> SC_SMALL_MAXCLASS \<and> alignment \<le> PAGE
                  then sz_s2u t (ALIGNMENT_CEILING sz alignment) else SC_LARGE_MINCLASS)
     in if small < SC_LARGE_MINCLASS then small
        else if alignment > SC_LARGE_MAXCLASS then 0
        else
          (let usize = (if sz \<le> SC_LARGE_MINCLASS then SC_LARGE_MINCLASS else sz_s2u t sz)
           in if sz > SC_LARGE_MINCLASS \<and> usize < sz then 0
              else if usize + sz_large_pad t + ((alignment + (PAGE - 1)) AND NOT (PAGE - 1)) - PAGE < usize then 0
              else usize))"

section \<open>The sizes of the classes\<close>

text \<open>The size of a class as a number: multiples of 16 up to 64, then four classes per power of two.\<close>

definition cls :: "nat \<Rightarrow> nat" where
  "cls i = (if i = 0 then 8 else if i < 5 then i * 16 else (5 + (i - 1) mod 4) * 2 ^ ((i - 1) div 4 + 3))"

lemma cls_Suc: "cls i < cls (Suc i)"
proof (cases "i < 5")
  case True
  have "list_all (\<lambda>i. cls i < cls (Suc i)) [0..<5]"
    by code_simp
  then show ?thesis
    using True by (simp add: list_all_iff)
next
  case False
  define q m where "q = (i - 1) div 4" and "m = (i - 1) mod 4"
  have i: "i - 1 = q * 4 + m" "m < 4"
    by (simp_all add: q_def m_def)
  have l: "cls i = (5 + m) * 2 ^ (q + 3)"
    using False by (simp add: cls_def q_def m_def)
  show ?thesis
  proof (cases "m = 3")
    case True
    then have "i = Suc q * 4"
      using i False by simp
    then have "cls (Suc i) = 5 * 2 ^ (Suc q + 3)"
      using False by (simp add: cls_def)
    then show ?thesis
      using l True by (simp add: power_add)
  next
    case m: False
    then have "i = Suc m + q * 4" "Suc m < 4"
      using i False by auto
    then have "cls (Suc i) = (5 + Suc m) * 2 ^ (q + 3)"
      using False by (simp add: cls_def del: mult_Suc)
    then show ?thesis
      using l by simp
  qed
qed

lemma cls_strict: "i < j \<Longrightarrow> cls i < cls j"
  using cls_Suc by (rule lift_Suc_mono_less)

lemma cls_mono: "i \<le> j \<Longrightarrow> cls i \<le> cls j"
  using cls_strict [of i j] by (cases "i = j") auto

lemma cls_max: "cls 231 = 7 * 2 ^ 60"
  by (simp add: cls_def)

lemma cls_bound: "i < 232 \<Longrightarrow> cls i < 2 ^ 64"
  using cls_mono [of i 231] by (simp add: cls_max)

lemma cls_dvd_8: "8 dvd cls i"
  by (simp add: cls_def power_add dvd_mult)

lemma and_3: "(n :: nat) AND 3 = n mod 4"
  using take_bit_eq_mask [of 2 n] by (simp add: take_bit_eq_mod mask_eq_exp_minus_1)

lemma index2size_cls: "sz_index2size_compute i = of_nat (cls i)"
proof (cases "i < 5")
  case True
  have "list_all (\<lambda>i. sz_index2size_compute i = of_nat (cls i)) [0..<5]"
    by code_simp
  then show ?thesis
    using True by (simp add: list_all_iff)
next
  case False
  define q m where "q = (i - 1) div 4" and "m = (i - 1) mod 4"
  have "q \<noteq> 0"
    using False by (simp add: q_def div_eq_0_iff)
  then have "sz_index2size_compute i = push_bit q (push_bit 5 1) + push_bit (q + 3) (of_nat (m + 1))"
    using False by (simp add: sz_index2size_compute_def sc_constants Let_def drop_bit_eq_div and_3 q_def m_def)
  also have "\<dots> = of_nat ((5 + m) * 2 ^ (q + 3))"
    by (simp add: push_bit_eq_mult power_add algebra_simps)
  finally show ?thesis
    using False by (simp add: cls_def q_def m_def)
qed

lemma class_size_cls: "class_size (class_at i) = of_nat (cls i)"
proof (cases "i < 5")
  case True
  have "list_all (\<lambda>i. class_size (class_at i) = of_nat (cls i)) [0..<5]"
    by code_simp
  then show ?thesis
    using True by (simp add: list_all_iff)
next
  case False
  then obtain k where k: "i = k + 5"
    by (metis add.commute le_Suc_ex not_less)
  define q m where "q = k div 4" and "m = k mod 4"
  have "(i - 1) div 4 = Suc q" "(i - 1) mod 4 = m"
    by (simp_all add: k q_def m_def)
  moreover have "class_size (class_at i) = push_bit (6 + q) 1 + push_bit (4 + q) (of_nat (m + 1))"
    by (simp add: class_size_def class_at_def k q_def m_def)
  ultimately show ?thesis
    by (simp add: cls_def k push_bit_eq_mult power_add algebra_simps)
qed

section \<open>The index of a size\<close>

lemma and_3_word: "unat ((w :: u64) AND 3) = unat w mod 4"
proof -
  have "w AND 3 = w mod 4"
    using take_bit_eq_mask [of 2 w] by (simp add: take_bit_eq_mod mask_eq_exp_minus_1)
  then show ?thesis
    by (simp add: unat_mod)
qed

lemma drop_masked: "drop_bit l (w AND push_bit l (- 1)) = drop_bit l (w :: u64)"
  by (rule bit_word_eqI) (auto simp: bit_simps dest: bit_imp_le_length)

lemma unat_drop: "unat (drop_bit l (w :: u64)) = unat w div 2 ^ l"
proof -
  have "unat (drop_bit l w) = drop_bit l (unat w)"
    by (rule bit_eqI) (auto simp: bit_simps dest: bit_imp_le_length)
  then show ?thesis
    by (simp only: drop_bit_eq_div)
qed

text \<open>The exponent that the code computes is the logarithm of the size, rounded up.\<close>

lemma double_pred_log:
  assumes "1 < unat sz" "unat sz < 2 ^ 63"
  obtains y where "lg_floor (push_bit 1 sz - 1) = Suc y" "2 ^ y < unat sz" "unat sz \<le> 2 ^ Suc y"
proof -
  have d: "push_bit 1 sz = 2 * sz"
    by (simp add: push_bit_eq_mult)
  have "unat (2 * sz) = 2 * unat sz"
    using assms(2) unat_mult_no_wrap [of 2 sz] by simp
  moreover have "1 \<le> 2 * sz"
    using calculation assms(1) by (simp add: word_le_nat_alt)
  ultimately have u: "unat (push_bit 1 sz - 1) = 2 * unat sz - 1"
    by (simp only: d unat_sub) simp
  then have "push_bit 1 sz - 1 \<noteq> 0"
    using assms(1) by auto
  note b = lg_floor_bounds [OF this, unfolded u]
  then obtain y where "lg_floor (push_bit 1 sz - 1) = Suc y"
    using assms(1) by (cases "lg_floor (push_bit 1 sz - 1)") auto
  then show thesis
    using b by (intro that) auto
qed

text \<open>What the code computes above the tiny classes, with the spacing \<open>2 ^ l\<close> of the group.\<close>

lemma regular_computed:
  assumes "8 < unat sz" "unat sz \<le> cls 231" "lg_floor (push_bit 1 sz - 1) = x"
    and "l = (if x < SC_LG_NGROUP + LG_QUANTUM + 1 then LG_QUANTUM else x - SC_LG_NGROUP - 1)"
  shows "sz_size2index_compute sz = 1 + 4 * (x - 6) + (unat sz - 1) div 2 ^ l mod 4"
    "sz_s2u_compute sz = (sz + (2 ^ l - 1)) AND NOT (2 ^ l - 1)"
proof -
  have "1 \<le> sz"
    using assms(1) by (simp add: word_le_nat_alt)
  then have m: "unat (drop_bit l ((sz - 1) AND push_bit l (- 1)) AND 3) = (unat sz - 1) div 2 ^ l mod 4"
    by (simp only: and_3_word drop_masked unat_drop) (simp add: unat_sub)
  have not: "\<not> sz > SC_LARGE_MAXCLASS" "sz \<noteq> 0" "\<not> sz \<le> push_bit SC_LG_TINY_MAXCLASS 1"
    using assms(1,2) by (auto simp: sc_constants cls_max word_less_nat_alt word_le_nat_alt)
  have three: "push_bit SC_LG_NGROUP 1 - 1 = (3 :: u64)"
    by simp
  have "sz_size2index_compute sz =
      SC_NTINY + push_bit SC_LG_NGROUP (if x < SC_LG_NGROUP + LG_QUANTUM then 0 else x - (SC_LG_NGROUP + LG_QUANTUM)) +
      unat (drop_bit l ((sz - 1) AND push_bit l (- 1)) AND 3)"
    unfolding sz_size2index_compute_def by (simp only: Let_def if_False not assms(3) three flip: assms(4))
  then show "sz_size2index_compute sz = 1 + 4 * (x - 6) + (unat sz - 1) div 2 ^ l mod 4"
    unfolding m by (simp add: sc_constants push_bit_eq_mult)
  have "sz_s2u_compute sz = (sz + (push_bit l 1 - 1)) AND NOT (push_bit l 1 - 1)"
    unfolding sz_s2u_compute_def by (simp only: Let_def if_False not assms(3) flip: assms(4))
  then show "sz_s2u_compute sz = (sz + (2 ^ l - 1)) AND NOT (2 ^ l - 1)"
    by simp
qed

lemma cls_group:
  assumes "m \<le> 4"
  shows "cls (4 * Suc e + m) = (4 + m) * 2 ^ (e + 4)"
proof (cases m)
  case 0
  show ?thesis
  proof (cases e)
    case (Suc f)
    have "4 * Suc e - 1 = 3 + Suc f * 4"
      by (simp add: Suc)
    then have "(4 * Suc e - 1) div 4 = Suc f" "(4 * Suc e - 1) mod 4 = 3"
      by (simp_all only: div_mult_self1 mod_mult_self1) simp_all
    then show ?thesis
      using 0 Suc by (simp add: cls_def power_add)
  qed (use 0 in \<open>simp add: cls_def\<close>)
next
  case (Suc k)
  have "4 * Suc e + m - 1 = k + Suc e * 4" "k < 4"
    using Suc assms by simp_all
  then have "(4 * Suc e + m - 1) div 4 = Suc e" "(4 * Suc e + m - 1) mod 4 = k"
    by (simp_all only: div_mult_self1 mod_mult_self1) simp_all
  then show ?thesis
    using Suc by (simp add: cls_def power_add)
qed

lemma index_regular:
  assumes "8 < unat sz" "unat sz \<le> cls 231"
  obtains l where "l < 62" "cls (sz_size2index_compute sz) = ((unat sz - 1) div 2 ^ l + 1) * 2 ^ l"
    "sz_size2index_compute sz \<noteq> 0" "cls (sz_size2index_compute sz - 1) < unat sz"
    "sz_s2u_compute sz = (sz + (2 ^ l - 1)) AND NOT (2 ^ l - 1)"
proof -
  let ?n = "unat sz"
  have "?n < 2 ^ 63"
    using assms(2) by (simp add: cls_max)
  then obtain y where y: "lg_floor (push_bit 1 sz - 1) = Suc y" "2 ^ y < ?n" "?n \<le> 2 ^ Suc y"
    using double_pred_log [of sz] assms(1) by auto
  define l where "l = (if Suc y < SC_LG_NGROUP + LG_QUANTUM + 1 then LG_QUANTUM else Suc y - SC_LG_NGROUP - 1)"
  define q where "q = (?n - 1) div 2 ^ l"
  note c = regular_computed [OF assms y(1) l_def, folded q_def]
  have "(2 :: nat) ^ y < 2 ^ 63"
    using y(2) \<open>?n < 2 ^ 63\<close> by linarith
  then have "y < 63"
    by (simp only: power_strict_increasing_iff one_less_numeral_iff semiring_norm)
  then have "l < 62"
    by (auto simp: l_def)
  have q: "q * 2 ^ l \<le> ?n - 1"
    by (simp add: q_def)
  have "cls (sz_size2index_compute sz) = (q + 1) * 2 ^ l \<and> cls (sz_size2index_compute sz - 1) < ?n"
  proof (cases "y < 6")
    case True
    then have "?n \<le> 2 ^ 6"
      using y(3) power_increasing [of "Suc y" 6 "2 :: nat"] by linarith
    then have "q < 4" "l = 4"
      using True by (auto simp: q_def l_def)
    then have i: "sz_size2index_compute sz = Suc q"
      using c(1) True by simp
    have "cls q < ?n"
    proof (cases "q = 0")
      case False
      then show ?thesis
        using q \<open>q < 4\<close> \<open>l = 4\<close> assms(1) by (simp add: cls_def)
    qed (use assms(1) in \<open>simp add: cls_def\<close>)
    then show ?thesis
      using i \<open>q < 4\<close> \<open>l = 4\<close> by (simp add: cls_def)
  next
    case False
    then obtain e where y6: "y = 6 + e"
      using le_Suc_ex not_less by blast
    then have e: "l = e + 4" "Suc y - 6 = Suc e"
      by (simp_all add: l_def)
    have "?n - 1 < 8 * 2 ^ l" "4 * 2 ^ l \<le> ?n - 1"
      using y(2,3) unfolding y6 e(1) by (simp_all add: power_add)
    then have q8: "q < 8" "4 \<le> q"
      unfolding q_def by (simp_all add: less_mult_imp_div_less less_eq_div_iff_mult_less_eq)
    then have "q mod 4 = q - 4"
      by (simp add: le_mod_geq)
    then have i: "sz_size2index_compute sz = Suc (4 * Suc e + (q - 4))"
      using c(1) unfolding e(2) by simp
    have "cls (4 * Suc e + (q - 4)) = q * 2 ^ l"
      using cls_group [of "q - 4" e] q8 e(1) by simp
    moreover have "cls (Suc (4 * Suc e + (q - 4))) = (q + 1) * 2 ^ l"
      using cls_group [of "Suc (q - 4)" e] q8 e(1) by (simp add: Suc_diff_le)
    moreover have "q * 2 ^ l < ?n"
      using q assms(1) by simp
    ultimately show ?thesis
      unfolding i diff_Suc_1 by simp
  qed
  then show thesis
    using that \<open>l < 62\<close> c by (simp add: q_def)
qed

lemma of_unat_eq: "unat (w :: u64) = n \<Longrightarrow> w = of_nat n"
  by auto

text \<open>Rounding up to a multiple of a power of two by masking.\<close>

lemma round_up_mask:
  assumes "l < 62" "0 < unat sz" "unat sz \<le> 7 * 2 ^ 60"
  shows "(sz + (2 ^ l - 1)) AND NOT (2 ^ l - 1) = (of_nat (((unat sz - 1) div 2 ^ l + 1) * 2 ^ l) :: u64)"
    "unat sz \<le> ((unat sz - 1) div 2 ^ l + 1) * 2 ^ l"
proof -
  obtain n where n: "unat sz = Suc n"
    using assms(2) not0_implies_Suc by auto
  have p: "(2 :: nat) ^ l < 2 ^ 62"
    using assms(1) by (simp only: power_strict_increasing_iff one_less_numeral_iff semiring_norm)
  have "unat (2 ^ l - 1 :: u64) = 2 ^ l - 1"
    using assms(1) unat_pow2 [of l, where 'a = 64] by (simp add: unat_sub word_le_nat_alt)
  then have "unat (sz + (2 ^ l - 1)) = n + 2 ^ l"
    using assms(3) p n by (simp add: unat_add_no_wrap)
  then have "unat ((sz + (2 ^ l - 1)) AND NOT (2 ^ l - 1)) = (n div 2 ^ l + 1) * 2 ^ l"
    using assms(1) div_add_self2 [of "2 ^ l" n]
    by (simp only: and_not_pow2_minus_one minus_mod_eq_div_mult) simp
  then show "(sz + (2 ^ l - 1)) AND NOT (2 ^ l - 1) = (of_nat (((unat sz - 1) div 2 ^ l + 1) * 2 ^ l) :: u64)"
    unfolding n diff_Suc_1 by (rule of_unat_eq)
  show "unat sz \<le> ((unat sz - 1) div 2 ^ l + 1) * 2 ^ l"
    using dividend_less_div_times [of "2 ^ l" n] n by (simp add: Suc_le_eq)
qed

lemma list_all_upt: "list_all P [0..<m] \<Longrightarrow> n < m \<Longrightarrow> P n"
  by (simp add: list_all_iff)

lemma tiny_sizes:
  assumes "unat sz \<le> 8"
  shows "sz_size2index_compute sz = 0" "sz_s2u_compute sz = 8"
proof -
  have "list_all (\<lambda>n. sz_size2index_compute (of_nat n) = 0 \<and> sz_s2u_compute (of_nat n) = 8) [0..<9]"
    by code_simp
  then have "sz_size2index_compute (of_nat (unat sz)) = 0 \<and> sz_s2u_compute (of_nat (unat sz)) = 8"
    by (rule list_all_upt) (use assms in simp)
  then show "sz_size2index_compute sz = 0" "sz_s2u_compute sz = 8"
    by simp_all
qed

text \<open>The index is that of the smallest class which is large enough.\<close>

lemma size2index_spec:
  assumes "unat sz \<le> cls 231"
  shows "unat sz \<le> cls (sz_size2index_compute sz)" "unat sz \<le> cls j \<Longrightarrow> sz_size2index_compute sz \<le> j"
    "sz_s2u_compute sz = of_nat (cls (sz_size2index_compute sz))" "sz_size2index_compute sz < 232"
proof -
  have *: "unat sz \<le> cls (sz_size2index_compute sz) \<and> (unat sz \<le> cls j \<longrightarrow> sz_size2index_compute sz \<le> j) \<and>
      sz_s2u_compute sz = of_nat (cls (sz_size2index_compute sz))" for j
  proof (cases "unat sz \<le> 8")
    case True
    then show ?thesis
      by (simp add: tiny_sizes cls_def)
  next
    case False
    then obtain l where l: "l < 62" "cls (sz_size2index_compute sz) = ((unat sz - 1) div 2 ^ l + 1) * 2 ^ l"
      "sz_size2index_compute sz \<noteq> 0" "cls (sz_size2index_compute sz - 1) < unat sz"
      "sz_s2u_compute sz = (sz + (2 ^ l - 1)) AND NOT (2 ^ l - 1)"
      using index_regular [OF _ assms] by auto
    have "sz_size2index_compute sz \<le> j" if "unat sz \<le> cls j"
      using l(3,4) that cls_mono [of j "sz_size2index_compute sz - 1"] by linarith
    moreover have "unat sz \<le> cls (sz_size2index_compute sz)" "sz_s2u_compute sz = of_nat (cls (sz_size2index_compute sz))"
      unfolding l(2,5) using round_up_mask [OF l(1), of sz] False assms unfolding cls_max by auto
    ultimately show ?thesis
      by blast
  qed
  from * show "unat sz \<le> cls (sz_size2index_compute sz)" "unat sz \<le> cls j \<Longrightarrow> sz_size2index_compute sz \<le> j"
    "sz_s2u_compute sz = of_nat (cls (sz_size2index_compute sz))"
    by blast+
  show "sz_size2index_compute sz < 232"
    using * [of 231] assms by simp
qed

lemma size2index_unique:
  assumes "unat sz \<le> cls 231" "unat sz \<le> cls j" "j = 0 \<or> cls (j - 1) < unat sz"
  shows "sz_size2index_compute sz = j"
proof (rule antisym)
  show "sz_size2index_compute sz \<le> j"
    by (rule size2index_spec(2) [OF assms(1,2)])
  show "j \<le> sz_size2index_compute sz"
  proof (rule ccontr)
    assume "\<not> j \<le> sz_size2index_compute sz"
    then have "sz_size2index_compute sz \<le> j - 1" "j \<noteq> 0"
      by auto
    then show False
      using assms(3) size2index_spec(1) [OF assms(1)] cls_mono by (meson leD le_trans)
  qed
qed

section \<open>The tables\<close>

lemma index2size_tab:
  "i < SC_NSIZES \<Longrightarrow> sz_index2size_tab (sz_boot sc_data b) ! i = of_nat (cls i)"
  by (simp add: sz_boot_def sz_boot_index2size_tab_def sc_data_def class_size_cls del: upt_conv_Cons)

lemma index2size_eq:
  "i < SC_NSIZES \<Longrightarrow> sz_index2size (sz_boot sc_data b) i = sz_index2size_compute i"
  "i < SC_NSIZES \<Longrightarrow> unat (sz_index2size (sz_boot sc_data b) i) = cls i"
  using cls_bound [of i]
  by (simp_all add: sz_index2size_def index2size_tab index2size_cls
      unat_of_nat_no_wrap sc_constants)

text \<open>The table for small sizes while it is being filled, after \<open>k\<close> classes.\<close>

definition tab_ok :: "nat \<Rightarrow> nat list \<Rightarrow> bool" where
  "tab_ok k tab \<longleftrightarrow>
    length tab = (if k = 0 then 0 else min (Suc (cls (k - 1) div 8)) 513) \<and>
    (\<forall>d<length tab. d \<le> cls (tab ! d) div 8 \<and> (tab ! d = 0 \<or> cls (tab ! d - 1) div 8 < d))"

definition fill_class :: "nat \<Rightarrow> nat list \<Rightarrow> nat list" where
  "fill_class k tab = tab @ replicate (min (Suc (cls k div 8)) 513 - length tab) k"

lemma tab_ok_step:
  assumes "tab_ok k tab"
  shows "tab_ok (Suc k) (fill_class k tab)"
proof -
  let ?m = "min (Suc (cls k div 8)) 513"
  have "length tab \<le> ?m"
    using assms cls_mono [of "k - 1" k] by (auto simp: tab_ok_def div_le_mono split: if_splits)
  then have len: "length (fill_class k tab) = ?m"
    by (simp add: fill_class_def)
  have "d \<le> cls (fill_class k tab ! d) div 8 \<and> (fill_class k tab ! d = 0 \<or> cls (fill_class k tab ! d - 1) div 8 < d)"
    if d: "d < ?m" for d
  proof (cases "d < length tab")
    case True
    then show ?thesis
      using assms by (simp add: tab_ok_def fill_class_def nth_append)
  next
    case False
    then have "fill_class k tab ! d = k"
      using d by (auto simp: fill_class_def nth_append)
    moreover have "k = 0 \<or> cls (k - 1) div 8 < d"
      using False d assms by (cases "k = 0") (auto simp: tab_ok_def min_def split: if_splits)
    ultimately show ?thesis
      using d by simp
  qed
  then show ?thesis
    unfolding tab_ok_def len by simp
qed

lemma size2index_tab_ok: "tab_ok 232 (sz_size2index_tab (sz_boot sc_data b))"
proof -
  have step: "unat (drop_bit SC_LG_TINY_MIN (class_size (sc_array sc_data ! i) + push_bit SC_LG_TINY_MIN 1 - 1)) = cls i div 8"
    if "i < 232" for i
  proof -
    have c: "class_size (sc_array sc_data ! i) = of_nat (cls i)"
      using that by (simp add: sc_data_def sc_constants class_size_cls del: upt_conv_Cons)
    have "of_nat (cls i) + push_bit SC_LG_TINY_MIN 1 - 1 = (of_nat (cls i + 7) :: u64)"
      by simp
    moreover have "cls i + 7 < 2 ^ LENGTH(64)"
      using cls_mono [of i 231] that by (simp add: cls_max)
    ultimately have "unat (of_nat (cls i) + push_bit SC_LG_TINY_MIN 1 - 1 :: u64) = cls i + 7"
      by (simp only: unat_of_nat_no_wrap)
    moreover have "(cls i + 7) div 8 = cls i div 8"
      using cls_dvd_8 [of i] by (auto elim!: dvdE)
    ultimately show ?thesis
      unfolding c unat_drop by simp
  qed
  have "sz_size2index_tab (sz_boot sc_data b) = fold fill_class [0..<232] []"
    unfolding sz_boot_def sz_boot_size2index_tab_def sc_constants sz_tabs.simps Let_def
    using step by (intro fold_cong) (auto simp: fill_class_def fun_eq_iff)
  moreover have "tab_ok n (fold fill_class [0..<n] [])" for n
    by (induction n) (simp_all add: tab_ok_def [of 0] tab_ok_step)
  ultimately show ?thesis
    by (simp only:)
qed

lemma size2index_eq:
  assumes "sz \<le> SC_LARGE_MAXCLASS"
  shows "sz_size2index (sz_boot sc_data b) sz = sz_size2index_compute sz"
proof (cases "sz \<le> SC_LOOKUP_MAXCLASS")
  case True
  then have n: "unat sz \<le> 4096"
    by (simp add: sc_constants word_le_nat_alt)
  have seven: "sz + push_bit SC_LG_TINY_MIN 1 - 1 = sz + 7"
    by simp
  let ?tab = "sz_size2index_tab (sz_boot sc_data b)" and ?d = "(unat sz + 7) div 8"
  have "unat (sz + push_bit SC_LG_TINY_MIN 1 - 1) = unat sz + 7"
    unfolding seven using n unat_add_no_wrap [of sz 7] by simp
  then have l: "sz_size2index (sz_boot sc_data b) sz = ?tab ! ?d"
    using True by (simp add: sz_size2index_def sz_size2index_lookup_def unat_drop)
  have "cls 28 = 4096" "cls 28 \<le> cls 231"
    by (simp add: cls_def) (rule cls_mono, simp)
  then have "?d < length ?tab" "unat sz \<le> cls 231"
    using size2index_tab_ok [of b] n by (auto simp: tab_ok_def)
  then have e: "?d \<le> cls (?tab ! ?d) div 8" "?tab ! ?d = 0 \<or> cls (?tab ! ?d - 1) div 8 < ?d"
    using size2index_tab_ok [of b] by (auto simp: tab_ok_def)
  show ?thesis
    unfolding l
  proof (rule size2index_unique [OF \<open>unat sz \<le> cls 231\<close>, symmetric])
    show "unat sz \<le> cls (?tab ! ?d)"
      using e(1) by linarith
    show "?tab ! ?d = 0 \<or> cls (?tab ! ?d - 1) < unat sz"
      using e(2) cls_dvd_8 [of "?tab ! ?d - 1"] by (auto elim!: dvdE)
  qed
qed (simp add: sz_size2index_def)

lemma s2u_eq:
  assumes "sz \<le> SC_LARGE_MAXCLASS"
  shows "sz_s2u (sz_boot sc_data b) sz = sz_s2u_compute sz" "unat (sz_s2u_compute sz) = cls (sz_size2index_compute sz)"
proof -
  have n: "unat sz \<le> cls 231"
    using assms by (simp add: sc_constants cls_max word_le_nat_alt)
  note spec = size2index_spec [OF n]
  show "unat (sz_s2u_compute sz) = cls (sz_size2index_compute sz)"
    using spec(3,4) cls_bound by (simp add: unat_of_nat_no_wrap)
  show "sz_s2u (sz_boot sc_data b) sz = sz_s2u_compute sz"
  proof (cases "sz \<le> SC_LOOKUP_MAXCLASS")
    case True
    then have "sz_s2u (sz_boot sc_data b) sz = sz_index2size (sz_boot sc_data b) (sz_size2index (sz_boot sc_data b) sz)"
      by (simp add: sz_s2u_def sz_s2u_lookup_def sz_index2size_def sz_size2index_def)
    also have "\<dots> = sz_index2size_compute (sz_size2index_compute sz)"
      using spec(4) by (simp add: size2index_eq [OF assms] index2size_eq sc_constants)
    finally show ?thesis
      by (simp add: index2size_cls spec(3))
  qed (simp add: sz_s2u_def)
qed

section \<open>Aligned sizes\<close>

lemma class_of_multiple:
  assumes "0 < n" "n \<le> cls 231" "2 ^ k dvd n" "sz = of_nat n"
  shows "2 ^ k dvd cls (sz_size2index_compute sz)"
proof -
  have "n < 2 ^ 64"
    using assms(2) by (simp add: cls_max)
  then have n: "unat sz = n"
    using assms(4) by (simp add: unat_of_nat)
  show ?thesis
  proof (cases "n \<le> 8")
    case True
    have "(2 :: nat) ^ k \<le> 2 ^ 3"
      using dvd_imp_le [OF assms(3,1)] True by simp
    then have "(2 :: nat) ^ k dvd 2 ^ 3"
      by (simp only: power_increasing_iff one_less_numeral_iff semiring_norm le_imp_power_dvd)
    then show ?thesis
      using True n by (simp add: tiny_sizes cls_def)
  next
    case False
    then obtain l where l: "cls (sz_size2index_compute sz) = ((n - 1) div 2 ^ l + 1) * 2 ^ l"
      using index_regular [of sz] assms(2) n by (metis not_le)
    show ?thesis
    proof (cases "k \<le> l")
      case True
      then show ?thesis
        unfolding l by (simp add: le_imp_power_dvd)
    next
      case False
      then have "2 ^ l dvd n"
        using assms(3) le_imp_power_dvd [of l k "2 :: nat"] dvd_trans by auto
      then obtain c where c: "n = 2 ^ l * c" ..
      then have "0 < c"
        using assms(1) by (cases c) auto
      then have "(n - 1) div 2 ^ l = c - 1"
        unfolding c by (intro div_nat_eqI) (auto simp: algebra_simps intro!: diff_le_mono2)
      then show ?thesis
        using assms(3) \<open>0 < c\<close> unfolding l c by (simp add: mult.commute)
    qed
  qed
qed

lemma small_aligned:
  assumes "sz \<noteq> 0" "sz \<le> SC_SMALL_MAXCLASS" "k \<le> 12" "u = sz_s2u (sz_boot sc_data b) (ALIGNMENT_CEILING sz (2 ^ k))"
  obtains i where "i < 232" "u = of_nat (cls i)" "unat sz \<le> cls i" "2 ^ k dvd cls i"
proof -
  define n where "n = ((unat sz - 1) div 2 ^ k + 1) * 2 ^ k"
  have z: "0 < unat sz" "unat sz \<le> 14336"
    using assms(1,2) by (simp_all add: sc_constants word_le_nat_alt unat_gt_0)
  have c: "ALIGNMENT_CEILING sz (2 ^ k) = of_nat n" "unat sz \<le> n"
    using round_up_mask [of k sz] z assms(3) by (simp_all add: n_def ALIGNMENT_CEILING_def not_eq_complement)
  have "(2 :: nat) ^ k \<le> 4096"
    using power_increasing [OF assms(3), of "2 :: nat"] by simp
  moreover have "(unat sz - 1) div 2 ^ k * 2 ^ k \<le> unat sz - 1"
    by simp
  ultimately have n: "n \<le> 20000"
    unfolding n_def distrib_right mult_1 using z(2) by linarith
  then have m: "ALIGNMENT_CEILING sz (2 ^ k) \<le> SC_LARGE_MAXCLASS" "unat (of_nat n :: u64) = n" "n \<le> cls 231"
    by (simp_all add: c sc_constants word_le_nat_alt unat_of_nat cls_max)
  let ?i = "sz_size2index_compute (of_nat n)"
  note spec = size2index_spec [of "of_nat n", unfolded m(2), OF m(3)]
  show thesis
  proof
    show "?i < 232" "unat sz \<le> cls ?i"
      using spec(1,4) c(2) by linarith+
    show "u = of_nat (cls ?i)"
      using s2u_eq(1) [OF m(1), of b] spec(3) by (simp add: assms(4) c(1))
    show "2 ^ k dvd cls ?i"
      using z c(2) m(3) by (intro class_of_multiple [of n]) (auto simp: n_def)
  qed
qed

lemma large_usize:
  assumes "sz \<le> SC_LARGE_MAXCLASS" "u = (if sz \<le> SC_LARGE_MINCLASS then SC_LARGE_MINCLASS else sz_s2u (sz_boot sc_data b) sz)"
  obtains i where "i < 232" "u = of_nat (cls i)" "unat sz \<le> cls i" "16384 \<le> cls i"
proof (cases "sz \<le> SC_LARGE_MINCLASS")
  case True
  then show thesis
    using assms(2) that [of 36] by (simp add: sc_constants cls_def word_le_nat_alt)
next
  case False
  have n: "unat sz \<le> cls 231"
    using assms(1) by (simp add: sc_constants cls_max word_le_nat_alt)
  show thesis
    using that [of "sz_size2index_compute sz"] size2index_spec [OF n] False assms(2)
    by (simp add: s2u_eq [OF assms(1)] sc_constants word_le_nat_alt)
qed

lemma padded_no_overflow:
  assumes "unat u \<le> 7 * 2 ^ 60" "k \<le> 62" "pad = 0 \<or> pad = PAGE"
  shows "\<not> u + pad + ((2 ^ k + (PAGE - 1)) AND NOT (PAGE - 1)) - PAGE < u"
proof -
  have k: "(2 :: nat) ^ k \<le> 2 ^ 62"
    using assms(2) by (intro power_increasing) auto
  define c where "c = ((2 ^ k - 1) div 2 ^ 12 + 1 :: nat) * 2 ^ 12"
  have c: "4096 \<le> c" "c \<le> 2 ^ 62 + 4096"
    using k div_times_less_eq_dividend [of "2 ^ k - 1 :: nat" "2 ^ 12"] by (auto simp: c_def)
  have "unat ((2 :: u64) ^ k) = 2 ^ k"
    using assms(2) unat_pow2 [of k, where 'a = 64] by simp
  then have "(2 ^ k + (2 ^ 12 - 1)) AND NOT (2 ^ 12 - 1) = (of_nat c :: u64)"
    using round_up_mask(1) [of 12 "2 ^ k"] k by (simp add: c_def)
  moreover obtain d where "c = 4096 + d"
    using c(1) le_Suc_ex by blast
  moreover have "unat (u + pad + of_nat d) = unat u + unat pad + d"
    using assms(1,3) c(2) \<open>c = 4096 + d\<close> by (auto simp: unat_word_ariths unat_of_nat)
  ultimately show ?thesis
    by (simp add: word_less_nat_alt add.assoc)
qed
lemma pow2_le_word:
  assumes "i < 64" "j < 64"
  shows "(2 :: u64) ^ i \<le> 2 ^ j \<longleftrightarrow> i \<le> j"
  using assms unat_pow2 [of i, where 'a = 64] unat_pow2 [of j, where 'a = 64]
  by (simp only: word_le_nat_alt power_increasing_iff one_less_numeral_iff semiring_norm) simp

lemma class_result:
  assumes "i < 232" "unat sz \<le> cls i" "2 ^ k dvd cls i \<or> 16384 \<le> cls i" "sz \<noteq> 0" "k < 64"
    "u = of_nat (cls i)"
  shows "u \<noteq> 0 \<and> (\<exists>i<SC_NSIZES. u = sz_index2size (sz_boot sc_data b) i) \<and> sz \<le> u \<and>
    (u \<le> SC_SMALL_MAXCLASS \<longrightarrow> unat ((2 :: u64) ^ k) dvd unat u)"
proof -
  have u: "unat u = cls i"
    using cls_bound [OF assms(1)] assms(6) by (simp add: unat_of_nat)
  moreover have "u = sz_index2size (sz_boot sc_data b) i"
    using assms(1,6) by (simp add: index2size_eq index2size_cls sc_constants)
  moreover have "unat ((2 :: u64) ^ k) = 2 ^ k"
    using assms(5) unat_pow2 [of k, where 'a = 64] by simp
  moreover have "u \<noteq> 0"
    using u assms(2,4) by (auto simp: unat_eq_zero)
  ultimately show ?thesis
    using assms(1,2,3) by (auto simp: sc_constants word_le_nat_alt intro!: exI [of _ i])
qed

text \<open>The end of \<^verbatim>\<open>sz_sa2u\<close>, for sizes that no class of slabs serves.\<close>

definition sa2u_large :: "sz_tabs \<Rightarrow> u64 \<Rightarrow> u64 \<Rightarrow> u64" where
  "sa2u_large t sz alignment =
    (if alignment > SC_LARGE_MAXCLASS then 0
     else
       (let usize = (if sz \<le> SC_LARGE_MINCLASS then SC_LARGE_MINCLASS else sz_s2u t sz)
        in if sz > SC_LARGE_MINCLASS \<and> usize < sz then 0
           else if usize + sz_large_pad t + ((alignment + (PAGE - 1)) AND NOT (PAGE - 1)) - PAGE < usize then 0
           else usize))"

lemma sa2u_large_spec:
  assumes "sz \<noteq> 0" "k < 64"
  shows "if sz > SC_LARGE_MAXCLASS \<or> 2 ^ k > SC_LARGE_MAXCLASS then sa2u_large (sz_boot sc_data b) sz (2 ^ k) = 0
    else sa2u_large (sz_boot sc_data b) sz (2 ^ k) \<noteq> 0 \<and>
      (\<exists>i<SC_NSIZES. sa2u_large (sz_boot sc_data b) sz (2 ^ k) = sz_index2size (sz_boot sc_data b) i) \<and>
      sz \<le> sa2u_large (sz_boot sc_data b) sz (2 ^ k) \<and>
      (sa2u_large (sz_boot sc_data b) sz (2 ^ k) \<le> SC_SMALL_MAXCLASS \<longrightarrow>
        unat ((2 :: u64) ^ k) dvd unat (sa2u_large (sz_boot sc_data b) sz (2 ^ k)))"
proof (cases "sz > SC_LARGE_MAXCLASS \<or> 2 ^ k > SC_LARGE_MAXCLASS")
  case True
  have "sz_s2u (sz_boot sc_data b) sz = 0 \<and> sz > SC_LARGE_MINCLASS" if "sz > SC_LARGE_MAXCLASS"
    using that by (auto simp: sz_s2u_def sz_s2u_compute_def sc_constants word_less_nat_alt word_le_nat_alt)
  then show ?thesis
    using True assms(1) by (auto simp: sa2u_large_def Let_def word_gt_0)
next
  case False
  define usize where "usize = (if sz \<le> SC_LARGE_MINCLASS then SC_LARGE_MINCLASS else sz_s2u (sz_boot sc_data b) sz)"
  obtain i where i: "i < 232" "usize = of_nat (cls i)" "unat sz \<le> cls i" "16384 \<le> cls i"
    by (rule large_usize [OF _ usize_def]) (use False in auto)
  have c: "unat usize = cls i"
    using cls_bound [OF i(1)] i(2) by (simp add: unat_of_nat)
  have "k \<noteq> 63"
    using False by (auto simp: sc_constants)
  then have "k \<le> 62"
    using assms(2) by simp
  moreover have "cls i \<le> 7 * 2 ^ 60"
    using cls_mono [of i 231] i(1) cls_max by simp
  ultimately have "\<not> usize + sz_large_pad (sz_boot sc_data b) + ((2 ^ k + (PAGE - 1)) AND NOT (PAGE - 1)) - PAGE < usize"
    using c by (intro padded_no_overflow) (auto simp: sz_boot_def)
  moreover have "\<not> usize < sz"
    using c i(3) by (simp add: word_less_nat_alt)
  ultimately have "sa2u_large (sz_boot sc_data b) sz (2 ^ k) = usize"
    using False by (simp add: sa2u_large_def Let_def flip: usize_def)
  then show ?thesis
    using class_result [OF i(1,3) _ assms i(2)] i(4) False by auto
qed

section \<open>Properties\<close>

text \<open>
  C14. Every request is served by the smallest size class that is large enough. For the tables that the allocator fills
  when it starts, and every size up to the largest class: the index that \<^verbatim>\<open>sz_size2index\<close> returns, by lookup for small
  sizes and by computation for others, is that of a class, the class is at least as large as the size, every class
  before it is too small, \<^verbatim>\<open>sz_s2u\<close> returns its size, and the tables and the functions that compute agree, which is what the
  assertions in the code compare.
\<close>

theorem smallest_class_serves:
  assumes "sc_data_init = Some data" "t = sz_boot data cache_oblivious" "sz \<le> SC_LARGE_MAXCLASS"
  shows "sz_size2index t sz < SC_NSIZES \<and> sz \<le> sz_index2size t (sz_size2index t sz) \<and>
    (\<forall>j < sz_size2index t sz. sz_index2size t j < sz) \<and> sz_s2u t sz = sz_index2size t (sz_size2index t sz) \<and>
    sz_size2index t sz = sz_size2index_compute sz \<and> sz_s2u t sz = sz_s2u_compute sz \<and>
    sz_index2size t (sz_size2index t sz) = sz_index2size_compute (sz_size2index t sz)"
proof -
  have t: "t = sz_boot sc_data cache_oblivious"
    using assms(1,2) by (simp add: sc_data_init_eq)
  have n: "unat sz \<le> cls 231"
    using assms(3) by (simp add: sc_constants cls_max word_le_nat_alt)
  note spec = size2index_spec [OF n] and eq = size2index_eq [OF assms(3)] and u = s2u_eq [OF assms(3)]
  have i: "sz_size2index_compute sz < SC_NSIZES"
    using spec(4) by (simp add: sc_constants)
  have "sz_index2size t j < sz" if "j < sz_size2index_compute sz" for j
  proof -
    have "\<not> unat sz \<le> cls j"
      using spec(2) [of j] that by linarith
    then show ?thesis
      using that i cls_bound [of j] by (simp add: t word_less_nat_alt index2size_eq index2size_cls sc_constants unat_of_nat)
  qed
  then show ?thesis
    using spec i cls_bound [OF spec(4)]
    by (simp add: t eq u index2size_eq word_le_nat_alt index2size_cls unat_of_nat)
qed

theorem smallest_class_serves_witness:
  "sz_size2index (sz_boot sc_data False) 100 < SC_NSIZES \<and>
    100 \<le> sz_index2size (sz_boot sc_data False) (sz_size2index (sz_boot sc_data False) 100) \<and>
    sz_s2u (sz_boot sc_data False) 100 = 112"
proof -
  have "sz_s2u_compute 100 = 112"
    by code_simp
  then show ?thesis
    using smallest_class_serves [OF sc_data_init_eq refl, of 100 False] by (auto simp: sc_constants)
qed

text \<open>
  C15. Aligned requests get a class that fits. \<^verbatim>\<open>sz_sa2u\<close>, for a size that is not zero and an alignment that is a power of
  two, returns 0 exactly when the size or the alignment exceeds the largest class, whether or not large
  allocations are padded; otherwise it returns the size of a class that is not smaller than
  the request, and if this is a class of slabs it is a multiple of the alignment, so that every region of a
  slab, which starts at a page, is aligned.
\<close>

theorem aligned_request_fits:
  assumes "sc_data_init = Some data" "t = sz_boot data cache_oblivious" "sz \<noteq> 0" "k < 64" "alignment = 2 ^ k"
  shows "(sz_sa2u t sz alignment = 0 \<longleftrightarrow> sz > SC_LARGE_MAXCLASS \<or> alignment > SC_LARGE_MAXCLASS) \<and>
    (sz_sa2u t sz alignment \<noteq> 0 \<longrightarrow>
      (\<exists>i<SC_NSIZES. sz_sa2u t sz alignment = sz_index2size t i) \<and> sz \<le> sz_sa2u t sz alignment \<and>
      (sz_sa2u t sz alignment \<le> SC_SMALL_MAXCLASS \<longrightarrow> unat alignment dvd unat (sz_sa2u t sz alignment)))"
proof -
  have t: "t = sz_boot sc_data cache_oblivious"
    using assms(1,2) by (simp add: sc_data_init_eq)
  show ?thesis
  proof (cases "sz \<le> SC_SMALL_MAXCLASS \<and> alignment \<le> PAGE \<and> sz_s2u t (ALIGNMENT_CEILING sz alignment) < SC_LARGE_MINCLASS")
    case True
    then have "k \<le> 12"
      using assms(4,5) pow2_le_word [of k 12] by simp
    then obtain i where i: "i < 232" "sz_s2u t (ALIGNMENT_CEILING sz alignment) = of_nat (cls i)" "unat sz \<le> cls i" "2 ^ k dvd cls i"
      using small_aligned [OF assms(3)] True unfolding t assms(5) by blast
    have u: "sz_sa2u t sz alignment = of_nat (cls i)"
      using True i(2) by (simp add: sz_sa2u_def)
    have "sz \<le> SC_LARGE_MAXCLASS" "alignment \<le> SC_LARGE_MAXCLASS"
      using True by (auto simp: sc_constants intro: order_trans)
    then show ?thesis
      using class_result [OF i(1,3) _ assms(3,4) u] i(4) unfolding t assms(5) by auto
  next
    case False
    then have u: "sz_sa2u t sz alignment = sa2u_large t sz alignment"
      by (auto simp: sz_sa2u_def sa2u_large_def Let_def)
    show ?thesis
      using sa2u_large_spec [OF assms(3,4), of cache_oblivious] unfolding u unfolding t assms(5) by argo
  qed
qed

theorem aligned_request_fits_witness:
  "sz_sa2u (sz_boot sc_data False) 100 64 = 128 \<and> 100 \<le> sz_sa2u (sz_boot sc_data False) 100 64 \<and>
    64 dvd unat (sz_sa2u (sz_boot sc_data False) 100 64)"
proof -
  have "sz_s2u_compute 128 = 128" "ALIGNMENT_CEILING 100 64 = 128"
    by code_simp+
  then have v: "sz_sa2u (sz_boot sc_data False) 100 64 = 128"
    using s2u_eq(1) [of 128 False] by (simp add: sz_sa2u_def sc_constants)
  show ?thesis
    using aligned_request_fits [OF sc_data_init_eq refl, of 100 6 64 False] by (simp add: v sc_constants)
qed

end
