(* ===== verification/Pairing_Heap.thy ===== *)
theory Pairing_Heap
  imports Bit_Util "HOL-Library.Multiset"
begin

text \<open>
  The pairing heap of jemalloc (\<^verbatim>\<open>jemalloc/include/jemalloc/internal/ph.h\<close>), which holds the slabs of a bin that have free
  regions, and the unused extents of the page allocator.

  A node with its left child and the siblings of the child is a tree; the links \<^verbatim>\<open>prev\<close> follow from the structure. The
  list behind the root, linked through \<^verbatim>\<open>next\<close>, is the auxiliary list of trees that are not merged yet. The comparison
  function is a parameter, as in the code.

  The lemmas show that every operation keeps the contents, for any comparison function. The order is a contract:
  the operations return a least element as long as no root without children is removed while the auxiliary
  list is not empty. The last property shows that the condition is needed.
\<close>

section \<open>Operations\<close>

datatype 'a phn = Phn (phn_elem: 'a) (phn_children: "'a phn list")

record 'a ph =
  ph_root :: "'a phn option"
  ph_aux :: "'a phn list"
  auxcount :: u64

text \<open>Merging of two nodes; the callers do not pass the null pointer.\<close>

fun phn_merge :: "('a \<Rightarrow> 'a \<Rightarrow> int) \<Rightarrow> 'a phn \<Rightarrow> 'a phn \<Rightarrow> 'a phn" where
  "phn_merge cmp (Phn a cs) (Phn b ds) =
    (if cmp a b < 0 then Phn a (Phn b ds # cs) else Phn b (Phn a cs # ds))"

text \<open>The first pass over the siblings, and the second one over the queue that it leaves.\<close>

fun merge_pairs :: "('a \<Rightarrow> 'a \<Rightarrow> int) \<Rightarrow> 'a phn list \<Rightarrow> 'a phn list" where
  "merge_pairs cmp (phn0 # phn1 # rest) = phn_merge cmp phn0 phn1 # merge_pairs cmp rest"
| "merge_pairs cmp ts = ts"

function merge_fifo :: "('a \<Rightarrow> 'a \<Rightarrow> int) \<Rightarrow> 'a phn \<Rightarrow> 'a phn list \<Rightarrow> 'a phn" where
  "merge_fifo cmp phn0 [] = phn0"
| "merge_fifo cmp phn0 [phn1] = phn_merge cmp phn0 phn1"
| "merge_fifo cmp phn0 (phn1 # head # rest) = merge_fifo cmp head (rest @ [phn_merge cmp phn0 phn1])"
  by pat_completeness auto
termination
  by (relation "measure (\<lambda>(cmp, t, ts). length ts)") auto

definition phn_merge_siblings :: "('a \<Rightarrow> 'a \<Rightarrow> int) \<Rightarrow> 'a phn \<Rightarrow> 'a phn list \<Rightarrow> 'a phn" where
  "phn_merge_siblings cmp phn siblings =
    (case siblings of
       [] \<Rightarrow> phn
     | phn1 # phnrest \<Rightarrow> merge_fifo cmp (phn_merge cmp phn phn1) (merge_pairs cmp phnrest))"

definition ph_merge_aux :: "('a \<Rightarrow> 'a \<Rightarrow> int) \<Rightarrow> 'a ph \<Rightarrow> 'a ph" where
  "ph_merge_aux cmp h =
    (case (ph_root h, ph_aux h) of
       (Some r, phn # rest) \<Rightarrow>
         h\<lparr>auxcount := 0, ph_root := Some (phn_merge cmp r (phn_merge_siblings cmp phn rest)), ph_aux := []\<rparr>
     | _ \<Rightarrow> h\<lparr>auxcount := 0\<rparr>)"

definition ph_merge_children :: "('a \<Rightarrow> 'a \<Rightarrow> int) \<Rightarrow> 'a phn \<Rightarrow> 'a phn option" where
  "ph_merge_children cmp phn =
    (case phn_children phn of [] \<Rightarrow> None | lchild # rest \<Rightarrow> Some (phn_merge_siblings cmp lchild rest))"

definition ph_new :: "'a ph" where
  "ph_new = \<lparr>ph_root = None, ph_aux = [], auxcount = 0\<rparr>"

definition ph_empty :: "'a ph \<Rightarrow> bool" where
  "ph_empty h = (ph_root h = None)"

definition ph_first :: "('a \<Rightarrow> 'a \<Rightarrow> int) \<Rightarrow> 'a ph \<Rightarrow> 'a option \<times> 'a ph" where
  "ph_first cmp h =
    (case ph_root h of
       None \<Rightarrow> (None, h)
     | Some _ \<Rightarrow> (let h = ph_merge_aux cmp h in (map_option phn_elem (ph_root h), h)))"

definition ph_any :: "'a ph \<Rightarrow> 'a option" where
  "ph_any h =
    (case (ph_root h, ph_aux h) of
       (None, _) \<Rightarrow> None
     | (Some r, aux # _) \<Rightarrow> Some (phn_elem aux)
     | (Some r, []) \<Rightarrow> Some (phn_elem r))"

definition ph_try_aux_merge_pair :: "('a \<Rightarrow> 'a \<Rightarrow> int) \<Rightarrow> 'a ph \<Rightarrow> bool \<times> 'a ph" where
  "ph_try_aux_merge_pair cmp h =
    (case ph_aux h of
       phn0 # phn1 # rest \<Rightarrow> (rest = [], h\<lparr>ph_aux := phn_merge cmp phn0 phn1 # rest\<rparr>)
     | _ \<Rightarrow> (True, h))"

fun merge_loop :: "('a \<Rightarrow> 'a \<Rightarrow> int) \<Rightarrow> nat \<Rightarrow> 'a ph \<Rightarrow> 'a ph" where
  "merge_loop cmp 0 h = h"
| "merge_loop cmp (Suc n) h = (let (stop, h) = ph_try_aux_merge_pair cmp h in if stop then h else merge_loop cmp n h)"

definition ph_insert :: "('a \<Rightarrow> 'a \<Rightarrow> int) \<Rightarrow> 'a ph \<Rightarrow> 'a \<Rightarrow> 'a ph" where
  "ph_insert cmp h x =
    (let merges = (\<lambda>h. if auxcount h > 1 then merge_loop cmp (ffs_lu (auxcount h - 1)) h else h)
     in case ph_root h of
          None \<Rightarrow> merges (h\<lparr>ph_root := Some (Phn x []), ph_aux := []\<rparr>)
        | Some r \<Rightarrow>
            if cmp x (phn_elem r) < 0 then h\<lparr>ph_root := Some (Phn x (r # ph_aux h)), ph_aux := [], auxcount := 0\<rparr>
            else merges (h\<lparr>auxcount := auxcount h + 1, ph_aux := Phn x [] # ph_aux h\<rparr>))"

definition ph_remove_first :: "('a \<Rightarrow> 'a \<Rightarrow> int) \<Rightarrow> 'a ph \<Rightarrow> 'a option \<times> 'a ph" where
  "ph_remove_first cmp h =
    (case ph_root h of
       None \<Rightarrow> (None, h)
     | Some _ \<Rightarrow>
         (let h = ph_merge_aux cmp h
          in (map_option phn_elem (ph_root h), h\<lparr>ph_root := Option.bind (ph_root h) (ph_merge_children cmp)\<rparr>)))"

definition opt_list :: "'a option \<Rightarrow> 'a list" where
  "opt_list r = (case r of None \<Rightarrow> [] | Some t \<Rightarrow> [t])"

text \<open>Removal of a node inside the trees: its merged children take its place among its siblings.\<close>

fun remove_node :: "('a \<Rightarrow> 'a \<Rightarrow> int) \<Rightarrow> 'a \<Rightarrow> 'a phn \<Rightarrow> 'a phn option" where
  "remove_node cmp x (Phn a cs) =
    (if a = x then ph_merge_children cmp (Phn a cs) else Some (Phn a (concat (map (\<lambda>t. opt_list (remove_node cmp x t)) cs))))"

text \<open>
  The node is found through its pointer in the code, by its element here. A root without children is
  replaced by the head of the auxiliary list.
\<close>

definition ph_remove :: "('a \<Rightarrow> 'a \<Rightarrow> int) \<Rightarrow> 'a ph \<Rightarrow> 'a \<Rightarrow> 'a ph" where
  "ph_remove cmp h x =
    (let inside = (\<lambda>h. h\<lparr>ph_root := Option.bind (ph_root h) (remove_node cmp x),
                         ph_aux := concat (map (\<lambda>t. opt_list (remove_node cmp x t)) (ph_aux h))\<rparr>)
     in case ph_root h of
          None \<Rightarrow> h
        | Some r \<Rightarrow>
            if phn_elem r = x then
              (if phn_children r = [] then
                 (case ph_aux h of
                    [] \<Rightarrow> h\<lparr>ph_root := None\<rparr>
                  | phn # rest \<Rightarrow> h\<lparr>ph_root := Some phn, ph_aux := rest\<rparr>)
               else
                 (let h = ph_merge_aux cmp h
                  in case ph_root h of
                       None \<Rightarrow> h
                     | Some r \<Rightarrow>
                         if phn_elem r = x then h\<lparr>ph_root := ph_merge_children cmp r\<rparr> else inside h))
            else inside h)"

section \<open>Contents\<close>

fun phn_mset :: "'a phn \<Rightarrow> 'a multiset" where
  "phn_mset (Phn a cs) = add_mset a (\<Sum>\<^sub># (image_mset phn_mset (mset cs)))"

abbreviation phns_mset :: "'a phn list \<Rightarrow> 'a multiset" where
  "phns_mset ts \<equiv> \<Sum>\<^sub># (image_mset phn_mset (mset ts))"

definition ph_mset :: "'a ph \<Rightarrow> 'a multiset" where
  "ph_mset h = (case ph_root h of None \<Rightarrow> {#} | Some r \<Rightarrow> phn_mset r + phns_mset (ph_aux h))"

lemma phn_merge_mset [simp]: "phn_mset (phn_merge cmp t u) = phn_mset t + phn_mset u"
  by (cases t; cases u) auto

lemma merge_pairs_mset [simp]: "phns_mset (merge_pairs cmp ts) = phns_mset ts"
  by (induction cmp ts rule: merge_pairs.induct) (auto simp: add.assoc)

lemma merge_fifo_mset [simp]: "phn_mset (merge_fifo cmp t ts) = phn_mset t + phns_mset ts"
  by (induction cmp t ts rule: merge_fifo.induct) (auto simp: add_ac)

lemma merge_siblings_mset [simp]: "phn_mset (phn_merge_siblings cmp t ts) = phn_mset t + phns_mset ts"
  by (auto simp: phn_merge_siblings_def add.assoc split: list.splits)

lemma merge_children_mset:
  "phns_mset (opt_list (ph_merge_children cmp t)) = phns_mset (phn_children t)"
  by (auto simp: ph_merge_children_def opt_list_def split: list.splits)

lemma merge_aux_mset [simp]: "ph_mset (ph_merge_aux cmp h) = ph_mset h" "ph_root h \<noteq> None \<Longrightarrow> ph_aux (ph_merge_aux cmp h) = []"
  "ph_root h = None \<Longrightarrow> ph_root (ph_merge_aux cmp h) = None" "ph_root h \<noteq> None \<Longrightarrow> ph_root (ph_merge_aux cmp h) \<noteq> None"
  by (auto simp: ph_merge_aux_def ph_mset_def split: option.splits list.splits)

lemma try_merge_mset:
  "ph_try_aux_merge_pair cmp h = (stop, h') \<Longrightarrow> ph_mset h' = ph_mset h \<and> ph_root h' = ph_root h \<and> auxcount h' = auxcount h"
  by (auto simp: ph_try_aux_merge_pair_def ph_mset_def add.assoc split: list.splits option.splits)

lemma merge_loop_mset: "ph_mset (merge_loop cmp n h) = ph_mset h \<and> ph_root (merge_loop cmp n h) = ph_root h"
proof (induction n arbitrary: h)
  case (Suc n)
  obtain stop h' where "ph_try_aux_merge_pair cmp h = (stop, h')"
    by fastforce
  then show ?case
    using try_merge_mset Suc by (auto simp: Let_def)
qed simp

lemma ph_insert_mset: "ph_mset (ph_insert cmp h x) = add_mset x (ph_mset h)"
  by (auto simp: ph_insert_def Let_def merge_loop_mset split: option.splits) (auto simp: ph_mset_def)

lemma ph_remove_first_mset:
  assumes "ph_remove_first cmp h = (r, h')"
  shows "case r of None \<Rightarrow> ph_root h = None \<and> h' = h | Some x \<Rightarrow> ph_mset h = add_mset x (ph_mset h')"
proof (cases "ph_root h")
  case None
  then show ?thesis
    using assms by (auto simp: ph_remove_first_def)
next
  case (Some t)
  then obtain a cs where u: "ph_root (ph_merge_aux cmp h) = Some (Phn a cs)" "ph_aux (ph_merge_aux cmp h) = []"
    using merge_aux_mset(2,4) [of h cmp] by (metis option.distinct(1) option.exhaust phn.exhaust)
  have "ph_mset h = ph_mset (ph_merge_aux cmp h)"
    by simp
  also have "\<dots> = add_mset a (phns_mset cs)"
    using u by (simp add: ph_mset_def)
  also have "phns_mset cs = ph_mset h'"
    using assms Some u merge_children_mset [of cmp "Phn a cs"]
    by (auto simp: ph_remove_first_def Let_def ph_mset_def opt_list_def split: option.splits)
  finally show ?thesis
    using assms Some u by (auto simp: ph_remove_first_def Let_def)
qed

lemma remove_list_mset:
  assumes "\<And>t. t \<in> set ts \<Longrightarrow> count (phn_mset t) x \<le> 1 \<Longrightarrow> phns_mset (opt_list (f t)) = phn_mset t - {#x#}"
    "count (phns_mset ts) x \<le> 1"
  shows "phns_mset (concat (map (\<lambda>t. opt_list (f t)) ts)) = phns_mset ts - {#x#}"
  using assms
proof (induction ts)
  case (Cons t ts)
  have c: "count (phn_mset t) x + count (phns_mset ts) x \<le> 1"
    using Cons.prems(2) by simp
  then have "phns_mset (opt_list (f t)) = phn_mset t - {#x#}"
    "phns_mset (concat (map (\<lambda>t. opt_list (f t)) ts)) = phns_mset ts - {#x#}"
    using Cons.IH Cons.prems(1) by auto
  moreover have "(phn_mset t - {#x#}) + (phns_mset ts - {#x#}) = (phn_mset t + phns_mset ts) - {#x#}"
    using c by (intro multiset_eqI) auto
  ultimately show ?case
    by simp
qed simp

lemma mem_removed: "v \<in> set (concat (map (\<lambda>t. opt_list (f t)) ts)) \<longleftrightarrow> (\<exists>t\<in>set ts. f t = Some v)"
proof -
  have "v \<in> set (opt_list r) \<longleftrightarrow> r = Some v" for r
    by (cases r) (auto simp: opt_list_def)
  then show ?thesis
    by simp
qed

lemma count_child: "t \<in> set ts \<Longrightarrow> count (phn_mset t) x \<le> count (phns_mset ts) x"
  by (induction ts) auto

lemma remove_node_mset:
  "count (phn_mset t) x \<le> 1 \<Longrightarrow> phns_mset (opt_list (remove_node cmp x t)) = phn_mset t - {#x#}"
proof (induction t)
  case (Phn a cs)
  show ?case
  proof (cases "a = x")
    case True
    then show ?thesis
      using merge_children_mset [of cmp "Phn a cs"] by simp
  next
    case False
    then have "phns_mset (concat (map (\<lambda>t. opt_list (remove_node cmp x t)) cs)) = phns_mset cs - {#x#}"
      using Phn by (intro remove_list_mset) auto
    then show ?thesis
      using False by (simp add: opt_list_def)
  qed
qed

lemma remove_node_outside: "x \<notin># phn_mset t \<Longrightarrow> remove_node cmp x t = Some t"
proof (induction t)
  case (Phn a cs)
  then have "concat (map (\<lambda>t. opt_list (remove_node cmp x t)) cs) = cs"
    by (induction cs) (auto simp: opt_list_def)
  then show ?case
    using Phn by auto
qed

lemma inside_mset:
  assumes "ph_root g = Some u" "phn_elem u \<noteq> x" "count (ph_mset g) x \<le> 1"
  shows "ph_mset (g\<lparr>ph_root := Option.bind (ph_root g) (remove_node cmp x),
      ph_aux := concat (map (\<lambda>t. opt_list (remove_node cmp x t)) (ph_aux g))\<rparr>) = ph_mset g - {#x#}"
proof -
  have "count (phns_mset (u # ph_aux g)) x \<le> 1"
    using assms by (simp add: ph_mset_def)
  then have "phns_mset (concat (map (\<lambda>t. opt_list (remove_node cmp x t)) (u # ph_aux g))) = phns_mset (u # ph_aux g) - {#x#}"
    by (intro remove_list_mset remove_node_mset)
  then show ?thesis
    using assms by (cases u) (simp add: ph_mset_def opt_list_def)
qed

lemma ph_remove_mset:
  assumes "count (ph_mset h) x \<le> 1"
  shows "ph_mset (ph_remove cmp h x) = ph_mset h - {#x#}"
proof (cases "ph_root h")
  case None
  then show ?thesis
    by (simp add: ph_remove_def ph_mset_def)
next
  case (Some r)
  show ?thesis
  proof (cases "phn_elem r = x \<and> phn_children r \<noteq> []")
    case True
    obtain u where u: "ph_root (ph_merge_aux cmp h) = Some u" "ph_aux (ph_merge_aux cmp h) = []"
      using merge_aux_mset(2,4) [of h cmp] Some by fastforce
    show ?thesis
    proof (cases "phn_elem u = x")
      case x: True
      then have "ph_mset (ph_merge_aux cmp h) = add_mset x (phns_mset (phn_children u))"
        using u by (cases u) (simp add: ph_mset_def)
      then have "ph_mset h = add_mset x (phns_mset (phn_children u))"
        by simp
      then show ?thesis
        using x True Some u merge_children_mset [of cmp u]
        by (auto simp: ph_remove_def Let_def ph_mset_def [of "ph_root_update _ _"] opt_list_def split: option.splits)
    next
      case False
      then show ?thesis
        using inside_mset [OF u(1), of x] True Some u assms by (auto simp: ph_remove_def Let_def)
    qed
  next
    case False
    then show ?thesis
      using inside_mset [OF Some, of x] assms Some
      by (cases r) (auto simp: ph_remove_def Let_def ph_mset_def split: list.splits)
  qed
qed

section \<open>Order\<close>

text \<open>
  What a comparison function promises, and heaps ordered by it: every node is least in its tree, and the root is least of
  all.
\<close>

fun phn_ordered :: "('a \<Rightarrow> 'a \<Rightarrow> int) \<Rightarrow> 'a phn \<Rightarrow> bool" where
  "phn_ordered cmp (Phn a cs) \<longleftrightarrow> (\<forall>t\<in>set cs. phn_ordered cmp t \<and> (\<forall>x\<in>#phn_mset t. cmp a x \<le> 0))"

definition ph_ordered :: "('a \<Rightarrow> 'a \<Rightarrow> int) \<Rightarrow> 'a ph \<Rightarrow> bool" where
  "ph_ordered cmp h \<longleftrightarrow>
    (case ph_root h of
       None \<Rightarrow> True
     | Some r \<Rightarrow> phn_ordered cmp r \<and> (\<forall>t\<in>set (ph_aux h). phn_ordered cmp t) \<and> (\<forall>x\<in>#ph_mset h. cmp (phn_elem r) x \<le> 0))"

text \<open>
  Programs on a heap. A node is inserted when it is not in a heap and removed when it is, as the links are stored in the
  node. The predicate \<open>safe\<close> restricts removals further.
\<close>

datatype 'a ph_op = Ph_insert 'a | Ph_first | Ph_remove_first | Ph_remove 'a

fun ph_step :: "('a \<Rightarrow> 'a \<Rightarrow> int) \<Rightarrow> ('a ph \<Rightarrow> 'a \<Rightarrow> bool) \<Rightarrow> 'a ph_op \<Rightarrow> 'a ph \<Rightarrow> 'a ph option" where
  "ph_step cmp safe (Ph_insert x) h = (if x \<in># ph_mset h then None else Some (ph_insert cmp h x))"
| "ph_step cmp safe Ph_first h = Some (snd (ph_first cmp h))"
| "ph_step cmp safe Ph_remove_first h = Some (snd (ph_remove_first cmp h))"
| "ph_step cmp safe (Ph_remove x) h = (if x \<in># ph_mset h \<and> safe h x then Some (ph_remove cmp h x) else None)"

fun ph_run :: "('a \<Rightarrow> 'a \<Rightarrow> int) \<Rightarrow> ('a ph \<Rightarrow> 'a \<Rightarrow> bool) \<Rightarrow> 'a ph_op list \<Rightarrow> 'a ph \<Rightarrow> 'a ph option" where
  "ph_run cmp safe [] h = Some h"
| "ph_run cmp safe (c # cs) h = Option.bind (ph_step cmp safe c h) (ph_run cmp safe cs)"

text \<open>The node is a root without children, and the auxiliary list is not empty.\<close>

definition lone_root :: "'a ph \<Rightarrow> 'a \<Rightarrow> bool" where
  "lone_root h x \<longleftrightarrow> map_option phn_elem (ph_root h) = Some x \<and> map_option phn_children (ph_root h) = Some [] \<and> ph_aux h \<noteq> []"

locale phn_order =
  fixes cmp :: "'a \<Rightarrow> 'a \<Rightarrow> int"
  assumes cmp_total: "\<not> cmp a b < 0 \<Longrightarrow> cmp b a \<le> 0"
    and cmp_trans: "cmp a b \<le> 0 \<Longrightarrow> cmp b c \<le> 0 \<Longrightarrow> cmp a c \<le> 0"
begin

lemma cmp_refl: "cmp a a \<le> 0"
  using cmp_total [of a a] by linarith

lemma root_least: "phn_ordered cmp t \<Longrightarrow> x \<in># phn_mset t \<Longrightarrow> cmp (phn_elem t) x \<le> 0"
  by (cases t) (auto simp: cmp_refl)

lemma merge_ordered:
  assumes "phn_ordered cmp t" "phn_ordered cmp u"
  shows "phn_ordered cmp (phn_merge cmp t u)"
proof -
  obtain a cs b ds where tu: "t = Phn a cs" "u = Phn b ds"
    by (metis phn.exhaust)
  show ?thesis
  proof (cases "cmp a b < 0")
    case True
    then have "cmp a x \<le> 0" if "x \<in># phn_mset u" for x
      using cmp_trans [of a b x] root_least [OF assms(2) that] tu by simp
    then show ?thesis
      using True assms tu by simp
  next
    case False
    then have "cmp b x \<le> 0" if "x \<in># phn_mset t" for x
      using cmp_trans [of b a x] cmp_total root_least [OF assms(1) that] tu by simp
    then show ?thesis
      using False assms tu by simp
  qed
qed

lemma pairs_ordered: "\<forall>t\<in>set ts. phn_ordered cmp t \<Longrightarrow> \<forall>t\<in>set (merge_pairs cmp ts). phn_ordered cmp t"
  by (induction ts rule: induct_list012) (auto simp: merge_ordered)

lemma fifo_ordered: "\<forall>u\<in>set (t # ts). phn_ordered cmp u \<Longrightarrow> phn_ordered cmp (merge_fifo cmp t ts)"
proof (induction "length ts" arbitrary: t ts rule: less_induct)
  case less
  consider "ts = []" | u where "ts = [u]" | u v us where "ts = u # v # us"
    by (metis list.exhaust)
  then show ?case
  proof cases
    case 3
    then show ?thesis
      using less merge_ordered by simp
  qed (use less merge_ordered in simp_all)
qed

lemma siblings_ordered: "\<forall>u\<in>set (t # ts). phn_ordered cmp u \<Longrightarrow> phn_ordered cmp (phn_merge_siblings cmp t ts)"
  using pairs_ordered by (auto simp: phn_merge_siblings_def intro!: fifo_ordered merge_ordered split: list.splits)

lemma children_ordered: "phn_ordered cmp t \<Longrightarrow> ph_merge_children cmp t = Some u \<Longrightarrow> phn_ordered cmp u"
  by (cases t) (auto simp: ph_merge_children_def intro!: siblings_ordered split: list.splits)

lemma ph_orderedI:
  assumes "ph_root h = Some r" "phn_ordered cmp r" "ph_aux h = []"
  shows "ph_ordered cmp h"
  using assms root_least [OF assms(2)] by (simp add: ph_ordered_def ph_mset_def)

lemma merge_aux_ordered:
  assumes "ph_ordered cmp h"
  shows "ph_ordered cmp (ph_merge_aux cmp h)"
proof (cases "ph_root h")
  case None
  then show ?thesis
    by (simp add: ph_ordered_def)
next
  case (Some r)
  then have r: "phn_ordered cmp r" "\<forall>t\<in>set (ph_aux h). phn_ordered cmp t"
    using assms by (simp_all add: ph_ordered_def)
  obtain r' where "ph_root (ph_merge_aux cmp h) = Some r'" "phn_ordered cmp r'"
  proof (cases "ph_aux h")
    case Nil
    then show ?thesis
      using that Some r by (simp add: ph_merge_aux_def)
  next
    case (Cons t ts)
    then show ?thesis
      using that Some r merge_ordered [OF r(1) siblings_ordered [of t ts]] by (simp add: ph_merge_aux_def)
  qed
  then show ?thesis
    using Some by (intro ph_orderedI) auto
qed

lemma first_least:
  assumes "ph_ordered cmp h" "ph_first cmp h = (Some x, h')"
  shows "x \<in># ph_mset h \<and> (\<forall>y\<in>#ph_mset h. cmp x y \<le> 0)"
proof -
  have "ph_root h \<noteq> None"
    using assms(2) by (auto simp: ph_first_def split: option.splits)
  then obtain r where r: "ph_root (ph_merge_aux cmp h) = Some r" "x = phn_elem r"
    using assms(2) merge_aux_mset(4) [of h cmp] by (auto simp: ph_first_def Let_def)
  then have "\<forall>y\<in>#ph_mset (ph_merge_aux cmp h). cmp x y \<le> 0"
    using merge_aux_ordered [OF assms(1)] by (simp add: ph_ordered_def)
  moreover have "x \<in># ph_mset (ph_merge_aux cmp h)"
    using r by (cases r) (simp add: ph_mset_def)
  ultimately show ?thesis
    by simp
qed

lemma remove_first_ordered:
  assumes "ph_ordered cmp h"
  shows "ph_ordered cmp (snd (ph_remove_first cmp h))"
proof (cases "ph_root h")
  case None
  then show ?thesis
    using assms by (simp add: ph_remove_first_def)
next
  case (Some r)
  then obtain u where u: "ph_root (ph_merge_aux cmp h) = Some u" "ph_aux (ph_merge_aux cmp h) = []"
    using merge_aux_mset(2,4) [of h cmp] by fastforce
  then have "phn_ordered cmp u"
    using merge_aux_ordered [OF assms] by (simp add: ph_ordered_def)
  then have "ph_ordered cmp ((ph_merge_aux cmp h)\<lparr>ph_root := ph_merge_children cmp u\<rparr>)"
    using u children_ordered [of u] by (cases "ph_merge_children cmp u") (auto simp: ph_ordered_def ph_mset_def root_least)
  then show ?thesis
    using u Some by (simp add: ph_remove_first_def Let_def)
qed

lemma remove_node_ordered:
  "phn_ordered cmp t \<Longrightarrow> count (phn_mset t) x \<le> 1 \<Longrightarrow> remove_node cmp x t = Some u \<Longrightarrow> phn_ordered cmp u"
proof (induction t arbitrary: u)
  case (Phn a cs)
  show ?case
  proof (cases "a = x")
    case True
    then show ?thesis
      using Phn.prems children_ordered [of "Phn a cs" u] by simp
  next
    case False
    have "phn_ordered cmp v \<and> (\<forall>y\<in>#phn_mset v. cmp a y \<le> 0)" if c: "c \<in> set cs" "remove_node cmp x c = Some v" for c v
    proof -
      have cx: "count (phn_mset c) x \<le> 1"
        using Phn.prems(2) count_child [OF c(1), of x] False by simp
      then have "phn_mset v = phn_mset c - {#x#}"
        using remove_node_mset [of c x cmp] c(2) by (simp add: opt_list_def)
      then show ?thesis
        using Phn.IH [OF c(1) _ cx c(2)] Phn.prems(1) c(1) by (auto dest: in_diffD)
    qed
    then show ?thesis
      using Phn.prems(3) False by (auto simp: mem_removed simp del: set_concat)
  qed
qed

lemma inside_ordered:
  assumes "ph_ordered cmp h" "ph_root h = Some r" "phn_elem r \<noteq> x" "count (ph_mset h) x \<le> 1"
  shows "ph_ordered cmp (h\<lparr>ph_root := Option.bind (ph_root h) (remove_node cmp x),
      ph_aux := concat (map (\<lambda>t. opt_list (remove_node cmp x t)) (ph_aux h))\<rparr>)" (is "ph_ordered cmp ?h")
proof -
  obtain a cs where r: "r = Phn a cs"
    by (cases r)
  then obtain u where u: "remove_node cmp x r = Some u" "phn_elem u = a"
    using assms(3) by simp
  have "count (phn_mset r) x \<le> 1" "\<And>t. t \<in> set (ph_aux h) \<Longrightarrow> count (phn_mset t) x \<le> 1"
    using assms(2,4) count_child [of _ "ph_aux h" x] by (fastforce simp: ph_mset_def)+
  moreover have "ph_mset ?h = ph_mset h - {#x#}"
    by (rule inside_mset [OF assms(2-4)])
  moreover have "phn_ordered cmp r" "\<forall>t\<in>set (ph_aux h). phn_ordered cmp t" "\<forall>y\<in>#ph_mset h. cmp a y \<le> 0"
    using assms(1,2) r by (simp_all add: ph_ordered_def)
  ultimately have "phn_ordered cmp u" "\<forall>t\<in>set (ph_aux ?h). phn_ordered cmp t" "\<forall>y\<in>#ph_mset ?h. cmp (phn_elem u) y \<le> 0"
    using u remove_node_ordered [where x = x]
    by (auto simp: mem_removed simp del: set_concat One_nat_def dest: in_diffD) blast
  moreover have "ph_root ?h = Some u"
    using assms(2) u by simp
  ultimately show ?thesis
    unfolding ph_ordered_def by (simp only: option.case)
qed

lemma remove_ordered:
  assumes "ph_ordered cmp h" "count (ph_mset h) x \<le> 1"
    "\<not> (map_option phn_elem (ph_root h) = Some x \<and> map_option phn_children (ph_root h) = Some [] \<and> ph_aux h \<noteq> [])"
  shows "ph_ordered cmp (ph_remove cmp h x)"
proof (cases "ph_root h")
  case None
  then show ?thesis
    using assms(1) by (simp add: ph_remove_def)
next
  case (Some r)
  show ?thesis
  proof (cases "phn_elem r = x \<and> phn_children r \<noteq> []")
    case True
    obtain u where u: "ph_root (ph_merge_aux cmp h) = Some u" "ph_aux (ph_merge_aux cmp h) = []"
      using merge_aux_mset(2,4) [of h cmp] Some by fastforce
    note m = merge_aux_ordered [OF assms(1)]
    show ?thesis
    proof (cases "phn_elem u = x")
      case x: True
      have "phn_ordered cmp u"
        using m u by (simp add: ph_ordered_def)
      then have "ph_ordered cmp ((ph_merge_aux cmp h)\<lparr>ph_root := ph_merge_children cmp u\<rparr>)"
        using u children_ordered [of u] by (cases "ph_merge_children cmp u") (auto simp: ph_ordered_def ph_mset_def root_least)
      then show ?thesis
        using x True Some u by (simp add: ph_remove_def Let_def)
    next
      case False
      then show ?thesis
        using inside_ordered [OF m u(1)] True Some u assms(2) by (simp add: ph_remove_def Let_def)
    qed
  next
    case False
    then show ?thesis
      using inside_ordered [OF assms(1) Some] Some assms(2,3)
      by (cases "phn_elem r = x") (auto simp: ph_remove_def Let_def ph_ordered_def [of _ "h\<lparr>ph_root := None\<rparr>"])
  qed
qed

lemma try_merge_ordered:
  assumes "ph_ordered cmp h" "ph_try_aux_merge_pair cmp h = (stop, h')"
  shows "ph_ordered cmp h'"
proof -
  have "ph_mset h' = ph_mset h" "ph_root h' = ph_root h"
    using try_merge_mset [OF assms(2)] by auto
  then show ?thesis
    using assms merge_ordered
    by (auto simp: ph_ordered_def ph_try_aux_merge_pair_def split: option.splits list.splits)
qed

lemma merge_loop_ordered: "ph_ordered cmp h \<Longrightarrow> ph_ordered cmp (merge_loop cmp n h)"
proof (induction n arbitrary: h)
  case (Suc n)
  obtain stop h' where t: "ph_try_aux_merge_pair cmp h = (stop, h')"
    by fastforce
  then show ?case
    using Suc try_merge_ordered [OF Suc.prems t] by (simp add: Let_def)
qed simp

lemma insert_ordered:
  assumes "ph_ordered cmp h"
  shows "ph_ordered cmp (ph_insert cmp h x)"
proof (cases "ph_root h")
  case None
  then have "ph_ordered cmp (h\<lparr>ph_root := Some (Phn x []), ph_aux := []\<rparr>)"
    by (intro ph_orderedI [of _ "Phn x []"]) auto
  then show ?thesis
    using None by (auto simp: ph_insert_def Let_def intro: merge_loop_ordered)
next
  case (Some r)
  then have r: "phn_ordered cmp r" "\<forall>t\<in>set (ph_aux h). phn_ordered cmp t" "\<forall>y\<in>#ph_mset h. cmp (phn_elem r) y \<le> 0"
    using assms by (simp_all add: ph_ordered_def)
  show ?thesis
  proof (cases "cmp x (phn_elem r) < 0")
    case True
    then have "cmp x y \<le> 0" if "y \<in># ph_mset h" for y
      using cmp_trans [of x "phn_elem r" y] r(3) that by simp
    then have "phn_ordered cmp (Phn x (r # ph_aux h))"
      using r(1,2) Some by (auto simp: ph_mset_def)
    then show ?thesis
      using True Some by (auto simp: ph_insert_def Let_def intro: ph_orderedI)
  next
    case False
    then have "ph_ordered cmp (h\<lparr>auxcount := auxcount h + 1, ph_aux := Phn x [] # ph_aux h\<rparr>)"
      using Some r cmp_total [of x "phn_elem r"] by (auto simp: ph_ordered_def ph_mset_def)
    then show ?thesis
      using Some False by (auto simp: ph_insert_def Let_def intro: merge_loop_ordered)
  qed
qed

lemma run_ordered:
  "ph_run cmp safe cs h = Some h' \<Longrightarrow> (\<And>h x. safe h x \<Longrightarrow> \<not> lone_root h x) \<Longrightarrow>
    ph_ordered cmp h \<Longrightarrow> \<forall>x. count (ph_mset h) x \<le> 1 \<Longrightarrow> ph_ordered cmp h' \<and> (\<forall>x. count (ph_mset h') x \<le> 1)"
proof (induction cs arbitrary: h)
  case (Cons c cs)
  then obtain h1 where h1: "ph_step cmp safe c h = Some h1" "ph_run cmp safe cs h1 = Some h'"
    by (auto simp: bind_eq_Some_conv)
  have "ph_ordered cmp h1 \<and> (\<forall>x. count (ph_mset h1) x \<le> 1)"
  proof (cases c)
    case (Ph_insert x)
    then show ?thesis
      using h1(1) Cons.prems(3,4) insert_ordered [of h x] by (auto simp: ph_insert_mset not_in_iff split: if_splits)
  next
    case Ph_first
    then show ?thesis
      using h1(1) Cons.prems(3,4) merge_aux_ordered [of h] by (auto simp: ph_first_def Let_def split: option.splits)
  next
    case Ph_remove_first
    obtain r h2 where r: "ph_remove_first cmp h = (r, h2)"
      by fastforce
    then have "ph_mset h2 \<subseteq># ph_mset h"
      using ph_remove_first_mset [OF r] by (auto split: option.splits)
    then have "\<forall>x. count (ph_mset h2) x \<le> 1"
      using Cons.prems(4) by (meson le_trans mset_subset_eq_count)
    then show ?thesis
      using h1(1) Ph_remove_first r remove_first_ordered [OF Cons.prems(3)] by simp
  next
    case (Ph_remove x)
    then have "h1 = ph_remove cmp h x" "\<not> lone_root h x"
      using h1(1) Cons.prems(2) by (auto split: if_splits)
    then show ?thesis
      using Cons.prems(3,4) remove_ordered [of h x] ph_remove_mset [of h x cmp] by (auto simp: lone_root_def le_diff_conv le_SucI)
  qed
  then show ?case
    using Cons.IH [OF h1(2) Cons.prems(2)] by blast
qed simp

end

end
