(* ===== verification/Slabs.thy ===== *)
theory Slabs
  imports Sizes Pairing_Heap
begin

text \<open>
  The regions of a slab in jemalloc: exact division by a region size (\<^verbatim>\<open>div.c\<close>, \<^verbatim>\<open>div.h\<close>), bitmaps (\<^verbatim>\<open>bitmap.c\<close>,
  \<^verbatim>\<open>bitmap.h\<close>, in the variant without a tree, which the bitmaps of 512 bits use), the description of the bins
  (\<^verbatim>\<open>bin_info.c\<close>), the fields of \<^verbatim>\<open>edata_t\<close> that a slab uses (\<^verbatim>\<open>edata.h\<close>), and allocation of one or several regions
  of a slab (\<^verbatim>\<open>arena.c\<close>, \<^verbatim>\<open>arena_inlines_b.h\<close>).

  A bit of the bitmap is set when the region is free. Reading a group behind the end of a bitmap gives \<open>None\<close>; bits
  and groups are counted in natural numbers.

  A slab implements a sorted list of free regions: allocation takes the head, a batch takes a prefix, and a release inserts.
\<close>

section \<open>Exact division\<close>

definition div_init :: "u64 \<Rightarrow> u32" where
  "div_init d =
    (let two_to_k = push_bit 32 1; magic = ucast (two_to_k div d)
     in if two_to_k mod d \<noteq> 0 then magic + 1 else magic)"

definition div_compute :: "u32 \<Rightarrow> u64 \<Rightarrow> u64" where
  "div_compute magic n = drop_bit 32 (n * ucast magic)"

section \<open>Bitmaps\<close>

abbreviation (input) BITMAP_GROUPS_MAX :: nat where "BITMAP_GROUPS_MAX \<equiv> 8"

record bitmap_info_t =
  nbits :: nat
  ngroups :: nat

definition bitmap_info_init :: "nat \<Rightarrow> bitmap_info_t" where
  "bitmap_info_init n = \<lparr>nbits = n, ngroups = drop_bit 6 (n + 63)\<rparr>"

definition bitmap_init :: "u64 list \<Rightarrow> bitmap_info_t \<Rightarrow> bool \<Rightarrow> u64 list" where
  "bitmap_init bitmap binfo fill =
    (if fill then replicate (ngroups binfo) 0 @ drop (ngroups binfo) bitmap
     else
       (let bitmap = replicate (ngroups binfo) (- 1) @ drop (ngroups binfo) bitmap;
            extra = (64 - (nbits binfo AND 63)) AND 63
        in if extra \<noteq> 0 then bitmap[ngroups binfo - 1 := drop_bit extra (bitmap ! (ngroups binfo - 1))] else bitmap))"

definition bitmap_full :: "u64 list \<Rightarrow> bitmap_info_t \<Rightarrow> bool" where
  "bitmap_full bitmap binfo = list_all (\<lambda>g. g = 0) (take (ngroups binfo) bitmap)"

definition bitmap_get :: "u64 list \<Rightarrow> nat \<Rightarrow> bool" where
  "bitmap_get bitmap k = (bitmap ! drop_bit 6 k AND push_bit (k AND 63) 1 = 0)"

definition bitmap_set :: "u64 list \<Rightarrow> nat \<Rightarrow> u64 list" where
  "bitmap_set bitmap k =
    (let goff = drop_bit 6 k; g = bitmap ! goff in bitmap[goff := g XOR push_bit (k AND 63) 1])"

function ffu_loop :: "u64 list \<Rightarrow> bitmap_info_t \<Rightarrow> nat \<Rightarrow> u64 \<Rightarrow> nat option" where
  "ffu_loop bitmap binfo i g =
    (if g \<noteq> 0 then Some (push_bit 6 i + ffs_lu g)
     else if Suc i < length bitmap then
       (if Suc i < ngroups binfo then ffu_loop bitmap binfo (Suc i) (bitmap ! Suc i) else Some (nbits binfo))
     else None)"
  by pat_completeness auto
termination
  by (relation "measure (\<lambda>(b, binfo, i, g). length b - i)") auto

definition bitmap_ffu :: "u64 list \<Rightarrow> bitmap_info_t \<Rightarrow> nat \<Rightarrow> nat option" where
  "bitmap_ffu bitmap binfo min_bit =
    (let i = drop_bit 6 min_bit
     in ffu_loop bitmap binfo i (bitmap ! i AND NOT (push_bit (min_bit AND 63) 1 - 1)))"

text \<open>The loop over groups without a free bit, from the group \<open>i\<close> with value \<open>g\<close> on.\<close>

function next_group :: "u64 list \<Rightarrow> nat \<Rightarrow> u64 \<Rightarrow> (nat \<times> u64) option" where
  "next_group bitmap i g =
    (if g = 0 then (if Suc i < length bitmap then next_group bitmap (Suc i) (bitmap ! Suc i) else None)
     else Some (i, g))"
  by pat_completeness auto
termination
  by (relation "measure (\<lambda>(b, i, g). length b - i)") auto

declare ffu_loop.simps [simp del] next_group.simps [simp del]

lemma next_group_nonzero: "next_group bitmap i g = Some (j, h) \<Longrightarrow> h \<noteq> 0"
  by (induction bitmap i g rule: next_group.induct) (subst (asm) (2) next_group.simps, auto split: if_splits)

lemma popcount_pos: "g \<noteq> 0 \<Longrightarrow> 0 < popcount_lu g"
  using ffs_lu_lowest [of g] by (auto simp: popcount_lu_def builtin_popcountl_def filter_empty_conv)

definition bitmap_sfu :: "u64 list \<Rightarrow> (nat \<times> u64 list) option" where
  "bitmap_sfu bitmap =
    do {
      (i, g) \<leftarrow> next_group bitmap 0 (bitmap ! 0);
      let b = push_bit 6 i + ffs_lu g;
      Some (b, bitmap_set bitmap b)
    }"

definition bitmap_unset :: "u64 list \<Rightarrow> nat \<Rightarrow> u64 list" where
  "bitmap_unset bitmap k =
    (let goff = drop_bit 6 k; g = bitmap ! goff in bitmap[goff := g XOR push_bit (k AND 63) 1])"

definition bitmap_size :: "bitmap_info_t \<Rightarrow> nat" where
  "bitmap_size binfo = push_bit 3 (ngroups binfo)"

section \<open>Bins and slabs\<close>

record bin_info_t =
  reg_size :: u64
  slab_bytes :: u64
  nregs :: nat
  n_shards :: nat
  bitmap_info :: bitmap_info_t

definition bin_info :: "sc_t \<Rightarrow> nat \<Rightarrow> bin_info_t" where
  "bin_info c shards =
    (let reg = push_bit (sc_lg_base c) 1 + push_bit (sc_lg_delta c) (of_nat (sc_ndelta c));
         slab = push_bit LG_PAGE (of_nat (sc_pgs c)); n = unat (ucast (slab div reg) :: u32)
     in \<lparr>reg_size = reg, slab_bytes = slab, nregs = n, n_shards = shards, bitmap_info = bitmap_info_init n\<rparr>)"

definition bin_infos_init :: "sc_data_t \<Rightarrow> nat list \<Rightarrow> bin_info_t list" where
  "bin_infos_init data bin_shard_sizes =
    map (\<lambda>i. bin_info (sc_array data ! i) (bin_shard_sizes ! i)) [0..<SC_NBINS]"

text \<open>The fields of an extent's description that matter for a slab.\<close>

record edata =
  e_bits :: u64
  e_addr :: ptr
  e_sn :: u64
  e_slab_data :: "u64 list"

abbreviation (input) EDATA_BITS_SZIND_SHIFT :: nat where "EDATA_BITS_SZIND_SHIFT \<equiv> 20"
abbreviation (input) EDATA_BITS_NFREE_SHIFT :: nat where "EDATA_BITS_NFREE_SHIFT \<equiv> 28"
abbreviation (input) EDATA_BITS_BINSHARD_SHIFT :: nat where "EDATA_BITS_BINSHARD_SHIFT \<equiv> 38"
abbreviation (input) EDATA_BITS_SZIND_MASK :: u64 where "EDATA_BITS_SZIND_MASK \<equiv> push_bit EDATA_BITS_SZIND_SHIFT (2 ^ 8 - 1)"
abbreviation (input) EDATA_BITS_NFREE_MASK :: u64 where "EDATA_BITS_NFREE_MASK \<equiv> push_bit EDATA_BITS_NFREE_SHIFT (2 ^ 10 - 1)"
abbreviation (input) EDATA_BITS_BINSHARD_MASK :: u64 where
  "EDATA_BITS_BINSHARD_MASK \<equiv> push_bit EDATA_BITS_BINSHARD_SHIFT (2 ^ 6 - 1)"

definition edata_szind_get :: "edata \<Rightarrow> nat" where
  "edata_szind_get e = unat (drop_bit EDATA_BITS_SZIND_SHIFT (e_bits e AND EDATA_BITS_SZIND_MASK))"

definition edata_nfree_get :: "edata \<Rightarrow> nat" where
  "edata_nfree_get e = unat (drop_bit EDATA_BITS_NFREE_SHIFT (e_bits e AND EDATA_BITS_NFREE_MASK))"

definition edata_binshard_get :: "edata \<Rightarrow> nat" where
  "edata_binshard_get e = unat (drop_bit EDATA_BITS_BINSHARD_SHIFT (e_bits e AND EDATA_BITS_BINSHARD_MASK))"

definition edata_nfree_binshard_set :: "edata \<Rightarrow> nat \<Rightarrow> nat \<Rightarrow> edata" where
  "edata_nfree_binshard_set e nfree binshard =
    e\<lparr>e_bits := (e_bits e AND (NOT EDATA_BITS_NFREE_MASK AND NOT EDATA_BITS_BINSHARD_MASK)) OR
        push_bit EDATA_BITS_BINSHARD_SHIFT (of_nat binshard) OR push_bit EDATA_BITS_NFREE_SHIFT (of_nat nfree)\<rparr>"

definition edata_nfree_inc :: "edata \<Rightarrow> edata" where
  "edata_nfree_inc e = e\<lparr>e_bits := e_bits e + push_bit EDATA_BITS_NFREE_SHIFT 1\<rparr>"

definition edata_nfree_dec :: "edata \<Rightarrow> edata" where
  "edata_nfree_dec e = e\<lparr>e_bits := e_bits e - push_bit EDATA_BITS_NFREE_SHIFT 1\<rparr>"

definition edata_nfree_sub :: "edata \<Rightarrow> nat \<Rightarrow> edata" where
  "edata_nfree_sub e n = e\<lparr>e_bits := e_bits e - push_bit EDATA_BITS_NFREE_SHIFT (of_nat n)\<rparr>"

text \<open>Order by serial number, then by address.\<close>

definition edata_snad_comp :: "edata \<Rightarrow> edata \<Rightarrow> int" where
  "edata_snad_comp a b =
    (let ret = of_bool (e_sn a > e_sn b) - of_bool (e_sn a < e_sn b)
     in if ret \<noteq> 0 then ret else of_bool (e_addr a > e_addr b) - of_bool (e_addr a < e_addr b))"

section \<open>Regions\<close>

definition arena_slab_reg_alloc :: "edata \<Rightarrow> bin_info_t \<Rightarrow> (ptr \<times> edata) option" where
  "arena_slab_reg_alloc slab info =
    do {
      (regind, bitmap) \<leftarrow> bitmap_sfu (e_slab_data slab);
      Some (e_addr slab + reg_size info * of_nat regind, edata_nfree_dec (slab\<lparr>e_slab_data := bitmap\<rparr>))
    }"

text \<open>A batch, without a function that counts bits: the loop of allocations.\<close>

fun reg_alloc_loop :: "ptr \<Rightarrow> u64 \<Rightarrow> nat \<Rightarrow> u64 list \<Rightarrow> (ptr list \<times> u64 list) option" where
  "reg_alloc_loop base regsize 0 bitmap = Some ([], bitmap)"
| "reg_alloc_loop base regsize (Suc n) bitmap =
    do {
      (regind, bitmap) \<leftarrow> bitmap_sfu bitmap;
      (ps, bitmap) \<leftarrow> reg_alloc_loop base regsize n bitmap;
      Some ((base + regsize * of_nat regind) # ps, bitmap)
    }"

text \<open>The inner loop of the other variant: \<open>pop\<close> bits of a group.\<close>

fun pop_regions :: "ptr \<Rightarrow> u64 \<Rightarrow> nat \<Rightarrow> nat \<Rightarrow> u64 \<Rightarrow> ptr list \<times> u64" where
  "pop_regions base regsize shift 0 g = ([], g)"
| "pop_regions base regsize shift (Suc pop) g =
    (let (b, g) = cfs_lu g; (ps, g) = pop_regions base regsize shift pop g
     in ((base + regsize * of_nat (shift + b)) # ps, g))"

function batch_loop :: "ptr \<Rightarrow> u64 \<Rightarrow> nat \<Rightarrow> nat \<Rightarrow> nat \<Rightarrow> u64 \<Rightarrow> u64 list \<Rightarrow> (ptr list \<times> u64 list) option" where
  "batch_loop base regsize cnt i grp g bitmap =
    (if i < cnt then
       (case next_group bitmap grp g of
          None \<Rightarrow> None
        | Some (grp, g) \<Rightarrow>
            (let shift = push_bit 6 grp; pop = (if popcount_lu g > cnt - i then cnt - i else popcount_lu g);
                 (ps, g) = pop_regions base regsize shift pop g
             in map_option (map_prod ((@) ps) id) (batch_loop base regsize cnt (i + pop) grp g (bitmap[grp := g]))))
     else Some ([], bitmap))"
  by pat_completeness auto
termination
  by (relation "measure (\<lambda>(base, r, cnt, i, grp, g, b). cnt - i)") (auto dest!: next_group_nonzero popcount_pos)

declare batch_loop.simps [simp del]

definition arena_slab_reg_alloc_batch :: "edata \<Rightarrow> bin_info_t \<Rightarrow> nat \<Rightarrow> (ptr list \<times> edata) option" where
  "arena_slab_reg_alloc_batch slab info cnt =
    do {
      (ps, bitmap) \<leftarrow> batch_loop (e_addr slab) (reg_size info) cnt 0 0 (e_slab_data slab ! 0) (e_slab_data slab);
      Some (ps, edata_nfree_sub (slab\<lparr>e_slab_data := bitmap\<rparr>) cnt)
    }"

text \<open>The index of a region, with the precomputed factor of its bin.\<close>

definition arena_slab_regind :: "u32 \<Rightarrow> edata \<Rightarrow> ptr \<Rightarrow> nat" where
  "arena_slab_regind div_info slab p = unat (div_compute div_info (p - e_addr slab))"

text \<open>Release of a region: the part of \<^verbatim>\<open>arena_dalloc_bin_locked_step\<close> that changes the slab.\<close>

definition arena_slab_reg_dalloc :: "u32 \<Rightarrow> edata \<Rightarrow> ptr \<Rightarrow> edata" where
  "arena_slab_reg_dalloc div_info slab p =
    (let regind = arena_slab_regind div_info slab p
     in edata_nfree_inc (slab\<lparr>e_slab_data := bitmap_unset (e_slab_data slab) regind\<rparr>))"

text \<open>A new slab, from the extent that the page allocator returns.\<close>

definition slab_init :: "edata \<Rightarrow> bin_info_t \<Rightarrow> nat \<Rightarrow> edata" where
  "slab_init slab info binshard =
    (let slab = edata_nfree_binshard_set slab (nregs info) binshard
     in slab\<lparr>e_slab_data := bitmap_init (e_slab_data slab) (bitmap_info info) False\<rparr>)"

section \<open>The list of free regions\<close>

definition region_free :: "u64 list \<Rightarrow> nat \<Rightarrow> bool" where
  "region_free b k = bit (b ! (k div 64)) (k mod 64)"

definition free_regions :: "nat \<Rightarrow> u64 list \<Rightarrow> nat list" where
  "free_regions n b = filter (region_free b) [0..<n]"

lemma nat_bits [simp]: "drop_bit 6 (k :: nat) = k div 64" "(k :: nat) AND 63 = k mod 64" "push_bit 6 (k :: nat) = k * 64"
proof -
  have "k AND mask 6 = k mod 64"
    by (simp only: take_bit_eq_mask [symmetric]) (simp add: take_bit_eq_mod)
  then show "(k :: nat) AND 63 = k mod 64"
    by (simp add: mask_eq_exp_minus_1)
qed (simp_all add: drop_bit_eq_div push_bit_eq_mult)

lemma bit_toggle: "j < 64 \<Longrightarrow> bit (g XOR 2 ^ i :: u64) j \<longleftrightarrow> bit g j \<noteq> (j = i)"
  by (auto simp: bit_xor_iff bit_exp_iff)

lemma get_free: "bitmap_get b k \<longleftrightarrow> \<not> region_free b k"
  by (simp add: region_free_def bitmap_get_def and_exp_eq_0_iff_not_bit)

lemma length_bitmap_set [simp]: "length (bitmap_set b k) = length b"
  by (simp add: bitmap_set_def Let_def)

lemma bitmap_unset_eq: "bitmap_unset b k = bitmap_set b k"
  by (simp add: bitmap_unset_def bitmap_set_def)

lemma set_free:
  assumes "k < 64 * length b" "j < 64 * length b"
  shows "region_free (bitmap_set b k) j \<longleftrightarrow> region_free b j \<noteq> (j = k)"
proof -
  have "k div 64 < length b"
    using assms(1) by (simp add: less_mult_imp_div_less mult.commute)
  moreover have "j = k \<longleftrightarrow> j div 64 = k div 64 \<and> j mod 64 = k mod 64"
    by (metis div_mult_mod_eq)
  ultimately show ?thesis
    by (auto simp: region_free_def bitmap_set_def Let_def nth_list_update bit_toggle)
qed

lemma filter_first:
  assumes "k < n" "P k" "\<forall>j<k. \<not> P j"
  shows "filter P [0..<n] = k # filter (\<lambda>j. P j \<noteq> (j = k)) [0..<n]"
proof -
  have split: "[0..<n] = [0..<k] @ k # [Suc k..<n]"
    using assms(1) upt_add_eq_append [of 0 k "n - k"] by (simp add: upt_conv_Cons)
  have "filter P [0..<k] = []" "filter (\<lambda>j. P j \<noteq> (j = k)) [0..<k] = []"
    using assms(3) by (auto simp: filter_empty_conv)
  moreover have "filter (\<lambda>j. P j \<noteq> (j = k)) [Suc k..<n] = filter P [Suc k..<n]"
    by (rule filter_cong) auto
  ultimately show ?thesis
    unfolding split using assms(2) by simp
qed

lemma free_regions_set:
  assumes "n \<le> 64 * length b" "free_regions n b = k # ks"
  shows "k < n" "region_free b k" "\<forall>j<k. \<not> region_free b j" "free_regions n (bitmap_set b k) = ks"
proof -
  have "set (k # ks) = {j. j < n \<and> region_free b j}" "sorted (k # ks)"
    unfolding assms(2) [symmetric] by (auto simp: free_regions_def sorted_wrt_filter)
  note k_set = this
  then show k: "k < n" "region_free b k"
    by auto
  show less: "\<forall>j<k. \<not> region_free b j"
  proof (intro allI impI notI)
    fix j
    assume "j < k" "region_free b j"
    then have "j \<in> set (k # ks)"
      using k k_set(1) by simp
    then show False
      using k_set(2) \<open>j < k\<close> by auto
  qed
  have "filter (region_free (bitmap_set b k)) [0..<n] = filter (\<lambda>j. region_free b j \<noteq> (j = k)) [0..<n]"
    using k assms(1) by (intro filter_cong) (auto simp: set_free)
  then show "free_regions n (bitmap_set b k) = ks"
    using filter_first [OF k less] assms(2) by (simp add: free_regions_def)
qed

lemma next_group_skip:
  assumes "i \<le> j" "j < length b" "\<forall>l. i \<le> l \<and> l < j \<longrightarrow> b ! l = 0"
  shows "next_group b i (b ! i) = next_group b j (b ! j)"
  using assms
proof (induction "j - i" arbitrary: i)
  case (Suc m)
  then have "m = j - Suc i" "Suc i \<le> j" "b ! i = 0"
    by auto
  moreover from this have "next_group b i (b ! i) = next_group b (Suc i) (b ! Suc i)"
    using Suc.prems by (subst next_group.simps) simp
  ultimately show ?case
    using Suc.hyps(1) [of "Suc i"] Suc.prems by simp
qed simp

lemma next_group_Some:
  assumes "next_group b i g = Some (j, h)" "i < length b" "g = b ! i"
  shows "j < length b \<and> h = b ! j \<and> h \<noteq> 0 \<and> (\<forall>l. i \<le> l \<and> l < j \<longrightarrow> b ! l = 0)"
  using assms
proof (induction b i g rule: next_group.induct)
  case (1 b i g)
  show ?case
  proof (cases "g = 0")
    case True
    then have "Suc i < length b" "next_group b (Suc i) (b ! Suc i) = Some (j, h)"
      using 1(2) by (simp_all add: next_group.simps [of b i] split: if_splits)
    then show ?thesis
      using 1(1) True 1(4) by (metis (lifting) Suc_leI le_neq_implies_less)
  next
    case False
    then show ?thesis
      using 1(2-4) by (auto simp: next_group.simps [of b i])
  qed
qed

lemma sfu_group:
  assumes "j < length b" "b ! j \<noteq> 0" "\<forall>l<j. b ! l = 0"
  shows "bitmap_sfu b = Some (j * 64 + ffs_lu (b ! j), b[j := snd (cfs_lu (b ! j))])"
proof -
  have "next_group b 0 (b ! 0) = Some (j, b ! j)"
    using next_group_skip [of 0 j b] assms by (simp add: next_group.simps [of b j])
  moreover have "ffs_lu (b ! j) < 64"
    using ffs_lu_lowest(3) [OF assms(2)] .
  ultimately show ?thesis
    by (simp add: bitmap_sfu_def bitmap_set_def cfs_lu_def Let_def)
qed

lemma sfu_first:
  assumes "n \<le> 64 * length b" "free_regions n b = k # ks"
  shows "bitmap_sfu b = Some (k, bitmap_set b k)"
proof -
  note k = free_regions_set [OF assms]
  have j: "k div 64 < length b"
    using k(1) assms(1) by (simp add: less_mult_imp_div_less mult.commute)
  have "b ! l = 0" if "l < k div 64" for l
  proof (rule bit_eqI)
    fix i
    assume "possible_bit TYPE(64 word) i"
    then have "i < 64"
      by simp
    then have "l * 64 + i < k" "(l * 64 + i) div 64 = l" "(l * 64 + i) mod 64 = i"
      using that by simp_all
    then show "bit (b ! l) i = bit 0 i"
      using k(3) by (auto simp: region_free_def)
  qed
  moreover have bk: "bit (b ! (k div 64)) (k mod 64)"
    using k(2) by (simp add: region_free_def)
  moreover have f: "ffs_lu (b ! (k div 64)) = k mod 64"
  proof (rule ffs_lu_unique [OF bk], intro allI impI)
    fix i
    assume "i < k mod 64"
    then have "k div 64 * 64 + i < k" "i < 64"
      using div_mult_mod_eq [of k 64] by linarith+
    then show "\<not> bit (b ! (k div 64)) i"
      using k(3) by (auto simp: region_free_def dest!: spec [of _ "k div 64 * 64 + i"])
  qed
  moreover have "b ! (k div 64) \<noteq> 0"
    using bk by auto
  ultimately show ?thesis
    using sfu_group [OF j] by (simp add: bitmap_set_def cfs_lu_def Let_def f)
qed

lemma reg_alloc_loop_free:
  assumes "n \<le> 64 * length b" "m \<le> length (free_regions n b)"
  obtains b' where
    "reg_alloc_loop base regsize m b = Some (map (\<lambda>k. base + regsize * of_nat k) (take m (free_regions n b)), b')"
    "free_regions n b' = drop m (free_regions n b)" "length b' = length b"
  using assms
proof (induction m arbitrary: b thesis)
  case (Suc m)
  obtain k ks where k: "free_regions n b = k # ks"
    using Suc.prems(3) by (cases "free_regions n b") auto
  note f = free_regions_set(4) [OF Suc.prems(2) k]
  obtain b' where "reg_alloc_loop base regsize m (bitmap_set b k) = Some (map (\<lambda>k. base + regsize * of_nat k) (take m ks), b')"
    "free_regions n b' = drop m ks" "length b' = length b"
    using Suc.IH [of "bitmap_set b k"] Suc.prems(2,3) f k by auto
  then show ?case
    using Suc.prems(1) sfu_first [OF Suc.prems(2) k] k by simp
qed simp

section \<open>The two variants of a batch\<close>

lemma popcount_cfs:
  assumes "g \<noteq> 0"
  shows "popcount_lu g = Suc (popcount_lu (snd (cfs_lu g)))"
proof -
  note f = ffs_lu_lowest [OF assms]
  have "filter (bit g) [0..<64] = ffs_lu g # filter (\<lambda>j. bit g j \<noteq> (j = ffs_lu g)) [0..<64]"
    using f by (intro filter_first) auto
  moreover have "filter (bit (snd (cfs_lu g))) [0..<64] = filter (\<lambda>j. bit g j \<noteq> (j = ffs_lu g)) [0..<64]"
    by (rule filter_cong) (auto simp: cfs_lu_def Let_def bit_toggle)
  ultimately show ?thesis
    by (simp add: popcount_lu_def builtin_popcountl_def)
qed

lemma loop_pop:
  assumes "j < length b" "\<forall>l<j. b ! l = 0" "pop \<le> popcount_lu (b ! j)"
    "pop_regions base regsize (j * 64) pop (b ! j) = (ps, g)"
  shows "reg_alloc_loop base regsize (pop + n) b =
    map_option (map_prod ((@) ps) id) (reg_alloc_loop base regsize n (b[j := g]))"
  using assms
proof (induction pop arbitrary: b ps)
  case 0
  then show ?case
    by (auto simp: map_prod.id option.map_id0 simp flip: id_def)
next
  case (Suc pop)
  have g: "b ! j \<noteq> 0"
    using Suc.prems(3) by (auto simp: popcount_lu_def builtin_popcountl_def)
  obtain qs where qs: "pop_regions base regsize (j * 64) pop (snd (cfs_lu (b ! j))) = (qs, g)"
    "ps = (base + regsize * of_nat (j * 64 + ffs_lu (b ! j))) # qs"
    using Suc.prems(4) by (auto simp: cfs_lu_def Let_def split: prod.splits)
  let ?b = "b[j := snd (cfs_lu (b ! j))]"
  have "reg_alloc_loop base regsize (pop + n) ?b = map_option (map_prod ((@) qs) id) (reg_alloc_loop base regsize n (b[j := g]))"
    using Suc.IH [of ?b qs] Suc.prems(1,2,3) qs(1) popcount_cfs [OF g] by (simp add: id_def)
  then show ?case
    using sfu_group [OF Suc.prems(1) g Suc.prems(2)] qs(2)
    by (cases "reg_alloc_loop base regsize n (b[j := g])") (auto split: prod.splits)
qed

lemma batch_loop_eq:
  assumes "grp < length b" "g = b ! grp" "\<forall>l<grp. b ! l = 0"
  shows "batch_loop base regsize cnt i grp g b = reg_alloc_loop base regsize (cnt - i) b"
  using assms
proof (induction base regsize cnt i grp g b rule: batch_loop.induct)
  case (1 base regsize cnt i grp g b)
  show ?case
  proof (cases "i < cnt")
    case True
    show ?thesis
    proof (cases "next_group b grp g")
      case None
      then have "bitmap_sfu b = None"
        using next_group_skip [of 0 grp b] 1(2-4) by (simp add: bitmap_sfu_def)
      then show ?thesis
        using True None by (cases "cnt - i") (simp_all add: batch_loop.simps [of _ _ _ i])
    next
      case (Some jh)
      then obtain j h where jh: "next_group b grp g = Some (j, h)"
        by (cases jh) auto
      note j = next_group_Some [OF jh 1(2,3)]
      define pop where "pop = (if popcount_lu h > cnt - i then cnt - i else popcount_lu h)"
      obtain ps g' where ps: "pop_regions base regsize (j * 64) pop h = (ps, g')"
        by fastforce
      have zero: "\<forall>l<j. b ! l = 0"
        using j 1(4) by (meson not_le)
      have "batch_loop base regsize cnt i grp g b =
          map_option (map_prod ((@) ps) id) (batch_loop base regsize cnt (i + pop) j g' (b[j := g']))"
        using True jh ps by (simp add: batch_loop.simps [of _ _ _ i] Let_def flip: pop_def)
      also have "batch_loop base regsize cnt (i + pop) j g' (b[j := g']) = reg_alloc_loop base regsize (cnt - (i + pop)) (b[j := g'])"
        using j zero ps by (intro 1(1) [OF True jh]) (auto simp: pop_def)
      also have "map_option (map_prod ((@) ps) id) \<dots> = reg_alloc_loop base regsize (pop + (cnt - (i + pop))) b"
        using j zero ps by (intro loop_pop [symmetric]) (auto simp: pop_def)
      also have "pop + (cnt - (i + pop)) = cnt - i"
        using True by (auto simp: pop_def)
      finally show ?thesis .
    qed
  qed (simp add: batch_loop.simps)
qed

section \<open>Exact division\<close>

lemma unat_magic:
  assumes "2 \<le> d" "d < 2 ^ 32"
  shows "2 ^ 32 \<le> unat (div_init d) * unat d" "unat (div_init d) * unat d < 2 ^ 32 + unat d" "unat (div_init d) \<le> 2 ^ 31"
proof -
  let ?d = "unat d"
  have d: "2 \<le> ?d" "?d < 2 ^ 32"
    using assms by (simp_all add: word_le_nat_alt word_less_nat_alt)
  have q: "2 ^ 32 div ?d \<le> (2 :: nat) ^ 31"
    using d(1) div_le_mono2 [of 2 ?d "2 ^ 32"] by simp
  have m: "unat (push_bit 32 1 div d) = 2 ^ 32 div ?d" "unat (push_bit 32 1 mod d) = 2 ^ 32 mod ?d"
    by (simp_all add: unat_div unat_mod)
  have c: "unat (ucast (push_bit 32 1 div d) :: u32) = 2 ^ 32 div ?d"
    using q m(1) by (simp add: unsigned_ucast_eq take_bit_eq_mod)
  have "push_bit 32 1 mod d = 0 \<longleftrightarrow> 2 ^ 32 mod ?d = 0"
    unfolding m(2) [symmetric] by (rule unat_eq_zero [symmetric])
  then have magic: "unat (div_init d) = 2 ^ 32 div ?d + (if 2 ^ 32 mod ?d \<noteq> 0 then 1 else 0)"
    using c q by (auto simp: div_init_def Let_def unat_word_ariths)
  define D R where "D = 2 ^ 32 div ?d" and "R = 2 ^ 32 mod ?d"
  have "D * ?d + R = 2 ^ 32" "R < ?d"
    unfolding D_def R_def using d(1) by (simp_all only: div_mult_mod_eq mod_less_divisor)
  then show "2 ^ 32 \<le> unat (div_init d) * unat d" "unat (div_init d) * unat d < 2 ^ 32 + unat d"
    unfolding magic D_def [symmetric] R_def [symmetric] by (auto simp: distrib_right)
  show "unat (div_init d) \<le> 2 ^ 31"
  proof (cases "?d = 2")
    case False
    then have "2 ^ 32 div ?d < (2 :: nat) ^ 31"
      using d(1) div_le_mono2 [of 3 ?d "2 ^ 32"] by simp
    then show ?thesis
      unfolding magic by simp
  qed (simp add: magic)
qed

lemma div_exact:
  assumes "2 \<le> d" "d < 2 ^ 32" "unat d * k < 2 ^ 32"
  shows "div_compute (div_init d) (d * of_nat k) = of_nat k"
proof -
  obtain r where r: "unat (div_init d) * unat d = 2 ^ 32 + r" "r < unat d"
    using unat_magic(1,2) [OF assms(1,2)] by (metis add_less_cancel_left le_Suc_ex)
  have "2 * k \<le> unat d * k"
    using assms(1) by (intro mult_le_mono1) (simp add: word_le_nat_alt)
  then have "2 * k < 2 ^ 32"
    using assms(3) by (rule le_less_trans)
  then have k: "k < 2 ^ 31"
    by simp
  have kr: "k * r < 2 ^ 32"
  proof (rule le_less_trans)
    show "k * r \<le> unat d * k"
      using r(2) by (simp add: mult.commute)
  qed (rule assms(3))
  have n: "unat (d * of_nat k) = unat d * k"
    using assms(3) k by (simp add: unat_word_ariths unat_of_nat)
  have u: "unat (ucast (div_init d) :: u64) = unat (div_init d)"
    using unat_magic(3) [OF assms(1,2)] by (simp add: unsigned_ucast_eq take_bit_nat_eq_self)
  have "unat d * k * unat (div_init d) = k * (2 ^ 32 + r)"
    unfolding r(1) [symmetric] by (simp only: mult_ac)
  then have p: "unat d * k * unat (div_init d) = k * r + k * 2 ^ 32"
    by (simp only: distrib_left add.commute)
  moreover have "k * r + k * 2 ^ 32 < 2 ^ 64"
    using kr k by simp
  ultimately have "unat (d * of_nat k * ucast (div_init d) :: u64) = k * r + k * 2 ^ 32"
    using unat_mult_no_wrap [of "d * of_nat k" "ucast (div_init d)"] unfolding n u by simp
  then have "unat (div_compute (div_init d) (d * of_nat k)) = k"
    using kr by (simp add: div_compute_def unat_drop)
  then show ?thesis
    by (rule of_unat_eq)
qed

section \<open>The number of free regions\<close>

lemma drop_mask: "s + w \<le> 64 \<Longrightarrow> drop_bit s (x AND push_bit s (2 ^ w - 1)) = take_bit w (drop_bit s (x :: u64))"
  by (rule bit_eqI) (auto simp: bit_drop_bit_eq bit_and_iff bit_push_bit_iff bit_take_bit_iff bit_mask_iff
      simp flip: mask_eq_exp_minus_1 dest: bit_imp_le_length)

lemma unat_field:
  assumes "s + w \<le> 64"
  shows "unat (drop_bit s (x AND push_bit s (2 ^ w - 1)) :: u64) = unat x div 2 ^ s mod 2 ^ w"
  unfolding drop_mask [OF assms] unsigned_take_bit_eq unat_drop by (rule take_bit_eq_mod)

lemma edata_fields:
  "edata_nfree_get e = unat (e_bits e) div 2 ^ 28 mod 2 ^ 10"
  "edata_szind_get e = unat (e_bits e) div 2 ^ 20 mod 2 ^ 8"
  "edata_binshard_get e = unat (e_bits e) div 2 ^ 38 mod 2 ^ 6"
  using unat_field [of 28 10 "e_bits e"] unat_field [of 20 8 "e_bits e"] unat_field [of 38 6 "e_bits e"]
  by (simp_all add: edata_nfree_get_def edata_szind_get_def edata_binshard_get_def)

lemma bits_split:
  obtains T F L where "unat (x :: u64) = (T * 1024 + F) * 2 ^ 28 + L" "F < 1024" "L < 2 ^ 28" "T < 2 ^ 26"
proof
  show "unat x = (unat x div 2 ^ 28 div 1024 * 1024 + unat x div 2 ^ 28 mod 1024) * 2 ^ 28 + unat x mod 2 ^ 28"
    by (simp only: div_mult_mod_eq)
  show "unat x div 2 ^ 28 mod 1024 < 1024" "unat x mod 2 ^ 28 < 2 ^ 28"
    by simp_all
  have "unat x < 2 ^ 26 * (2 ^ 28 * 1024)"
    using unat_lt_2p64 [of x] by simp
  then have "unat x div (2 ^ 28 * 1024) < 2 ^ 26"
    by (rule less_mult_imp_div_less)
  then show "unat x div 2 ^ 28 div 1024 < 2 ^ 26"
    by (simp only: div_mult2_eq)
qed

lemma fields_of_split:
  assumes "unat (e_bits e) = (T * 1024 + F) * 2 ^ 28 + L" "F < 1024" "L < 2 ^ 28"
  shows "edata_nfree_get e = F" "edata_szind_get e = L div 2 ^ 20" "edata_binshard_get e = T mod 64"
proof -
  have a: "unat (e_bits e) div 2 ^ 28 = T * 1024 + F"
    unfolding assms(1) using assms(3) by simp
  then show "edata_nfree_get e = F"
    using assms(2) by (simp add: edata_fields)
  have "unat (e_bits e) div (2 ^ 28 * 1024) = T"
    unfolding div_mult2_eq a using assms(2) by simp
  then show "edata_binshard_get e = T mod 64"
    by (simp add: edata_fields)
  have "unat (e_bits e) = ((T * 1024 + F) * 2 ^ 8) * 2 ^ 20 + L"
    unfolding assms(1) by simp
  then have "unat (e_bits e) div 2 ^ 20 = (T * 1024 + F) * 2 ^ 8 + L div 2 ^ 20"
    by simp
  moreover have "L div 2 ^ 20 < 2 ^ 8"
    using assms(3) by (simp add: less_mult_imp_div_less)
  ultimately show "edata_szind_get e = L div 2 ^ 20"
    by (simp only: edata_fields mod_mult_self3 mod_less)
qed

lemma nfree_shift:
  fixes x :: u64
  assumes "unat x = (T * 1024 + F) * 2 ^ 28 + L" "F < 1024" "L < 2 ^ 28" "T < 2 ^ 26"
  shows "F + n < 1024 \<Longrightarrow> unat (x + push_bit 28 (of_nat n)) = (T * 1024 + (F + n)) * 2 ^ 28 + L"
    "n \<le> F \<Longrightarrow> unat (x - push_bit 28 (of_nat n)) = (T * 1024 + (F - n)) * 2 ^ 28 + L"
proof -
  have p: "unat (push_bit 28 (of_nat n) :: u64) = n * 2 ^ 28" if "n < 1024"
    using that by (simp add: push_bit_eq_mult unat_word_ariths unat_of_nat)
  show "unat (x + push_bit 28 (of_nat n)) = (T * 1024 + (F + n)) * 2 ^ 28 + L" if "F + n < 1024"
  proof -
    have "unat x + n * 2 ^ 28 < 2 ^ 64"
      using that assms by simp
    then have "unat (x + push_bit 28 (of_nat n)) = unat x + n * 2 ^ 28"
      using unat_add_no_wrap [of x "push_bit 28 (of_nat n)"] p that by simp
    then show ?thesis
      unfolding assms(1) by (simp only: distrib_right add.assoc add.commute add.left_commute)
  qed
  show "unat (x - push_bit 28 (of_nat n)) = (T * 1024 + (F - n)) * 2 ^ 28 + L" if n: "n \<le> F"
  proof -
    obtain m where m: "F = n + m"
      using le_Suc_ex [OF n] by blast
    have "unat x = (T * 1024 + m) * 2 ^ 28 + L + n * 2 ^ 28"
      unfolding assms(1) m by (simp only: distrib_right add.assoc add.commute add.left_commute)
    moreover have "unat (push_bit 28 (of_nat n) :: u64) = n * 2 ^ 28"
      using p n assms(2) by simp
    ultimately have "unat (x - push_bit 28 (of_nat n)) = (T * 1024 + m) * 2 ^ 28 + L"
      using unat_sub_no_wrap [of "push_bit 28 (of_nat n)" x] by (simp add: word_le_nat_alt)
    then show ?thesis
      by (simp add: m)
  qed
qed

definition same_slab :: "edata \<Rightarrow> edata \<Rightarrow> bool" where
  "same_slab e f \<longleftrightarrow> e_addr f = e_addr e \<and> e_sn f = e_sn e \<and> edata_szind_get f = edata_szind_get e \<and>
    edata_binshard_get f = edata_binshard_get e"

lemma nfree_ops:
  "edata_nfree_get e + 1 < 1024 \<Longrightarrow> edata_nfree_get (edata_nfree_inc (e\<lparr>e_slab_data := b\<rparr>)) = edata_nfree_get e + 1 \<and>
    same_slab e (edata_nfree_inc (e\<lparr>e_slab_data := b\<rparr>))"
  "n \<le> edata_nfree_get e \<Longrightarrow> edata_nfree_get (edata_nfree_sub (e\<lparr>e_slab_data := b\<rparr>) n) = edata_nfree_get e - n \<and>
    same_slab e (edata_nfree_sub (e\<lparr>e_slab_data := b\<rparr>) n)"
proof -
  obtain T F L where s: "unat (e_bits e) = (T * 1024 + F) * 2 ^ 28 + L" "F < 1024" "L < 2 ^ 28" "T < 2 ^ 26"
    by (rule bits_split)
  note f = fields_of_split [OF s(1-3)] and shift = nfree_shift [OF s]
  show "edata_nfree_get (edata_nfree_inc (e\<lparr>e_slab_data := b\<rparr>)) = edata_nfree_get e + 1 \<and>
    same_slab e (edata_nfree_inc (e\<lparr>e_slab_data := b\<rparr>))" if "edata_nfree_get e + 1 < 1024"
  proof -
    have "unat (e_bits (edata_nfree_inc (e\<lparr>e_slab_data := b\<rparr>))) = (T * 1024 + (F + 1)) * 2 ^ 28 + L"
      using shift(1) [of 1] that f(1) by (simp add: edata_nfree_inc_def)
    then show ?thesis
      using fields_of_split [of "edata_nfree_inc (e\<lparr>e_slab_data := b\<rparr>)" T "F + 1" L] that f s(3)
      by (simp add: same_slab_def edata_nfree_inc_def)
  qed
  show "edata_nfree_get (edata_nfree_sub (e\<lparr>e_slab_data := b\<rparr>) n) = edata_nfree_get e - n \<and>
    same_slab e (edata_nfree_sub (e\<lparr>e_slab_data := b\<rparr>) n)" if "n \<le> edata_nfree_get e"
  proof -
    have "unat (e_bits (edata_nfree_sub (e\<lparr>e_slab_data := b\<rparr>) n)) = (T * 1024 + (F - n)) * 2 ^ 28 + L"
      using shift(2) that f(1) by (simp add: edata_nfree_sub_def)
    then show ?thesis
      using fields_of_split [of "edata_nfree_sub (e\<lparr>e_slab_data := b\<rparr>) n" T "F - n" L] that f s(2,3)
      by (simp add: same_slab_def edata_nfree_sub_def)
  qed
qed


lemma edata_get_bits:
  "edata_nfree_get e = unat (take_bit 10 (drop_bit 28 (e_bits e)))"
  "edata_binshard_get e = unat (take_bit 6 (drop_bit 38 (e_bits e)))"
  "edata_szind_get e = unat (take_bit 8 (drop_bit 20 (e_bits e)))"
  unfolding edata_nfree_get_def edata_binshard_get_def edata_szind_get_def by (subst drop_mask; simp)+

lemma bit_of_nat_less:
  assumes "n < 2 ^ w" "bit (of_nat n :: u64) i"
  shows "i < w"
proof (rule ccontr)
  assume "\<not> i < w"
  then have "(2 :: nat) ^ w \<le> 2 ^ i"
    by (intro power_increasing) auto
  then have "n < 2 ^ i"
    using assms(1) by linarith
  then have "\<not> bit n i"
    by (simp add: bit_iff_odd)
  then show False
    using assms(2) by (simp add: bit_of_nat_iff)
qed

lemma nfree_binshard_set:
  assumes "n < 1024" "s < 64"
  shows "edata_nfree_get (edata_nfree_binshard_set e n s) = n" "edata_binshard_get (edata_nfree_binshard_set e n s) = s"
    "edata_szind_get (edata_nfree_binshard_set e n s) = edata_szind_get e"
proof -
  let ?y = "(e_bits e AND (NOT (push_bit 28 (mask 10)) AND NOT (push_bit 38 (mask 6)))) OR
    push_bit 38 (of_nat s) OR push_bit 28 (of_nat n) :: u64"
  have n: "bit (of_nat n :: u64) i \<Longrightarrow> i < 10" for i
    using bit_of_nat_less [of n 10 i] assms(1) by simp
  have s: "bit (of_nat s :: u64) i \<Longrightarrow> i < 6" for i
    using bit_of_nat_less [of s 6 i] assms(2) by simp
  note bits = bit_drop_bit_eq bit_take_bit_iff bit_and_iff bit_or_iff bit_not_iff bit_push_bit_iff bit_mask_iff
  have "take_bit 10 (drop_bit 28 ?y) = of_nat n"
    by (rule bit_eqI) (auto simp: bits dest: n)
  moreover have "take_bit 6 (drop_bit 38 ?y) = of_nat s"
    by (rule bit_eqI) (use n s in \<open>fastforce simp: bits\<close>)
  moreover have "take_bit 8 (drop_bit 20 ?y) = take_bit 8 (drop_bit 20 (e_bits e))"
    by (rule bit_eqI) (auto simp: bits)
  moreover have "e_bits (edata_nfree_binshard_set e n s) = ?y"
    by (simp add: edata_nfree_binshard_set_def mask_eq_exp_minus_1)
  ultimately show "edata_nfree_get (edata_nfree_binshard_set e n s) = n" "edata_binshard_get (edata_nfree_binshard_set e n s) = s"
    "edata_szind_get (edata_nfree_binshard_set e n s) = edata_szind_get e"
    using assms unat_of_nat_no_wrap [of n, where 'a = 64] unat_of_nat_no_wrap [of s, where 'a = 64]
    by (simp_all only: edata_get_bits) simp_all
qed

section \<open>Slabs implement lists of free regions\<close>

lemma bitmap_init_free:
  assumes "0 < n" "n \<le> 64 * length b"
  shows "free_regions n (bitmap_init b (bitmap_info_init n) False) = [0..<n]"
    "length (bitmap_init b (bitmap_info_init n) False) = length b"
proof -
  let ?m = "(n + 63) div 64" and ?b = "bitmap_init b (bitmap_info_init n) False"
  have m: "?m \<le> length b"
    using assms(2) by (simp add: less_mult_imp_div_less Suc_le_eq flip: less_Suc_eq_le)
  then show "length ?b = length b"
    by (simp add: bitmap_init_def bitmap_info_init_def Let_def)
  have "region_free ?b k" if "k < n" for k
  proof -
    define r where "r = n mod 64"
    have n: "n = n div 64 * 64 + r" "r < 64"
      by (simp_all add: r_def)
    have "?m = n div 64 + (r + 63) div 64"
      by (subst n(1)) (simp only: add.assoc div_mult_self3 numeral_neq_zero not_False_eq_True)
    moreover have "(r + 63) div 64 = (if r = 0 then 0 else 1)"
      using n(2) by (auto intro: div_nat_eqI)
    ultimately have q: "?m = (if r = 0 then n div 64 else Suc (n div 64))"
      by simp
    have km: "k div 64 < ?m"
    proof (cases "r = 0")
      case True
      then show ?thesis
        using that n(1) q by (simp add: less_mult_imp_div_less)
    next
      case False
      then show ?thesis
        using that q div_le_mono [of k n 64] by simp
    qed
    have "k mod 64 < r" if "k div 64 = n div 64"
      using \<open>k < n\<close> that n(1) div_mult_mod_eq [of k 64] by linarith
    moreover have "(64 - r) mod 64 = (if r = 0 then 0 else 64 - r)"
      using n(2) by simp
    moreover have "k mod 64 < 64"
      by simp
    ultimately show ?thesis
      using km m q n(2)
      by (auto simp: region_free_def bitmap_init_def bitmap_info_init_def Let_def nth_append nth_list_update bit_drop_bit_eq bit_mask_iff
          simp flip: r_def simp del: replicate.simps)
  qed
  then show "free_regions n ?b = [0..<n]"
    by (simp add: free_regions_def)
qed

lemma unset_free:
  assumes "n \<le> 64 * length b" "k < n" "\<not> region_free b k"
  shows "free_regions n (bitmap_unset b k) = insort k (free_regions n b)"
proof (rule sorted_distinct_set_unique)
  show "set (free_regions n (bitmap_unset b k)) = set (insort k (free_regions n b))"
    using assms by (auto simp: free_regions_def bitmap_unset_eq set_free set_insort_key)
  show "distinct (insort k (free_regions n b))"
    using assms(3) by (simp add: free_regions_def distinct_insort)
qed (simp_all add: free_regions_def sorted_insort sorted_wrt_filter)

text \<open>A description of a class of slabs, and a slab of this class.\<close>

definition bin_info_ok :: "bin_info_t \<Rightarrow> bool" where
  "bin_info_ok info \<longleftrightarrow> 2 \<le> reg_size info \<and> reg_size info < 2 ^ 32 \<and> 0 < nregs info \<and> nregs info \<le> 512 \<and>
    unat (reg_size info) * nregs info = unat (slab_bytes info) \<and> slab_bytes info < 2 ^ 32 \<and>
    bitmap_info info = bitmap_info_init (nregs info)"

definition slab_inv :: "bin_info_t \<Rightarrow> edata \<Rightarrow> bool" where
  "slab_inv info e \<longleftrightarrow> length (e_slab_data e) = BITMAP_GROUPS_MAX \<and>
    edata_nfree_get e = length (free_regions (nregs info) (e_slab_data e))"

abbreviation free_of :: "bin_info_t \<Rightarrow> edata \<Rightarrow> nat list" where
  "free_of info e \<equiv> free_regions (nregs info) (e_slab_data e)"

abbreviation region_addr :: "bin_info_t \<Rightarrow> edata \<Rightarrow> nat \<Rightarrow> ptr" where
  "region_addr info e k \<equiv> e_addr e + reg_size info * of_nat k"

lemma free_le: "length (free_regions n b) \<le> n"
  unfolding free_regions_def by (metis diff_zero length_filter_le length_upt)

lemma bin_infos_ok:
  assumes "i < SC_NBINS"
  shows "bin_info_ok (bin_infos_init sc_data shards ! i)"
proof -
  have "list_all (\<lambda>i. bin_info_ok (bin_info (class_at i) 1)) [0..<36]"
    by (simp add: bin_info_ok_def bin_info_def class_at_def Let_def upt_rec unsigned_ucast_eq take_bit_eq_mod unat_div)
  then have "bin_info_ok (bin_info (class_at i) 1)"
    using assms by (simp add: list_all_iff sc_constants)
  then show ?thesis
    using assms by (simp add: bin_infos_init_def sc_data_def sc_constants bin_info_ok_def bin_info_def Let_def)
qed

lemma slab_reg_alloc:
  assumes "bin_info_ok info" "slab_inv info e" "free_of info e = k # ks"
  obtains e' where "arena_slab_reg_alloc e info = Some (region_addr info e k, e')" "slab_inv info e'"
    "free_of info e' = ks" "same_slab e e'" "edata_nfree_get e' = edata_nfree_get e - 1"
proof -
  let ?b = "bitmap_set (e_slab_data e) k"
  have n: "nregs info \<le> 64 * length (e_slab_data e)"
    using assms(1,2) by (simp add: bin_info_ok_def slab_inv_def)
  have dec: "edata_nfree_dec f = edata_nfree_sub f 1" for f
    by (simp add: edata_nfree_dec_def edata_nfree_sub_def)
  note f = free_regions_set(4) [OF n assms(3)] and s = sfu_first [OF n assms(3)]
  have d: "e_slab_data (edata_nfree_sub (e\<lparr>e_slab_data := ?b\<rparr>) 1) = ?b"
    by (simp add: edata_nfree_sub_def)
  show thesis
  proof (rule that)
    show "arena_slab_reg_alloc e info = Some (region_addr info e k, edata_nfree_sub (e\<lparr>e_slab_data := ?b\<rparr>) 1)"
      by (simp add: arena_slab_reg_alloc_def s dec)
  qed (use nfree_ops(2) [of 1 e ?b] assms(2,3) f d in \<open>simp_all add: slab_inv_def\<close>)
qed

lemma slab_batch:
  assumes "bin_info_ok info" "slab_inv info e" "m \<le> edata_nfree_get e"
  obtains e' where "arena_slab_reg_alloc_batch e info m = Some (map (region_addr info e) (take m (free_of info e)), e')"
    "slab_inv info e'" "free_of info e' = drop m (free_of info e)" "same_slab e e'" "edata_nfree_get e' = edata_nfree_get e - m"
proof -
  have n: "nregs info \<le> 64 * length (e_slab_data e)" "m \<le> length (free_of info e)"
    using assms by (simp_all add: bin_info_ok_def slab_inv_def)
  obtain b' where b: "reg_alloc_loop (e_addr e) (reg_size info) m (e_slab_data e) =
      Some (map (region_addr info e) (take m (free_of info e)), b')"
    "free_regions (nregs info) b' = drop m (free_of info e)" "length b' = length (e_slab_data e)"
    by (rule reg_alloc_loop_free [OF n])
  have "e_slab_data e \<noteq> []"
    using assms(2) by (auto simp: slab_inv_def)
  then have l: "batch_loop (e_addr e) (reg_size info) m 0 0 (e_slab_data e ! 0) (e_slab_data e) =
      Some (map (region_addr info e) (take m (free_of info e)), b')"
    using batch_loop_eq [of 0 "e_slab_data e"] b(1) by simp
  have d: "e_slab_data (edata_nfree_sub (e\<lparr>e_slab_data := b'\<rparr>) m) = b'"
    by (simp add: edata_nfree_sub_def)
  show thesis
  proof (rule that)
    show "arena_slab_reg_alloc_batch e info m =
        Some (map (region_addr info e) (take m (free_of info e)), edata_nfree_sub (e\<lparr>e_slab_data := b'\<rparr>) m)"
      by (simp add: arena_slab_reg_alloc_batch_def l)
  qed (use nfree_ops(2) [of m e b'] assms(2,3) b d in \<open>simp_all add: slab_inv_def\<close>)
qed

lemma slab_regind:
  assumes "bin_info_ok info" "k < nregs info" "e_addr f = e_addr e"
  shows "arena_slab_regind (div_init (reg_size info)) f (region_addr info e k) = k"
proof -
  have "0 < unat (reg_size info)"
    using assms(1) by (simp add: bin_info_ok_def word_le_nat_alt)
  then have "unat (reg_size info) * k < unat (reg_size info) * nregs info"
    using assms(2) by (intro mult_strict_left_mono)
  moreover have "unat (reg_size info) * nregs info < 2 ^ 32"
    using assms(1) by (simp add: bin_info_ok_def word_less_nat_alt)
  ultimately have "unat (reg_size info) * k < 2 ^ 32"
    by (rule less_trans)
  then show ?thesis
    using div_exact [of "reg_size info" k] assms by (simp add: bin_info_ok_def arena_slab_regind_def unat_of_nat)
qed

lemma slab_dalloc:
  assumes "bin_info_ok info" "slab_inv info e" "k < nregs info" "k \<notin> set (free_of info e)"
    "e' = arena_slab_reg_dalloc (div_init (reg_size info)) e (region_addr info e k)"
  shows "slab_inv info e'" "free_of info e' = insort k (free_of info e)" "same_slab e e'"
    "edata_nfree_get e' = edata_nfree_get e + 1"
proof -
  let ?b = "bitmap_unset (e_slab_data e) k"
  have n: "nregs info \<le> 64 * length (e_slab_data e)" "\<not> region_free (e_slab_data e) k" "length ?b = length (e_slab_data e)"
    using assms by (simp_all add: bin_info_ok_def slab_inv_def free_regions_def bitmap_unset_eq)
  have e': "e' = edata_nfree_inc (e\<lparr>e_slab_data := ?b\<rparr>)"
    using assms(5) slab_regind [OF assms(1,3) refl] by (simp add: arena_slab_reg_dalloc_def)
  then have d: "e_slab_data e' = ?b"
    by (simp add: edata_nfree_inc_def)
  show f: "free_of info e' = insort k (free_of info e)"
    unfolding d by (rule unset_free [OF n(1) assms(3) n(2)])
  have "edata_nfree_get e + 1 < 1024"
    using assms(1,2) free_le [of "nregs info" "e_slab_data e"] by (simp add: bin_info_ok_def slab_inv_def)
  note inc = nfree_ops(1) [OF this, of ?b, folded e']
  show "same_slab e e'" "edata_nfree_get e' = edata_nfree_get e + 1"
    using inc by auto
  show "slab_inv info e'"
    using inc f n(3) d assms(2) by (simp add: slab_inv_def)
qed

lemma slab_fresh:
  assumes "bin_info_ok info" "length (e_slab_data e) = BITMAP_GROUPS_MAX" "shard < 64" "e' = slab_init e info shard"
  shows "slab_inv info e'" "free_of info e' = [0..<nregs info]" "e_addr e' = e_addr e" "e_sn e' = e_sn e"
    "edata_szind_get e' = edata_szind_get e" "edata_binshard_get e' = shard" "edata_nfree_get e' = nregs info"
proof -
  have i: "bitmap_info info = bitmap_info_init (nregs info)" "0 < nregs info" "nregs info \<le> 64 * length (e_slab_data e)" "nregs info < 1024"
    using assms(1,2) by (simp_all add: bin_info_ok_def)
  have get: "edata_nfree_get (f\<lparr>e_slab_data := b\<rparr>) = edata_nfree_get f" "edata_szind_get (f\<lparr>e_slab_data := b\<rparr>) = edata_szind_get f"
    "edata_binshard_get (f\<lparr>e_slab_data := b\<rparr>) = edata_binshard_get f" for f b
    by (simp_all add: edata_get_bits)
  note b = bitmap_init_free [OF i(2,3)] and s = nfree_binshard_set [OF i(4) assms(3)]
  have d: "e_slab_data e' = bitmap_init (e_slab_data e) (bitmap_info_init (nregs info)) False"
    by (simp add: assms(4) slab_init_def i(1) edata_nfree_binshard_set_def)
  show f: "free_of info e' = [0..<nregs info]"
    unfolding d by (rule b(1))
  show n: "edata_nfree_get e' = nregs info" "edata_szind_get e' = edata_szind_get e" "edata_binshard_get e' = shard"
    by (simp_all add: assms(4) slab_init_def Let_def get s)
  show "slab_inv info e'"
    using n(1) f b(2) d assms(2) by (simp add: slab_inv_def)
  show "e_addr e' = e_addr e" "e_sn e' = e_sn e"
    by (simp_all add: assms(4) slab_init_def edata_nfree_binshard_set_def)
qed

text \<open>The search from a given bit on reads one group too many when the bitmap has the maximal size and no bit is free.\<close>

lemma ffu_reads_past_end: "bitmap_ffu (replicate BITMAP_GROUPS_MAX 0) (bitmap_info_init 512) 0 = None"
  by (simp add: bitmap_ffu_def bitmap_info_init_def ffu_loop.simps)

section \<open>The order of slabs\<close>

lemma two_level_comp:
  fixes a b :: "'x :: linorder" and c d :: "'y :: linorder"
  defines "r \<equiv> (let ret = of_bool (a > b) - of_bool (a < b) in if ret \<noteq> 0 then ret else of_bool (c > d) - of_bool (c < d)) :: int"
  shows "r \<le> 0 \<longleftrightarrow> a < b \<or> a = b \<and> c \<le> d" "r < 0 \<longleftrightarrow> a < b \<or> a = b \<and> c < d"
proof -
  have r: "r = (if a < b then - 1 else if b < a then 1 else if c < d then - 1 else if d < c then 1 else 0)"
    unfolding r_def by (auto simp: of_bool_def)
  show "r \<le> 0 \<longleftrightarrow> a < b \<or> a = b \<and> c \<le> d" "r < 0 \<longleftrightarrow> a < b \<or> a = b \<and> c < d"
    unfolding r by auto
qed

lemma snad_iff:
  "edata_snad_comp a b \<le> 0 \<longleftrightarrow> e_sn a < e_sn b \<or> e_sn a = e_sn b \<and> e_addr a \<le> e_addr b"
  "edata_snad_comp a b < 0 \<longleftrightarrow> e_sn a < e_sn b \<or> e_sn a = e_sn b \<and> e_addr a < e_addr b"
  unfolding edata_snad_comp_def by (rule two_level_comp)+

interpretation snad: phn_order edata_snad_comp
  by unfold_locales (auto simp: snad_iff)

section \<open>Programs on a slab\<close>

datatype slab_op = Reg_alloc | Reg_batch nat | Reg_dalloc ptr

text \<open>
  A slab with the pointers that are in use. The guards are the assertions of the code: a region is free, the batch is not
  larger than the number of free regions, and a released pointer is in use.
\<close>

fun slab_step :: "bin_info_t \<Rightarrow> slab_op \<Rightarrow> edata \<times> ptr list \<Rightarrow> (edata \<times> ptr list) option" where
  "slab_step info Reg_alloc (e, live) =
    (if edata_nfree_get e > 0 then map_option (\<lambda>(p, e). (e, p # live)) (arena_slab_reg_alloc e info) else None)"
| "slab_step info (Reg_batch m) (e, live) =
    (if m \<le> edata_nfree_get e then map_option (\<lambda>(ps, e). (e, ps @ live)) (arena_slab_reg_alloc_batch e info m) else None)"
| "slab_step info (Reg_dalloc p) (e, live) =
    (if p \<in> set live then Some (arena_slab_reg_dalloc (div_init (reg_size info)) e p, remove1 p live) else None)"

fun slab_run :: "bin_info_t \<Rightarrow> slab_op list \<Rightarrow> edata \<times> ptr list \<Rightarrow> (edata \<times> ptr list) option" where
  "slab_run info [] s = Some s"
| "slab_run info (c # cs) s = Option.bind (slab_step info c s) (slab_run info cs)"

definition slab_live :: "bin_info_t \<Rightarrow> edata \<Rightarrow> edata \<times> ptr list \<Rightarrow> bool" where
  "slab_live info e0 s = (case s of (e, live) \<Rightarrow> slab_inv info e \<and> same_slab e0 e \<and> distinct live \<and>
    set live = region_addr info e0 ` ({..<nregs info} - set (free_of info e)))"

lemma region_addr_inj:
  assumes "bin_info_ok info"
  shows "inj_on (region_addr info e) {..<nregs info}"
  by (rule inj_on_inverseI [where g = "arena_slab_regind (div_init (reg_size info)) e"]) (simp add: slab_regind [OF assms])

lemma free_of_props: "distinct (free_regions n b)" "set (free_regions n b) \<subseteq> {..<n}"
  by (auto simp: free_regions_def)

lemma same_slab_trans: "same_slab e f \<Longrightarrow> same_slab f g \<Longrightarrow> same_slab e g"
  by (simp add: same_slab_def)

lemma slab_live_take:
  assumes "bin_info_ok info" "slab_live info e0 (e, live)" "m \<le> length (free_of info e)" "slab_inv info e'"
    "free_of info e' = drop m (free_of info e)" "same_slab e e'"
  shows "slab_live info e0 (e', map (region_addr info e0) (take m (free_of info e)) @ live)"
proof -
  let ?f = "free_of info e" and ?N = "{..<nregs info}"
  have f: "distinct (take m ?f @ drop m ?f)" "set (take m ?f @ drop m ?f) \<subseteq> ?N"
    using free_of_props [of "nregs info" "e_slab_data e"] by simp_all
  then have t: "set (take m ?f) \<subseteq> ?N" "set (take m ?f) \<inter> set (drop m ?f) = {}"
    unfolding distinct_append set_append by simp_all
  have u: "set ?f = set (take m ?f) \<union> set (drop m ?f)"
    by (metis append_take_drop_id set_append)
  have inj: "inj_on (region_addr info e0) ?N"
    by (rule region_addr_inj [OF assms(1)])
  have live: "distinct live" "set live = region_addr info e0 ` (?N - set ?f)"
    using assms(2) by (simp_all add: slab_live_def)
  have "distinct (map (region_addr info e0) (take m ?f))"
    using f(1) inj_on_subset [OF inj t(1)] by (simp add: distinct_map)
  moreover have "region_addr info e0 ` set (take m ?f) \<inter> region_addr info e0 ` (?N - set ?f) = {}"
    using inj_on_image_Int [OF inj t(1), of "?N - set ?f"] u by auto
  moreover have "?N - set (drop m ?f) = set (take m ?f) \<union> (?N - set ?f)"
    unfolding u using t by auto
  ultimately show ?thesis
    using assms(2,4,6) live by (auto simp: slab_live_def assms(5) image_Un same_slab_def)
qed


lemma slab_live_step:
  assumes "bin_info_ok info" "slab_live info e0 (e, live)" "slab_step info c (e, live) = Some s"
  shows "slab_live info e0 s"
proof -
  have e: "slab_inv info e" "e_addr e = e_addr e0" "edata_nfree_get e = length (free_of info e)"
    using assms(2) by (simp_all add: slab_live_def slab_inv_def same_slab_def)
  show ?thesis
  proof (cases c)
    case Reg_alloc
    then obtain k ks where k: "free_of info e = k # ks"
      using assms(3) e(3) by (cases "free_of info e") (auto split: if_splits)
    obtain e' where "arena_slab_reg_alloc e info = Some (region_addr info e k, e')" "slab_inv info e'"
      "free_of info e' = ks" "same_slab e e'"
      by (rule slab_reg_alloc [OF assms(1) e(1) k])
    then show ?thesis
      using slab_live_take [OF assms(1,2), of 1 e'] assms(3) Reg_alloc k e by (auto split: if_splits)
  next
    case (Reg_batch m)
    then have m: "m \<le> edata_nfree_get e"
      using assms(3) by (auto split: if_splits)
    obtain e' where "arena_slab_reg_alloc_batch e info m = Some (map (region_addr info e) (take m (free_of info e)), e')"
      "slab_inv info e'" "free_of info e' = drop m (free_of info e)" "same_slab e e'"
      by (rule slab_batch [OF assms(1) e(1) m])
    then show ?thesis
      using slab_live_take [OF assms(1,2), of m e'] assms(3) Reg_batch m e by (auto split: if_splits)
  next
    case (Reg_dalloc p)
    let ?e = "arena_slab_reg_dalloc (div_init (reg_size info)) e p" and ?N = "{..<nregs info}"
    have p: "p \<in> set live" "s = (?e, remove1 p live)"
      using assms(3) Reg_dalloc by (auto split: if_splits)
    then obtain k where k: "k < nregs info" "k \<notin> set (free_of info e)" "p = region_addr info e k"
      using assms(2) e(2) by (auto simp: slab_live_def)
    note d = slab_dalloc [OF assms(1) e(1) k(1,2) refl, folded k(3)]
    have "?N - insert k (set (free_of info e)) = (?N - set (free_of info e)) - {k}"
      by blast
    moreover have "region_addr info e0 ` ((?N - set (free_of info e)) - {k}) = region_addr info e0 ` (?N - set (free_of info e)) - region_addr info e0 ` {k}"
      using k(1,2) by (intro inj_on_image_set_diff [OF region_addr_inj [OF assms(1), of e0]]) auto
    ultimately have "region_addr info e0 ` (?N - insert k (set (free_of info e))) = region_addr info e0 ` (?N - set (free_of info e)) - {p}"
      using k(3) e(2) by simp
    then show ?thesis
      using assms(2) d p same_slab_trans [of e0 e ?e] by (auto simp: slab_live_def set_insort_key)
  qed
qed

lemma slab_live_run:
  assumes "bin_info_ok info"
  shows "slab_live info e0 s \<Longrightarrow> slab_run info cs s = Some s' \<Longrightarrow> slab_live info e0 s'"
proof (induction cs arbitrary: s)
  case (Cons c cs)
  then obtain s1 where "slab_step info c s = Some s1" "slab_run info cs s1 = Some s'"
    by (auto simp: bind_eq_Some_conv)
  then show ?case
    using Cons slab_live_step [OF assms, of e0 "fst s" "snd s" c s1] by simp
qed simp

section \<open>Properties\<close>

lemma region_bounds:
  assumes "bin_info_ok info" "unat (e_addr e) + unat (slab_bytes info) \<le> 2 ^ 64" "k < nregs info"
  shows "unat (region_addr info e k) = unat (e_addr e) + unat (reg_size info) * k"
    "unat (reg_size info) * Suc k \<le> unat (slab_bytes info)"
proof -
  show s: "unat (reg_size info) * Suc k \<le> unat (slab_bytes info)"
    using assms(1,3) mult_le_mono2 [of "Suc k" "nregs info" "unat (reg_size info)"] by (simp add: bin_info_ok_def)
  have "0 < unat (reg_size info)"
    using assms(1) by (simp add: bin_info_ok_def word_le_nat_alt)
  then have less: "unat (e_addr e) + unat (reg_size info) * k < 2 ^ 64"
    using assms(2) s by simp
  have "k < 2 ^ 64"
    using assms(1,3) by (simp add: bin_info_ok_def)
  then have "unat (reg_size info * of_nat k) = unat (reg_size info) * k"
    using less by (subst unat_mult_no_wrap) (simp_all add: unat_of_nat)
  then show "unat (region_addr info e k) = unat (e_addr e) + unat (reg_size info) * k"
    using less by (subst unat_add_no_wrap) simp_all
qed

lemma regions_disjoint:
  fixes r :: nat
  shows "j < k \<Longrightarrow> a + r * j + r \<le> a + r * k"
  using mult_le_mono2 [of "Suc j" k r] by simp

lemma slab_live_facts:
  assumes "bin_info_ok info" "unat (e_addr e0) + unat (slab_bytes info) \<le> 2 ^ 64" "slab_live info e0 (e, live)"
  shows "edata_nfree_get e + length live = nregs info" "distinct live"
    "p \<in> set live \<Longrightarrow> unat (e_addr e0) \<le> unat p \<and> unat p + unat (reg_size info) \<le> unat (e_addr e0) + unat (slab_bytes info)"
    "p \<in> set live \<Longrightarrow> q \<in> set live \<Longrightarrow> p \<noteq> q \<Longrightarrow>
      unat p + unat (reg_size info) \<le> unat q \<or> unat q + unat (reg_size info) \<le> unat p"
    "0 < edata_nfree_get e \<Longrightarrow> \<exists>p e'. arena_slab_reg_alloc e info = Some (p, e') \<and> p \<notin> set live"
proof -
  let ?f = "free_of info e" and ?N = "{..<nregs info}"
  have live: "distinct live" "set live = region_addr info e0 ` (?N - set ?f)" "slab_inv info e" "e_addr e = e_addr e0"
    using assms(3) by (simp_all add: slab_live_def same_slab_def)
  note inj = region_addr_inj [OF assms(1), of e0] and f = free_of_props [of "nregs info" "e_slab_data e"]
  have "length live = card (?N - set ?f)"
    using card_image [OF inj_on_subset [OF inj, of "?N - set ?f"]] distinct_card [OF live(1)] live(2) by auto
  moreover have "card (?N - set ?f) = nregs info - length ?f"
    using card_Diff_subset [of "set ?f" ?N] f distinct_card [OF f(1)] by simp
  ultimately show "edata_nfree_get e + length live = nregs info"
    using live(3) free_le [of "nregs info" "e_slab_data e"] by (simp add: slab_inv_def)
  show "distinct live"
    by (rule live(1))
  note b = region_bounds [OF assms(1,2)]
  show "unat (e_addr e0) \<le> unat p \<and> unat p + unat (reg_size info) \<le> unat (e_addr e0) + unat (slab_bytes info)" if "p \<in> set live"
    using that live(2) b by (auto simp: add.commute)
  show "unat p + unat (reg_size info) \<le> unat q \<or> unat q + unat (reg_size info) \<le> unat p"
    if pq: "p \<in> set live" "q \<in> set live" "p \<noteq> q"
  proof -
    obtain j k where jk: "j < nregs info" "k < nregs info" "p = region_addr info e0 j" "q = region_addr info e0 k"
      using pq(1,2) live(2) by auto
    then have "j \<noteq> k"
      using pq(3) by auto
    then have "j < k \<or> k < j"
      by linarith
    then show ?thesis
      unfolding jk(3,4) b(1) [OF jk(1)] b(1) [OF jk(2)] using regions_disjoint by blast
  qed
  show "\<exists>p e'. arena_slab_reg_alloc e info = Some (p, e') \<and> p \<notin> set live" if "0 < edata_nfree_get e"
  proof -
    obtain k ks where k: "?f = k # ks"
      using \<open>0 < edata_nfree_get e\<close> live(3) by (cases ?f) (auto simp: slab_inv_def)
    then have "region_addr info e0 k \<notin> set live"
      using inj_onD [OF inj] f(2) unfolding live(2) by auto
    then show ?thesis
      using slab_reg_alloc [OF assms(1) live(3) k] live(4) by metis
  qed
qed

text \<open>
  C13. Regions of a slab are handed out once. Take any class of slabs of the allocator and a slab of this class, with
  arbitrary contents of the description that the page allocator returned. After any sequence of single
  allocations, batches and releases of pointers in use, the pointers in use are distinct, their regions lie inside the slab
  and do not overlap, the count of free regions kept in the bit fields is the number of regions minus the number in use, and
  as long as it is positive an allocation succeeds and returns a region that is not in use. Releases find the region by
  a multiplication in place of a division.
\<close>

theorem slab_regions_exclusive:
  assumes "sc_data_init = Some data" "i < SC_NBINS" "info = bin_infos_init data shards ! i"
    "length (e_slab_data e) = BITMAP_GROUPS_MAX" "shard < 64" "unat (e_addr e) + unat (slab_bytes info) \<le> 2 ^ 64"
    "slab_run info cs (slab_init e info shard, []) = Some (e', live)"
  shows "edata_nfree_get e' + length live = nregs info \<and> distinct live \<and>
    (\<forall>p\<in>set live. unat (e_addr e) \<le> unat p \<and> unat p + unat (reg_size info) \<le> unat (e_addr e) + unat (slab_bytes info)) \<and>
    (\<forall>p\<in>set live. \<forall>q\<in>set live. p \<noteq> q \<longrightarrow>
      unat p + unat (reg_size info) \<le> unat q \<or> unat q + unat (reg_size info) \<le> unat p) \<and>
    (0 < edata_nfree_get e' \<longrightarrow> (\<exists>p e''. arena_slab_reg_alloc e' info = Some (p, e'') \<and> p \<notin> set live))"
proof -
  have "data = sc_data"
    using assms(1) by (simp add: sc_data_init_eq)
  then have ok: "bin_info_ok info"
    using bin_infos_ok [OF assms(2)] assms(3) by simp
  note f = slab_fresh [OF ok assms(4,5) refl]
  then have "slab_live info (slab_init e info shard) (slab_init e info shard, [])"
    by (auto simp: slab_live_def same_slab_def)
  then have "slab_live info (slab_init e info shard) (e', live)"
    by (rule slab_live_run [OF ok _ assms(7)])
  then show ?thesis
    using slab_live_facts [OF ok, of "slab_init e info shard" e' live] assms(6) f(3) by auto
qed

definition sample_edata :: edata where
  "sample_edata = \<lparr>e_bits = - 1, e_addr = 65536, e_sn = 7, e_slab_data = replicate 8 5\<rparr>"

lemma sample_bin_info:
  "bin_infos_init sc_data (replicate 36 1) ! 0 =
    \<lparr>reg_size = 8, slab_bytes = 4096, nregs = 512, n_shards = 1, bitmap_info = \<lparr>nbits = 512, ngroups = 8\<rparr>\<rparr>"
  by (simp add: bin_infos_init_def sc_data_def sc_constants bin_info_def class_at_def bitmap_info_init_def Let_def
      unsigned_ucast_eq take_bit_eq_mod unat_div)

theorem slab_regions_exclusive_witness:
  "\<exists>e'. slab_run (bin_infos_init sc_data (replicate 36 1) ! 0) [Reg_alloc, Reg_batch 2, Reg_dalloc 65536]
      (slab_init sample_edata (bin_infos_init sc_data (replicate 36 1) ! 0) 0, []) = Some (e', [65544, 65552]) \<and>
    edata_nfree_get e' = 510"
proof -
  let ?info = "bin_infos_init sc_data (replicate 36 1) ! 0"
  have "map_option snd (slab_run ?info [Reg_alloc, Reg_batch 2, Reg_dalloc 65536] (slab_init sample_edata ?info 0, [])) =
      Some [65544, 65552]"
    unfolding sample_bin_info by code_simp
  then obtain e' where e': "slab_run ?info [Reg_alloc, Reg_batch 2, Reg_dalloc 65536] (slab_init sample_edata ?info 0, []) =
      Some (e', [65544, 65552])"
    by auto
  have "edata_nfree_get e' + length [65544, 65552 :: ptr] = nregs ?info"
    using slab_regions_exclusive [OF sc_data_init_eq _ refl _ _ _ e'] unfolding sample_bin_info
    by (simp add: sample_edata_def sc_constants)
  then show ?thesis
    using e' unfolding sample_bin_info by simp
qed

text \<open>
  C19. The two variants of a batch agree. With a function that counts bits, \<^verbatim>\<open>arena_slab_reg_alloc_batch\<close> takes the free regions
  group by group; without it, the code repeats the allocation of one region. Both return the same pointers in the same
  order and leave the same bitmap, for any bitmap and any count, and they read behind the end of the bitmap for the same arguments.
\<close>

theorem batch_is_repeated_alloc:
  assumes "e_slab_data slab \<noteq> []"
  shows "arena_slab_reg_alloc_batch slab info cnt =
    map_option (\<lambda>(ps, bitmap). (ps, edata_nfree_sub (slab\<lparr>e_slab_data := bitmap\<rparr>) cnt))
      (reg_alloc_loop (e_addr slab) (reg_size info) cnt (e_slab_data slab))"
  using batch_loop_eq [of 0 "e_slab_data slab"] assms
  by (cases "reg_alloc_loop (e_addr slab) (reg_size info) cnt (e_slab_data slab)") (auto simp: arena_slab_reg_alloc_batch_def)

theorem batch_is_repeated_alloc_witness:
  "map_option fst (arena_slab_reg_alloc_batch sample_edata \<lparr>reg_size = 8, slab_bytes = 4096, nregs = 512, n_shards = 1,
      bitmap_info = \<lparr>nbits = 512, ngroups = 8\<rparr>\<rparr> 3) = Some [65536, 65552, 66048]"
proof -
  have "map_option fst (reg_alloc_loop 65536 8 3 (replicate 8 5)) = Some [65536, 65552, 66048]"
    by code_simp
  then show ?thesis
    using batch_is_repeated_alloc [of sample_edata "\<lparr>reg_size = 8, slab_bytes = 4096, nregs = 512, n_shards = 1,
      bitmap_info = \<lparr>nbits = 512, ngroups = 8\<rparr>\<rparr>" 3]
    by (auto simp: sample_edata_def)
qed

text \<open>
  Division by multiplication is exact: for a divisor of at least 2 and a multiple of it below \<open>2 ^ 32\<close>, the quotient
  is the high half of the product with the precomputed factor.
\<close>

theorem div_compute_exact:
  assumes "2 \<le> d" "unat d dvd unat n" "n < 2 ^ 32"
  shows "div_compute (div_init d) n = n div d"
proof -
  obtain k where k: "unat n = unat d * k"
    using assms(2) ..
  have n: "unat n < 2 ^ 32"
    using assms(3) by (simp add: word_less_nat_alt)
  show ?thesis
  proof (cases "k = 0")
    case True
    then have "n = 0"
      using k by (simp add: unat_eq_zero)
    then show ?thesis
      by (simp add: div_compute_def)
  next
    case False
    then have "unat d \<le> unat n"
      using k by simp
    then have d: "d < 2 ^ 32"
      using n by (simp add: word_less_nat_alt)
    have n_eq: "n = d * of_nat k"
      using of_unat_eq [OF k] by simp
    have "n div d = of_nat k"
      using k assms(1) by (intro of_unat_eq) (simp add: unat_div word_le_nat_alt)
    then show ?thesis
      using div_exact [OF assms(1) d, of k] n k unfolding n_eq [symmetric] by simp
  qed
qed

theorem div_compute_exact_witness: "div_compute (div_init 48) 480 = 10"
  using div_compute_exact [of 48 480] by simp

text \<open>
  C17. The heap of slabs returns a least slab. After any sequence of insertions, searches and removals from an empty heap, in which
  no root without children is removed while the auxiliary list is not empty, \<^verbatim>\<open>ph_remove_first\<close> returns null exactly
  when the heap is empty; otherwise it returns an element of the heap that is not behind any other in the order of
  serial numbers and addresses, and it removes this element and no other.
\<close>

theorem slab_heap_least:
  assumes "ph_run edata_snad_comp (\<lambda>h x. \<not> lone_root h x) cs ph_new = Some h" "ph_remove_first edata_snad_comp h = (r, h')"
  shows "(r = None \<longleftrightarrow> ph_mset h = {#}) \<and>
    (\<forall>x. r = Some x \<longrightarrow> x \<in># ph_mset h \<and> (\<forall>y\<in>#ph_mset h. edata_snad_comp x y \<le> 0) \<and> ph_mset h' = ph_mset h - {#x#})"
proof -
  have "ph_ordered edata_snad_comp h"
    using snad.run_ordered [OF assms(1)] by (simp add: ph_ordered_def ph_new_def ph_mset_def)
  moreover have "fst (ph_first edata_snad_comp h) = r"
    using assms(2) by (auto simp: ph_first_def ph_remove_first_def Let_def split: option.splits)
  ultimately have "x \<in># ph_mset h \<and> (\<forall>y\<in>#ph_mset h. edata_snad_comp x y \<le> 0)" if "r = Some x" for x
    using snad.first_least [of h x] that by (metis prod.collapse)
  then show ?thesis
    using ph_remove_first_mset [OF assms(2)] by (cases r) (auto simp: ph_mset_def)
qed

definition numbered :: "u64 \<Rightarrow> edata" where
  "numbered n = \<lparr>e_bits = 0, e_addr = 65536 * n, e_sn = n, e_slab_data = []\<rparr>"

theorem slab_heap_least_witness:
  "\<exists>h h'. ph_run edata_snad_comp (\<lambda>h x. \<not> lone_root h x) (map (Ph_insert \<circ> numbered) [2, 3, 1]) ph_new = Some h \<and>
    ph_remove_first edata_snad_comp h = (Some (numbered 1), h') \<and> ph_mset h' = ph_mset h - {#numbered 1#}"
proof -
  have "map_option (fst \<circ> ph_remove_first edata_snad_comp)
      (ph_run edata_snad_comp (\<lambda>h x. \<not> lone_root h x) (map (Ph_insert \<circ> numbered) [2, 3, 1]) ph_new) = Some (Some (numbered 1))"
    by code_simp
  then obtain h h' where h: "ph_run edata_snad_comp (\<lambda>h x. \<not> lone_root h x) (map (Ph_insert \<circ> numbered) [2, 3, 1]) ph_new = Some h"
    "ph_remove_first edata_snad_comp h = (Some (numbered 1), h')"
    by (auto simp del: ph_run.simps) (metis prod.collapse)
  then show ?thesis
    using slab_heap_least [OF h] by blast
qed


end
