(* ===== verification/Spec2Isabelle.thy ===== *)
theory Spec2Isabelle
  imports Tiering Hbwmalloc Autohbw Tier_Accounting Slabs
begin

text \<open>
  A verification development of the memkind library: a heap manager with partitions (\<^emph>\<open>kinds\<close>) of memory, such
  as high bandwidth memory, persistent memory on files, DAX devices used as NUMA nodes, huge pages, or a
  region that the caller provides. The sources are C; paths below are relative to \<^verbatim>\<open>src/\<close>.

  \<^bold>\<open>The program.\<close> A kind (\<^verbatim>\<open>struct memkind\<close>) has a table of operations. The public functions
  (\<^verbatim>\<open>src/memkind.c\<close>) look up the kind in the registry and call its table, or the heap manager when no kind is
  given. The usual heap manager is jemalloc: a kind has a power of two of arenas (\<^verbatim>\<open>src/memkind_arena.c\<close>), and
  jemalloc asks the kind for memory through extent hooks, which map memory from the kernel
  (\<^verbatim>\<open>src/memkind_default.c\<close>), from a file (\<^verbatim>\<open>src/memkind_pmem.c\<close>) or from a fixed region
  (\<^verbatim>\<open>src/memkind_fixed.c\<close>) and bind it to NUMA nodes. Which nodes these are is found in the topology, once
  per process (\<^verbatim>\<open>src/memkind_hbw.c\<close>, \<^verbatim>\<open>memkind_dax_kmem.c\<close>, \<^verbatim>\<open>memkind_capacity.c\<close>, \<^verbatim>\<open>memkind_local.c\<close>,
  \<^verbatim>\<open>memkind_regular.c\<close>, with \<^verbatim>\<open>memkind_bitmask.c\<close> and \<^verbatim>\<open>memkind_mem_attributes.c\<close>). On top of the kinds there are
  memory tiers (\<^verbatim>\<open>src/memkind_memtier.c\<close>), which distribute allocations over kinds, and three libraries that
  replace or imitate the allocation functions of the C library: \<^verbatim>\<open>src/hbwmalloc.c\<close>,
  \<^verbatim>\<open>autohbw/autohbw.c\<close> and \<^verbatim>\<open>tiering/\<close>.

  \<^bold>\<open>The model.\<close> Definitions have the names of the C functions. A \<^verbatim>\<open>size_t\<close> or pointer is a 64-bit word and
  \<^verbatim>\<open>unsigned\<close> a 32-bit word, so that overflow is part of the model. The state of the library is the
  record \<open>mk\<close> of theory State: the structure of every kind, the globals of the components, and \<open>world\<close>, the
  state of everything outside. Functions take the state and return it; \<open>None\<close> is a call of \<^verbatim>\<open>abort()\<close>,
  a failed assertion or undefined behaviour such as the use of a released kind. A function pointer is a
  constructor of a datatype, and the components dispatch on it. The three libraries on top have records of their own
  that contain the state of memkind.

  jemalloc, TBB, libnuma, hwloc, libdaxctl, the kernel and the environment are parameters: fields of the
  records \<open>host\<close> (theory Numa) and \<open>sys\<close> (theory State). What a theorem needs of them is a named predicate, for
  example \<open>kernel_maps\<close>, \<open>mallocx_in_arena\<close> or \<open>pages_located\<close>, and each such theorem is followed by an instance
  with concrete functions. Mutexes and thread-once controls are taken to succeed; functions run one
  after the other, except for the counters of tiers, which are also modelled as atomic steps of interleaved threads.

  \<^bold>\<open>Theories.\<close>
  \<^item> Prelude: C types, constants and the shared lemmas on words, alignment and lists. Libc and Scan: numbers and
    strings of the C library, printed and read back. Float32: the type \<^verbatim>\<open>float\<close> with its rounding. Vec: the
    growable vector of \<^verbatim>\<open>vec.h\<close>, shown to implement a list.
  \<^item> Numa, Bitmask, Capacity, Mem_Attributes, Nodemask, Hugetlb: the choice of NUMA nodes. The nodes
    chosen are exactly the closest, the largest or the best ones for an attribute; ambiguous topologies are refused exactly when
    they are ambiguous; the choice is made once; and the names of huge page directories are read as they are printed.
  \<^item> Kinds, State, Init, Registry, Api: the static kinds and their tables, the initialisation of a kind, creation and
    destruction, the public functions. Every table has the functions that are called; the registry is
    consistent in every run; the limits of new kinds and the error messages are as documented, up to the findings.
  \<^item> Default_Ops, Arena_Map, Arena, Arena_Stats: allocation through jemalloc. A pointer is traced back to the kind
    that it was allocated from; creating and destroying arenas registers and clears exactly these; the flags of
    jemalloc carry arena, cache and alignment; statistics are sums over the arenas.
  \<^item> Mmap, Pmem, Fixed, Extent: memory for jemalloc. A failed mapping leaves nothing mapped, the allocation hook maps
    exactly the extent that it returns, extents of a file do not overlap and respect the limit, and the region of a
    fixed kind refines an abstract allocator.
  \<^item> Tbb: the second heap manager and the dispatch between the two.
  \<^item> Counters, Memtier, Tier_Accounting: memory tiers. No size is lost under any interleaving of threads and the
    calls in progress settle; thresholds keep their bounds and their order; the size reported for a kind is that of the blocks
    in use.
  \<^item> Ctl, Tiering: the tiering library, from its configuration strings to the replaced functions. Hbwmalloc: the
    high bandwidth interface with the check of a region. Autohbw: the library that moves large blocks to high bandwidth
    memory.
  \<^item> Bit_Util, Size_Classes, Sizes: the part of jemalloc that turns a request into a size class. The classes are
    constructed as at start of the allocator (\<^verbatim>\<open>jemalloc/src/sc.c\<close>), and the functions of \<^verbatim>\<open>sz.h\<close> find the smallest class
    that is large enough, through tables or by computation.

  \<^bold>\<open>Loops.\<close> Loops over lists and indices are structural or have a termination proof (the loops over tokens in Ctl,
    the doubling in Arena_Map). The loops of \<^verbatim>\<open>hbw_verify_memory_region\<close> need not end when an address wraps around; they are
  partial functions, and the theorem about them shows that they return for every region that does not wrap. So is the search
  for the size of a slab in Size_Classes, which is shown to end for every class. There is no fuel.

  \<^bold>\<open>Build.\<close> The model is that of the default configuration on a 64-bit Linux: heap manager support, without
  thread-local storage (the other variant of the arena choice is shown to agree) and without decorators.

  \<^bold>\<open>Not modelled.\<close> The bundled allocator (\<^verbatim>\<open>jemalloc/\<close>), apart from its flag words and its size classes: the
  library only calls it, and its page allocator, thread caches and statistics are shared memory code with fine-grained locks. Log
  messages (\<^verbatim>\<open>src/memkind_log.c\<close> and the printing in the other files), which do not change the state. The release
  functions of cached configurations at unload (huge pages) and \<^verbatim>\<open>memkind_config_delete\<close>, which only free memory. The
  command line tools, which print results of functions that are modelled. The C++ allocators, which wrap the C functions in templates.
  Decorators, which are empty unless the build enables them. Examples and tests.
\<close>

end
